(* ===== verification/Prelude.thy ===== *)
theory Prelude
  imports Main
begin

text \<open>
  The shared layer of the development: errors as values, the effect type in which every
  service, repository and handler is written, its combinators, a small Hoare logic over
  them (\<open>spec\<close> and \<open>preserves\<close>) and list lemmas used for the database tables.

  Go functions return a value and an error and act on the process and the database. A
  call is modelled as a function from the state to a sum (\<open>Inl\<close> the error) and the
  new state. A Go early return \<open>if err != nil { return err }\<close> is \<^term>\<open>bindE\<close>;
  a wrapped error \<open>fmt.Errorf("ctx: %w", err)\<close> is \<^term>\<open>wrapE\<close>; a call whose
  error is inspected or dropped is \<^term>\<open>tryE\<close>.
\<close>

section \<open>Errors\<close>

text \<open>
  \<open>Errorf f args\<close> is the error made by \<open>fmt.Errorf(f, args...)\<close> or
  \<open>errors.New(f)\<close>, \<open>Wrapf f args e\<close> the one that wraps \<open>e\<close> with \<open>%w\<close>.
  The remaining constructors are the errors that come from below the code: no row for a
  \<open>QueryRow().Scan\<close>, a violated constraint of the schema, a failed statement or
  connection, a failed cryptographic or encoding primitive; and the sentinel of
  \<open>internal/audit/domain/models.go\<close>, the only error the code compares with \<open>==\<close>.
\<close>

datatype err =
    Errorf string "string list"
  | Wrapf string "string list" err
  | ErrNoRows
  | UniqueViolation
  | ForeignKeyViolation
  | DbFault
  | PrimitiveError string
  | ErrChainConflict

section \<open>The effect type and its combinators\<close>

type_synonym ('s, 'a) eff = "'s \<Rightarrow> (err + 'a) \<times> 's"

definition okE :: "'a \<Rightarrow> ('s, 'a) eff" where
  "okE x w = (Inr x, w)"

definition failE :: "err \<Rightarrow> ('s, 'a) eff" where
  "failE e w = (Inl e, w)"

definition bindE :: "('s, 'a) eff \<Rightarrow> ('a \<Rightarrow> ('s, 'b) eff) \<Rightarrow> ('s, 'b) eff" where
  "bindE m f w = (case m w of (Inl e, w') \<Rightarrow> (Inl e, w') | (Inr x, w') \<Rightarrow> f x w')"

text \<open>\<open>liftE\<close> runs a pure fallible function, \<open>guardE c e\<close> is \<open>if c { return e }\<close>.\<close>

definition liftE :: "err + 'a \<Rightarrow> ('s, 'a) eff" where
  "liftE r w = (r, w)"

definition guardE :: "bool \<Rightarrow> err \<Rightarrow> ('s, unit) eff" where
  "guardE c e = (if c then failE e else okE ())"

definition wrapE :: "string \<Rightarrow> string list \<Rightarrow> ('s, 'a) eff \<Rightarrow> ('s, 'a) eff" where
  "wrapE f args m w = (case m w of (Inl e, w') \<Rightarrow> (Inl (Wrapf f args e), w') | (Inr x, w') \<Rightarrow> (Inr x, w'))"

definition tryE :: "('s, 'a) eff \<Rightarrow> ('s, err + 'a) eff" where
  "tryE m w = (case m w of (r, w') \<Rightarrow> (Inr r, w'))"

definition getE :: "('s \<Rightarrow> 'a) \<Rightarrow> ('s, 'a) eff" where
  "getE f w = (Inr (f w), w)"

text \<open>A loop over a slice whose body may return an error, which ends the loop.\<close>

fun forE :: "'a list \<Rightarrow> ('a \<Rightarrow> ('s, unit) eff) \<Rightarrow> ('s, unit) eff" where
  "forE [] f = okE ()"
| "forE (x # xs) f = bindE (f x) (\<lambda>_. forE xs f)"

named_theorems eff_simps \<open>unfolding of the effect combinators on a given state\<close>

lemmas eff_defs [eff_simps] =
  okE_def failE_def bindE_def liftE_def guardE_def wrapE_def tryE_def getE_def

lemma bindE_okE [simp]: "bindE (okE x) f = f x"
  by (simp add: fun_eq_iff bindE_def okE_def)

lemma bindE_failE [simp]: "bindE (failE e) f = failE e"
  by (simp add: fun_eq_iff bindE_def failE_def)

lemma bindE_liftE_Inr [simp]: "bindE (liftE (Inr x)) f = f x"
  by (simp add: fun_eq_iff bindE_def liftE_def)

lemma bindE_liftE_Inl [simp]: "bindE (liftE (Inl e)) f = failE e"
  by (simp add: fun_eq_iff bindE_def liftE_def failE_def)

lemma bindE_assoc: "bindE (bindE m f) g = bindE m (\<lambda>x. bindE (f x) g)"
  by (auto simp: fun_eq_iff bindE_def split: prod.splits sum.splits)

text \<open>A sequence that returned came through each of its steps.\<close>

lemma bindE_InrE:
  assumes "bindE m f w = (Inr y, w'')"
  obtains x w' where "m w = (Inr x, w')" and "f x w' = (Inr y, w'')"
  using assms by (auto simp: bindE_def split: prod.splits sum.splits)

lemma bindE_Inr_iff:
  "bindE m f w = (Inr y, w'') \<longleftrightarrow> (\<exists>x w'. m w = (Inr x, w') \<and> f x w' = (Inr y, w''))"
  by (auto simp: bindE_def split: prod.splits sum.splits)

lemma bindE_Inr_step: "m w = (Inr x, w') \<Longrightarrow> bindE m f w = f x w'"
  by (simp add: bindE_def)

lemma bindE_Inl_step: "m w = (Inl e, w') \<Longrightarrow> bindE m f w = (Inl e, w')"
  by (simp add: bindE_def)

lemma guardE_Inr_iff [simp]: "guardE c e w = (Inr u, w') \<longleftrightarrow> \<not> c \<and> w' = w"
  by (auto simp: guardE_def okE_def failE_def)

lemma liftE_Inr_iff [simp]: "liftE r w = (Inr x, w') \<longleftrightarrow> r = Inr x \<and> w' = w"
  by (auto simp: liftE_def)

lemma okE_Inr_iff [simp]: "okE x w = (Inr y, w') \<longleftrightarrow> y = x \<and> w' = w"
  by (auto simp: okE_def)

lemma failE_Inr_iff [simp]: "failE e w = (Inr y, w') \<longleftrightarrow> False"
  by (auto simp: failE_def)

lemma wrapE_Inr_iff [simp]: "wrapE f a m w = (Inr x, w') \<longleftrightarrow> m w = (Inr x, w')"
  by (auto simp: wrapE_def split: prod.splits sum.splits)

lemma tryE_Inr_iff [simp]: "tryE m w = (Inr r, w') \<longleftrightarrow> m w = (r, w')"
  by (auto simp: tryE_def split: prod.splits)

lemma getE_Inr_iff [simp]: "getE f w = (Inr r, w') \<longleftrightarrow> r = f w \<and> w' = w"
  by (auto simp: getE_def)

section \<open>A Hoare logic for effects\<close>

text \<open>
  \<open>spec P m Q\<close>: from a state with \<open>P\<close>, running \<open>m\<close> gives a result (value or
  error) and a state that satisfy \<open>Q\<close>. Effects are total functions, so a \<open>spec\<close>
  is a statement of total correctness. \<open>preserves I m\<close> is the special case of an
  invariant, kept whether \<open>m\<close> returns a value or an error.
\<close>

definition spec :: "('s \<Rightarrow> bool) \<Rightarrow> ('s, 'a) eff \<Rightarrow> (err + 'a \<Rightarrow> 's \<Rightarrow> bool) \<Rightarrow> bool" where
  "spec P m Q \<longleftrightarrow> (\<forall>w. P w \<longrightarrow> Q (fst (m w)) (snd (m w)))"

definition preserves :: "('s \<Rightarrow> bool) \<Rightarrow> ('s, 'a) eff \<Rightarrow> bool" where
  "preserves I m \<longleftrightarrow> (\<forall>w. I w \<longrightarrow> I (snd (m w)))"

named_theorems pres \<open>rules that keep an invariant through the combinators\<close>

lemma preservesI: "(\<And>w. I w \<Longrightarrow> I (snd (m w))) \<Longrightarrow> preserves I m"
  by (simp add: preserves_def)

lemma preservesD: "preserves I m \<Longrightarrow> I w \<Longrightarrow> I (snd (m w))"
  by (simp add: preserves_def)

lemma preserves_run: "preserves I m \<Longrightarrow> I w \<Longrightarrow> m w = (r, w') \<Longrightarrow> I w'"
  by (metis preserves_def snd_conv)

lemma preserves_okE [pres]: "preserves I (okE x)"
  by (simp add: preserves_def okE_def)

lemma preserves_failE [pres]: "preserves I (failE e)"
  by (simp add: preserves_def failE_def)

lemma preserves_liftE [pres]: "preserves I (liftE r)"
  by (simp add: preserves_def liftE_def)

lemma preserves_guardE [pres]: "preserves I (guardE c e)"
  by (simp add: preserves_def guardE_def okE_def failE_def)

lemma preserves_getE [pres]: "preserves I (getE f)"
  by (simp add: preserves_def getE_def)

lemma preserves_bindE [pres]:
  assumes "preserves I m" and "\<And>x. preserves I (f x)"
  shows "preserves I (bindE m f)"
  using assms unfolding preserves_def bindE_def
  by (auto split: prod.splits sum.splits)

lemma preserves_wrapE [pres]: "preserves I m \<Longrightarrow> preserves I (wrapE f a m)"
  unfolding preserves_def wrapE_def by (auto split: prod.splits sum.splits)

lemma preserves_tryE [pres]: "preserves I m \<Longrightarrow> preserves I (tryE m)"
  unfolding preserves_def tryE_def by (auto split: prod.splits)

lemma preserves_if [pres]: "preserves I m \<Longrightarrow> preserves I n \<Longrightarrow> preserves I (if c then m else n)"
  by simp

lemma preserves_case_sum [pres]:
  "(\<And>e. preserves I (f e)) \<Longrightarrow> (\<And>x. preserves I (g x)) \<Longrightarrow> preserves I (case r of Inl e \<Rightarrow> f e | Inr x \<Rightarrow> g x)"
  by (cases r) simp_all

lemma preserves_case_option [pres]:
  "preserves I m \<Longrightarrow> (\<And>x. preserves I (f x)) \<Longrightarrow> preserves I (case r of None \<Rightarrow> m | Some x \<Rightarrow> f x)"
  by (cases r) simp_all

lemma preserves_case_prod [pres]:
  "(\<And>x y. preserves I (f x y)) \<Longrightarrow> preserves I (case p of (x, y) \<Rightarrow> f x y)"
  by (cases p) simp_all

lemma preserves_let [pres]: "(\<And>x. preserves I (f x)) \<Longrightarrow> preserves I (let x = t in f x)"
  by simp

lemma preserves_forE [pres]: "(\<And>x. x \<in> set xs \<Longrightarrow> preserves I (f x)) \<Longrightarrow> preserves I (forE xs f)"
  by (induction xs) (auto intro!: pres)

lemma preserves_conj: "preserves I m \<Longrightarrow> preserves J m \<Longrightarrow> preserves (\<lambda>w. I w \<and> J w) m"
  by (simp add: preserves_def)

lemma spec_bindE:
  assumes "spec P m (\<lambda>r w. case r of Inl e \<Rightarrow> Q (Inl e) w | Inr x \<Rightarrow> R x w)"
    and "\<And>x. spec (R x) (f x) Q"
  shows "spec P (bindE m f) Q"
  using assms unfolding spec_def bindE_def
  by (fastforce split: prod.splits sum.splits)

section \<open>Lists as tables\<close>

text \<open>The first row with a property: what \<open>QueryRow(...).Scan\<close> on a unique key reads.\<close>

lemma find_Some_set: "find P xs = Some x \<Longrightarrow> x \<in> set xs \<and> P x"
  by (induction xs) (auto split: if_splits)

lemma find_None_set: "find P xs = None \<longleftrightarrow> (\<forall>x \<in> set xs. \<not> P x)"
  by (induction xs) auto

lemma find_append: "find P (xs @ ys) = (case find P xs of None \<Rightarrow> find P ys | Some x \<Rightarrow> Some x)"
  by (induction xs) auto

text \<open>On a table whose rows differ in their key the lookup by key finds every row.\<close>

lemma find_key_unique:
  assumes "distinct (map k xs)" and "x \<in> set xs"
  shows "find (\<lambda>r. k r = k x) xs = Some x"
  using assms by (induction xs) (auto simp: image_iff)

lemma find_map_upd:
  assumes "\<And>r. P (g r) = P r"
  shows "find P (map g xs) = map_option g (find P xs)"
  by (induction xs) (auto simp: assms)

lemma distinct_map_snoc: "distinct (map k (xs @ [x])) \<longleftrightarrow> distinct (map k xs) \<and> k x \<notin> k ` set xs"
  by auto

lemma map_key_upd: "(\<And>r. k (g r) = k r) \<Longrightarrow> map k (map g xs) = map k xs"
  by simp

end
