(* ===== verification/Go_Strings.thy ===== *)
theory Go_Strings
  imports Prelude "HOL-Library.Sublist"
begin

text \<open>
  The functions of Go's package \<open>strings\<close> that the program calls, on byte strings. A Go
  string is a sequence of bytes; an Isabelle \<^typ>\<open>string\<close> is a list of 8-bit characters, so
  the two agree, and the conversions \<open>[]byte(s)\<close> and \<open>string(b)\<close> are the identity.

  \<open>strings.TrimSpace\<close> trims Unicode white space, which is one to three bytes in UTF-8: the
  model strips exactly those encodings. \<open>strings.ToLower\<close> and \<open>strings.EqualFold\<close> are
  modelled on ASCII and on the runes outside ASCII that map to an ASCII letter (U+0130 and
  U+212A for lower case, U+017F and U+212A for case folding); every other byte outside
  ASCII is left as it is. The program only compares the results with ASCII constants, which
  a string that keeps a byte outside ASCII never equals, in Go or in the model.
\<close>

type_synonym bytes = string

section \<open>Prefixes and suffixes\<close>

fun HasPrefix :: "string \<Rightarrow> string \<Rightarrow> bool" where
  "HasPrefix s [] = True"
| "HasPrefix [] (p # ps) = False"
| "HasPrefix (c # cs) (p # ps) = (c = p \<and> HasPrefix cs ps)"

definition HasSuffix :: "string \<Rightarrow> string \<Rightarrow> bool" where
  "HasSuffix s p = HasPrefix (rev s) (rev p)"

definition TrimPrefix :: "string \<Rightarrow> string \<Rightarrow> string" where
  "TrimPrefix s p = (if HasPrefix s p then drop (length p) s else s)"

definition TrimSuffix :: "string \<Rightarrow> string \<Rightarrow> string" where
  "TrimSuffix s p = (if HasSuffix s p then take (length s - length p) s else s)"

fun Contains :: "string \<Rightarrow> string \<Rightarrow> bool" where
  "Contains [] p = (p = [])"
| "Contains (c # cs) p = (HasPrefix (c # cs) p \<or> Contains cs p)"

definition ContainsAny :: "string \<Rightarrow> string \<Rightarrow> bool" where
  "ContainsAny s chars = list_ex (\<lambda>c. c \<in> set chars) s"

lemma HasPrefix_iff_prefix: "HasPrefix s p \<longleftrightarrow> prefix p s"
  by (induction s p rule: HasPrefix.induct) auto

lemma HasPrefix_iff: "HasPrefix s p \<longleftrightarrow> (\<exists>t. s = p @ t)"
  by (auto simp: HasPrefix_iff_prefix prefix_def)

lemma HasPrefix_append [simp]: "HasPrefix (p @ t) p"
  by (simp add: HasPrefix_iff)

lemma HasSuffix_iff: "HasSuffix s p \<longleftrightarrow> (\<exists>t. s = t @ p)"
  unfolding HasSuffix_def HasPrefix_iff by (metis rev_append rev_rev_ident)

lemma Contains_iff: "Contains s p \<longleftrightarrow> (\<exists>u v. s = u @ p @ v)"
proof (induction s)
  case Nil
  show ?case by auto
next
  case (Cons c cs)
  have "(\<exists>u v. c # cs = u @ p @ v) \<longleftrightarrow> (\<exists>v. c # cs = p @ v) \<or> (\<exists>u v. cs = u @ p @ v)"
    by (metis append_Cons append_Nil list.inject list.exhaust)
  with Cons show ?case by (simp add: HasPrefix_iff)
qed

lemma TrimPrefix_append [simp]: "TrimPrefix (p @ t) p = t"
  by (simp add: TrimPrefix_def)

lemma TrimSuffix_snoc:
  "TrimSuffix s [c] = (if s \<noteq> [] \<and> last s = c then butlast s else s)"
  unfolding TrimSuffix_def HasSuffix_iff
  by (cases s rule: rev_cases) (auto simp: butlast_conv_take)

section \<open>Trimming and splitting\<close>

definition TrimLeft :: "string \<Rightarrow> string \<Rightarrow> string" where
  "TrimLeft s cutset = dropWhile (\<lambda>c. c \<in> set cutset) s"

definition TrimRight :: "string \<Rightarrow> string \<Rightarrow> string" where
  "TrimRight s cutset = rev (dropWhile (\<lambda>c. c \<in> set cutset) (rev s))"

definition Trim :: "string \<Rightarrow> string \<Rightarrow> string" where
  "Trim s cutset = TrimRight (TrimLeft s cutset) cutset"

text \<open>\<open>strings.Split\<close> with a separator of one byte.\<close>

fun Split :: "string \<Rightarrow> char \<Rightarrow> string list" where
  "Split [] c = [[]]"
| "Split (x # xs) c =
     (if x = c then [] # Split xs c
      else (case Split xs c of [] \<Rightarrow> [[x]] | y # ys \<Rightarrow> (x # y) # ys))"

text \<open>The UTF-8 encodings of the runes \<open>unicode.IsSpace\<close> holds for.\<close>

definition space_runes :: "string list" where
  "space_runes =
     [[CHR 0x09], [CHR 0x0A], [CHR 0x0B], [CHR 0x0C], [CHR 0x0D], [CHR 0x20],
      [CHR 0xC2, CHR 0x85], [CHR 0xC2, CHR 0xA0],
      [CHR 0xE1, CHR 0x9A, CHR 0x80],
      [CHR 0xE2, CHR 0x80, CHR 0x80], [CHR 0xE2, CHR 0x80, CHR 0x81],
      [CHR 0xE2, CHR 0x80, CHR 0x82], [CHR 0xE2, CHR 0x80, CHR 0x83],
      [CHR 0xE2, CHR 0x80, CHR 0x84], [CHR 0xE2, CHR 0x80, CHR 0x85],
      [CHR 0xE2, CHR 0x80, CHR 0x86], [CHR 0xE2, CHR 0x80, CHR 0x87],
      [CHR 0xE2, CHR 0x80, CHR 0x88], [CHR 0xE2, CHR 0x80, CHR 0x89],
      [CHR 0xE2, CHR 0x80, CHR 0x8A], [CHR 0xE2, CHR 0x80, CHR 0xA8],
      [CHR 0xE2, CHR 0x80, CHR 0xA9], [CHR 0xE2, CHR 0x80, CHR 0xAF],
      [CHR 0xE2, CHR 0x81, CHR 0x9F], [CHR 0xE3, CHR 0x80, CHR 0x80]]"

text \<open>Strip encodings from the front as long as one of them stands there.\<close>

definition strip_one :: "string list \<Rightarrow> string \<Rightarrow> string option" where
  "strip_one es s =
     (case find (\<lambda>e. e \<noteq> [] \<and> HasPrefix s e) es of
        None \<Rightarrow> None | Some e \<Rightarrow> Some (drop (length e) s))"

lemma strip_one_shorter: "strip_one es s = Some t \<Longrightarrow> length t < length s"
  unfolding strip_one_def
  by (auto split: option.splits dest!: find_Some_set simp: HasPrefix_iff)

function strip_all :: "string list \<Rightarrow> string \<Rightarrow> string" where
  "strip_all es s = (case strip_one es s of None \<Rightarrow> s | Some t \<Rightarrow> strip_all es t)"
  by pat_completeness auto
termination
  by (relation "measure (\<lambda>(es, s). length s)") (auto dest: strip_one_shorter)

declare strip_all.simps [simp del]

definition TrimSpace :: "string \<Rightarrow> string" where
  "TrimSpace s = rev (strip_all (map rev space_runes) (rev (strip_all space_runes s)))"

subsection \<open>Laws of trimming\<close>

lemma strip_all_None: "strip_one es s = None \<Longrightarrow> strip_all es s = s"
  by (subst strip_all.simps) simp

lemma strip_one_strip_all: "strip_one es (strip_all es s) = None"
proof (induction es s rule: strip_all.induct)
  case (1 es s)
  then show ?case by (subst strip_all.simps) (auto split: option.splits)
qed

lemma strip_all_idem: "strip_all es (strip_all es s) = strip_all es s"
  by (simp add: strip_all_None strip_one_strip_all)

lemma strip_all_suffix: "\<exists>u. s = u @ strip_all es s"
proof (induction es s rule: strip_all.induct)
  case (1 es s)
  show ?case
  proof (cases "strip_one es s")
    case None
    then show ?thesis by (simp add: strip_all_None)
  next
    case (Some t)
    then obtain v where "s = v @ t"
      unfolding strip_one_def by (auto split: option.splits) (metis append_take_drop_id)
    moreover from 1 [OF Some] obtain u where "t = u @ strip_all es t" by blast
    ultimately show ?thesis
      using Some by (subst strip_all.simps) (metis append_assoc option.simps(5))
  qed
qed

text \<open>What is left after trimming starts with none of the encodings; a string that starts with an ASCII byte that is no space is left alone.\<close>

lemma strip_one_None_iff: "strip_one es s = None \<longleftrightarrow> (\<forall>e \<in> set es. e = [] \<or> \<not> HasPrefix s e)"
  unfolding strip_one_def by (auto split: option.splits simp: find_None_set dest: find_Some_set)

lemma strip_one_take:
  assumes "strip_one es (s @ t) = None"
  shows "strip_one es s = None"
  using assms unfolding strip_one_None_iff HasPrefix_iff by (metis append_assoc)

lemma TrimSpace_idem: "TrimSpace (TrimSpace s) = TrimSpace s"
proof -
  define l where "l = strip_all space_runes s"
  define r where "r = strip_all (map rev space_runes) (rev l)"
  obtain u where "rev l = u @ r" using strip_all_suffix r_def by blast
  then have "l = rev r @ rev u" by (metis rev_append rev_rev_ident)
  moreover have "strip_one space_runes l = None" by (simp add: l_def strip_one_strip_all)
  ultimately have "strip_one space_runes (rev r) = None" by (metis strip_one_take)
  then have "strip_all space_runes (rev r) = rev r" by (rule strip_all_None)
  then show ?thesis
    unfolding TrimSpace_def l_def [symmetric] r_def [symmetric]
    by (simp add: r_def strip_all_idem)
qed

lemma TrimSpace_infix: "\<exists>u v. s = u @ TrimSpace s @ v"
proof -
  obtain u where u: "s = u @ strip_all space_runes s" using strip_all_suffix by blast
  obtain v where "rev (strip_all space_runes s) = v @ rev (TrimSpace s)"
    unfolding TrimSpace_def using strip_all_suffix by (metis rev_rev_ident)
  then have "strip_all space_runes s = TrimSpace s @ rev v" by (metis rev_append rev_rev_ident)
  with u show ?thesis by metis
qed

lemma TrimSpace_Nil [simp]: "TrimSpace [] = []"
  using TrimSpace_infix [of "[]"] by auto

text \<open>\<open>no_space_end s\<close>: trimming takes nothing from the right end.\<close>

definition no_space_end :: "string \<Rightarrow> bool" where
  "no_space_end s \<longleftrightarrow> strip_one (map rev space_runes) (rev s) = None"

definition no_space_start :: "string \<Rightarrow> bool" where
  "no_space_start s \<longleftrightarrow> strip_one space_runes s = None"

lemma TrimSpace_id: "no_space_start s \<Longrightarrow> no_space_end s \<Longrightarrow> TrimSpace s = s"
  by (simp add: TrimSpace_def no_space_start_def no_space_end_def strip_all_None)

lemma no_space_end_TrimSpace: "no_space_end (TrimSpace s)"
  by (simp add: TrimSpace_def no_space_end_def strip_one_strip_all)

lemma no_space_start_TrimSpace: "no_space_start (TrimSpace s)"
proof -
  obtain v where "rev (strip_all space_runes s) = v @ rev (TrimSpace s)"
    unfolding TrimSpace_def using strip_all_suffix by (metis rev_rev_ident)
  then have "strip_all space_runes s = TrimSpace s @ rev v" by (metis rev_append rev_rev_ident)
  then show ?thesis unfolding no_space_start_def by (metis strip_one_strip_all strip_one_take)
qed

lemma no_space_start_slash [simp]: "no_space_start (CHR ''/'' # s)"
  by (simp add: no_space_start_def strip_one_None_iff space_runes_def)

lemma no_space_end_slash [simp]: "no_space_end (s @ ''/'')"
  by (simp add: no_space_end_def strip_one_None_iff space_runes_def)

lemma TrimSpace_slash:
  "TrimSpace (CHR ''/'' # s) = rev (strip_all (map rev space_runes) (rev s @ ''/''))"
  unfolding TrimSpace_def using no_space_start_slash [of s]
  by (simp add: no_space_start_def strip_all_None)

section \<open>Letter case\<close>

definition lower_byte :: "char \<Rightarrow> char" where
  "lower_byte c =
     (if 65 \<le> (of_char c :: nat) \<and> (of_char c :: nat) \<le> 90 then char_of ((of_char c :: nat) + 32) else c)"

fun ToLower :: "string \<Rightarrow> string" where
  "ToLower [] = []"
| "ToLower (c # cs) =
     (if HasPrefix (c # cs) [CHR 0xC4, CHR 0xB0] then CHR ''i'' # ToLower (drop 1 cs)
      else if HasPrefix (c # cs) [CHR 0xE2, CHR 0x84, CHR 0xAA] then CHR ''k'' # ToLower (drop 2 cs)
      else lower_byte c # ToLower cs)"

fun fold_case :: "string \<Rightarrow> string" where
  "fold_case [] = []"
| "fold_case (c # cs) =
     (if HasPrefix (c # cs) [CHR 0xC5, CHR 0xBF] then CHR ''s'' # fold_case (drop 1 cs)
      else if HasPrefix (c # cs) [CHR 0xE2, CHR 0x84, CHR 0xAA] then CHR ''k'' # fold_case (drop 2 cs)
      else lower_byte c # fold_case cs)"

definition EqualFold :: "string \<Rightarrow> string \<Rightarrow> bool" where
  "EqualFold s t = (fold_case s = fold_case t)"

lemma EqualFold_refl [simp]: "EqualFold s s"
  by (simp add: EqualFold_def)

end
