(* ===== verification/Secret_Domain.thy ===== *)
theory Secret_Domain
  imports Go_Strings
begin

text \<open>
  \<open>internal/secret/domain/models.go\<close>: namespaces, secrets, versions and the validation
  of names, paths, types and states. Identifiers (\<open>uuid.UUID\<close>) are opaque and named by
  numbers; times are nanoseconds since the Unix epoch in UTC; \<open>int64\<close> values are
  integers, and arithmetic on them goes through \<^term>\<open>wrap64\<close>.
\<close>

type_synonym uuid = nat
type_synonym time = int
type_synonym duration = int

definition wrap64 :: "int \<Rightarrow> int" where
  "wrap64 x = (x + 2 ^ 63) mod 2 ^ 64 - 2 ^ 63"

lemma wrap64_id: "- (2 ^ 63) \<le> x \<Longrightarrow> x < 2 ^ 63 \<Longrightarrow> wrap64 x = x"
  unfolding wrap64_def by (simp add: mod_pos_pos_trivial)

lemma wrap64_range: "- (2 ^ 63) \<le> wrap64 x \<and> wrap64 x < 2 ^ 63"
proof -
  have "0 \<le> (x + 2 ^ 63) mod 2 ^ 64" and "(x + 2 ^ 63) mod 2 ^ 64 < 2 ^ 64" by simp_all
  then show ?thesis unfolding wrap64_def by simp
qed

section \<open>Data\<close>

datatype SecretType = SecretTypeStatic | SecretTypeDynamic | SecretTypeKV

datatype VersionState = VersionStateActive | VersionStateDeleted | VersionStateDestroyed

record Namespace =
  ns_ID :: uuid
  ns_Name :: string
  ns_Description :: string
  ns_CreatedAt :: time
  ns_UpdatedAt :: time

record Secret =
  sec_ID :: uuid
  sec_Namespace :: string
  sec_Path :: string
  sec_Type :: SecretType
  sec_CurrentVersion :: int
  sec_CreatedAt :: time
  sec_UpdatedAt :: time

record SecretVersion =
  ver_ID :: uuid
  ver_SecretID :: uuid
  ver_Version :: int
  ver_EncryptedValue :: bytes
  ver_ValueSHA256 :: bytes
  ver_KeyVersion :: string
  ver_State :: VersionState
  ver_DeleteAfter :: "time option"
  ver_CreatedAt :: time
  ver_UpdatedAt :: time

text \<open>\<open>PutSecretInput.Type\<close> is the caller's text, which \<open>ValidateType\<close> has not seen yet.\<close>

record PutSecretInput =
  psi_Namespace :: string
  psi_Path :: string
  psi_Type :: string
  psi_Value :: bytes

record VersionMetadata =
  vm_ID :: uuid
  vm_Version :: int
  vm_State :: VersionState
  vm_KeyVersion :: string
  vm_CreatedAt :: time
  vm_DeleteAfter :: "time option"

section \<open>Validation\<close>

definition NormalizeNamespace :: "string \<Rightarrow> err + string" where
  "NormalizeNamespace name0 =
     (let name = TrimSpace name0 in
      if name = [] then Inl (Errorf ''namespace is required'' [])
      else if ContainsAny name [CHR ''/'', CHR '' '', CHR 0x09, CHR 0x0D, CHR 0x0A]
      then Inl (Errorf ''namespace cannot contain path separators or whitespace'' [])
      else Inr name)"

definition NormalizePath :: "string \<Rightarrow> err + string" where
  "NormalizePath path0 =
     (let path = TrimSpace path0 in
      if path = [] then Inl (Errorf ''secret path is required'' [])
      else if \<not> HasPrefix path ''/'' then Inl (Errorf ''secret path must start with /'' [])
      else if Contains path ''..'' \<or> Contains path [CHR 0x5C]
      then Inl (Errorf ''secret path contains invalid sequence'' [])
      else Inr (''/'' @ Trim path ''/''))"

definition SecretType_of :: "string \<Rightarrow> SecretType option" where
  "SecretType_of s =
     (if s = ''static'' then Some SecretTypeStatic
      else if s = ''dynamic'' then Some SecretTypeDynamic
      else if s = ''kv'' then Some SecretTypeKV else None)"

definition ValidateType :: "string \<Rightarrow> err + SecretType" where
  "ValidateType value =
     (case SecretType_of (ToLower value) of
        Some t \<Rightarrow> Inr t
      | None \<Rightarrow> Inl (Errorf ''unsupported secret type'' []))"

definition ValidateVersionState :: "string \<Rightarrow> err + VersionState" where
  "ValidateVersionState value =
     (if value = ''active'' then Inr VersionStateActive
      else if value = ''deleted'' then Inr VersionStateDeleted
      else if value = ''destroyed'' then Inr VersionStateDestroyed
      else Inl (Errorf ''unsupported version state'' []))"

subsection \<open>Laws of the validators\<close>

lemma Trim_last: "Trim s cs \<noteq> [] \<Longrightarrow> last (Trim s cs) \<notin> set cs"
  unfolding Trim_def TrimRight_def by (metis hd_dropWhile last_rev rev_is_Nil_conv)

lemma TrimRight_prefix: "\<exists>v. set v \<subseteq> set cs \<and> s = TrimRight s cs @ v"
proof -
  have "rev s = takeWhile (\<lambda>c. c \<in> set cs) (rev s) @ dropWhile (\<lambda>c. c \<in> set cs) (rev s)" by simp
  then have "s = TrimRight s cs @ rev (takeWhile (\<lambda>c. c \<in> set cs) (rev s))"
    unfolding TrimRight_def by (metis rev_append rev_rev_ident)
  moreover have "set (rev (takeWhile (\<lambda>c. c \<in> set cs) (rev s))) \<subseteq> set cs"
    by (auto dest: set_takeWhileD)
  ultimately show ?thesis by blast
qed

lemma TrimLeft_suffix: "\<exists>u. set u \<subseteq> set cs \<and> s = u @ TrimLeft s cs"
  unfolding TrimLeft_def
  by (rule exI [of _ "takeWhile (\<lambda>c. c \<in> set cs) s"]) (auto dest: set_takeWhileD)

lemma Trim_infix: "\<exists>u v. set u \<subseteq> set cs \<and> set v \<subseteq> set cs \<and> s = u @ Trim s cs @ v"
  unfolding Trim_def using TrimLeft_suffix [of cs s] TrimRight_prefix [of cs "TrimLeft s cs"]
  by (metis append_assoc)

lemma Trim_first: "Trim s cs \<noteq> [] \<Longrightarrow> hd (Trim s cs) \<notin> set cs"
proof -
  assume ne: "Trim s cs \<noteq> []"
  obtain v where v: "TrimLeft s cs = Trim s cs @ v"
    unfolding Trim_def using TrimRight_prefix by metis
  with ne have "TrimLeft s cs \<noteq> []" and "hd (TrimLeft s cs) = hd (Trim s cs)" by auto
  then show ?thesis
    using hd_dropWhile [of "\<lambda>c. c \<in> set cs" s] unfolding TrimLeft_def by simp
qed

lemma TrimLeft_id: "t = [] \<or> hd t \<notin> set cs \<Longrightarrow> TrimLeft t cs = t"
  unfolding TrimLeft_def by (cases t) auto

lemma TrimRight_id: "t = [] \<or> last t \<notin> set cs \<Longrightarrow> TrimRight t cs = t"
  unfolding TrimRight_def by (cases t rule: rev_cases) auto

lemma Trim_id: "t = [] \<or> hd t \<notin> set cs \<and> last t \<notin> set cs \<Longrightarrow> Trim t cs = t"
  by (auto simp: Trim_def TrimLeft_id TrimRight_id)

lemma Trim_idem: "Trim (Trim s cs) cs = Trim s cs"
  by (rule Trim_id) (use Trim_first Trim_last in blast)

lemma NormalizeNamespace_ok:
  "NormalizeNamespace s = Inr n \<Longrightarrow>
     n = TrimSpace s \<and> n \<noteq> [] \<and> \<not> ContainsAny n [CHR ''/'', CHR '' '', CHR 0x09, CHR 0x0D, CHR 0x0A]"
  by (auto simp: NormalizeNamespace_def Let_def split: if_splits)

lemma NormalizeNamespace_stable:
  assumes "NormalizeNamespace s = Inr n"
  shows "NormalizeNamespace n = Inr n"
proof -
  from NormalizeNamespace_ok [OF assms] have "TrimSpace n = n" by (simp add: TrimSpace_idem)
  with NormalizeNamespace_ok [OF assms] show ?thesis
    unfolding NormalizeNamespace_def Let_def by auto
qed

lemma Contains_infix: "Contains t p \<Longrightarrow> Contains (u @ t @ v) p"
  unfolding Contains_iff by (metis append_assoc)

lemma NormalizePath_ok:
  "NormalizePath s = Inr p \<Longrightarrow>
     p = ''/'' @ Trim (TrimSpace s) ''/'' \<and> HasPrefix (TrimSpace s) ''/'' \<and>
     \<not> Contains (TrimSpace s) ''..'' \<and> \<not> Contains (TrimSpace s) [CHR 0x5C]"
  by (auto simp: NormalizePath_def Let_def split: if_splits)

end
