(* ===== verification/Lease_Domain.thy ===== *)
theory Lease_Domain
  imports Secret_Domain
begin

text \<open>
  \<open>internal/lease/domain/models.go\<close>. A Go \<open>map[string]string\<close> is an association list
  without repeated keys, \<open>None\<close> the nil map; its order stands for the order in which a
  \<open>range\<close> loop happens to visit it.
\<close>

type_synonym smap = "(string \<times> string) list"

definition zero_time :: time where
  "zero_time = - 62135596800 * 1000000000"

definition time_Second :: duration where
  "time_Second = 1000000000"

record Lease =
  lease_ID :: uuid
  lease_Namespace :: string
  lease_Path :: string
  lease_SecretID :: uuid
  lease_TTLSeconds :: int
  lease_Renewable :: bool
  lease_ExpiresAt :: time
  lease_RevokedAt :: "time option"
  lease_Metadata :: smap
  lease_CreatedAt :: time
  lease_UpdatedAt :: time

record CreateLeaseInput =
  cli_Namespace :: string
  cli_Path :: string
  cli_TTL :: duration
  cli_Renewable :: bool
  cli_Metadata :: "smap option"

text \<open>\<open>CreateInput.Normalize\<close> updates its receiver; the model returns the updated input.\<close>

definition NormalizeLease :: "duration \<Rightarrow> duration \<Rightarrow> CreateLeaseInput \<Rightarrow> err + CreateLeaseInput" where
  "NormalizeLease defaultTTL maxTTL i =
     (if cli_Namespace i = [] \<or> cli_Path i = []
      then Inl (Errorf ''namespace and path are required'' [])
      else
        let i = (if cli_TTL i \<le> 0 then i\<lparr>cli_TTL := defaultTTL\<rparr> else i) in
        if cli_TTL i > maxTTL then Inl (Errorf ''lease ttl exceeds maximum'' [])
        else
          let i = (if cli_Metadata i = None then i\<lparr>cli_Metadata := Some []\<rparr> else i) in
          Inr i)"

definition IsRevoked :: "Lease \<Rightarrow> bool" where
  "IsRevoked l = (case lease_RevokedAt l of None \<Rightarrow> False | Some t \<Rightarrow> t \<noteq> zero_time)"

definition IsExpired :: "Lease \<Rightarrow> time \<Rightarrow> bool" where
  "IsExpired l now = (now > lease_ExpiresAt l)"

text \<open>
  \<open>int64(d.Seconds())\<close>: whole seconds, rounded towards zero. Go computes it through a
  64-bit float, which agrees with the integer division for durations below \<open>2 ^ 24\<close>
  seconds (194 days); above, a fraction within a few nanoseconds of the next second may
  round up.
\<close>

definition DurationSeconds :: "duration \<Rightarrow> int" where
  "DurationSeconds d = sgn d * (\<bar>d\<bar> div time_Second)"

lemma NormalizeLease_ok:
  "NormalizeLease defaultTTL maxTTL i = Inr j \<Longrightarrow>
     cli_Namespace j = cli_Namespace i \<and> cli_Path j = cli_Path i \<and> cli_Renewable j = cli_Renewable i \<and>
     cli_TTL j = (if cli_TTL i \<le> 0 then defaultTTL else cli_TTL i) \<and> cli_TTL j \<le> maxTTL \<and>
     cli_Metadata j = Some (case cli_Metadata i of None \<Rightarrow> [] | Some m \<Rightarrow> m) \<and>
     cli_Namespace i \<noteq> [] \<and> cli_Path i \<noteq> []"
  by (auto simp: NormalizeLease_def Let_def split: if_splits)

end
