(* ===== verification/Policy_Domain.thy ===== *)
theory Policy_Domain
  imports Lease_Domain
begin

text \<open>\<open>internal/policy/domain/models.go\<close>: policies, their input and the capability check.\<close>

datatype Capability =
  CapabilityRead | CapabilityCreate | CapabilityUpdate | CapabilityDelete | CapabilityList

record Policy =
  pol_ID :: uuid
  pol_Name :: string
  pol_Namespace :: string
  pol_PathPrefix :: string
  pol_Identity :: string
  pol_Capabilities :: "Capability list"
  pol_Conditions :: smap
  pol_CreatedAt :: time
  pol_UpdatedAt :: time

record CreatePolicyInput =
  cpi_Name :: string
  cpi_Namespace :: string
  cpi_PathPrefix :: string
  cpi_Identity :: string
  cpi_Capabilities :: "Capability list"
  cpi_Conditions :: "smap option"

record AuthorizationRequest =
  req_Identity :: string
  req_Namespace :: string
  req_Path :: string
  req_Capability :: Capability
  req_Context :: smap

definition ValidateCapability :: "string \<Rightarrow> err + Capability" where
  "ValidateCapability value =
     (if value = ''read'' then Inr CapabilityRead
      else if value = ''create'' then Inr CapabilityCreate
      else if value = ''update'' then Inr CapabilityUpdate
      else if value = ''delete'' then Inr CapabilityDelete
      else if value = ''list'' then Inr CapabilityList
      else Inl (Errorf ''unsupported capability'' []))"

definition NormalizePolicy :: "CreatePolicyInput \<Rightarrow> err + CreatePolicyInput" where
  "NormalizePolicy i0 =
     (let i = i0\<lparr>cpi_Name := TrimSpace (cpi_Name i0),
                 cpi_Namespace := TrimSpace (cpi_Namespace i0),
                 cpi_PathPrefix := TrimSpace (cpi_PathPrefix i0),
                 cpi_Identity := TrimSpace (cpi_Identity i0)\<rparr> in
      if cpi_Name i = [] \<or> cpi_Namespace i = [] \<or> cpi_Identity i = []
      then Inl (Errorf ''name, namespace and identity are required'' [])
      else if \<not> HasPrefix (cpi_PathPrefix i) ''/''
      then Inl (Errorf ''path_prefix must start with /'' [])
      else if length (cpi_Capabilities i) = 0
      then Inl (Errorf ''at least one capability is required'' [])
      else
        let i = (if cpi_Conditions i = None then i\<lparr>cpi_Conditions := Some []\<rparr> else i) in
        Inr i)"

fun allows_loop :: "Capability list \<Rightarrow> Capability \<Rightarrow> bool" where
  "allows_loop [] capability = False"
| "allows_loop (c # cs) capability = (if c = capability then True else allows_loop cs capability)"

definition Allows :: "Policy \<Rightarrow> Capability \<Rightarrow> bool" where
  "Allows p capability = allows_loop (pol_Capabilities p) capability"

lemma Allows_iff [simp]: "Allows p c \<longleftrightarrow> c \<in> set (pol_Capabilities p)"
proof -
  have "allows_loop cs c \<longleftrightarrow> c \<in> set cs" for cs by (induction cs) auto
  then show ?thesis by (simp add: Allows_def)
qed

end
