(* ===== verification/Audit_Domain.thy ===== *)
theory Audit_Domain
  imports Lease_Domain
begin

text \<open>\<open>internal/audit/domain/models.go\<close>: the audit event, its input and the list filter.\<close>

record Event =
  ev_ID :: uuid
  ev_Sequence :: int
  ev_EventHash :: string
  ev_PreviousHash :: string
  ev_Actor :: string
  ev_Namespace :: string
  ev_Path :: string
  ev_Action :: string
  ev_Result :: string
  ev_Metadata :: smap
  ev_CreatedAt :: time

record RecordInput =
  ri_Actor :: string
  ri_Namespace :: string
  ri_Path :: string
  ri_Action :: string
  ri_Result :: string
  ri_Metadata :: "smap option"

record ListFilter =
  lf_Namespace :: string
  lf_Path :: string
  lf_Actor :: string
  lf_Action :: string
  lf_Limit :: int

end
