(* ===== verification/PKI_Domain.thy ===== *)
theory PKI_Domain
  imports Lease_Domain
begin

text \<open>
  \<open>internal/pki/domain/models.go\<close>: certificate authorities, certificates, revocations and
  the validation of their inputs. \<open>CAType\<close> is an open string type that
  \<open>CreateCAInput.Normalize\<close> checks, so it keeps a constructor for any other text.
\<close>

datatype CAType = CATypeRoot | CATypeIntermediate | CATypeOther string

datatype Status = StatusActive | StatusRevoked | StatusExpired

datatype CertificateStatus = CertificateIssued | CertificateRevoked | CertificateExpired

record CA =
  ca_ID :: uuid
  ca_Name :: string
  ca_Namespace :: string
  ca_Type :: CAType
  ca_ParentID :: "uuid option"
  ca_CertificatePEM :: string
  ca_EncryptedPrivateKey :: bytes
  ca_KeyVersion :: string
  ca_SerialNumber :: int
  ca_Policy :: smap
  ca_NotBefore :: time
  ca_NotAfter :: time
  ca_Status :: Status
  ca_CreatedAt :: time
  ca_UpdatedAt :: time

record Certificate =
  cert_ID :: uuid
  cert_Namespace :: string
  cert_CAID :: "uuid option"
  cert_CommonName :: string
  cert_SerialNumber :: string
  cert_CertificatePEM :: string
  cert_EncryptedPrivateKey :: bytes
  cert_KeyVersion :: string
  cert_Status :: CertificateStatus
  cert_NotBefore :: time
  cert_NotAfter :: time
  cert_RevokedAt :: "time option"
  cert_RevocationReason :: string
  cert_CreatedAt :: time
  cert_UpdatedAt :: time

record Revocation =
  rev_ID :: uuid
  rev_CertificateID :: uuid
  rev_SerialNumber :: string
  rev_Reason :: string
  rev_RevokedAt :: time
  rev_CreatedAt :: time

record CreateCAInput =
  cci_Name :: string
  cci_Namespace :: string
  cci_Type :: CAType
  cci_ParentName :: string
  cci_CommonName :: string
  cci_TTL :: duration
  cci_MaxPathLen :: int
  cci_DNSDomains :: "string list"

record IssueInput =
  ii_CAName :: string
  ii_CommonName :: string
  ii_DNSNames :: "string list"
  ii_TTL :: duration

record RenewInput =
  rni_SerialNumber :: string
  rni_TTL :: duration

record RevokeInput =
  rvi_SerialNumber :: string
  rvi_Reason :: string

definition NormalizeCA :: "duration \<Rightarrow> CreateCAInput \<Rightarrow> err + CreateCAInput" where
  "NormalizeCA defaultTTL i =
     (if cci_Name i = [] \<or> cci_Namespace i = [] \<or> cci_CommonName i = []
      then Inl (Errorf ''name, namespace and common_name are required'' [])
      else if cci_Type i \<noteq> CATypeRoot \<and> cci_Type i \<noteq> CATypeIntermediate
      then Inl (Errorf ''ca type must be root or intermediate'' [])
      else if cci_Type i = CATypeIntermediate \<and> cci_ParentName i = []
      then Inl (Errorf ''intermediate ca requires parent_name'' [])
      else Inr (if cci_TTL i \<le> 0 then i\<lparr>cci_TTL := defaultTTL\<rparr> else i))"

definition NormalizeIssue :: "duration \<Rightarrow> IssueInput \<Rightarrow> err + IssueInput" where
  "NormalizeIssue defaultTTL i =
     (if ii_CAName i = [] \<or> ii_CommonName i = []
      then Inl (Errorf ''ca_name and common_name are required'' [])
      else Inr (if ii_TTL i \<le> 0 then i\<lparr>ii_TTL := defaultTTL\<rparr> else i))"

end
