(* ===== verification/Go_UTF8.thy ===== *)
theory Go_UTF8
  imports Go_Strings
begin

text \<open>
  Texts as \<open>encoding/json\<close> writes them: a Go string is any sequence of bytes, and the encoder
  replaces every byte that does not belong to a valid UTF-8 encoding by the encoding of
  U+FFFD. \<open>rune_len\<close> is \<open>utf8.DecodeRuneInString\<close>, with the ranges of its table.
\<close>

definition byte_in :: "nat \<times> nat \<Rightarrow> char \<Rightarrow> bool" where
  "byte_in r c \<longleftrightarrow> fst r \<le> of_char c \<and> of_char c \<le> snd r"

fun bytes_in :: "(nat \<times> nat) list \<Rightarrow> string \<Rightarrow> bool" where
  "bytes_in [] s = True"
| "bytes_in (r # rs) [] = False"
| "bytes_in (r # rs) (c # s) = (byte_in r c \<and> bytes_in rs s)"

text \<open>The ranges of the first byte and of those that follow.\<close>

definition utf8_forms :: "(nat \<times> nat) list list" where
  "utf8_forms =
     [[(0, 0x7F)], [(0xC2, 0xDF), (0x80, 0xBF)],
      [(0xE0, 0xE0), (0xA0, 0xBF), (0x80, 0xBF)], [(0xE1, 0xEC), (0x80, 0xBF), (0x80, 0xBF)],
      [(0xED, 0xED), (0x80, 0x9F), (0x80, 0xBF)], [(0xEE, 0xEF), (0x80, 0xBF), (0x80, 0xBF)],
      [(0xF0, 0xF0), (0x90, 0xBF), (0x80, 0xBF), (0x80, 0xBF)],
      [(0xF1, 0xF3), (0x80, 0xBF), (0x80, 0xBF), (0x80, 0xBF)],
      [(0xF4, 0xF4), (0x80, 0x8F), (0x80, 0xBF), (0x80, 0xBF)]]"

definition rune_len :: "string \<Rightarrow> nat" where
  "rune_len s = (case find (\<lambda>form. bytes_in form s) utf8_forms of None \<Rightarrow> 0 | Some form \<Rightarrow> length form)"

function valid_utf8 :: "string \<Rightarrow> bool" where
  "valid_utf8 [] = True"
| "valid_utf8 (c # s) = (let n = rune_len (c # s) in n \<noteq> 0 \<and> valid_utf8 (drop (n - 1) s))"
  by pat_completeness auto
termination
  by (relation "measure length") auto

definition replacement :: string where
  "replacement = [CHR 0xEF, CHR 0xBF, CHR 0xBD]"

function to_utf8 :: "string \<Rightarrow> string" where
  "to_utf8 [] = []"
| "to_utf8 (c # s) =
     (let n = rune_len (c # s) in
      if n = 0 then replacement @ to_utf8 s else take n (c # s) @ to_utf8 (drop (n - 1) s))"
  by pat_completeness auto
termination
  by (relation "measure length") auto

declare valid_utf8.simps(2) [simp del] to_utf8.simps(2) [simp del]

section \<open>The encoder leaves valid texts alone and writes valid ones\<close>

lemma to_utf8_id [simp]: "valid_utf8 s \<Longrightarrow> to_utf8 s = s"
proof (induction s rule: valid_utf8.induct)
  case (2 c s)
  then show ?case
    by (cases "rune_len (c # s)") (simp_all add: valid_utf8.simps(2) to_utf8.simps(2) Let_def)
qed simp

lemma bytes_in_take: "bytes_in rs s \<Longrightarrow> length rs \<le> length s \<and> bytes_in rs (take (length rs) s @ t)"
  by (induction rs s rule: bytes_in.induct) auto

text \<open>Which form a text has is decided by its bytes: no two forms have a text in common.\<close>

lemma forms_exclusive: "f \<in> set utf8_forms \<Longrightarrow> g \<in> set utf8_forms \<Longrightarrow> bytes_in f s \<Longrightarrow> bytes_in g s \<Longrightarrow> f = g"
  by (cases s) (auto simp: utf8_forms_def byte_in_def)

lemma rune_len_Some:
  assumes "rune_len s = n" and "n \<noteq> 0"
  obtains f where "f \<in> set utf8_forms" and "bytes_in f s" and "n = length f"
  using assms by (auto simp: rune_len_def find_Some_iff split: option.splits intro: that nth_mem)

lemma rune_len_form: "f \<in> set utf8_forms \<Longrightarrow> bytes_in f s \<Longrightarrow> rune_len s = length f"
proof -
  assume f: "f \<in> set utf8_forms" "bytes_in f s"
  then obtain g where "find (\<lambda>form. bytes_in form s) utf8_forms = Some g"
    by (cases "find (\<lambda>form. bytes_in form s) utf8_forms") (auto simp: find_None_iff)
  moreover from this have "g \<in> set utf8_forms" "bytes_in g s" by (auto simp: find_Some_iff)
  ultimately show ?thesis using f forms_exclusive by (auto simp: rune_len_def)
qed

lemma rune_valid:
  assumes "f \<in> set utf8_forms" and "bytes_in f s" and "valid_utf8 t"
  shows "valid_utf8 (take (length f) s @ t)"
proof -
  let ?u = "take (length f) s @ t"
  have l: "length f \<le> length s" and u: "bytes_in f ?u" using bytes_in_take [OF assms(2)] by auto
  have "length f \<noteq> 0" using assms(1) by (auto simp: utf8_forms_def)
  then obtain c s' where c: "?u = c # s'" using l by (cases s) (auto split: nat.splits simp: take_Cons')
  have n: "rune_len ?u = length f" by (rule rune_len_form [OF assms(1) u])
  have "drop (length f) (c # s') = t" unfolding c [symmetric] using l by simp
  then have "drop (length f - 1) s' = t" using \<open>length f \<noteq> 0\<close> by (cases "length f") simp_all
  then show ?thesis using n \<open>length f \<noteq> 0\<close> assms(3) unfolding c by (simp add: valid_utf8.simps(2))
qed

lemma valid_replacement: "valid_utf8 t \<Longrightarrow> valid_utf8 (replacement @ t)"
  using rune_valid [of "[(0xEE, 0xEF), (0x80, 0xBF), (0x80, 0xBF)]" replacement t]
  by (simp add: utf8_forms_def replacement_def byte_in_def)

lemma to_utf8_valid [simp]: "valid_utf8 (to_utf8 s)"
proof (induction s rule: to_utf8.induct)
  case (2 c s)
  show ?case
  proof (cases "rune_len (c # s) = 0")
    case True
    then show ?thesis using 2(1) [OF refl] by (simp add: to_utf8.simps(2) valid_replacement)
  next
    case False
    then obtain f where "f \<in> set utf8_forms" "bytes_in f (c # s)" "rune_len (c # s) = length f"
      by (rule rune_len_Some [OF refl])
    then show ?thesis
      using rune_valid [of f "c # s"] 2(2) [OF refl False] False by (simp add: to_utf8.simps(2) Let_def)
  qed
qed simp

lemma to_utf8_idem: "to_utf8 (to_utf8 s) = to_utf8 s"
  by simp

lemma valid_utf8_ascii: "list_all (byte_in (0, 0x7F)) s \<Longrightarrow> valid_utf8 s"
proof (induction s)
  case (Cons c s)
  then have "bytes_in [(0, 0x7F)] (c # s)" by simp
  with rune_len_form [of "[(0, 0x7F)]" "c # s"] have "rune_len (c # s) = 1" by (simp add: utf8_forms_def)
  then show ?case using Cons by (simp add: valid_utf8.simps(2))
qed simp

end
