(* ===== verification/World.thy ===== *)
theory World
  imports Policy_Domain Audit_Domain PKI_Domain Go_UTF8
begin

text \<open>
  The state the process and the database share, and the environment it runs in.

  \<open>tables\<close> is the database: one list of rows per table of
  \<open>migrations/000001_init.sql\<close>, in insertion order, and the next value of the
  \<open>BIGSERIAL\<close> sequence of \<open>audit_events\<close>. \<open>world\<close> adds counters: how often the
  clock was read, how many identifiers were drawn, random reads made and SQL statements
  sent, and the gauge of active leases of the process. \<open>env\<close> is everything outside the code: what the n-th reading of the clock gives,
  the n-th fresh \<open>uuid.New()\<close>, the n-th read of \<open>crypto/rand\<close>, what becomes of the
  n-th SQL statement, what other goroutines and processes do to the database before it,
  what a \<open>TIMESTAMPTZ\<close> or \<open>JSONB\<close> column gives back for a value stored in it, and the
  database's collation.
\<close>

section \<open>State and environment\<close>

record tables =
  namespaces :: "Namespace list"
  secrets :: "Secret list"
  secret_versions :: "SecretVersion list"
  leases :: "Lease list"
  policies :: "Policy list"
  audit_events :: "Event list"
  audit_seq :: int
  pki_cas :: "CA list"
  certificates :: "Certificate list"
  revocations :: "Revocation list"

record world =
  tick :: nat
  uuids :: nat
  rands :: nat
  stmts :: nat
  lease_gauge :: int
  db :: tables

text \<open>
  A statement is served, refused (an error and no effect) or its acknowledgement is lost
  (its effect took place and the code sees an error).
\<close>

datatype outcome = Served | Refused | AckLost

record env =
  now_at :: "nat \<Rightarrow> time"
  uuid_at :: "nat \<Rightarrow> uuid"
  rand_at :: "nat \<Rightarrow> nat \<Rightarrow> bytes option"
  outcome_at :: "nat \<Rightarrow> outcome"
  rival_at :: "nat \<Rightarrow> tables \<Rightarrow> tables"
  ts_col :: "time \<Rightarrow> time"
  json_col :: "smap \<Rightarrow> smap"
  text_le :: "string \<Rightarrow> string \<Rightarrow> bool"
  sha256 :: "bytes \<Rightarrow> bytes"
  hmac_sha256 :: "bytes \<Rightarrow> bytes \<Rightarrow> bytes"
  hkdf_sha256 :: "bytes \<Rightarrow> bytes \<Rightarrow> bytes \<Rightarrow> nat \<Rightarrow> bytes option"
  gcm_seal :: "bytes \<Rightarrow> bytes \<Rightarrow> bytes \<Rightarrow> bytes \<Rightarrow> bytes"
  gcm_open :: "bytes \<Rightarrow> bytes \<Rightarrow> bytes \<Rightarrow> bytes \<Rightarrow> bytes option"

type_synonym 'a io = "(world, 'a) eff"
type_synonym 'a stmt = "tables \<Rightarrow> (err + 'a) \<times> tables"

definition empty_tables :: tables where
  "empty_tables =
     \<lparr>namespaces = [], secrets = [], secret_versions = [], leases = [], policies = [],
      audit_events = [], audit_seq = 1, pki_cas = [], certificates = [], revocations = []\<rparr>"

definition init_world :: world where
  "init_world = \<lparr>tick = 0, uuids = 0, rands = 0, stmts = 0, lease_gauge = 0, db = empty_tables\<rparr>"

section \<open>Time, identifiers and randomness\<close>

definition nowE :: "env \<Rightarrow> time io" where
  "nowE env w = (Inr (now_at env (tick w)), w\<lparr>tick := Suc (tick w)\<rparr>)"

definition uuidE :: "env \<Rightarrow> uuid io" where
  "uuidE env w = (Inr (uuid_at env (uuids w)), w\<lparr>uuids := Suc (uuids w)\<rparr>)"

definition randE :: "env \<Rightarrow> nat \<Rightarrow> bytes io" where
  "randE env n w =
     (case rand_at env (rands w) n of
        None \<Rightarrow> (Inl (PrimitiveError ''crypto/rand''), w\<lparr>rands := Suc (rands w)\<rparr>)
      | Some b \<Rightarrow> (Inr b, w\<lparr>rands := Suc (rands w)\<rparr>))"

text \<open>\<open>s.metrics.Leases.Inc()\<close> and \<open>Dec()\<close>.\<close>

definition gaugeE :: "int \<Rightarrow> unit io" where
  "gaugeE d w = (Inr (), w\<lparr>lease_gauge := lease_gauge w + d\<rparr>)"

section \<open>Statements and transactions\<close>

text \<open>One statement on the pool, after whatever others did before it.\<close>

definition sql :: "env \<Rightarrow> 'a stmt \<Rightarrow> 'a io" where
  "sql env f w =
     (let d = rival_at env (stmts w) (db w); w' = w\<lparr>stmts := Suc (stmts w), db := d\<rparr> in
      case outcome_at env (stmts w) of
        Refused \<Rightarrow> (Inl DbFault, w')
      | AckLost \<Rightarrow> (Inl DbFault, w'\<lparr>db := snd (f d)\<rparr>)
      | Served \<Rightarrow> (fst (f d), w'\<lparr>db := snd (f d)\<rparr>))"

text \<open>
  A query for many rows. An error of the query itself is wrapped by the repository, one that
  comes up while the rows are read (\<open>rows.Err()\<close>) is returned as it is.
\<close>

definition queryE :: "env \<Rightarrow> string \<Rightarrow> 'a io \<Rightarrow> 'a io" where
  "queryE env f m w = (if outcome_at env (stmts w) = AckLost then m w else wrapE f [] m w)"

lemma queryE_Inr_iff [simp]: "queryE env f m w = (Inr x, w') \<longleftrightarrow> m w = (Inr x, w')"
  by (simp add: queryE_def)

lemma snd_queryE: "snd (queryE env f m w) = snd (m w)"
  by (simp add: queryE_def wrapE_def split: prod.split sum.split)

text \<open>A statement inside a transaction: nobody else acts between it and the one before.\<close>

definition sql_tx :: "env \<Rightarrow> 'a stmt \<Rightarrow> 'a io" where
  "sql_tx env f w =
     (let w' = w\<lparr>stmts := Suc (stmts w)\<rparr> in
      case outcome_at env (stmts w) of
        Refused \<Rightarrow> (Inl DbFault, w')
      | AckLost \<Rightarrow> (Inl DbFault, w'\<lparr>db := snd (f (db w))\<rparr>)
      | Served \<Rightarrow> (fst (f (db w)), w'\<lparr>db := snd (f (db w))\<rparr>))"

text \<open>
  \<open>pool.Begin\<close>, a body, \<open>tx.Commit\<close>, with \<open>defer tx.Rollback\<close>: an error before the
  commit takes the tables back to what they were, except that a sequence keeps the values
  it gave out. Others act before the transaction begins, so transactions are serial.
\<close>

definition rollback :: "tables \<Rightarrow> tables \<Rightarrow> tables" where
  "rollback d0 d = d0\<lparr>audit_seq := audit_seq d\<rparr>"

definition noop :: "unit stmt" where
  "noop d = (Inr (), d)"

definition transaction :: "env \<Rightarrow> string \<Rightarrow> string \<Rightarrow> 'a io \<Rightarrow> 'a io" where
  "transaction env begin_msg commit_msg body w =
     (case wrapE begin_msg [] (sql env noop) w of
        (Inl e, w1) \<Rightarrow> (Inl e, w1)
      | (Inr _, w1) \<Rightarrow>
          (case body w1 of
             (Inl e, w2) \<Rightarrow> (Inl e, w2\<lparr>db := rollback (db w1) (db w2)\<rparr>)
           | (Inr x, w2) \<Rightarrow>
               (case outcome_at env (stmts w2) of
                  Served \<Rightarrow> (Inr x, w2\<lparr>stmts := Suc (stmts w2)\<rparr>)
                | AckLost \<Rightarrow> (Inl (Wrapf commit_msg [] DbFault), w2\<lparr>stmts := Suc (stmts w2)\<rparr>)
                | Refused \<Rightarrow> (Inl (Wrapf commit_msg [] DbFault),
                     w2\<lparr>stmts := Suc (stmts w2), db := rollback (db w1) (db w2)\<rparr>))))"

section \<open>Well-behaved environments\<close>

text \<open>A database that serves every statement and that nobody else uses.\<close>

definition served :: "env \<Rightarrow> bool" where
  "served env \<longleftrightarrow> (\<forall>n. outcome_at env n = Served) \<and> (\<forall>n d. rival_at env n d = d)"

text \<open>Others keep an invariant of the tables.\<close>

definition rely :: "env \<Rightarrow> (tables \<Rightarrow> bool) \<Rightarrow> bool" where
  "rely env I \<longleftrightarrow> (\<forall>n d. I d \<longrightarrow> I (rival_at env n d))"

text \<open>Time stamp columns give back what was stored.\<close>

definition exact_time :: "env \<Rightarrow> bool" where
  "exact_time env \<longleftrightarrow> (\<forall>t. ts_col env t = t)"

text \<open>
  \<open>JSONB\<close> columns give back the members of the map that was stored, in any order, when its texts
  are UTF-8 (\<open>Columns\<close> has this for the encoding, the column type and the scan functions).
\<close>

abbreviation utf8_texts :: "smap \<Rightarrow> bool" where
  "utf8_texts m \<equiv> list_all (\<lambda>(k, v). valid_utf8 k \<and> valid_utf8 v) m"

definition json_keeps :: "env \<Rightarrow> bool" where
  "json_keeps env \<longleftrightarrow>
     (\<forall>m. distinct (map fst m) \<longrightarrow> utf8_texts m \<longrightarrow>
        distinct (map fst (json_col env m)) \<and> set (json_col env m) = set m)"

lemma queryE_served [simp]: "served env \<Longrightarrow> queryE env f m w = wrapE f [] m w"
  by (simp add: served_def queryE_def)

lemma sql_served: "served env \<Longrightarrow>
  sql env f w = (fst (f (db w)), w\<lparr>stmts := Suc (stmts w), db := snd (f (db w))\<rparr>)"
  by (simp add: sql_def served_def Let_def)

lemma sql_tx_served: "served env \<Longrightarrow>
  sql_tx env f w = (fst (f (db w)), w\<lparr>stmts := Suc (stmts w), db := snd (f (db w))\<rparr>)"
  by (simp add: sql_tx_def served_def Let_def)

lemma rely_served: "served env \<Longrightarrow> rely env I"
  by (simp add: served_def rely_def)

section \<open>Invariants of the tables\<close>

abbreviation keeps :: "(tables \<Rightarrow> bool) \<Rightarrow> 'a io \<Rightarrow> bool" where
  "keeps I m \<equiv> preserves (\<lambda>w. I (db w)) m"

definition keeps_stmt :: "(tables \<Rightarrow> bool) \<Rightarrow> 'a stmt \<Rightarrow> bool" where
  "keeps_stmt I f \<longleftrightarrow> (\<forall>d. I d \<longrightarrow> I (snd (f d)))"

lemma keeps_nowE [pres]: "keeps I (nowE env)"
  by (simp add: preserves_def nowE_def)

lemma keeps_uuidE [pres]: "keeps I (uuidE env)"
  by (simp add: preserves_def uuidE_def)

lemma keeps_gaugeE [pres]: "keeps I (gaugeE k)"
  by (simp add: preserves_def gaugeE_def)

lemma keeps_randE [pres]: "keeps I (randE env n)"
  by (simp add: preserves_def randE_def split: option.splits)

lemma keeps_queryE [pres]: "preserves I m \<Longrightarrow> preserves I (queryE env f m)"
  by (simp add: preserves_def snd_queryE)

lemma keeps_sql: "rely env I \<Longrightarrow> keeps_stmt I f \<Longrightarrow> keeps I (sql env f)"
  by (auto simp: preserves_def keeps_stmt_def sql_def rely_def Let_def split: outcome.splits)

lemma keeps_sql_tx: "keeps_stmt I f \<Longrightarrow> keeps I (sql_tx env f)"
  by (auto simp: preserves_def keeps_stmt_def sql_tx_def Let_def split: outcome.splits)

lemma keeps_stmt_noop: "keeps_stmt I noop"
  by (simp add: keeps_stmt_def noop_def)

lemma keeps_transaction:
  assumes "rely env I" and "keeps I body" and "\<And>d d'. I d \<Longrightarrow> I (rollback d d')"
  shows "keeps I (transaction env b c body)"
proof (rule preservesI)
  fix w :: world assume I: "I (db w)"
  obtain r1 w1 where b: "wrapE b [] (sql env noop) w = (r1, w1)" by force
  have "keeps I (wrapE b [] (sql env noop))"
    by (intro pres keeps_sql assms(1) keeps_stmt_noop)
  then have I1: "I (db w1)" using I b by (rule preserves_run)
  obtain r2 w2 where body: "body w1 = (r2, w2)" by force
  with assms(2) I1 have I2: "I (db w2)" by (rule preserves_run)
  show "I (db (snd (transaction env b c body w)))"
    using I1 I2 assms(3)
    by (auto simp: transaction_def b body split: sum.splits outcome.splits)
qed

section \<open>What a transaction leaves behind\<close>

lemma sql_tx_Inr: "sql_tx env f w = (Inr x, w') \<Longrightarrow> f (db w) = (Inr x, db w')"
  by (cases "f (db w)") (auto simp: sql_tx_def Let_def split: outcome.splits)

lemma transaction_cases:
  assumes "transaction env b c body w = (r, w')"
  obtains w1 where "db w1 = rival_at env (stmts w) (db w)"
    and "db w' = db w1 \<or> (\<exists>r' w2. body w1 = (r', w2) \<and>
      (db w' = rollback (db w1) (db w2) \<or> db w' = db w2 \<and> (\<exists>x. r' = Inr x)))"
proof -
  obtain r1 w1 where 1: "wrapE b [] (sql env noop) w = (r1, w1)" by force
  then have "db w1 = rival_at env (stmts w) (db w)"
    by (auto simp: wrapE_def sql_def noop_def Let_def split: outcome.splits prod.splits sum.splits)
  moreover have "db w' = db w1 \<or> (\<exists>r' w2. body w1 = (r', w2) \<and>
      (db w' = rollback (db w1) (db w2) \<or> db w' = db w2 \<and> (\<exists>x. r' = Inr x)))"
    using assms by (fastforce simp: transaction_def 1 split: sum.splits prod.splits outcome.splits)
  ultimately show ?thesis using that by blast
qed

end
