(* ===== verification/Tables.thy ===== *)
theory Tables
  imports World
begin

text \<open>
  SQL on the tables. An \<open>INSERT\<close> adds a row unless it violates a constraint of the schema,
  a \<open>SELECT\<close> by a unique key finds the row, an \<open>UPDATE ... WHERE\<close> maps a change over the
  rows it selects, an \<open>ORDER BY\<close> sorts. The locale \<open>keyed_table\<close> is the contract of a
  table with a unique key, which the repositories rely on and every table provides.
\<close>

definition insert_stmt :: "bool \<Rightarrow> bool \<Rightarrow> tables \<Rightarrow> unit stmt" where
  "insert_stmt duplicate dangling d' d =
     (if duplicate then (Inl UniqueViolation, d)
      else if dangling then (Inl ForeignKeyViolation, d)
      else (Inr (), d'))"

definition select_row :: "('r \<Rightarrow> bool) \<Rightarrow> 'r list \<Rightarrow> 'r stmt" where
  "select_row P rows d = (case find P rows of None \<Rightarrow> (Inl ErrNoRows, d) | Some r \<Rightarrow> (Inr r, d))"

definition select_rows :: "'r list \<Rightarrow> 'r list stmt" where
  "select_rows rows d = (Inr rows, d)"

definition update_where :: "('r \<Rightarrow> bool) \<Rightarrow> ('r \<Rightarrow> 'r) \<Rightarrow> 'r list \<Rightarrow> 'r list" where
  "update_where P f rows = map (\<lambda>r. if P r then f r else r) rows"

fun insort_le :: "('a \<Rightarrow> 'a \<Rightarrow> bool) \<Rightarrow> 'a \<Rightarrow> 'a list \<Rightarrow> 'a list" where
  "insort_le le x [] = [x]"
| "insort_le le x (y # ys) = (if le x y then x # y # ys else y # insort_le le x ys)"

definition order_by :: "('a \<Rightarrow> 'a \<Rightarrow> bool) \<Rightarrow> 'a list \<Rightarrow> 'a list" where
  "order_by le xs = foldr (insort_le le) xs []"

lemma insort_le_set [simp]: "set (insort_le le x xs) = insert x (set xs)"
  by (induction xs) auto

lemma order_by_set [simp]: "set (order_by le xs) = set xs"
  unfolding order_by_def by (induction xs) auto

lemma insort_le_length [simp]: "length (insort_le le x xs) = Suc (length xs)"
  by (induction xs) auto

lemma order_by_length [simp]: "length (order_by le xs) = length xs"
  unfolding order_by_def by (induction xs) auto

lemma insort_le_distinct: "distinct (map k (insort_le le x xs)) \<longleftrightarrow> distinct (map k (x # xs))"
  by (induction xs) (auto simp: image_iff)

lemma order_by_distinct: "distinct (map k (order_by le xs)) \<longleftrightarrow> distinct (map k xs)"
proof (induction xs)
  case (Cons x xs)
  have "order_by le (x # xs) = insort_le le x (order_by le xs)" by (simp add: order_by_def)
  then show ?case using Cons order_by_set [of le xs]
    by (simp add: insort_le_distinct)
qed (simp add: order_by_def)

lemma order_by_sorted:
  assumes "\<And>x y. le x y \<or> le y x" and "\<And>x y z. le x y \<Longrightarrow> le y z \<Longrightarrow> le x z"
  shows "sorted_wrt le (order_by le xs)"
proof -
  have ins: "sorted_wrt le ys \<Longrightarrow> sorted_wrt le (insort_le le x ys)" for x ys
  proof (induction ys)
    case (Cons y ys)
    then show ?case using assms(1) [of x y] by (cases "le x y") (auto intro: assms(2))
  qed simp
  show ?thesis unfolding order_by_def by (induction xs) (auto intro: ins)
qed

lemma sorted_same_set:
  assumes antisym: "\<And>x y. le x y \<Longrightarrow> le y x \<Longrightarrow> x = y"
  shows "sorted_wrt le xs \<Longrightarrow> sorted_wrt le ys \<Longrightarrow> distinct xs \<Longrightarrow> distinct ys \<Longrightarrow> set xs = set ys \<Longrightarrow> xs = ys"
proof (induction xs arbitrary: ys)
  case (Cons x xs)
  then obtain y zs where ys: "ys = y # zs" by (cases ys) auto
  have "x = y"
  proof (rule ccontr)
    assume "x \<noteq> y"
    then have "x \<in> set zs" and "y \<in> set xs" using Cons.prems(5) ys by auto
    then have "le y x" and "le x y" using Cons.prems(1,2) ys by auto
    with \<open>x \<noteq> y\<close> antisym show False by blast
  qed
  moreover have "set xs = set zs" using Cons.prems(3,4,5) ys \<open>x = y\<close> by auto
  ultimately show ?case using Cons ys by auto
qed simp

section \<open>Statements that keep an invariant\<close>

lemma keeps_insert_stmt:
  assumes "\<And>d. I d \<Longrightarrow> \<not> dup d \<Longrightarrow> \<not> dang d \<Longrightarrow> I (upd d)"
  shows "keeps_stmt I (\<lambda>d. insert_stmt (dup d) (dang d) (upd d) d)"
  using assms by (auto simp: keeps_stmt_def insert_stmt_def)

lemma keeps_select_row [pres]: "keeps_stmt I (\<lambda>d. select_row P (rows d) d)"
  by (auto simp: keeps_stmt_def select_row_def split: option.splits)

lemma keeps_select_rows [pres]: "keeps_stmt I (\<lambda>d. select_rows (rows d) d)"
  by (auto simp: keeps_stmt_def select_rows_def)

lemma keeps_update_stmt: "(\<And>d. I d \<Longrightarrow> I (g d)) \<Longrightarrow> keeps_stmt I (\<lambda>d. (Inr (), g d))"
  by (auto simp: keeps_stmt_def)

lemma insert_stmt_Inr_iff:
  "insert_stmt dup dang d' d = (Inr u, d'') \<longleftrightarrow> \<not> dup \<and> \<not> dang \<and> d'' = d'"
  by (auto simp: insert_stmt_def)

lemma insert_stmt_Inl: "insert_stmt dup dang d' d = (Inl e, d'') \<Longrightarrow> d'' = d"
  by (auto simp: insert_stmt_def split: if_splits)

lemma select_row_Inr_iff:
  "select_row P rows d = (Inr r, d') \<longleftrightarrow> find P rows = Some r \<and> d' = d"
  by (auto simp: select_row_def split: option.splits)

lemma update_where_key:
  "(\<And>r. k (f r) = k r) \<Longrightarrow> map k (update_where P f rows) = map k rows"
  by (simp add: update_where_def)

lemma update_where_keyset:
  assumes "\<And>r. k (f r) = k r"
  shows "k ` set (update_where P f rows) = k ` set rows"
  by (metis assms image_set update_where_key)

section \<open>The contract of a table with a unique key\<close>

text \<open>
  \<open>rows\<close> reads the table, \<open>ins\<close> inserts, \<open>get\<close> selects by key. The provider promises
  that an insert that succeeds appends a row with a new key and one that fails changes
  nothing, and that a select by key finds the row with that key.
\<close>

locale keyed_table =
  fixes rows :: "tables \<Rightarrow> 'r list"
    and key :: "'r \<Rightarrow> 'k"
    and ins :: "'r \<Rightarrow> unit stmt"
    and get :: "'k \<Rightarrow> 'r stmt"
  assumes ins_Inr: "ins r d = (Inr u, d') \<Longrightarrow> rows d' = rows d @ [r] \<and> key r \<notin> key ` set (rows d)"
    and ins_Inl: "ins r d = (Inl e, d') \<Longrightarrow> d' = d"
    and get_find: "get k d = select_row (\<lambda>r. key r = k) (rows d) d"
begin

lemma keys_distinct: "keeps_stmt (\<lambda>d. distinct (map key (rows d))) (ins r)"
proof -
  have "distinct (map key (rows (snd (ins r d))))" if "distinct (map key (rows d))" for d
  proof (cases "ins r d")
    case (Pair r' d')
    then show ?thesis using that ins_Inr [of r d _ d'] ins_Inl [of r d _ d']
      by (cases r') (auto simp: distinct_map_snoc)
  qed
  then show ?thesis by (simp add: keeps_stmt_def)
qed

lemma ins_duplicate: "key r \<in> key ` set (rows d) \<Longrightarrow> \<exists>e. ins r d = (Inl e, d)"
  using ins_Inr ins_Inl by (metis old.sum.exhaust surj_pair)

lemma get_Inr_iff: "get k d = (Inr r, d') \<longleftrightarrow> find (\<lambda>r. key r = k) (rows d) = Some r \<and> d' = d"
  by (simp add: get_find select_row_Inr_iff)

lemma get_Inr_row: "get k d = (Inr r, d') \<Longrightarrow> r \<in> set (rows d) \<and> key r = k"
  by (auto simp: get_Inr_iff dest: find_Some_set)

lemma get_row:
  "distinct (map key (rows d)) \<Longrightarrow> r \<in> set (rows d) \<Longrightarrow> get (key r) d = (Inr r, d)"
  by (simp add: get_Inr_iff find_key_unique)

lemma get_ins:
  assumes "ins r d = (Inr u, d')"
  shows "get (key r) d' = (Inr r, d')"
proof -
  from ins_Inr [OF assms] have "find (\<lambda>x. key x = key r) (rows d) = None"
    by (auto simp: find_None_set image_iff)
  with ins_Inr [OF assms] show ?thesis by (simp add: get_Inr_iff find_append)
qed

lemma get_ins_other:
  assumes "ins r d = (Inr u, d')" and "k \<noteq> key r"
  shows "fst (get k d') = fst (get k d)"
  using ins_Inr [OF assms(1)] assms(2)
  by (auto simp: get_find select_row_def find_append split: option.splits)

lemma get_None_iff: "get k d = (Inl ErrNoRows, d) \<longleftrightarrow> k \<notin> key ` set (rows d)"
  by (auto simp: get_find select_row_def find_None_set split: option.splits dest!: find_Some_set)

end

end
