(* ===== verification/Secret_Repository.thy ===== *)
theory Secret_Repository
  imports Tables
begin

text \<open>
  \<open>internal/secret/infrastructure/postgres/repository.go\<close> over the tables
  \<open>namespaces\<close>, \<open>secrets\<close> and \<open>secret_versions\<close>, with the constraints
  \<open>migrations/000001_init.sql\<close> declares: primary keys, \<open>UNIQUE(name)\<close>,
  \<open>UNIQUE(namespace, path)\<close>, \<open>UNIQUE(secret_id, version)\<close> and the reference of a version
  to its secret.
\<close>

section \<open>Rows as the columns store them\<close>

definition store_Namespace :: "env \<Rightarrow> Namespace \<Rightarrow> Namespace" where
  "store_Namespace env n =
     n\<lparr>ns_CreatedAt := ts_col env (ns_CreatedAt n), ns_UpdatedAt := ts_col env (ns_UpdatedAt n)\<rparr>"

definition store_Secret :: "env \<Rightarrow> Secret \<Rightarrow> Secret" where
  "store_Secret env s =
     s\<lparr>sec_CreatedAt := ts_col env (sec_CreatedAt s), sec_UpdatedAt := ts_col env (sec_UpdatedAt s)\<rparr>"

definition store_Version :: "env \<Rightarrow> SecretVersion \<Rightarrow> SecretVersion" where
  "store_Version env v =
     v\<lparr>ver_DeleteAfter := map_option (ts_col env) (ver_DeleteAfter v),
       ver_CreatedAt := ts_col env (ver_CreatedAt v), ver_UpdatedAt := ts_col env (ver_UpdatedAt v)\<rparr>"

lemma store_keys [simp]:
  "ns_ID (store_Namespace env n) = ns_ID n" "ns_Name (store_Namespace env n) = ns_Name n"
  "sec_ID (store_Secret env s) = sec_ID s" "sec_Namespace (store_Secret env s) = sec_Namespace s"
  "sec_Path (store_Secret env s) = sec_Path s" "sec_Type (store_Secret env s) = sec_Type s"
  "sec_CurrentVersion (store_Secret env s) = sec_CurrentVersion s"
  "ver_ID (store_Version env v) = ver_ID v" "ver_SecretID (store_Version env v) = ver_SecretID v"
  "ver_Version (store_Version env v) = ver_Version v" "ver_State (store_Version env v) = ver_State v"
  "ver_EncryptedValue (store_Version env v) = ver_EncryptedValue v"
  "ver_KeyVersion (store_Version env v) = ver_KeyVersion v"
  by (simp_all add: store_Namespace_def store_Secret_def store_Version_def)

section \<open>Statements\<close>

definition sec_key :: "Secret \<Rightarrow> string \<times> string" where
  "sec_key s = (sec_Namespace s, sec_Path s)"

definition ver_key :: "SecretVersion \<Rightarrow> uuid \<times> int" where
  "ver_key v = (ver_SecretID v, ver_Version v)"

definition insert_namespace :: "Namespace \<Rightarrow> unit stmt" where
  "insert_namespace n d =
     insert_stmt (list_ex (\<lambda>r. ns_ID r = ns_ID n \<or> ns_Name r = ns_Name n) (namespaces d)) False
       (d\<lparr>namespaces := namespaces d @ [n]\<rparr>) d"

definition select_namespace :: "string \<Rightarrow> Namespace stmt" where
  "select_namespace name d = select_row (\<lambda>r. ns_Name r = name) (namespaces d) d"

definition insert_secret :: "Secret \<Rightarrow> unit stmt" where
  "insert_secret s d =
     insert_stmt (list_ex (\<lambda>r. sec_ID r = sec_ID s \<or> sec_key r = sec_key s) (secrets d)) False
       (d\<lparr>secrets := secrets d @ [s]\<rparr>) d"

definition select_secret :: "string \<times> string \<Rightarrow> Secret stmt" where
  "select_secret k d = select_row (\<lambda>r. sec_key r = k) (secrets d) d"

definition insert_version :: "SecretVersion \<Rightarrow> unit stmt" where
  "insert_version v d =
     insert_stmt (list_ex (\<lambda>r. ver_ID r = ver_ID v \<or> ver_key r = ver_key v) (secret_versions d))
       (\<not> list_ex (\<lambda>s. sec_ID s = ver_SecretID v) (secrets d))
       (d\<lparr>secret_versions := secret_versions d @ [v]\<rparr>) d"

definition select_version :: "uuid \<times> int \<Rightarrow> SecretVersion stmt" where
  "select_version k d = select_row (\<lambda>r. ver_key r = k) (secret_versions d) d"

definition update_version_state :: "uuid \<Rightarrow> VersionState \<Rightarrow> time option \<Rightarrow> time \<Rightarrow> unit stmt" where
  "update_version_state versionID state deleteAfter now d =
     (Inr (), d\<lparr>secret_versions :=
        update_where (\<lambda>r. ver_ID r = versionID)
          (\<lambda>r. r\<lparr>ver_State := state, ver_DeleteAfter := deleteAfter, ver_UpdatedAt := now\<rparr>)
          (secret_versions d)\<rparr>)"

definition update_current_version :: "uuid \<Rightarrow> int \<Rightarrow> time \<Rightarrow> unit stmt" where
  "update_current_version secretID version now d =
     (Inr (), d\<lparr>secrets :=
        update_where (\<lambda>r. sec_ID r = secretID)
          (\<lambda>r. r\<lparr>sec_CurrentVersion := version, sec_UpdatedAt := now\<rparr>) (secrets d)\<rparr>)"

section \<open>Methods of the repository\<close>

definition SecretRepo_CreateNamespace :: "env \<Rightarrow> Namespace \<Rightarrow> unit io" where
  "SecretRepo_CreateNamespace env ns =
     wrapE ''insert namespace: %w'' [] (sql env (insert_namespace (store_Namespace env ns)))"

definition SecretRepo_GetNamespace :: "env \<Rightarrow> string \<Rightarrow> Namespace io" where
  "SecretRepo_GetNamespace env name =
     wrapE ''namespace %q not found: %w'' [name] (sql env (select_namespace name))"

definition SecretRepo_ListNamespaces :: "env \<Rightarrow> Namespace list io" where
  "SecretRepo_ListNamespaces env =
     queryE env ''list namespaces: %w''
       (sql env (\<lambda>d. select_rows (order_by (\<lambda>x y. text_le env (ns_Name x) (ns_Name y)) (namespaces d)) d))"

definition insertVersion :: "env \<Rightarrow> SecretVersion \<Rightarrow> unit io" where
  "insertVersion env version =
     wrapE ''insert secret version: %w'' [] (sql_tx env (insert_version (store_Version env version)))"

definition SecretRepo_CreateSecretWithVersion :: "env \<Rightarrow> Secret \<Rightarrow> SecretVersion \<Rightarrow> unit io" where
  "SecretRepo_CreateSecretWithVersion env secret version =
     transaction env ''begin transaction: %w'' ''commit secret transaction: %w''
       (bindE (wrapE ''insert secret: %w'' [] (sql_tx env (insert_secret (store_Secret env secret)))) (\<lambda>_.
        insertVersion env version))"

definition SecretRepo_GetSecret :: "env \<Rightarrow> string \<Rightarrow> string \<Rightarrow> Secret io" where
  "SecretRepo_GetSecret env namespace path =
     wrapE ''secret %s/%s not found: %w'' [namespace, path] (sql env (select_secret (namespace, path)))"

definition SecretRepo_ListSecrets :: "env \<Rightarrow> string \<Rightarrow> Secret list io" where
  "SecretRepo_ListSecrets env namespace =
     queryE env ''list secrets: %w''
       (sql env (\<lambda>d. select_rows
          (order_by (\<lambda>x y. text_le env (sec_Path x) (sec_Path y))
             (filter (\<lambda>s. sec_Namespace s = namespace) (secrets d))) d))"

definition SecretRepo_CreateVersion :: "env \<Rightarrow> SecretVersion \<Rightarrow> unit io" where
  "SecretRepo_CreateVersion env version =
     wrapE ''insert secret version: %w'' [] (sql env (insert_version (store_Version env version)))"

definition SecretRepo_GetVersion :: "env \<Rightarrow> uuid \<Rightarrow> int \<Rightarrow> SecretVersion io" where
  "SecretRepo_GetVersion env secretID version =
     wrapE ''version not found: %w'' [] (sql env (select_version (secretID, version)))"

definition SecretRepo_ListVersions :: "env \<Rightarrow> uuid \<Rightarrow> SecretVersion list io" where
  "SecretRepo_ListVersions env secretID =
     queryE env ''list secret versions: %w''
       (sql env (\<lambda>d. select_rows
          (order_by (\<lambda>x y. ver_Version x \<ge> ver_Version y)
             (filter (\<lambda>v. ver_SecretID v = secretID) (secret_versions d))) d))"

definition SecretRepo_SetVersionState :: "env \<Rightarrow> uuid \<Rightarrow> VersionState \<Rightarrow> time option \<Rightarrow> unit io" where
  "SecretRepo_SetVersionState env versionID state deleteAfter =
     bindE (nowE env) (\<lambda>now.
     wrapE ''update version state: %w'' []
       (sql env (update_version_state versionID state (map_option (ts_col env) deleteAfter) (ts_col env now))))"

definition SecretRepo_SetCurrentVersion :: "env \<Rightarrow> uuid \<Rightarrow> int \<Rightarrow> unit io" where
  "SecretRepo_SetCurrentVersion env secretID version =
     bindE (nowE env) (\<lambda>now.
     wrapE ''update current version: %w'' []
       (sql env (update_current_version secretID version (ts_col env now))))"

lemmas SecretRepo_defs =
  SecretRepo_CreateNamespace_def SecretRepo_GetNamespace_def SecretRepo_ListNamespaces_def
  insertVersion_def SecretRepo_CreateSecretWithVersion_def SecretRepo_GetSecret_def
  SecretRepo_ListSecrets_def SecretRepo_CreateVersion_def SecretRepo_GetVersion_def
  SecretRepo_ListVersions_def SecretRepo_SetVersionState_def SecretRepo_SetCurrentVersion_def

section \<open>The tables honour the contract of a keyed table\<close>

interpretation ns_table: keyed_table namespaces ns_Name insert_namespace select_namespace
  by unfold_locales
    (auto simp: insert_namespace_def select_namespace_def insert_stmt_Inr_iff list_ex_iff dest: insert_stmt_Inl)

interpretation sec_table: keyed_table secrets sec_key insert_secret select_secret
  by unfold_locales
    (auto simp: insert_secret_def select_secret_def insert_stmt_Inr_iff list_ex_iff dest: insert_stmt_Inl)

interpretation ver_table: keyed_table secret_versions ver_key insert_version select_version
  by unfold_locales
    (auto simp: insert_version_def select_version_def insert_stmt_Inr_iff list_ex_iff dest: insert_stmt_Inl)

section \<open>The schema's constraints are an invariant\<close>

definition secret_schema :: "tables \<Rightarrow> bool" where
  "secret_schema d \<longleftrightarrow>
     distinct (map ns_ID (namespaces d)) \<and> distinct (map ns_Name (namespaces d)) \<and>
     distinct (map sec_ID (secrets d)) \<and> distinct (map sec_key (secrets d)) \<and>
     distinct (map ver_ID (secret_versions d)) \<and> distinct (map ver_key (secret_versions d)) \<and>
     ver_SecretID ` set (secret_versions d) \<subseteq> sec_ID ` set (secrets d)"

lemma keeps_schema_insert_namespace [pres]: "keeps_stmt secret_schema (insert_namespace n)"
  unfolding insert_namespace_def
  by (rule keeps_insert_stmt) (auto simp: secret_schema_def list_ex_iff distinct_map_snoc)

lemma keeps_schema_insert_secret [pres]: "keeps_stmt secret_schema (insert_secret s)"
  unfolding insert_secret_def
  by (rule keeps_insert_stmt) (auto simp: secret_schema_def list_ex_iff distinct_map_snoc)

lemma keeps_schema_insert_version [pres]: "keeps_stmt secret_schema (insert_version v)"
  unfolding insert_version_def
  by (rule keeps_insert_stmt)
    (auto simp: secret_schema_def list_ex_iff distinct_map_snoc intro: rev_image_eqI)

lemma keeps_schema_update_version_state [pres]:
  "keeps_stmt secret_schema (update_version_state i s a n)"
  unfolding update_version_state_def
  by (rule keeps_update_stmt)
    (simp add: secret_schema_def update_where_key update_where_keyset ver_key_def)

lemma keeps_schema_update_current_version [pres]:
  "keeps_stmt secret_schema (update_current_version i v n)"
  unfolding update_current_version_def
  by (rule keeps_update_stmt)
    (simp add: secret_schema_def update_where_key update_where_keyset sec_key_def)

lemma keeps_schema_selects [pres]:
  "keeps_stmt secret_schema (select_namespace n)"
  "keeps_stmt secret_schema (select_secret k)"
  "keeps_stmt secret_schema (select_version k')"
  unfolding select_namespace_def select_secret_def select_version_def by (rule pres)+

lemma rollback_secret [simp]:
  "namespaces (rollback d d') = namespaces d" "secrets (rollback d d') = secrets d"
  "secret_versions (rollback d d') = secret_versions d"
  by (simp_all add: rollback_def)

lemma keeps_schema_SecretRepo:
  assumes "rely env secret_schema"
  shows
    "keeps secret_schema (SecretRepo_CreateNamespace env ns)"
    "keeps secret_schema (SecretRepo_GetNamespace env name)"
    "keeps secret_schema (SecretRepo_ListNamespaces env)"
    "keeps secret_schema (SecretRepo_CreateSecretWithVersion env s v)"
    "keeps secret_schema (SecretRepo_GetSecret env nsp path)"
    "keeps secret_schema (SecretRepo_ListSecrets env nsp)"
    "keeps secret_schema (SecretRepo_CreateVersion env v)"
    "keeps secret_schema (SecretRepo_GetVersion env i n)"
    "keeps secret_schema (SecretRepo_ListVersions env i)"
    "keeps secret_schema (SecretRepo_SetVersionState env i st da)"
    "keeps secret_schema (SecretRepo_SetCurrentVersion env i n)"
  unfolding SecretRepo_defs
  by (intro pres keeps_sql keeps_sql_tx keeps_transaction assms; simp add: secret_schema_def)+

section \<open>The methods on a database that serves them\<close>

text \<open>\<open>stmt_done w\<close> is the world after one more statement that changed nothing.\<close>

definition stmt_done :: "world \<Rightarrow> world" where
  "stmt_done w = w\<lparr>stmts := Suc (stmts w)\<rparr>"

lemma stmt_done_simps [simp]:
  "db (stmt_done w) = db w" "tick (stmt_done w) = tick w" "uuids (stmt_done w) = uuids w"
  "rands (stmt_done w) = rands w"
  by (simp_all add: stmt_done_def)

named_theorems served_simps \<open>repository methods when every statement is served\<close>

lemma GetNamespace_served [served_simps]:
  "served env \<Longrightarrow> SecretRepo_GetNamespace env name w =
     (case find (\<lambda>r. ns_Name r = name) (namespaces (db w)) of
        None \<Rightarrow> (Inl (Wrapf ''namespace %q not found: %w'' [name] ErrNoRows), stmt_done w)
      | Some n \<Rightarrow> (Inr n, stmt_done w))"
  by (simp add: SecretRepo_GetNamespace_def sql_served wrapE_def select_namespace_def select_row_def
      stmt_done_def split: option.splits)

lemma GetSecret_served [served_simps]:
  "served env \<Longrightarrow> SecretRepo_GetSecret env nsp path w =
     (case find (\<lambda>r. sec_key r = (nsp, path)) (secrets (db w)) of
        None \<Rightarrow> (Inl (Wrapf ''secret %s/%s not found: %w'' [nsp, path] ErrNoRows), stmt_done w)
      | Some s \<Rightarrow> (Inr s, stmt_done w))"
  by (simp add: SecretRepo_GetSecret_def sql_served wrapE_def select_secret_def select_row_def
      stmt_done_def split: option.splits)

lemma GetVersion_served [served_simps]:
  "served env \<Longrightarrow> SecretRepo_GetVersion env i n w =
     (case find (\<lambda>r. ver_key r = (i, n)) (secret_versions (db w)) of
        None \<Rightarrow> (Inl (Wrapf ''version not found: %w'' [] ErrNoRows), stmt_done w)
      | Some v \<Rightarrow> (Inr v, stmt_done w))"
  by (simp add: SecretRepo_GetVersion_def sql_served wrapE_def select_version_def select_row_def
      stmt_done_def split: option.splits)

lemma CreateVersion_served [served_simps]:
  "served env \<Longrightarrow> SecretRepo_CreateVersion env v w =
     (case insert_version (store_Version env v) (db w) of
        (Inl e, d) \<Rightarrow> (Inl (Wrapf ''insert secret version: %w'' [] e), (stmt_done w)\<lparr>db := d\<rparr>)
      | (Inr u, d) \<Rightarrow> (Inr u, (stmt_done w)\<lparr>db := d\<rparr>))"
  by (auto simp: SecretRepo_CreateVersion_def sql_served wrapE_def stmt_done_def split: prod.splits sum.splits)

lemma SetVersionState_served [served_simps]:
  "served env \<Longrightarrow> SecretRepo_SetVersionState env i st da w =
     (Inr (), (stmt_done w)\<lparr>tick := Suc (tick w),
        db := snd (update_version_state i st (map_option (ts_col env) da)
                     (ts_col env (now_at env (tick w))) (db w))\<rparr>)"
  by (simp add: SecretRepo_SetVersionState_def sql_served wrapE_def bindE_def nowE_def
      update_version_state_def stmt_done_def)

lemma SetCurrentVersion_served [served_simps]:
  "served env \<Longrightarrow> SecretRepo_SetCurrentVersion env i n w =
     (Inr (), (stmt_done w)\<lparr>tick := Suc (tick w),
        db := snd (update_current_version i n (ts_col env (now_at env (tick w))) (db w))\<rparr>)"
  by (simp add: SecretRepo_SetCurrentVersion_def sql_served wrapE_def bindE_def nowE_def
      update_current_version_def stmt_done_def)

text \<open>The transaction either adds both rows or leaves the tables as they were.\<close>

lemma CreateSecretWithVersion_served:
  assumes "served env" and "SecretRepo_CreateSecretWithVersion env s v w = (r, w')"
  shows "(case r of
      Inl e \<Rightarrow> db w' = db w
    | Inr u \<Rightarrow> db w' = (db w)\<lparr>secrets := secrets (db w) @ [store_Secret env s],
          secret_versions := secret_versions (db w) @ [store_Version env v]\<rparr> \<and>
        sec_ID s \<notin> sec_ID ` set (secrets (db w)) \<and> sec_key s \<notin> sec_key ` set (secrets (db w)) \<and>
        ver_key v \<notin> ver_key ` set (secret_versions (db w)) \<and> ver_ID v \<notin> ver_ID ` set (secret_versions (db w)))
    \<and> tick w' = tick w \<and> uuids w' = uuids w"
  using assms
  by (auto simp: SecretRepo_CreateSecretWithVersion_def insertVersion_def transaction_def sql_served
      sql_tx_served noop_def eff_simps insert_secret_def insert_version_def insert_stmt_def list_ex_iff
      rollback_def served_def sec_key_def ver_key_def
      split: if_splits sum.splits prod.splits outcome.splits)

end
