(* ===== verification/Backend_Provider.thy ===== *)
theory Backend_Provider
  imports World
begin

text \<open>
  \<open>internal/backend\<close> and \<open>internal/crypto\<close>: the provider interface, its software and
  stub-HSM implementations, the crypto service on top of a provider and the registry. A Go
  interface value is a record of functions. AES-GCM, HMAC-SHA256 and HKDF-SHA256 are
  parameters held by the environment; what the code relies on is \<^term>\<open>lawful_crypto\<close>.
\<close>

section \<open>The provider interface\<close>

datatype BackendCapability =
    CapabilityEncrypt | CapabilityDecrypt | CapabilitySign | CapabilityVerify
  | CapabilityDeriveKey | CapabilityRandom | CapabilityOther string

record Ciphertext =
  ct_Data :: bytes
  ct_KeyVersion :: string

record Signature =
  sig_Signature :: bytes
  sig_Algorithm :: string

record Provider =
  pv_Name :: string
  pv_Supports :: "BackendCapability \<Rightarrow> bool"
  pv_Encrypt :: "bytes \<Rightarrow> bytes \<Rightarrow> Ciphertext io"
  pv_Decrypt :: "Ciphertext \<Rightarrow> bytes \<Rightarrow> err + bytes"
  pv_Sign :: "bytes \<Rightarrow> err + Signature"
  pv_Verify :: "bytes \<Rightarrow> Signature \<Rightarrow> err + bool"
  pv_DeriveKey :: "bytes \<Rightarrow> bytes \<Rightarrow> int \<Rightarrow> err + bytes"
  pv_Random :: "int \<Rightarrow> bytes io"

section \<open>The software provider\<close>

definition gcm_NonceSize :: nat where
  "gcm_NonceSize = 12"

definition deriveKey :: "env \<Rightarrow> bytes \<Rightarrow> bytes \<Rightarrow> bytes \<Rightarrow> nat \<Rightarrow> bytes" where
  "deriveKey env masterKey info salt len =
     (case hkdf_sha256 env masterKey salt info len of
        None \<Rightarrow> replicate len (CHR 0x00) | Some out \<Rightarrow> out)"

text \<open>\<open>aes.NewCipher\<close> takes keys of 16, 24 or 32 bytes.\<close>

definition aes_NewCipher :: "bytes \<Rightarrow> err + bytes" where
  "aes_NewCipher key =
     (if length key = 16 \<or> length key = 24 \<or> length key = 32 then Inr key
      else Inl (PrimitiveError ''crypto/aes: invalid key size''))"

definition Software_Supports :: "BackendCapability \<Rightarrow> bool" where
  "Software_Supports capability =
     (case capability of CapabilityOther _ \<Rightarrow> False | _ \<Rightarrow> True)"

definition Software_Encrypt :: "env \<Rightarrow> bytes \<Rightarrow> bytes \<Rightarrow> bytes \<Rightarrow> Ciphertext io" where
  "Software_Encrypt env masterKey plaintext aad =
     (let key = deriveKey env masterKey ''encryption'' [] 32 in
      bindE (wrapE ''create aes cipher: %w'' [] (liftE (aes_NewCipher key))) (\<lambda>block.
      bindE (wrapE ''generate nonce: %w'' [] (randE env gcm_NonceSize)) (\<lambda>nonce.
      okE \<lparr>ct_Data = nonce @ gcm_seal env block nonce plaintext aad, ct_KeyVersion = ''v1''\<rparr>)))"

definition Software_Decrypt :: "env \<Rightarrow> bytes \<Rightarrow> Ciphertext \<Rightarrow> bytes \<Rightarrow> err + bytes" where
  "Software_Decrypt env masterKey ciphertext aad =
     (let key = deriveKey env masterKey ''encryption'' [] 32 in
      case aes_NewCipher key of
        Inl e \<Rightarrow> Inl (Wrapf ''create aes cipher: %w'' [] e)
      | Inr block \<Rightarrow>
          if length (ct_Data ciphertext) < gcm_NonceSize then Inl (Errorf ''ciphertext too short'' [])
          else
            (let nonce = take gcm_NonceSize (ct_Data ciphertext) in
             case gcm_open env block nonce (drop gcm_NonceSize (ct_Data ciphertext)) aad of
               None \<Rightarrow> Inl (PrimitiveError ''cipher: message authentication failed'')
             | Some plaintext \<Rightarrow> Inr plaintext))"

definition Software_Sign :: "env \<Rightarrow> bytes \<Rightarrow> bytes \<Rightarrow> err + Signature" where
  "Software_Sign env auditKey data =
     Inr \<lparr>sig_Signature = hmac_sha256 env auditKey data, sig_Algorithm = ''HMAC-SHA256''\<rparr>"

definition Software_Verify :: "env \<Rightarrow> bytes \<Rightarrow> bytes \<Rightarrow> Signature \<Rightarrow> err + bool" where
  "Software_Verify env auditKey data sig =
     (if \<not> EqualFold (sig_Algorithm sig) ''HMAC-SHA256''
      then Inl (Errorf ''unsupported signature algorithm'' [])
      else Inr (hmac_sha256 env auditKey data = sig_Signature sig))"

definition Software_DeriveKey :: "env \<Rightarrow> bytes \<Rightarrow> bytes \<Rightarrow> int \<Rightarrow> err + bytes" where
  "Software_DeriveKey env material salt len =
     (if len \<le> 0 \<or> len > 1024 then Inl (Errorf ''invalid key length'' [])
      else case hkdf_sha256 env material salt [] (nat len) of
        None \<Rightarrow> Inl (Wrapf ''derive key: %w'' [] (PrimitiveError ''hkdf: entropy limit reached''))
      | Some out \<Rightarrow> Inr out)"

definition Software_Random :: "env \<Rightarrow> int \<Rightarrow> bytes io" where
  "Software_Random env len =
     bindE (guardE (len \<le> 0 \<or> len > 2 ^ 20) (Errorf ''invalid random length'' [])) (\<lambda>_.
     wrapE ''generate random: %w'' [] (randE env (nat len)))"

definition SoftwareProvider :: "env \<Rightarrow> string \<Rightarrow> string \<Rightarrow> Provider" where
  "SoftwareProvider env masterKey auditKey =
     \<lparr>pv_Name = ''software'', pv_Supports = Software_Supports,
      pv_Encrypt = Software_Encrypt env masterKey, pv_Decrypt = Software_Decrypt env masterKey,
      pv_Sign = Software_Sign env auditKey, pv_Verify = Software_Verify env auditKey,
      pv_DeriveKey = Software_DeriveKey env, pv_Random = Software_Random env\<rparr>"

section \<open>The stub HSM\<close>

definition Stub_Sign :: "Provider \<Rightarrow> bytes \<Rightarrow> err + Signature" where
  "Stub_Sign software data =
     (case pv_Sign software data of
        Inl e \<Rightarrow> Inl e
      | Inr sig \<Rightarrow> Inr (sig\<lparr>sig_Algorithm := ''STUB-HSM-HMAC-SHA256''\<rparr>))"

definition Stub_Verify :: "Provider \<Rightarrow> bytes \<Rightarrow> Signature \<Rightarrow> err + bool" where
  "Stub_Verify software data sig =
     pv_Verify software data
       (if sig_Algorithm sig = ''STUB-HSM-HMAC-SHA256'' then sig\<lparr>sig_Algorithm := ''HMAC-SHA256''\<rparr> else sig)"

definition StubHSMProvider :: "env \<Rightarrow> string \<Rightarrow> string \<Rightarrow> Provider" where
  "StubHSMProvider env masterKey auditKey =
     (let software = SoftwareProvider env masterKey auditKey in
      \<lparr>pv_Name = ''stub-hsm'', pv_Supports = pv_Supports software,
       pv_Encrypt = pv_Encrypt software, pv_Decrypt = pv_Decrypt software,
       pv_Sign = Stub_Sign software, pv_Verify = Stub_Verify software,
       pv_DeriveKey = pv_DeriveKey software, pv_Random = pv_Random software\<rparr>)"

section \<open>The provider registry\<close>

text \<open>\<open>Registry.providers\<close> is a map from names; its lock makes each method atomic.\<close>

type_synonym Registry = "(string \<times> Provider) list"

definition NewRegistry :: Registry where
  "NewRegistry = []"

definition Registry_Register :: "Registry \<Rightarrow> Provider \<Rightarrow> Registry" where
  "Registry_Register r provider = (pv_Name provider, provider) # filter (\<lambda>(n, _). n \<noteq> pv_Name provider) r"

definition Registry_Get :: "Registry \<Rightarrow> string \<Rightarrow> err + Provider" where
  "Registry_Get r name =
     (case map_of r name of
        None \<Rightarrow> Inl (Errorf ''provider %q is not registered'' [name])
      | Some provider \<Rightarrow> Inr provider)"

definition Registry_Names :: "Registry \<Rightarrow> string list" where
  "Registry_Names r = map fst r"

lemma Registry_Get_Register:
  "Registry_Get (Registry_Register r p) name = (if name = pv_Name p then Inr p else Registry_Get r name)"
proof -
  have "map_of (filter (\<lambda>(n, _). n \<noteq> pv_Name p) r) name = (if name = pv_Name p then None else map_of r name)"
    by (induction r) auto
  then show ?thesis by (simp add: Registry_Get_def Registry_Register_def)
qed

lemma Registry_Names_distinct:
  "distinct (Registry_Names r) \<Longrightarrow> distinct (Registry_Names (Registry_Register r p))"
  unfolding Registry_Names_def Registry_Register_def
  by (auto simp: distinct_map_filter)

section \<open>The crypto service\<close>

record CryptoService =
  cs_provider :: Provider
  cs_aad :: bytes

definition CryptoService_Encrypt :: "CryptoService \<Rightarrow> bytes \<Rightarrow> Ciphertext io" where
  "CryptoService_Encrypt s plaintext =
     bindE (guardE (length plaintext = 0) (Errorf ''plaintext is required'' [])) (\<lambda>_.
     pv_Encrypt (cs_provider s) plaintext (cs_aad s))"

definition CryptoService_Decrypt :: "CryptoService \<Rightarrow> Ciphertext \<Rightarrow> err + bytes" where
  "CryptoService_Decrypt s ciphertext =
     (if length (ct_Data ciphertext) = 0 then Inl (Errorf ''ciphertext is required'' [])
      else case pv_Decrypt (cs_provider s) ciphertext (cs_aad s) of
        Inl e \<Rightarrow> Inl (Wrapf ''decrypt value: %w'' [] e)
      | Inr plaintext \<Rightarrow> Inr plaintext)"

definition CryptoService_Sign :: "CryptoService \<Rightarrow> bytes \<Rightarrow> err + Signature" where
  "CryptoService_Sign s data =
     (if length data = 0 then Inl (Errorf ''data is required'' []) else pv_Sign (cs_provider s) data)"

definition CryptoService_Verify :: "CryptoService \<Rightarrow> bytes \<Rightarrow> Signature \<Rightarrow> err + bool" where
  "CryptoService_Verify s data sig =
     (if length data = 0 then Inl (Errorf ''data is required'' [])
      else case pv_Verify (cs_provider s) data sig of
        Inl e \<Rightarrow> Inl (Wrapf ''verify signature: %w'' [] e)
      | Inr ok \<Rightarrow> Inr ok)"

definition CryptoService_DeriveKey :: "CryptoService \<Rightarrow> bytes \<Rightarrow> bytes \<Rightarrow> int \<Rightarrow> err + bytes" where
  "CryptoService_DeriveKey s material salt len =
     (if length material = 0 then Inl (Errorf ''derivation material is required'' [])
      else pv_DeriveKey (cs_provider s) material salt len)"

definition CryptoService_Random :: "CryptoService \<Rightarrow> int \<Rightarrow> bytes io" where
  "CryptoService_Random s len = pv_Random (cs_provider s) len"

section \<open>The contract of a provider\<close>

text \<open>
  \<open>mk c\<close> is a provider with configuration \<open>c\<close>, \<open>good c\<close> says that the primitives it is
  built on behave. A provider promises that decryption inverts encryption under the same
  additional data, that a ciphertext is never empty, that it accepts its own signatures and
  that encrypting does not touch the database.
\<close>

locale crypto_provider =
  fixes mk :: "'c \<Rightarrow> Provider"
    and good :: "'c \<Rightarrow> bool"
  assumes decrypt_encrypt:
      "good c \<Longrightarrow> pv_Encrypt (mk c) plaintext aad w = (Inr ct, w') \<Longrightarrow> pv_Decrypt (mk c) ct aad = Inr plaintext"
    and encrypt_nonempty:
      "good c \<Longrightarrow> pv_Encrypt (mk c) plaintext aad w = (Inr ct, w') \<Longrightarrow> ct_Data ct \<noteq> []"
    and verify_sign:
      "good c \<Longrightarrow> pv_Sign (mk c) data = Inr sig \<Longrightarrow> pv_Verify (mk c) data sig = Inr True"
    and encrypt_frame: "pv_Encrypt (mk c) plaintext aad w = (r, w') \<Longrightarrow> db w' = db w \<and> stmts w' = stmts w"
begin

lemma service_decrypt_encrypt:
  assumes "good c" and "CryptoService_Encrypt \<lparr>cs_provider = mk c, cs_aad = aad\<rparr> plaintext w = (Inr ct, w')"
  shows "CryptoService_Decrypt \<lparr>cs_provider = mk c, cs_aad = aad\<rparr> ct = Inr plaintext"
proof -
  from assms(2) have "pv_Encrypt (mk c) plaintext aad w = (Inr ct, w')"
    by (auto simp: CryptoService_Encrypt_def bindE_Inr_iff)
  with assms(1) show ?thesis
    using decrypt_encrypt encrypt_nonempty by (fastforce simp: CryptoService_Decrypt_def)
qed

lemma service_verify_sign:
  assumes "good c" and "CryptoService_Sign \<lparr>cs_provider = mk c, cs_aad = aad\<rparr> data = Inr sig"
  shows "CryptoService_Verify \<lparr>cs_provider = mk c, cs_aad = aad\<rparr> data sig = Inr True"
  using assms verify_sign by (auto simp: CryptoService_Sign_def CryptoService_Verify_def split: if_splits)

lemma service_encrypt_frame:
  "CryptoService_Encrypt \<lparr>cs_provider = mk c, cs_aad = aad\<rparr> plaintext w = (r, w') \<Longrightarrow>
     db w' = db w \<and> stmts w' = stmts w"
  by (auto simp: CryptoService_Encrypt_def bindE_def guardE_def failE_def okE_def
      split: if_splits dest: encrypt_frame)

lemma service_encrypt_keeps: "keeps I (CryptoService_Encrypt \<lparr>cs_provider = mk c, cs_aad = aad\<rparr> plaintext)"
  by (rule preservesI) (metis service_encrypt_frame prod.collapse)

end

text \<open>What the software provider needs of the primitives: AES-GCM opens what it sealed, reads of \<open>crypto/rand\<close> fill the buffer, HKDF gives as many bytes as asked for.\<close>

definition lawful_crypto :: "env \<Rightarrow> bool" where
  "lawful_crypto env \<longleftrightarrow>
     (\<forall>key nonce plaintext aad. gcm_open env key nonce (gcm_seal env key nonce plaintext aad) aad = Some plaintext) \<and>
     (\<forall>k n b. rand_at env k n = Some b \<longrightarrow> length b = n) \<and>
     (\<forall>secret salt info n b. hkdf_sha256 env secret salt info n = Some b \<longrightarrow> length b = n)"

lemma Software_Encrypt_Inr:
  "Software_Encrypt env mk pt aad w = (Inr ct, w') \<Longrightarrow>
     \<exists>nonce. rand_at env (rands w) gcm_NonceSize = Some nonce \<and>
       aes_NewCipher (deriveKey env mk ''encryption'' [] 32) = Inr (deriveKey env mk ''encryption'' [] 32) \<and>
       ct = \<lparr>ct_Data = nonce @ gcm_seal env (deriveKey env mk ''encryption'' [] 32) nonce pt aad, ct_KeyVersion = ''v1''\<rparr>"
  by (auto simp: Software_Encrypt_def bindE_Inr_iff randE_def aes_NewCipher_def Let_def
      split: option.splits if_splits)

lemma Software_decrypt_encrypt:
  assumes "lawful_crypto env" and "Software_Encrypt env mk pt aad w = (Inr ct, w')"
  shows "Software_Decrypt env mk ct aad = Inr pt \<and> ct_Data ct \<noteq> []"
proof -
  from Software_Encrypt_Inr [OF assms(2)] obtain nonce where
    n: "rand_at env (rands w) gcm_NonceSize = Some nonce"
    "aes_NewCipher (deriveKey env mk ''encryption'' [] 32) = Inr (deriveKey env mk ''encryption'' [] 32)"
    "ct = \<lparr>ct_Data = nonce @ gcm_seal env (deriveKey env mk ''encryption'' [] 32) nonce pt aad, ct_KeyVersion = ''v1''\<rparr>"
    by blast
  with assms(1) have len: "length nonce = gcm_NonceSize" unfolding lawful_crypto_def by blast
  then have "nonce \<noteq> []" by (auto simp: gcm_NonceSize_def)
  with len n assms(1) show ?thesis
    by (auto simp: Software_Decrypt_def Let_def lawful_crypto_def)
qed

lemma Software_Encrypt_frame:
  "Software_Encrypt env mk pt aad w = (r, w') \<Longrightarrow> db w' = db w \<and> stmts w' = stmts w"
  by (auto simp: Software_Encrypt_def Let_def eff_simps randE_def aes_NewCipher_def
      split: option.splits if_splits prod.splits sum.splits)

interpretation software: crypto_provider "\<lambda>(env, mk, ak). SoftwareProvider env mk ak" "\<lambda>(env, mk, ak). lawful_crypto env"
  by unfold_locales
    (auto simp: SoftwareProvider_def Software_Sign_def Software_Verify_def
      dest: Software_decrypt_encrypt Software_Encrypt_frame)

interpretation stub: crypto_provider "\<lambda>(env, mk, ak). StubHSMProvider env mk ak" "\<lambda>(env, mk, ak). lawful_crypto env"
  by unfold_locales
    (auto simp: StubHSMProvider_def SoftwareProvider_def Stub_Sign_def Stub_Verify_def
      Software_Sign_def Software_Verify_def Let_def
      dest: Software_decrypt_encrypt Software_Encrypt_frame)

end
