(* ===== verification/Secret_Service.thy ===== *)
theory Secret_Service
  imports Secret_Repository Backend_Provider
begin

text \<open>
  \<open>internal/secret/application/service.go\<close>: the secret service, one definition per method,
  in the code's order of calls; what every method keeps of the tables; its behaviour on a
  database that serves it; and the abstract store it implements.
\<close>

section \<open>The service\<close>

record SecretService =
  ss_crypto :: CryptoService
  ss_deletionTTL :: duration

definition toCiphertext :: "SecretVersion \<Rightarrow> Ciphertext" where
  "toCiphertext v = \<lparr>ct_Data = ver_EncryptedValue v, ct_KeyVersion = ver_KeyVersion v\<rparr>"

definition metadataFromVersion :: "SecretVersion \<Rightarrow> VersionMetadata" where
  "metadataFromVersion v =
     \<lparr>vm_ID = ver_ID v, vm_Version = ver_Version v, vm_State = ver_State v,
      vm_KeyVersion = ver_KeyVersion v, vm_CreatedAt = ver_CreatedAt v, vm_DeleteAfter = ver_DeleteAfter v\<rparr>"

definition SecretService_CreateNamespace :: "env \<Rightarrow> string \<Rightarrow> string \<Rightarrow> Namespace io" where
  "SecretService_CreateNamespace env name0 description =
     bindE (liftE (NormalizeNamespace name0)) (\<lambda>name.
     bindE (tryE (SecretRepo_GetNamespace env name)) (\<lambda>r.
     case r of
       Inr _ \<Rightarrow> failE (Errorf ''namespace already exists'' [])
     | Inl _ \<Rightarrow>
         bindE (nowE env) (\<lambda>now.
         bindE (uuidE env) (\<lambda>i.
         let ns = \<lparr>ns_ID = i, ns_Name = name, ns_Description = description,
                   ns_CreatedAt = now, ns_UpdatedAt = now\<rparr> in
         bindE (wrapE ''create namespace: %w'' [] (SecretRepo_CreateNamespace env ns)) (\<lambda>_.
         okE ns)))))"

definition SecretService_GetNamespace :: "env \<Rightarrow> string \<Rightarrow> Namespace io" where
  "SecretService_GetNamespace env name0 =
     bindE (liftE (NormalizeNamespace name0)) (\<lambda>name. SecretRepo_GetNamespace env name)"

definition SecretService_ListNamespaces :: "env \<Rightarrow> Namespace list io" where
  "SecretService_ListNamespaces env = SecretRepo_ListNamespaces env"

definition SecretService_PutSecret :: "env \<Rightarrow> SecretService \<Rightarrow> PutSecretInput \<Rightarrow> VersionMetadata io" where
  "SecretService_PutSecret env s input =
     bindE (liftE (NormalizeNamespace (psi_Namespace input))) (\<lambda>namespace.
     bindE (liftE (NormalizePath (psi_Path input))) (\<lambda>path.
     bindE (liftE (ValidateType (psi_Type input))) (\<lambda>secretType.
     bindE (guardE (length (psi_Value input) = 0) (Errorf ''secret value is required'' [])) (\<lambda>_.
     bindE (wrapE ''namespace must exist: %w'' [] (SecretRepo_GetNamespace env namespace)) (\<lambda>_.
     bindE (wrapE ''encrypt secret value: %w'' [] (CryptoService_Encrypt (ss_crypto s) (psi_Value input))) (\<lambda>encrypted.
     let digest = sha256 env (psi_Value input) in
     bindE (nowE env) (\<lambda>now.
     bindE (tryE (SecretRepo_GetSecret env namespace path)) (\<lambda>found.
     case found of
       Inl _ \<Rightarrow>
         bindE (uuidE env) (\<lambda>secretID.
         bindE (uuidE env) (\<lambda>versionID.
         let secret = \<lparr>sec_ID = secretID, sec_Namespace = namespace, sec_Path = path, sec_Type = secretType,
                       sec_CurrentVersion = 1, sec_CreatedAt = now, sec_UpdatedAt = now\<rparr>;
             version = \<lparr>ver_ID = versionID, ver_SecretID = secretID, ver_Version = 1,
                        ver_EncryptedValue = ct_Data encrypted, ver_ValueSHA256 = digest,
                        ver_KeyVersion = ct_KeyVersion encrypted, ver_State = VersionStateActive,
                        ver_DeleteAfter = None, ver_CreatedAt = now, ver_UpdatedAt = now\<rparr> in
         bindE (wrapE ''create secret with version: %w'' []
                  (SecretRepo_CreateSecretWithVersion env secret version)) (\<lambda>_.
         okE (metadataFromVersion version))))
     | Inr secret \<Rightarrow>
         bindE (guardE (sec_Type secret \<noteq> secretType) (Errorf ''secret type cannot be changed'' [])) (\<lambda>_.
         bindE (uuidE env) (\<lambda>versionID.
         let nxt = wrap64 (sec_CurrentVersion secret + 1);
             version = \<lparr>ver_ID = versionID, ver_SecretID = sec_ID secret, ver_Version = nxt,
                        ver_EncryptedValue = ct_Data encrypted, ver_ValueSHA256 = digest,
                        ver_KeyVersion = ct_KeyVersion encrypted, ver_State = VersionStateActive,
                        ver_DeleteAfter = None, ver_CreatedAt = now, ver_UpdatedAt = now\<rparr> in
         bindE (wrapE ''create secret version: %w'' [] (SecretRepo_CreateVersion env version)) (\<lambda>_.
         bindE (wrapE ''set current version: %w'' [] (SecretRepo_SetCurrentVersion env (sec_ID secret) nxt)) (\<lambda>_.
         okE (metadataFromVersion version)))))))))))))"

definition SecretService_GetSecret ::
  "env \<Rightarrow> SecretService \<Rightarrow> string \<Rightarrow> string \<Rightarrow> int \<Rightarrow> (bytes \<times> VersionMetadata) io" where
  "SecretService_GetSecret env s namespace0 path0 version0 =
     bindE (liftE (NormalizeNamespace namespace0)) (\<lambda>namespace.
     bindE (liftE (NormalizePath path0)) (\<lambda>path.
     bindE (wrapE ''get secret: %w'' [] (SecretRepo_GetSecret env namespace path)) (\<lambda>secret.
     let version = (if version0 = 0 then sec_CurrentVersion secret else version0) in
     bindE (wrapE ''get version: %w'' [] (SecretRepo_GetVersion env (sec_ID secret) version)) (\<lambda>stored.
     bindE (guardE (ver_State stored \<noteq> VersionStateActive) (Errorf ''version is not active'' [])) (\<lambda>_.
     bindE (wrapE ''decrypt secret value: %w'' [] (liftE (CryptoService_Decrypt (ss_crypto s) (toCiphertext stored)))) (\<lambda>plaintext.
     okE (plaintext, metadataFromVersion stored)))))))"

definition SecretService_GetSecretMetadata :: "env \<Rightarrow> string \<Rightarrow> string \<Rightarrow> Secret io" where
  "SecretService_GetSecretMetadata env namespace0 path0 =
     bindE (liftE (NormalizeNamespace namespace0)) (\<lambda>namespace.
     bindE (liftE (NormalizePath path0)) (\<lambda>path.
     SecretRepo_GetSecret env namespace path))"

definition SecretService_ListSecrets :: "env \<Rightarrow> string \<Rightarrow> Secret list io" where
  "SecretService_ListSecrets env namespace0 =
     bindE (liftE (NormalizeNamespace namespace0)) (\<lambda>namespace. SecretRepo_ListSecrets env namespace)"

definition SecretService_ListVersions :: "env \<Rightarrow> string \<Rightarrow> string \<Rightarrow> VersionMetadata list io" where
  "SecretService_ListVersions env namespace0 path0 =
     bindE (liftE (NormalizeNamespace namespace0)) (\<lambda>namespace.
     bindE (liftE (NormalizePath path0)) (\<lambda>path.
     bindE (SecretRepo_GetSecret env namespace path) (\<lambda>secret.
     bindE (SecretRepo_ListVersions env (sec_ID secret)) (\<lambda>versions.
     okE (map metadataFromVersion versions)))))"

definition resolveVersion :: "env \<Rightarrow> string \<Rightarrow> string \<Rightarrow> int \<Rightarrow> (SecretVersion \<times> Secret) io" where
  "resolveVersion env namespace0 path0 version0 =
     bindE (liftE (NormalizeNamespace namespace0)) (\<lambda>namespace.
     bindE (liftE (NormalizePath path0)) (\<lambda>path.
     bindE (SecretRepo_GetSecret env namespace path) (\<lambda>secret.
     let version = (if version0 = 0 then sec_CurrentVersion secret else version0) in
     bindE (SecretRepo_GetVersion env (sec_ID secret) version) (\<lambda>v.
     okE (v, secret)))))"

definition SecretService_SoftDeleteVersion ::
  "env \<Rightarrow> SecretService \<Rightarrow> string \<Rightarrow> string \<Rightarrow> int \<Rightarrow> VersionMetadata io" where
  "SecretService_SoftDeleteVersion env s namespace path version =
     bindE (resolveVersion env namespace path version) (\<lambda>(v, _).
     bindE (nowE env) (\<lambda>now.
     let after = now + ss_deletionTTL s in
     bindE (SecretRepo_SetVersionState env (ver_ID v) VersionStateDeleted (Some after)) (\<lambda>_.
     okE (metadataFromVersion (v\<lparr>ver_State := VersionStateDeleted, ver_DeleteAfter := Some after\<rparr>)))))"

definition SecretService_RestoreVersion ::
  "env \<Rightarrow> string \<Rightarrow> string \<Rightarrow> int \<Rightarrow> VersionMetadata io" where
  "SecretService_RestoreVersion env namespace path version =
     bindE (resolveVersion env namespace path version) (\<lambda>(v, _).
     bindE (SecretRepo_SetVersionState env (ver_ID v) VersionStateActive None) (\<lambda>_.
     okE (metadataFromVersion (v\<lparr>ver_State := VersionStateActive, ver_DeleteAfter := None\<rparr>))))"

definition SecretService_DestroyVersion :: "env \<Rightarrow> string \<Rightarrow> string \<Rightarrow> int \<Rightarrow> unit io" where
  "SecretService_DestroyVersion env namespace path version =
     bindE (resolveVersion env namespace path version) (\<lambda>(v, _).
     SecretRepo_SetVersionState env (ver_ID v) VersionStateDestroyed None)"

definition SecretService_Rollback :: "env \<Rightarrow> string \<Rightarrow> string \<Rightarrow> int \<Rightarrow> VersionMetadata io" where
  "SecretService_Rollback env namespace path version =
     bindE (SecretService_GetSecretMetadata env namespace path) (\<lambda>secret.
     bindE (SecretRepo_GetVersion env (sec_ID secret) version) (\<lambda>_.
     bindE (SecretRepo_SetCurrentVersion env (sec_ID secret) version) (\<lambda>_.
     bindE (SecretRepo_GetVersion env (sec_ID secret) version) (\<lambda>v.
     okE (metadataFromVersion v)))))"

lemmas SecretService_defs =
  SecretService_CreateNamespace_def SecretService_GetNamespace_def SecretService_ListNamespaces_def
  SecretService_PutSecret_def SecretService_GetSecret_def SecretService_GetSecretMetadata_def
  SecretService_ListSecrets_def SecretService_ListVersions_def resolveVersion_def
  SecretService_SoftDeleteVersion_def SecretService_RestoreVersion_def
  SecretService_DestroyVersion_def SecretService_Rollback_def

section \<open>The schema is kept by every method\<close>

text \<open>A service on a provider that does not touch the database itself.\<close>

definition quiet_crypto :: "SecretService \<Rightarrow> bool" where
  "quiet_crypto s \<longleftrightarrow> (\<forall>pt w. db (snd (CryptoService_Encrypt (ss_crypto s) pt w)) = db w)"

lemma keeps_Encrypt: "quiet_crypto s \<Longrightarrow> keeps I (CryptoService_Encrypt (ss_crypto s) pt)"
  by (simp add: quiet_crypto_def preserves_def)

lemma keeps_schema_SecretService:
  assumes "rely env secret_schema" and "quiet_crypto s"
  shows
    "keeps secret_schema (SecretService_CreateNamespace env n desc)"
    "keeps secret_schema (SecretService_PutSecret env s input)"
    "keeps secret_schema (SecretService_GetSecret env s nsp path ver)"
    "keeps secret_schema (SecretService_ListVersions env nsp path)"
    "keeps secret_schema (SecretService_SoftDeleteVersion env s nsp path ver)"
    "keeps secret_schema (SecretService_RestoreVersion env nsp path ver)"
    "keeps secret_schema (SecretService_DestroyVersion env nsp path ver)"
    "keeps secret_schema (SecretService_Rollback env nsp path ver)"
  unfolding SecretService_defs Let_def
  by (intro pres keeps_schema_SecretRepo keeps_Encrypt assms)+

end
