(* ===== verification/Secret_Safety.thy ===== *)
theory Secret_Safety
  imports Secret_Service
begin

text \<open>
  What the secret service keeps true of the tables whatever the database does to its
  statements and whatever others do between them: creating a secret is atomic, and the
  current version of every secret exists.
\<close>

section \<open>Creating a secret is atomic\<close>

definition with_secret :: "Secret \<Rightarrow> SecretVersion \<Rightarrow> tables \<Rightarrow> tables" where
  "with_secret s v d = d\<lparr>secrets := secrets d @ [s], secret_versions := secret_versions d @ [v]\<rparr>"

definition fresh_secret :: "Secret \<Rightarrow> SecretVersion \<Rightarrow> tables \<Rightarrow> bool" where
  "fresh_secret s v d \<longleftrightarrow>
     sec_ID s \<notin> sec_ID ` set (secrets d) \<and> sec_key s \<notin> sec_key ` set (secrets d) \<and>
     ver_ID v \<notin> ver_ID ` set (secret_versions d) \<and> ver_key v \<notin> ver_key ` set (secret_versions d)"

lemma sec_key_store [simp]: "sec_key (store_Secret env s) = sec_key s"
  by (simp add: sec_key_def)

lemma ver_key_store [simp]: "ver_key (store_Version env v) = ver_key v"
  by (simp add: ver_key_def)

lemma secret_body_Inr:
  assumes "bindE (wrapE m [] (sql_tx env (insert_secret (store_Secret env s)))) (\<lambda>_. insertVersion env v) w = (Inr u, w')"
  shows "fresh_secret s v (db w) \<and> db w' = with_secret (store_Secret env s) (store_Version env v) (db w)"
proof -
  from assms have "\<exists>d1. insert_secret (store_Secret env s) (db w) = (Inr (), d1) \<and>
      insert_version (store_Version env v) d1 = (Inr (), db w')"
    by (auto simp: bindE_Inr_iff insertVersion_def dest!: sql_tx_Inr)
  then show ?thesis
    by (auto simp: insert_secret_def insert_version_def insert_stmt_Inr_iff list_ex_iff
        fresh_secret_def with_secret_def)
qed

lemma sql_tx_seq: "audit_seq (snd (f (db w))) = audit_seq (db w) \<Longrightarrow>
    audit_seq (db (snd (sql_tx env f w))) = audit_seq (db w)"
  by (simp add: sql_tx_def Let_def split: outcome.splits)

lemma keeps_seq_secret:
  "keeps (\<lambda>d. audit_seq d = n)
     (bindE (wrapE m [] (sql_tx env (insert_secret s))) (\<lambda>_. insertVersion env v))"
  unfolding insertVersion_def
  by (intro pres keeps_sql_tx) (auto simp: keeps_stmt_def insert_secret_def insert_version_def insert_stmt_def)

lemma CreateSecretWithVersion_cases:
  assumes "SecretRepo_CreateSecretWithVersion env s v w = (r, w')"
  shows "let d = rival_at env (stmts w) (db w) in
    db w' = d \<or> fresh_secret s v d \<and> db w' = with_secret (store_Secret env s) (store_Version env v) d"
proof -
  let ?body = "bindE (wrapE ''insert secret: %w'' [] (sql_tx env (insert_secret (store_Secret env s)))) (\<lambda>_.
        insertVersion env v)"
  from assms obtain w1 where w1: "db w1 = rival_at env (stmts w) (db w)"
    and c: "db w' = db w1 \<or> (\<exists>r' w2. ?body w1 = (r', w2) \<and>
      (db w' = rollback (db w1) (db w2) \<or> db w' = db w2 \<and> (\<exists>x. r' = Inr x)))"
    unfolding SecretRepo_CreateSecretWithVersion_def by (rule transaction_cases)
  have "rollback (db w1) (db w2) = db w1" if "?body w1 = (r', w2)" for r' w2
    using preserves_run [OF keeps_seq_secret refl that] by (simp add: rollback_def)
  with c w1 show ?thesis using secret_body_Inr by (fastforce simp: Let_def)
qed

section \<open>The current version exists\<close>

definition version_keys :: "tables \<Rightarrow> (uuid \<times> int) set" where
  "version_keys d = ver_key ` set (secret_versions d)"

definition current_exists :: "tables \<Rightarrow> bool" where
  "current_exists d \<longleftrightarrow> (\<forall>s \<in> set (secrets d). (sec_ID s, sec_CurrentVersion s) \<in> version_keys d)"

definition secret_inv :: "tables \<Rightarrow> bool" where
  "secret_inv d \<longleftrightarrow> secret_schema d \<and> current_exists d"

text \<open>Others keep the invariant and delete no version, as this program never does.\<close>

definition secret_rely :: "env \<Rightarrow> bool" where
  "secret_rely env \<longleftrightarrow> rely env secret_inv \<and> (\<forall>n d. version_keys d \<subseteq> version_keys (rival_at env n d))"

lemma secret_rely_served: "served env \<Longrightarrow> secret_rely env"
  by (simp add: secret_rely_def rely_served served_def)

lemma keeps_stmt_conj: "keeps_stmt I f \<Longrightarrow> keeps_stmt J f \<Longrightarrow> keeps_stmt (\<lambda>d. I d \<and> J d) f"
  by (simp add: keeps_stmt_def)

lemma keeps_current_stmts:
  "keeps_stmt current_exists (insert_namespace n)"
  "keeps_stmt current_exists (insert_version v)"
  "keeps_stmt current_exists (update_version_state i st da now)"
  "keeps_stmt current_exists (select_namespace name)"
  "keeps_stmt current_exists (select_secret k)"
  "keeps_stmt current_exists (select_version k')"
  unfolding insert_namespace_def insert_version_def update_version_state_def
    select_namespace_def select_secret_def select_version_def
  by (rule keeps_insert_stmt keeps_update_stmt keeps_select_row;
      auto simp: current_exists_def version_keys_def update_where_keyset ver_key_def image_iff)+

lemma keeps_inv_stmts:
  "keeps_stmt secret_inv (insert_namespace n)"
  "keeps_stmt secret_inv (insert_version v)"
  "keeps_stmt secret_inv (update_version_state i st da now)"
  "keeps_stmt secret_inv (select_namespace name)"
  "keeps_stmt secret_inv (select_secret k)"
  "keeps_stmt secret_inv (select_version k')"
  unfolding secret_inv_def by (intro keeps_stmt_conj pres keeps_current_stmts)+

lemma update_current_keeps:
  assumes "secret_inv d" and "(i, n) \<in> version_keys d"
  shows "secret_inv (snd (update_current_version i n now d))"
proof -
  have "secret_schema (snd (update_current_version i n now d))"
    using assms(1) keeps_schema_update_current_version by (auto simp: secret_inv_def keeps_stmt_def)
  with assms show ?thesis
    by (auto simp: secret_inv_def current_exists_def version_keys_def update_current_version_def update_where_def)
qed

lemma keeps_inv_SecretRepo:
  assumes "secret_rely env"
  shows
    "keeps secret_inv (SecretRepo_CreateNamespace env ns)"
    "keeps secret_inv (SecretRepo_GetNamespace env name)"
    "keeps secret_inv (SecretRepo_GetSecret env nsp path)"
    "keeps secret_inv (SecretRepo_CreateVersion env v)"
    "keeps secret_inv (SecretRepo_GetVersion env i n)"
    "keeps secret_inv (SecretRepo_SetVersionState env i st da)"
  using assms unfolding SecretRepo_defs secret_rely_def
  by (auto intro!: pres keeps_sql keeps_inv_stmts)

lemma keeps_inv_SetCurrentVersion:
  assumes "secret_rely env"
  shows "secret_inv (db w) \<Longrightarrow> (i, n) \<in> version_keys (db w) \<Longrightarrow>
    secret_inv (db (snd (SecretRepo_SetCurrentVersion env i n w)))"
proof -
  assume I: "secret_inv (db w)" and k: "(i, n) \<in> version_keys (db w)"
  let ?d = "rival_at env (stmts w) (db w)"
  from assms I k have "secret_inv ?d" "(i, n) \<in> version_keys ?d"
    unfolding secret_rely_def rely_def by blast+
  then show ?thesis using update_current_keeps
    by (auto simp: SecretRepo_SetCurrentVersion_def bindE_def nowE_def wrapE_def sql_def Let_def
        split: outcome.splits prod.splits sum.splits)
qed

lemma keeps_inv_CreateSecretWithVersion:
  assumes "secret_rely env" and "ver_SecretID v = sec_ID s" and "ver_Version v = sec_CurrentVersion s"
  shows "keeps secret_inv (SecretRepo_CreateSecretWithVersion env s v)"
proof (rule preservesI)
  fix w :: world assume I: "secret_inv (db w)"
  let ?d = "rival_at env (stmts w) (db w)"
  from I assms(1) have d: "secret_inv ?d" by (auto simp: secret_rely_def rely_def)
  have "secret_inv (with_secret (store_Secret env s) (store_Version env v) ?d)" if "fresh_secret s v ?d"
    using d that assms(2,3)
    by (auto simp: secret_inv_def secret_schema_def current_exists_def version_keys_def with_secret_def
        fresh_secret_def distinct_map_snoc ver_key_def)
  then show "secret_inv (db (snd (SecretRepo_CreateSecretWithVersion env s v w)))"
    using CreateSecretWithVersion_cases [of env s v w] d
    by (auto simp: Let_def) (metis prod.collapse)
qed

lemma version_key_kept:
  "SecretRepo_CreateVersion env v w = (Inr u, w') \<Longrightarrow> ver_key v \<in> version_keys (db w')"
  "SecretRepo_GetVersion env i n w = (Inr x, w') \<Longrightarrow> (i, n) \<in> version_keys (db w')"
  by (auto simp: SecretRepo_CreateVersion_def SecretRepo_GetVersion_def sql_def Let_def version_keys_def
      insert_version_def insert_stmt_def select_version_def select_row_def
      split: outcome.splits if_splits option.splits intro: rev_image_eqI dest!: find_Some_set)

text \<open>A step that establishes a fact about its result, followed by one that needs it.\<close>

lemma keeps_bind_post:
  assumes "keeps I m" and "\<And>w x w'. I (db w) \<Longrightarrow> m w = (Inr x, w') \<Longrightarrow> I (db w') \<Longrightarrow> I (db (snd (f x w')))"
  shows "keeps I (bindE m f)"
proof (rule preservesI)
  fix w :: world assume I: "I (db w)"
  obtain r w1 where m: "m w = (r, w1)" by force
  have "I (db w1)" using assms(1) I m by (rule preserves_run)
  then show "I (db (snd (bindE m f w)))"
    using assms(2) [OF I] m by (cases r) (auto simp: bindE_def)
qed

lemma keeps_inv_version_then_current:
  assumes "secret_rely env" and "ver_key v = (i, n)"
  shows "keeps secret_inv
    (bindE (wrapE a [] (SecretRepo_CreateVersion env v)) (\<lambda>_.
     bindE (wrapE b [] (SecretRepo_SetCurrentVersion env i n)) (\<lambda>_. okE x)))"
proof (rule keeps_bind_post)
  show "keeps secret_inv (wrapE a [] (SecretRepo_CreateVersion env v))"
    by (intro pres keeps_inv_SecretRepo assms)
  fix w y w' assume "wrapE a [] (SecretRepo_CreateVersion env v) w = (Inr y, w')" and I: "secret_inv (db w')"
  then have "(i, n) \<in> version_keys (db w')" using version_key_kept(1) assms(2) by fastforce
  with I have "secret_inv (db (snd (SecretRepo_SetCurrentVersion env i n w')))"
    by (rule keeps_inv_SetCurrentVersion [OF assms(1)])
  then show "secret_inv (db (snd (bindE (wrapE b [] (SecretRepo_SetCurrentVersion env i n)) (\<lambda>_. okE x) w')))"
    by (auto simp: bindE_def wrapE_def okE_def split: prod.splits sum.splits)
qed

lemma keeps_inv_PutSecret:
  assumes "secret_rely env" and "quiet_crypto s"
  shows "keeps secret_inv (SecretService_PutSecret env s input)"
  unfolding SecretService_PutSecret_def Let_def
  by (intro pres keeps_inv_SecretRepo keeps_Encrypt keeps_inv_version_then_current
      keeps_inv_CreateSecretWithVersion assms) (simp_all add: ver_key_def)

lemma keeps_inv_resolve: "secret_rely env \<Longrightarrow> keeps secret_inv (resolveVersion env nsp path ver)"
  unfolding resolveVersion_def Let_def by (intro pres keeps_inv_SecretRepo)

lemma keeps_inv_Rollback:
  assumes "secret_rely env"
  shows "keeps secret_inv (SecretService_Rollback env nsp path ver)"
proof -
  have tail: "keeps secret_inv
    (bindE (SecretRepo_GetVersion env i ver) (\<lambda>_.
     bindE (SecretRepo_SetCurrentVersion env i ver) (\<lambda>_.
     bindE (SecretRepo_GetVersion env i ver) (\<lambda>v. okE (metadataFromVersion v)))))" for i
  proof (rule keeps_bind_post)
    show "keeps secret_inv (SecretRepo_GetVersion env i ver)" by (intro keeps_inv_SecretRepo assms)
    fix w y w' assume g: "SecretRepo_GetVersion env i ver w = (Inr y, w')" and I: "secret_inv (db w')"
    have s: "secret_inv (db (snd (SecretRepo_SetCurrentVersion env i ver w')))"
      by (rule keeps_inv_SetCurrentVersion [OF assms I version_key_kept(2) [OF g]])
    have k: "keeps secret_inv (bindE (SecretRepo_GetVersion env i ver) (\<lambda>v. okE (metadataFromVersion v)))"
      by (intro pres keeps_inv_SecretRepo assms)
    show "secret_inv (db (snd (bindE (SecretRepo_SetCurrentVersion env i ver) (\<lambda>_.
       bindE (SecretRepo_GetVersion env i ver) (\<lambda>v. okE (metadataFromVersion v))) w')))"
      using s k by (cases "SecretRepo_SetCurrentVersion env i ver w'")
        (auto simp: bindE_def [of "SecretRepo_SetCurrentVersion env i ver"] preserves_def split: sum.splits)
  qed
  show ?thesis
    unfolding SecretService_Rollback_def SecretService_GetSecretMetadata_def
    by (rule preserves_bindE [OF _ tail]) (intro pres keeps_inv_SecretRepo assms)
qed

end
