(* ===== verification/Secret_Store.thy ===== *)
theory Secret_Store
  imports Secret_Safety
begin

text \<open>
  The store the secret service promises to its callers: a map from namespace and path to a
  type, a current version number and the versions, each with its ciphertext, key version,
  state and deletion time. \<open>abs_store\<close> reads it off the tables; every method of the
  service, on a database that serves it, is the corresponding operation of the map, and a
  method that returns an error leaves the map as it was.
\<close>

section \<open>The abstract store\<close>

record stored =
  st_type :: SecretType
  st_current :: int
  st_versions :: "int \<rightharpoonup> bytes \<times> string \<times> VersionState \<times> time option"

type_synonym store = "string \<times> string \<rightharpoonup> stored"

definition version_view :: "SecretVersion \<Rightarrow> bytes \<times> string \<times> VersionState \<times> time option" where
  "version_view v = (ver_EncryptedValue v, ver_KeyVersion v, ver_State v, ver_DeleteAfter v)"

definition versions_of :: "tables \<Rightarrow> uuid \<Rightarrow> int \<rightharpoonup> bytes \<times> string \<times> VersionState \<times> time option" where
  "versions_of d i n = map_option version_view (find (\<lambda>v. ver_key v = (i, n)) (secret_versions d))"

definition secret_view :: "tables \<Rightarrow> Secret \<Rightarrow> stored" where
  "secret_view d s =
     \<lparr>st_type = sec_Type s, st_current = sec_CurrentVersion s, st_versions = versions_of d (sec_ID s)\<rparr>"

definition abs_store :: "tables \<Rightarrow> store" where
  "abs_store d k = map_option (secret_view d) (find (\<lambda>s. sec_key s = k) (secrets d))"

text \<open>The operations of the store. \<open>None\<close>: the operation is refused.\<close>

definition abs_put :: "string \<times> string \<Rightarrow> SecretType \<Rightarrow> Ciphertext \<Rightarrow> store \<Rightarrow> store option" where
  "abs_put k ty ct \<sigma> =
     (let new = (ct_Data ct, ct_KeyVersion ct, VersionStateActive, None) in
      case \<sigma> k of
        None \<Rightarrow> Some (\<sigma>(k \<mapsto> \<lparr>st_type = ty, st_current = 1, st_versions = [1 \<mapsto> new]\<rparr>))
      | Some a \<Rightarrow>
          (let n = wrap64 (st_current a + 1) in
           if st_type a \<noteq> ty \<or> st_versions a n \<noteq> None then None
           else Some (\<sigma>(k \<mapsto> a\<lparr>st_current := n, st_versions := (st_versions a)(n \<mapsto> new)\<rparr>))))"

definition abs_version :: "stored \<Rightarrow> int \<Rightarrow> int" where
  "abs_version a version = (if version = 0 then st_current a else version)"

definition abs_set_state ::
  "string \<times> string \<Rightarrow> int \<Rightarrow> VersionState \<Rightarrow> time option \<Rightarrow> store \<Rightarrow> store option" where
  "abs_set_state k version st da \<sigma> =
     (case \<sigma> k of
        None \<Rightarrow> None
      | Some a \<Rightarrow>
          (case st_versions a (abs_version a version) of
             None \<Rightarrow> None
           | Some (data, kv, _, _) \<Rightarrow>
               Some (\<sigma>(k \<mapsto> a\<lparr>st_versions := (st_versions a)(abs_version a version \<mapsto> (data, kv, st, da))\<rparr>))))"

definition abs_rollback :: "string \<times> string \<Rightarrow> int \<Rightarrow> store \<Rightarrow> store option" where
  "abs_rollback k version \<sigma> =
     (case \<sigma> k of
        None \<Rightarrow> None
      | Some a \<Rightarrow> if st_versions a version = None then None
                  else Some (\<sigma>(k \<mapsto> a\<lparr>st_current := version\<rparr>)))"

section \<open>What the statements do to the store\<close>

lemma schemaD:
  assumes "secret_schema d"
  shows "distinct (map sec_ID (secrets d))" "distinct (map sec_key (secrets d))"
    "distinct (map ver_key (secret_versions d))" "distinct (map ver_ID (secret_versions d))"
    "ver_SecretID ` set (secret_versions d) \<subseteq> sec_ID ` set (secrets d)"
  using assms by (simp_all add: secret_schema_def)

lemma distinct_key_eq: "distinct (map k xs) \<Longrightarrow> x \<in> set xs \<Longrightarrow> y \<in> set xs \<Longrightarrow> k x = k y \<Longrightarrow> x = y"
  by (metis distinct_map inj_onD)

lemma abs_store_row:
  "secret_schema d \<Longrightarrow> s \<in> set (secrets d) \<Longrightarrow> abs_store d (sec_key s) = Some (secret_view d s)"
  by (simp add: abs_store_def find_key_unique schemaD)

lemma versions_of_row:
  "secret_schema d \<Longrightarrow> v \<in> set (secret_versions d) \<Longrightarrow>
     versions_of d (ver_SecretID v) (ver_Version v) = Some (version_view v)"
  using find_key_unique [of ver_key "secret_versions d" v]
  by (simp add: versions_of_def schemaD) (simp add: ver_key_def)

lemma versions_of_unknown:
  "secret_schema d \<Longrightarrow> i \<notin> sec_ID ` set (secrets d) \<Longrightarrow> versions_of d i = Map.empty"
  by (rule ext) (use schemaD(5) in \<open>fastforce simp: versions_of_def ver_key_def find_None_set\<close>)

lemma abs_with_secret:
  assumes d: "secret_schema d" and f: "fresh_secret s v d" and v: "ver_SecretID v = sec_ID s"
  shows "abs_store (with_secret s v d) = (abs_store d)(sec_key s \<mapsto>
    \<lparr>st_type = sec_Type s, st_current = sec_CurrentVersion s, st_versions = [ver_Version v \<mapsto> version_view v]\<rparr>)"
proof (rule ext)
  fix k
  have new: "versions_of (with_secret s v d) (sec_ID s) = [ver_Version v \<mapsto> version_view v]"
    using versions_of_unknown [OF d, of "sec_ID s"] f v
    by (auto simp: fun_eq_iff versions_of_def with_secret_def find_append ver_key_def fresh_secret_def
        split: option.splits)
  have "sec_ID r \<noteq> sec_ID s" if "r \<in> set (secrets d)" for r
    using that f unfolding fresh_secret_def by (metis imageI)
  then have old: "secret_view (with_secret s v d) r = secret_view d r" if "r \<in> set (secrets d)" for r
    using that v
    by (fastforce simp: fun_eq_iff secret_view_def versions_of_def with_secret_def find_append ver_key_def
        split: option.splits)
  have none: "find (\<lambda>r. sec_key r = sec_key s) (secrets d) = None"
    using f unfolding find_None_set fresh_secret_def by (metis imageI)
  have find': "find (\<lambda>r. sec_key r = k) (secrets (with_secret s v d)) =
      (if k = sec_key s then Some s else find (\<lambda>r. sec_key r = k) (secrets d))"
    using none by (simp add: with_secret_def find_append split: option.splits)
  show "abs_store (with_secret s v d) k = ((abs_store d)(sec_key s \<mapsto>
    \<lparr>st_type = sec_Type s, st_current = sec_CurrentVersion s, st_versions = [ver_Version v \<mapsto> version_view v]\<rparr>)) k"
  proof (cases "k = sec_key s")
    case True
    then show ?thesis using new find' by (simp add: abs_store_def secret_view_def)
  next
    case False
    then show ?thesis using old
      by (cases "find (\<lambda>r. sec_key r = k) (secrets d)") (auto simp: abs_store_def find' dest: find_Some_set)
  qed
qed

lemma find_update_one:
  assumes i: "distinct (map i xs)" and k: "distinct (map key xs)" and s: "s \<in> set xs"
    and f: "\<And>r. key (f r) = key r"
  shows "find (\<lambda>r. key r = k) (update_where (\<lambda>r. i r = i s) f xs) =
    (if k = key s then Some (f s) else find (\<lambda>r. key r = k) xs)"
proof -
  have upd: "find (\<lambda>r. key r = k) (update_where (\<lambda>r. i r = i s) f xs) =
      map_option (\<lambda>r. if i r = i s then f r else r) (find (\<lambda>r. key r = k) xs)"
    unfolding update_where_def by (rule find_map_upd) (simp add: f)
  show ?thesis
  proof (cases "k = key s")
    case True
    then show ?thesis using find_key_unique [OF k s] upd by simp
  next
    case False
    have "i r \<noteq> i s" if "find (\<lambda>r. key r = k) xs = Some r" for r
      using find_Some_set [OF that] distinct_key_eq [OF i _ s, of r] False by blast
    with False show ?thesis by (cases "find (\<lambda>r. key r = k) xs") (simp_all add: upd)
  qed
qed

lemma abs_update_current:
  assumes d: "secret_schema d" and s: "s \<in> set (secrets d)"
  shows "abs_store (snd (update_current_version (sec_ID s) n now d)) =
    (abs_store d)(sec_key s \<mapsto> (secret_view d s)\<lparr>st_current := n\<rparr>)"
proof -
  let ?d' = "snd (update_current_version (sec_ID s) n now d)"
  let ?f = "\<lambda>r. r\<lparr>sec_CurrentVersion := n, sec_UpdatedAt := now\<rparr>"
  have find': "find (\<lambda>r. sec_key r = k) (secrets ?d') =
      (if k = sec_key s then Some (?f s) else find (\<lambda>r. sec_key r = k) (secrets d))" for k
    using find_update_one [OF schemaD(1,2) [OF d] s, of ?f k]
    by (simp add: update_current_version_def sec_key_def)
  have "versions_of ?d' = versions_of d"
    by (simp add: fun_eq_iff versions_of_def update_current_version_def)
  then have view: "secret_view ?d' = secret_view d" by (simp add: fun_eq_iff secret_view_def)
  show ?thesis
  proof (rule ext)
    fix k
    show "abs_store ?d' k = ((abs_store d)(sec_key s \<mapsto> (secret_view d s)\<lparr>st_current := n\<rparr>)) k"
      using view by (cases "k = sec_key s") (simp_all add: abs_store_def find', simp add: secret_view_def)
  qed
qed

text \<open>A statement that changes versions of one secret only.\<close>

lemma abs_store_versions:
  assumes d: "secret_schema d" and s: "s \<in> set (secrets d)" and same: "secrets d' = secrets d"
    and other: "\<And>i. i \<noteq> sec_ID s \<Longrightarrow> versions_of d' i = versions_of d i"
  shows "abs_store d' = (abs_store d)(sec_key s \<mapsto> (secret_view d s)\<lparr>st_versions := versions_of d' (sec_ID s)\<rparr>)"
proof (rule ext)
  fix k
  show "abs_store d' k = ((abs_store d)(sec_key s \<mapsto> (secret_view d s)\<lparr>st_versions := versions_of d' (sec_ID s)\<rparr>)) k"
  proof (cases "k = sec_key s")
    case True
    then show ?thesis using find_key_unique [OF schemaD(2) [OF d] s]
      by (simp add: abs_store_def same secret_view_def)
  next
    case False
    have "sec_ID r \<noteq> sec_ID s" if "find (\<lambda>r. sec_key r = k) (secrets d) = Some r" for r
      using find_Some_set [OF that] distinct_key_eq [OF schemaD(1) [OF d] _ s, of r] False by blast
    with False show ?thesis
      by (cases "find (\<lambda>r. sec_key r = k) (secrets d)") (simp_all add: abs_store_def same secret_view_def other)
  qed
qed

lemma insert_version_InrD:
  assumes "insert_version v d = (Inr u, d')"
  shows "d' = d\<lparr>secret_versions := secret_versions d @ [v]\<rparr>" "\<forall>r \<in> set (secret_versions d). ver_key r \<noteq> ver_key v"
  using assms by (auto simp: insert_version_def insert_stmt_Inr_iff list_ex_iff)

lemma abs_insert_version:
  assumes d: "secret_schema d" and s: "s \<in> set (secrets d)"
    and i: "insert_version v d = (Inr u, d')" and v: "ver_SecretID v = sec_ID s"
  shows "abs_store d' = (abs_store d)(sec_key s \<mapsto> (secret_view d s)
    \<lparr>st_versions := (versions_of d (sec_ID s))(ver_Version v \<mapsto> version_view v)\<rparr>)"
    and "versions_of d (sec_ID s) (ver_Version v) = None" and "secrets d' = secrets d"
proof -
  note d' = insert_version_InrD(1) [OF i]
  from d' show sec: "secrets d' = secrets d" by simp
  from insert_version_InrD(2) [OF i] v show none: "versions_of d (sec_ID s) (ver_Version v) = None"
    by (auto simp: versions_of_def find_None_set ver_key_def)
  have "versions_of d' (sec_ID s) = (versions_of d (sec_ID s))(ver_Version v \<mapsto> version_view v)"
    using v none by (auto simp: fun_eq_iff d' versions_of_def find_append ver_key_def split: option.splits)
  moreover have "versions_of d' j = versions_of d j" if "j \<noteq> sec_ID s" for j
    using v that by (auto simp: fun_eq_iff d' versions_of_def find_append ver_key_def split: option.splits)
  ultimately show "abs_store d' = (abs_store d)(sec_key s \<mapsto> (secret_view d s)
    \<lparr>st_versions := (versions_of d (sec_ID s))(ver_Version v \<mapsto> version_view v)\<rparr>)"
    using abs_store_versions [OF d s sec] by simp
qed

lemma abs_update_state:
  assumes d: "secret_schema d" and s: "s \<in> set (secrets d)" and v: "v \<in> set (secret_versions d)"
    and vs: "ver_SecretID v = sec_ID s"
  shows "abs_store (snd (update_version_state (ver_ID v) st da now d)) = (abs_store d)(sec_key s \<mapsto> (secret_view d s)
    \<lparr>st_versions := (versions_of d (sec_ID s))(ver_Version v \<mapsto> (ver_EncryptedValue v, ver_KeyVersion v, st, da))\<rparr>)"
proof -
  let ?d' = "snd (update_version_state (ver_ID v) st da now d)"
  let ?f = "\<lambda>r. r\<lparr>ver_State := st, ver_DeleteAfter := da, ver_UpdatedAt := now\<rparr>"
  have find': "find (\<lambda>r. ver_key r = k) (secret_versions ?d') =
      (if k = ver_key v then Some (?f v) else find (\<lambda>r. ver_key r = k) (secret_versions d))" for k
    using find_update_one [OF schemaD(4,3) [OF d] v, of ?f k]
    by (simp add: update_version_state_def ver_key_def)
  have "versions_of ?d' (sec_ID s) =
      (versions_of d (sec_ID s))(ver_Version v \<mapsto> (ver_EncryptedValue v, ver_KeyVersion v, st, da))"
    using vs by (simp add: fun_eq_iff versions_of_def find' version_view_def) (simp add: ver_key_def)
  moreover have "versions_of ?d' j = versions_of d j" if "j \<noteq> sec_ID s" for j
    using vs that by (simp add: fun_eq_iff versions_of_def find') (simp add: ver_key_def)
  moreover have "secrets ?d' = secrets d" by (simp add: update_version_state_def)
  ultimately show ?thesis using abs_store_versions [OF d s, of ?d'] by simp
qed

end
