(* ===== verification/Secret_Refinement.thy ===== *)
theory Secret_Refinement
  imports Secret_Store
begin

text \<open>
  The methods of the secret service implement the abstract store: on a database that serves
  every statement and holds the schema's constraints, a method that returns a value made the
  step of the store, and one that returns an error left the database as it was.
\<close>

section \<open>Requests\<close>

definition request_key :: "string \<Rightarrow> string \<Rightarrow> (string \<times> string) option" where
  "request_key namespace path =
     (case (NormalizeNamespace namespace, NormalizePath path) of
        (Inr n, Inr p) \<Rightarrow> Some (n, p) | _ \<Rightarrow> None)"

text \<open>\<open>so\<close> is the step of the store, \<open>None\<close> when it is refused.\<close>

definition implements :: "store option \<Rightarrow> err + 'a \<Rightarrow> world \<Rightarrow> world \<Rightarrow> bool" where
  "implements so r w w' \<longleftrightarrow>
     (case so of None \<Rightarrow> isl r \<and> db w' = db w | Some \<sigma> \<Rightarrow> \<not> isl r \<and> abs_store (db w') = \<sigma>)"

lemma implements_simps [simp]:
  "implements None r w w' \<longleftrightarrow> isl r \<and> db w' = db w"
  "implements (Some \<sigma>) r w w' \<longleftrightarrow> \<not> isl r \<and> abs_store (db w') = \<sigma>"
  by (simp_all add: implements_def)

text \<open>The two lookups of every method, seen from the store.\<close>

lemma find_secret_abs:
  assumes "find (\<lambda>r. sec_key r = k) (secrets d) = Some s"
  shows "s \<in> set (secrets d)" "sec_key s = k" "abs_store d k = Some (secret_view d s)"
  using find_Some_set [OF assms] assms by (auto simp: abs_store_def)

lemma find_version_abs:
  assumes "find (\<lambda>r. ver_key r = (i, n)) (secret_versions d) = Some v"
  shows "v \<in> set (secret_versions d)" "ver_SecretID v = i" "ver_Version v = n"
    "versions_of d i n = Some (version_view v)"
  using find_Some_set [OF assms] assms by (auto simp: versions_of_def ver_key_def)

lemma resolve_served:
  assumes "served env"
  shows "resolveVersion env nsp path version w =
    (case NormalizeNamespace nsp of Inl e \<Rightarrow> (Inl e, w)
     | Inr n \<Rightarrow> (case NormalizePath path of Inl e \<Rightarrow> (Inl e, w)
     | Inr p \<Rightarrow> (case find (\<lambda>r. sec_key r = (n, p)) (secrets (db w)) of
         None \<Rightarrow> (Inl (Wrapf ''secret %s/%s not found: %w'' [n, p] ErrNoRows), stmt_done w)
       | Some s \<Rightarrow> (case find (\<lambda>r. ver_key r = (sec_ID s, if version = 0 then sec_CurrentVersion s else version))
                        (secret_versions (db w)) of
             None \<Rightarrow> (Inl (Wrapf ''version not found: %w'' [] ErrNoRows), stmt_done (stmt_done w))
           | Some v \<Rightarrow> (Inr (v, s), stmt_done (stmt_done w))))))"
  by (simp add: resolveVersion_def eff_simps Let_def served_simps assms split: sum.splits option.splits)

section \<open>Changing the state of a version\<close>

lemma abs_set_state_row:
  assumes "abs_store d k = Some (secret_view d s)" and "abs_version (secret_view d s) version = N"
  shows "abs_set_state k version st da (abs_store d) =
    (case versions_of d (sec_ID s) N of
       None \<Rightarrow> None
     | Some (data, kv, _, _) \<Rightarrow> Some ((abs_store d)(k \<mapsto> (secret_view d s)
         \<lparr>st_versions := (versions_of d (sec_ID s))(N \<mapsto> (data, kv, st, da))\<rparr>)))"
proof -
  have "st_versions (secret_view d s) = versions_of d (sec_ID s)" by (simp add: secret_view_def)
  then show ?thesis by (simp add: abs_set_state_def assms split: option.splits)
qed

text \<open>Soft deletion, restoring and destroying share the lookup and differ in the state they set.\<close>

lemma set_state_refines:
  assumes env: "served env" and d: "secret_schema (db w)"
    and run: "resolveVersion env nsp path version w = (rv, w1)"
    and w2: "\<And>v s. rv = Inr (v, s) \<Longrightarrow> \<not> isl r \<and>
      db w2 = snd (update_version_state (ver_ID v) st da now (db w1))"
    and err: "isl rv \<Longrightarrow> isl r \<and> db w2 = db w1"
  shows "implements (Option.bind (request_key nsp path) (\<lambda>k. abs_set_state k version st da (abs_store (db w)))) r w w2"
proof -
  let ?goal = ?thesis
  have refused: ?goal if "isl rv"
    "Option.bind (request_key nsp path) (\<lambda>k. abs_set_state k version st da (abs_store (db w))) = None"
    "db w1 = db w"
    using that err by simp
  show ?goal
  proof (cases "request_key nsp path")
    case None
    then show ?thesis using run refused
      by (auto simp: resolve_served [OF env] request_key_def split: sum.splits option.splits)
  next
    case (Some k)
    then obtain n p where k: "k = (n, p)" "NormalizeNamespace nsp = Inr n" "NormalizePath path = Inr p"
      by (auto simp: request_key_def split: sum.splits)
    show ?thesis
    proof (cases "find (\<lambda>r. sec_key r = k) (secrets (db w))")
      case None
      then show ?thesis using run refused k Some
        by (auto simp: resolve_served [OF env] abs_set_state_def abs_store_def)
    next
      case s: (Some s)
      let ?n = "if version = 0 then sec_CurrentVersion s else version"
      note S = find_secret_abs [OF s]
      have n: "abs_version (secret_view (db w) s) version = ?n" by (simp add: abs_version_def secret_view_def)
      show ?thesis
      proof (cases "find (\<lambda>r. ver_key r = (sec_ID s, ?n)) (secret_versions (db w))")
        case None
        then have "abs_set_state k version st da (abs_store (db w)) = None"
          unfolding abs_set_state_row [OF S(3) n] versions_of_def by simp
        then show ?thesis using run refused k Some s None by (auto simp: resolve_served [OF env])
      next
        case v: (Some v)
        note V = find_version_abs [OF v]
        from v s k run have "rv = Inr (v, s)" "db w1 = db w" by (auto simp: resolve_served [OF env])
        with w2 have W: "\<not> isl r" "db w2 = snd (update_version_state (ver_ID v) st da now (db w))" by auto
        have "abs_set_state k version st da (abs_store (db w)) = Some (abs_store (db w2))"
          using abs_update_state [OF d S(1) V(1,2), of st da now]
          unfolding abs_set_state_row [OF S(3) n] V(2,3,4) W(2) S(2) by (simp add: version_view_def)
        then show ?thesis using W Some by simp
      qed
    qed
  qed
qed

section \<open>The methods that change a version\<close>

lemma SoftDelete_refines:
  assumes "served env" and "secret_schema (db w)"
    and run: "SecretService_SoftDeleteVersion env s nsp path version w = (r, w')"
  shows "implements (Option.bind (request_key nsp path) (\<lambda>k.
    abs_set_state k version VersionStateDeleted
      (Some (ts_col env (now_at env (tick w) + ss_deletionTTL s))) (abs_store (db w)))) r w w'"
proof -
  obtain rv w1 where v: "resolveVersion env nsp path version w = (rv, w1)" by force
  then have "tick w1 = tick w" using assms(1)
    by (auto simp: resolve_served split: sum.splits option.splits)
  then show ?thesis using run v
    by (intro set_state_refines [OF assms(1,2) v, where now = "ts_col env (now_at env (Suc (tick w)))"])
      (auto simp: SecretService_SoftDeleteVersion_def eff_simps nowE_def Let_def SetVersionState_served assms(1)
        split: sum.splits)
qed

lemma Restore_refines:
  assumes "served env" and "secret_schema (db w)"
    and run: "SecretService_RestoreVersion env nsp path version w = (r, w')"
  shows "implements (Option.bind (request_key nsp path) (\<lambda>k.
    abs_set_state k version VersionStateActive None (abs_store (db w)))) r w w'"
proof -
  obtain rv w1 where v: "resolveVersion env nsp path version w = (rv, w1)" by force
  show ?thesis using run v
    by (intro set_state_refines [OF assms(1,2) v, where now = "ts_col env (now_at env (tick w1))"])
      (auto simp: SecretService_RestoreVersion_def eff_simps SetVersionState_served assms(1) split: sum.splits)
qed

lemma Destroy_refines:
  assumes "served env" and "secret_schema (db w)"
    and run: "SecretService_DestroyVersion env nsp path version w = (r, w')"
  shows "implements (Option.bind (request_key nsp path) (\<lambda>k.
    abs_set_state k version VersionStateDestroyed None (abs_store (db w)))) r w w'"
proof -
  obtain rv w1 where v: "resolveVersion env nsp path version w = (rv, w1)" by force
  show ?thesis using run v
    by (intro set_state_refines [OF assms(1,2) v, where now = "ts_col env (now_at env (tick w1))"])
      (auto simp: SecretService_DestroyVersion_def eff_simps SetVersionState_served assms(1) split: sum.splits)
qed

section \<open>Rollback\<close>

lemma versions_update_current: "secret_versions (snd (update_current_version i n now d)) = secret_versions d"
  by (simp add: update_current_version_def)

lemma Rollback_refines:
  assumes env: "served env" and d: "secret_schema (db w)"
    and run: "SecretService_Rollback env nsp path version w = (r, w')"
  shows "implements (Option.bind (request_key nsp path) (\<lambda>k. abs_rollback k version (abs_store (db w)))) r w w'"
proof (cases "request_key nsp path")
  case None
  then show ?thesis using run
    by (auto simp: SecretService_Rollback_def SecretService_GetSecretMetadata_def eff_simps request_key_def
        split: sum.splits)
next
  case (Some k)
  then obtain n p where k: "k = (n, p)" "NormalizeNamespace nsp = Inr n" "NormalizePath path = Inr p"
    by (auto simp: request_key_def split: sum.splits)
  note run' = run [unfolded SecretService_Rollback_def SecretService_GetSecretMetadata_def k bindE_liftE_Inr]
  show ?thesis
  proof (cases "find (\<lambda>r. sec_key r = k) (secrets (db w))")
    case None
    then show ?thesis using run' Some k
      by (auto simp: abs_rollback_def abs_store_def bindE_def served_simps env)
  next
    case s: (Some s)
    note S = find_secret_abs [OF s]
    show ?thesis
    proof (cases "find (\<lambda>r. ver_key r = (sec_ID s, version)) (secret_versions (db w))")
      case None
      then show ?thesis using run' Some k s S(3)
        by (auto simp: abs_rollback_def bindE_def served_simps env secret_view_def versions_of_def)
    next
      case v: (Some v)
      have "Option.bind (request_key nsp path) (\<lambda>k. abs_rollback k version (abs_store (db w))) =
          Some ((abs_store (db w))(k \<mapsto> (secret_view (db w) s)\<lparr>st_current := version\<rparr>))"
        using Some S(3) find_version_abs(4) [OF v] by (simp add: abs_rollback_def secret_view_def)
      then show ?thesis using run' k s v S(2) abs_update_current [OF d S(1)]
        by (auto simp: bindE_def served_simps env versions_update_current okE_def)
    qed
  qed
qed

section \<open>Writing a secret\<close>

text \<open>
  \<open>put_new\<close> and \<open>put_next\<close> are the two ends of \<open>PutSecret\<close>: the transaction that
  creates a secret with its first version, and the version added to a secret that exists.
\<close>

lemma put_new_refines:
  assumes env: "served env" and d: "secret_schema (db w)" and v: "ver_SecretID v = sec_ID s"
    and one: "ver_Version v = 1" "sec_CurrentVersion s = 1" "ver_State v = VersionStateActive" "ver_DeleteAfter v = None"
    and run: "SecretRepo_CreateSecretWithVersion env s v w = (r, w')"
  shows "case r of Inl e \<Rightarrow> db w' = db w
    | Inr _ \<Rightarrow> abs_put (sec_key s) (sec_Type s) \<lparr>ct_Data = ver_EncryptedValue v, ct_KeyVersion = ver_KeyVersion v\<rparr>
        (abs_store (db w)) = Some (abs_store (db w'))"
proof (cases r)
  case (Inl e)
  then show ?thesis using CreateSecretWithVersion_served [OF env run] by simp
next
  case (Inr u)
  have f: "fresh_secret (store_Secret env s) (store_Version env v) (db w)"
    and w': "db w' = with_secret (store_Secret env s) (store_Version env v) (db w)"
    using CreateSecretWithVersion_served [OF env run] Inr
    by (simp_all add: fresh_secret_def with_secret_def)
  have "abs_store (db w) (sec_key s) = None"
    using f unfolding abs_store_def fresh_secret_def
    by (simp add: find_None_set) (metis imageI)
  moreover have "version_view (store_Version env v) = (ver_EncryptedValue v, ver_KeyVersion v, VersionStateActive, None)"
    using one by (simp add: version_view_def store_Version_def)
  ultimately show ?thesis using abs_with_secret [OF d f] v one Inr
    by (simp add: abs_put_def w')
qed

lemma put_next_refines:
  assumes env: "served env" and d: "secret_schema (db w)"
    and s: "find (\<lambda>r. sec_key r = k) (secrets (db w)) = Some s"
    and v: "ver_SecretID v = sec_ID s" "ver_Version v = wrap64 (sec_CurrentVersion s + 1)"
      "ver_State v = VersionStateActive" "ver_DeleteAfter v = None"
    and run: "bindE (wrapE a [] (SecretRepo_CreateVersion env v)) (\<lambda>_.
         bindE (wrapE b [] (SecretRepo_SetCurrentVersion env (sec_ID s) (ver_Version v))) (\<lambda>_. okE x)) w = (r, w')"
  shows "case r of Inl e \<Rightarrow> db w' = db w
    | Inr _ \<Rightarrow> abs_put k (sec_Type s) \<lparr>ct_Data = ver_EncryptedValue v, ct_KeyVersion = ver_KeyVersion v\<rparr>
        (abs_store (db w)) = Some (abs_store (db w')) \<and> r = Inr x"
proof (cases "insert_version (store_Version env v) (db w)")
  case (Pair iv d1)
  note S = find_secret_abs [OF s]
  show ?thesis
  proof (cases iv)
    case (Inl e)
    then show ?thesis using run Pair ver_table.ins_Inl
      by (auto simp: bindE_def wrapE_def CreateVersion_served env)
  next
    case (Inr u)
    note i = Pair [unfolded Inr]
    have vs: "ver_SecretID (store_Version env v) = sec_ID s" using v by simp
    note A = abs_insert_version [OF d S(1) i vs]
    have d1: "secret_schema d1" using d keeps_schema_insert_version i
      unfolding keeps_stmt_def by (metis snd_conv)
    have s1: "s \<in> set (secrets d1)" using A(3) S(1) by simp
    have view: "version_view (store_Version env v) = (ver_EncryptedValue v, ver_KeyVersion v, VersionStateActive, None)"
      using v by (simp add: version_view_def store_Version_def)
    have row: "secret_view d1 s = (secret_view (db w) s)\<lparr>st_versions :=
        (versions_of (db w) (sec_ID s))(ver_Version v \<mapsto> version_view (store_Version env v))\<rparr>"
      using abs_store_row [OF d1 s1] A(1) by simp
    have r: "r = Inr x" and w': "db w' = snd (update_current_version (sec_ID s) (ver_Version v)
        (ts_col env (now_at env (tick w))) d1)"
      using run i by (auto simp: bindE_def wrapE_def okE_def CreateVersion_served SetCurrentVersion_served env)
    have "abs_store (db w') = (abs_store (db w))(k \<mapsto> (secret_view (db w) s)\<lparr>st_current := ver_Version v,
        st_versions := (versions_of (db w) (sec_ID s))(ver_Version v \<mapsto>
          (ver_EncryptedValue v, ver_KeyVersion v, VersionStateActive, None))\<rparr>)"
      using abs_update_current [OF d1 s1] A(1) S(2) by (simp add: w' row view, simp add: secret_view_def)
    moreover have "abs_put k (sec_Type s) \<lparr>ct_Data = ver_EncryptedValue v, ct_KeyVersion = ver_KeyVersion v\<rparr> (abs_store (db w))
        = Some ((abs_store (db w))(k \<mapsto> (secret_view (db w) s)\<lparr>st_current := ver_Version v,
        st_versions := (versions_of (db w) (sec_ID s))(ver_Version v \<mapsto>
          (ver_EncryptedValue v, ver_KeyVersion v, VersionStateActive, None))\<rparr>))"
      using S(3) A(2) v by (simp add: abs_put_def Let_def) (simp add: secret_view_def)
    ultimately show ?thesis by (simp add: r)
  qed
qed

text \<open>What a method that put a value has checked and done.\<close>

definition put_step :: "SecretService \<Rightarrow> PutSecretInput \<Rightarrow> tables \<Rightarrow> store \<Rightarrow> bool" where
  "put_step s input d \<sigma> \<longleftrightarrow>
     (\<exists>k ty ct w1 w2. request_key (psi_Namespace input) (psi_Path input) = Some k \<and>
        ValidateType (psi_Type input) = Inr ty \<and> psi_Value input \<noteq> [] \<and>
        fst k \<in> ns_Name ` set (namespaces d) \<and>
        CryptoService_Encrypt (ss_crypto s) (psi_Value input) w1 = (Inr ct, w2) \<and>
        abs_put k ty ct (abs_store d) = Some \<sigma>)"

lemma put_stepI:
  "request_key (psi_Namespace input) (psi_Path input) = Some k \<Longrightarrow> ValidateType (psi_Type input) = Inr ty \<Longrightarrow>
   psi_Value input \<noteq> [] \<Longrightarrow> fst k \<in> ns_Name ` set (namespaces d) \<Longrightarrow>
   CryptoService_Encrypt (ss_crypto s) (psi_Value input) w1 = (Inr ct, w2) \<Longrightarrow>
   abs_put k ty ct (abs_store d) = Some \<sigma> \<Longrightarrow> put_step s input d \<sigma>"
  unfolding put_step_def by blast

text \<open>
  The row that a put writes, and the method on a request whose checks pass: after the value
  has been encrypted, the clock read and the secret looked up, one of the two ends runs.
\<close>

definition put_row :: "env \<Rightarrow> bytes \<Rightarrow> Ciphertext \<Rightarrow> time \<Rightarrow> uuid \<Rightarrow> uuid \<Rightarrow> int \<Rightarrow> SecretVersion" where
  "put_row env value ct now i secretID version =
     \<lparr>ver_ID = i, ver_SecretID = secretID, ver_Version = version, ver_EncryptedValue = ct_Data ct,
      ver_ValueSHA256 = sha256 env value, ver_KeyVersion = ct_KeyVersion ct,
      ver_State = VersionStateActive, ver_DeleteAfter = None, ver_CreatedAt = now, ver_UpdatedAt = now\<rparr>"

definition put_secret_row :: "string \<times> string \<Rightarrow> SecretType \<Rightarrow> time \<Rightarrow> uuid \<Rightarrow> Secret" where
  "put_secret_row k ty now i =
     \<lparr>sec_ID = i, sec_Namespace = fst k, sec_Path = snd k, sec_Type = ty, sec_CurrentVersion = 1,
      sec_CreatedAt = now, sec_UpdatedAt = now\<rparr>"

lemma put_row_simps [simp]:
  "ver_ID (put_row env value ct now i si m) = i" "ver_SecretID (put_row env value ct now i si m) = si"
  "ver_Version (put_row env value ct now i si m) = m" "ver_State (put_row env value ct now i si m) = VersionStateActive"
  "ver_DeleteAfter (put_row env value ct now i si m) = None"
  "\<lparr>ct_Data = ver_EncryptedValue (put_row env value ct now i si m), ct_KeyVersion = ver_KeyVersion (put_row env value ct now i si m)\<rparr> = ct"
  "sec_ID (put_secret_row k ty now i) = i" "sec_key (put_secret_row k ty now i) = k"
  "sec_Type (put_secret_row k ty now i) = ty" "sec_CurrentVersion (put_secret_row k ty now i) = 1"
  by (simp_all add: put_row_def put_secret_row_def sec_key_def)

lemma PutSecret_eval:
  assumes env: "served env"
    and n: "NormalizeNamespace (psi_Namespace input) = Inr n" and p: "NormalizePath (psi_Path input) = Inr p"
    and ty: "ValidateType (psi_Type input) = Inr ty" and val: "psi_Value input \<noteq> []"
    and ns: "find (\<lambda>r. ns_Name r = n) (namespaces (db w)) \<noteq> None"
    and enc: "CryptoService_Encrypt (ss_crypto s) (psi_Value input) (stmt_done w) = (Inr ct, w1)"
  defines "w2 \<equiv> stmt_done (w1\<lparr>tick := Suc (tick w1)\<rparr>)" and "now \<equiv> now_at env (tick w1)"
    and "i \<equiv> uuid_at env (uuids w1)" and "j \<equiv> uuid_at env (Suc (uuids w1))"
  shows "SecretService_PutSecret env s input w =
    (case find (\<lambda>r. sec_key r = (n, p)) (secrets (db w1)) of
       None \<Rightarrow>
         (let v = put_row env (psi_Value input) ct now j i 1 in
          bindE (wrapE ''create secret with version: %w'' []
                   (SecretRepo_CreateSecretWithVersion env (put_secret_row (n, p) ty now i) v))
            (\<lambda>_. okE (metadataFromVersion v)) (w2\<lparr>uuids := Suc (Suc (uuids w1))\<rparr>))
     | Some sec \<Rightarrow>
         if sec_Type sec \<noteq> ty then (Inl (Errorf ''secret type cannot be changed'' []), w2)
         else
           (let v = put_row env (psi_Value input) ct now i (sec_ID sec) (wrap64 (sec_CurrentVersion sec + 1)) in
            bindE (wrapE ''create secret version: %w'' [] (SecretRepo_CreateVersion env v)) (\<lambda>_.
            bindE (wrapE ''set current version: %w'' [] (SecretRepo_SetCurrentVersion env (sec_ID sec) (ver_Version v)))
              (\<lambda>_. okE (metadataFromVersion v))) (w2\<lparr>uuids := Suc (uuids w1)\<rparr>)))"
proof -
  have g: "bindE (wrapE ''namespace must exist: %w'' [] (SecretRepo_GetNamespace env n)) F w =
      F (the (find (\<lambda>r. ns_Name r = n) (namespaces (db w)))) (stmt_done w)" for F :: "_ \<Rightarrow> VersionMetadata io"
    using ns by (auto simp: bindE_def wrapE_def GetNamespace_served env)
  have e: "bindE (wrapE ''encrypt secret value: %w'' [] (CryptoService_Encrypt (ss_crypto s) (psi_Value input))) F
      (stmt_done w) = F ct w1" for F :: "_ \<Rightarrow> VersionMetadata io"
    using enc by (simp add: bindE_def wrapE_def)
  have t: "bindE (nowE env) F w1 = F now (w1\<lparr>tick := Suc (tick w1)\<rparr>)" for F :: "_ \<Rightarrow> VersionMetadata io"
    by (simp add: bindE_def nowE_def now_def)
  have f: "bindE (tryE (SecretRepo_GetSecret env n p)) F (w1\<lparr>tick := Suc (tick w1)\<rparr>) =
      F (case find (\<lambda>r. sec_key r = (n, p)) (secrets (db w1)) of
         None \<Rightarrow> Inl (Wrapf ''secret %s/%s not found: %w'' [n, p] ErrNoRows) | Some sec \<Rightarrow> Inr sec) w2"
    for F :: "_ \<Rightarrow> VersionMetadata io"
    by (simp add: bindE_def tryE_def GetSecret_served env w2_def split: option.splits)
  have u: "bindE (uuidE env) F w2 = F i (w2\<lparr>uuids := Suc (uuids w1)\<rparr>)"
    "bindE (uuidE env) F (w2\<lparr>uuids := Suc (uuids w1)\<rparr>) = F j (w2\<lparr>uuids := Suc (Suc (uuids w1))\<rparr>)"
    for F :: "_ \<Rightarrow> VersionMetadata io"
    by (simp_all add: bindE_def uuidE_def w2_def i_def j_def)
  have val': "guardE (length (psi_Value input) = 0) (Errorf ''secret value is required'' []) = okE ()"
    using val by (simp add: guardE_def)
  show ?thesis
    unfolding SecretService_PutSecret_def n p ty bindE_liftE_Inr val' bindE_okE Let_def g e t f
    by (auto simp: u guardE_def failE_def put_row_def put_secret_row_def split: option.splits)
qed

lemma PutSecret_refines:
  assumes env: "served env" and d: "secret_schema (db w)" and q: "quiet_crypto s"
    and run: "SecretService_PutSecret env s input w = (r, w')"
  shows "if isl r then db w' = db w else put_step s input (db w) (abs_store (db w'))"
proof (cases "isl r \<and> db w' = db w")
  case ok: False
  obtain n where n: "NormalizeNamespace (psi_Namespace input) = Inr n"
    using run ok by (cases "NormalizeNamespace (psi_Namespace input)") (auto simp: SecretService_PutSecret_def failE_def)
  obtain p where p: "NormalizePath (psi_Path input) = Inr p"
    using run ok n by (cases "NormalizePath (psi_Path input)") (auto simp: SecretService_PutSecret_def failE_def)
  obtain ty where ty: "ValidateType (psi_Type input) = Inr ty"
    using run ok n p by (cases "ValidateType (psi_Type input)") (auto simp: SecretService_PutSecret_def failE_def)
  note run1 = run [unfolded SecretService_PutSecret_def n p ty bindE_liftE_Inr Let_def]
  have val: "psi_Value input \<noteq> []" using run1 ok by (auto simp: guardE_def failE_def)
  have ns: "find (\<lambda>r. ns_Name r = n) (namespaces (db w)) \<noteq> None"
    using run1 ok val by (cases "find (\<lambda>r. ns_Name r = n) (namespaces (db w))")
      (auto simp: bindE_def guardE_def okE_def wrapE_def GetNamespace_served env)
  then have known: "n \<in> ns_Name ` set (namespaces (db w))" by (auto simp: find_None_set)
  obtain ec w1 where enc: "CryptoService_Encrypt (ss_crypto s) (psi_Value input) (stmt_done w) = (ec, w1)" by force
  then have w1: "db w1 = db w" using q unfolding quiet_crypto_def by (metis snd_conv stmt_done_simps(1))
  obtain ct where ct: "ec = Inr ct"
    using run1 ok val ns enc w1
    by (cases ec) (auto simp: bindE_def guardE_def okE_def wrapE_def GetNamespace_served env)
  note eval = PutSecret_eval [OF env n p ty val ns enc [unfolded ct], unfolded w1 run]
  have step: "put_step s input (db w) (abs_store (db w'))"
    if "abs_put (n, p) ty ct (abs_store (db w)) = Some (abs_store (db w'))"
    using put_stepI [of input "(n, p)" ty "db w" s "stmt_done w" ct w1] that n p ty val known enc ct
    by (simp add: request_key_def)
  show ?thesis
  proof (cases "find (\<lambda>r. sec_key r = (n, p)) (secrets (db w))")
    case None
    define v where "v = put_row env (psi_Value input) ct (now_at env (tick w1)) (uuid_at env (Suc (uuids w1))) (uuid_at env (uuids w1)) 1"
    let ?s = "put_secret_row (n, p) ty (now_at env (tick w1)) (uuid_at env (uuids w1))"
    let ?w3 = "stmt_done (w1\<lparr>tick := Suc (tick w1)\<rparr>)\<lparr>uuids := Suc (Suc (uuids w1))\<rparr>"
    obtain cr w4 where c: "SecretRepo_CreateSecretWithVersion env ?s v ?w3 = (cr, w4)" by force
    then have "w' = w4" "isl r = isl cr"
      using eval None by (auto simp: v_def [symmetric] bindE_def wrapE_def okE_def split: sum.splits)
    then show ?thesis using put_new_refines [OF env _ _ _ _ _ _ c] d w1 step ok
      by (cases cr) (simp_all add: v_def)
  next
    case (Some sec)
    have ty': "sec_Type sec = ty" using eval ok Some w1 by (auto split: if_splits)
    with eval Some w1 have tail: "bindE (wrapE ''create secret version: %w'' [] (SecretRepo_CreateVersion env v)) (\<lambda>_.
        bindE (wrapE ''set current version: %w'' [] (SecretRepo_SetCurrentVersion env (sec_ID sec) (ver_Version v)))
          (\<lambda>_. okE (metadataFromVersion v))) (stmt_done (w1\<lparr>tick := Suc (tick w1)\<rparr>)\<lparr>uuids := Suc (uuids w1)\<rparr>) = (r, w')"
      if "v = put_row env (psi_Value input) ct (now_at env (tick w1)) (uuid_at env (uuids w1)) (sec_ID sec)
        (wrap64 (sec_CurrentVersion sec + 1))" for v
      by (simp add: that Let_def)
    show ?thesis
      using put_next_refines [OF env _ _ _ _ _ _ tail [OF refl], of "(n, p)"] Some d w1 step ok ty'
      by (cases r) simp_all
  qed
qed simp

section \<open>Reading a secret\<close>

definition abs_get :: "string \<times> string \<Rightarrow> int \<Rightarrow> store \<Rightarrow> (Ciphertext \<times> VersionState) option" where
  "abs_get k version \<sigma> =
     (case \<sigma> k of
        None \<Rightarrow> None
      | Some a \<Rightarrow> map_option (\<lambda>(data, kv, st, _). (\<lparr>ct_Data = data, ct_KeyVersion = kv\<rparr>, st))
                    (st_versions a (abs_version a version)))"

definition abs_read :: "SecretService \<Rightarrow> string \<Rightarrow> string \<Rightarrow> int \<Rightarrow> store \<Rightarrow> bytes option" where
  "abs_read s nsp path version \<sigma> =
     Option.bind (request_key nsp path) (\<lambda>k.
     Option.bind (abs_get k version \<sigma>) (\<lambda>(ct, st).
       if st = VersionStateActive
       then (case CryptoService_Decrypt (ss_crypto s) ct of Inl _ \<Rightarrow> None | Inr pt \<Rightarrow> Some pt)
       else None))"

lemma GetSecret_reads:
  assumes env: "served env" and run: "SecretService_GetSecret env s nsp path version w = (r, w')"
  shows "(case r of Inl _ \<Rightarrow> None | Inr (pt, _) \<Rightarrow> Some pt) = abs_read s nsp path version (abs_store (db w))"
    and "db w' = db w"
proof -
  have "(case r of Inl _ \<Rightarrow> None | Inr (pt, _) \<Rightarrow> Some pt) = abs_read s nsp path version (abs_store (db w))
    \<and> db w' = db w"
  proof (cases "request_key nsp path")
    case None
    then show ?thesis using run
      by (auto simp: SecretService_GetSecret_def eff_simps request_key_def abs_read_def split: sum.splits)
  next
    case (Some k)
    then obtain n p where k: "k = (n, p)" "NormalizeNamespace nsp = Inr n" "NormalizePath path = Inr p"
      by (auto simp: request_key_def split: sum.splits)
    show ?thesis
    proof (cases "find (\<lambda>r. sec_key r = (n, p)) (secrets (db w))")
      case None
      then show ?thesis using run Some k
        by (auto simp: SecretService_GetSecret_def eff_simps served_simps env abs_read_def abs_get_def abs_store_def)
    next
      case s: (Some s0)
      define N where "N = (if version = 0 then sec_CurrentVersion s0 else version)"
      have A: "abs_get k version (abs_store (db w)) =
          map_option (\<lambda>(data, kv, st, _). (\<lparr>ct_Data = data, ct_KeyVersion = kv\<rparr>, st)) (versions_of (db w) (sec_ID s0) N)"
        using find_secret_abs(3) [OF s] k(1)
        by (simp add: abs_get_def secret_view_def abs_version_def N_def)
      show ?thesis
        using run [unfolded SecretService_GetSecret_def k bindE_liftE_Inr] Some k A s
        by (auto simp: eff_simps served_simps env N_def [symmetric] toCiphertext_def version_view_def
            abs_read_def versions_of_def split: option.splits sum.splits if_splits)
    qed
  qed
  then show "(case r of Inl _ \<Rightarrow> None | Inr (pt, _) \<Rightarrow> Some pt) = abs_read s nsp path version (abs_store (db w))"
    and "db w' = db w" by auto
qed

lemma abs_set_state_None_iff: "abs_set_state k version st da \<sigma> = None \<longleftrightarrow> abs_get k version \<sigma> = None"
  by (auto simp: abs_set_state_def abs_get_def split: option.splits)

lemma abs_set_state_get:
  assumes "abs_set_state k version st da \<sigma> = Some \<sigma>'" and "abs_get k version \<sigma> = Some (ct, st0)"
  shows "abs_get k version \<sigma>' = Some (ct, st)"
  using assms by (auto simp: abs_set_state_def abs_get_def abs_version_def split: option.splits)

text \<open>The value that was put is the value that is got, for every lawful provider.\<close>

lemma abs_get_put:
  assumes "abs_put k ty ct \<sigma> = Some \<sigma>'"
  shows "abs_get k 0 \<sigma>' = Some (ct, VersionStateActive)"
  using assms by (cases ct) (auto simp: abs_put_def abs_get_def abs_version_def Let_def split: option.splits if_splits)

context crypto_provider begin

lemma quiet_service: "quiet_crypto \<lparr>ss_crypto = \<lparr>cs_provider = mk c, cs_aad = aad\<rparr>, ss_deletionTTL = ttl\<rparr>"
  unfolding quiet_crypto_def by (simp, metis prod.collapse service_encrypt_frame)

lemma put_get:
  fixes c aad ttl
  defines "s \<equiv> \<lparr>ss_crypto = \<lparr>cs_provider = mk c, cs_aad = aad\<rparr>, ss_deletionTTL = ttl\<rparr>"
  assumes env: "served env" and d: "secret_schema (db w)" and good: "good c"
    and put: "SecretService_PutSecret env s input w = (Inr m, w')"
  shows "\<exists>m'. fst (SecretService_GetSecret env s (psi_Namespace input) (psi_Path input) 0 w') = Inr (psi_Value input, m')"
proof -
  have q: "quiet_crypto s" unfolding s_def by (rule quiet_service)
  obtain r w2 where g: "SecretService_GetSecret env s (psi_Namespace input) (psi_Path input) 0 w' = (r, w2)" by force
  from PutSecret_refines [OF env d q put] obtain k ty ct w1 w3 where
    k: "request_key (psi_Namespace input) (psi_Path input) = Some k"
    and ct: "CryptoService_Encrypt (ss_crypto s) (psi_Value input) w1 = (Inr ct, w3)"
    and \<sigma>: "abs_put k ty ct (abs_store (db w)) = Some (abs_store (db w'))"
    by (auto simp: put_step_def)
  have "CryptoService_Decrypt (ss_crypto s) ct = Inr (psi_Value input)"
    using service_decrypt_encrypt good ct unfolding s_def by simp
  with GetSecret_reads(1) [OF env g] abs_get_put [OF \<sigma>] k show ?thesis
    by (auto simp: g abs_read_def split: sum.splits)
qed

end

end
