(* ===== verification/Secret_Liveness.thy ===== *)
theory Secret_Liveness
  imports Secret_Refinement
begin

text \<open>When a put succeeds, and the histories of requests the secret service can go through.\<close>

section \<open>A put that the store accepts succeeds\<close>

text \<open>Identifiers that \<open>uuid.New\<close> gives are on no row.\<close>

definition fresh_uuids :: "env \<Rightarrow> tables \<Rightarrow> bool" where
  "fresh_uuids env d \<longleftrightarrow>
     (\<forall>i. uuid_at env i \<notin> sec_ID ` set (secrets d) \<and> uuid_at env i \<notin> ver_ID ` set (secret_versions d))"

definition can_encrypt :: "SecretService \<Rightarrow> bytes \<Rightarrow> bool" where
  "can_encrypt s pt \<longleftrightarrow> (\<forall>w. \<not> isl (fst (CryptoService_Encrypt (ss_crypto s) pt w)))"

lemma CreateSecretWithVersion_succeeds:
  assumes env: "served env" and d: "secret_schema (db w)"
    and s: "sec_ID s \<notin> sec_ID ` set (secrets (db w))" "sec_key s \<notin> sec_key ` set (secrets (db w))"
    and v: "ver_ID v \<notin> ver_ID ` set (secret_versions (db w))" "ver_SecretID v = sec_ID s"
  shows "\<not> isl (fst (SecretRepo_CreateSecretWithVersion env s v w))"
proof -
  have "sec_ID s \<notin> ver_SecretID ` set (secret_versions (db w))"
    using schemaD(5) [OF d] s(1) by blast
  then have "ver_key v \<notin> ver_key ` set (secret_versions (db w))"
    using v(2) by (auto simp: ver_key_def)
  then have "\<not> list_ex (\<lambda>r. ver_ID r = ver_ID v \<or> ver_key r = ver_key v) (secret_versions (db w))"
    using v(1) by (auto simp: list_ex_iff image_iff)
  moreover have "\<not> list_ex (\<lambda>r. sec_ID r = sec_ID s \<or> sec_key r = sec_key s) (secrets (db w))"
    using s by (auto simp: list_ex_iff image_iff)
  moreover have "outcome_at env n = Served" for n using env by (simp add: served_def)
  ultimately show ?thesis using env v(2)
    by (simp add: SecretRepo_CreateSecretWithVersion_def insertVersion_def transaction_def sql_served sql_tx_served
        noop_def eff_simps insert_secret_def insert_version_def insert_stmt_def)
qed

lemma CreateVersion_succeeds:
  assumes env: "served env" and s: "ver_SecretID v \<in> sec_ID ` set (secrets (db w))"
    and v: "ver_ID v \<notin> ver_ID ` set (secret_versions (db w))" "ver_key v \<notin> ver_key ` set (secret_versions (db w))"
  shows "\<not> isl (fst (SecretRepo_CreateVersion env v w))"
proof -
  have "insert_version (store_Version env v) (db w) =
      (Inr (), (db w)\<lparr>secret_versions := secret_versions (db w) @ [store_Version env v]\<rparr>)"
    using s v by (auto simp: insert_version_def insert_stmt_def list_ex_iff image_iff)
  then show ?thesis by (simp add: CreateVersion_served env)
qed

lemma not_isl_bindE: "(\<And>x w1. m w = (Inr x, w1) \<Longrightarrow> \<not> isl (fst (f x w1))) \<Longrightarrow> \<not> isl (fst (m w)) \<Longrightarrow> \<not> isl (fst (bindE m f w))"
  by (cases "m w") (auto simp: bindE_def split: sum.splits)

lemma not_isl_wrapE: "\<not> isl (fst (m w)) \<Longrightarrow> \<not> isl (fst (wrapE a b m w))"
  by (cases "m w") (auto simp: wrapE_def split: sum.splits)

lemma PutSecret_succeeds:
  assumes env: "served env" and d: "secret_schema (db w)" and q: "quiet_crypto s"
    and fresh: "fresh_uuids env (db w)" and enc: "can_encrypt s (psi_Value input)"
    and key: "request_key (psi_Namespace input) (psi_Path input) = Some (n, p)"
    and ty: "ValidateType (psi_Type input) = Inr ty" and val: "psi_Value input \<noteq> []"
    and ns: "n \<in> ns_Name ` set (namespaces (db w))"
    and acc: "abs_put (n, p) ty ct0 (abs_store (db w)) \<noteq> None"
  shows "\<not> isl (fst (SecretService_PutSecret env s input w))"
proof -
  have np: "NormalizeNamespace (psi_Namespace input) = Inr n" "NormalizePath (psi_Path input) = Inr p"
    using key by (auto simp: request_key_def split: sum.splits)
  have known: "find (\<lambda>r. ns_Name r = n) (namespaces (db w)) \<noteq> None"
    using ns by (auto simp: find_None_set)
  obtain ec w1 where e: "CryptoService_Encrypt (ss_crypto s) (psi_Value input) (stmt_done w) = (ec, w1)" by force
  then have w1: "db w1 = db w" using q unfolding quiet_crypto_def by (metis snd_conv stmt_done_simps(1))
  from enc e obtain ct where ct: "ec = Inr ct" unfolding can_encrypt_def by (metis fst_conv isl_def sum.exhaust_disc sum.collapse(2))
  note eval = PutSecret_eval [OF env np ty val known e [unfolded ct], unfolded w1]
  show ?thesis
  proof (cases "find (\<lambda>r. sec_key r = (n, p)) (secrets (db w))")
    case None
    then have "(n, p) \<notin> sec_key ` set (secrets (db w))" by (auto simp: find_None_set)
    then show ?thesis using None fresh d w1 unfolding eval None option.case Let_def fresh_uuids_def
      by (intro not_isl_bindE not_isl_wrapE CreateSecretWithVersion_succeeds [OF env]) (simp_all add: okE_def)
  next
    case (Some sec)
    note S = find_secret_abs [OF Some]
    have "sec_Type sec = ty \<and> versions_of (db w) (sec_ID sec) (wrap64 (sec_CurrentVersion sec + 1)) = None"
      using acc S(3) by (cases "versions_of (db w) (sec_ID sec) (wrap64 (sec_CurrentVersion sec + 1))";
        auto simp: abs_put_def secret_view_def Let_def split: if_splits)
    then have ty': "sec_Type sec = ty" and "(sec_ID sec, wrap64 (sec_CurrentVersion sec + 1)) \<notin> ver_key ` set (secret_versions (db w))"
      by (auto simp: versions_of_def find_None_set)
    moreover have "ver_key (put_row env (psi_Value input) ct t i (sec_ID sec) m) = (sec_ID sec, m)" for t i m
      by (simp add: ver_key_def)
    ultimately show ?thesis using Some S(1) fresh w1 ty' unfolding eval Some option.case Let_def fresh_uuids_def
      by (simp, intro not_isl_bindE not_isl_wrapE CreateVersion_succeeds [OF env])
        (simp_all add: okE_def SetCurrentVersion_served env)
  qed
qed

section \<open>Nothing written is overwritten\<close>

text \<open>
  \<open>history_kept d0 d\<close>: every version of \<open>d0\<close> is in \<open>d\<close> with its ciphertext, digest and
  key version, and every secret of \<open>d0\<close> is in \<open>d\<close> with its type.
\<close>

definition sealed :: "SecretVersion \<Rightarrow> uuid \<times> (uuid \<times> int) \<times> bytes \<times> bytes \<times> string" where
  "sealed v = (ver_ID v, ver_key v, ver_EncryptedValue v, ver_ValueSHA256 v, ver_KeyVersion v)"

definition typed :: "Secret \<Rightarrow> uuid \<times> (string \<times> string) \<times> SecretType" where
  "typed s = (sec_ID s, sec_key s, sec_Type s)"

definition history_kept :: "tables \<Rightarrow> tables \<Rightarrow> bool" where
  "history_kept d0 d \<longleftrightarrow>
     sealed ` set (secret_versions d0) \<subseteq> sealed ` set (secret_versions d) \<and>
     typed ` set (secrets d0) \<subseteq> typed ` set (secrets d)"

lemma history_kept_refl [simp]: "history_kept d d"
  by (simp add: history_kept_def)

lemma keeps_history_stmts [pres]:
  "keeps_stmt (history_kept d0) (insert_namespace n)"
  "keeps_stmt (history_kept d0) (insert_secret s)"
  "keeps_stmt (history_kept d0) (insert_version v)"
  "keeps_stmt (history_kept d0) (update_version_state i st da now)"
  "keeps_stmt (history_kept d0) (update_current_version i m now)"
  "keeps_stmt (history_kept d0) (select_namespace name)"
  "keeps_stmt (history_kept d0) (select_secret k)"
  "keeps_stmt (history_kept d0) (select_version k')"
  unfolding insert_namespace_def insert_secret_def insert_version_def update_version_state_def
    update_current_version_def select_namespace_def select_secret_def select_version_def
  by (rule keeps_insert_stmt keeps_update_stmt keeps_select_row;
      auto simp: history_kept_def update_where_keyset sealed_def typed_def ver_key_def sec_key_def)+

definition history_rely :: "env \<Rightarrow> bool" where
  "history_rely env \<longleftrightarrow> (\<forall>d0. rely env (history_kept d0))"

lemma keeps_history_SecretRepo:
  assumes "history_rely env"
  shows
    "keeps (history_kept d0) (SecretRepo_CreateNamespace env ns)"
    "keeps (history_kept d0) (SecretRepo_GetNamespace env name)"
    "keeps (history_kept d0) (SecretRepo_CreateSecretWithVersion env s v)"
    "keeps (history_kept d0) (SecretRepo_GetSecret env nsp path)"
    "keeps (history_kept d0) (SecretRepo_CreateVersion env v)"
    "keeps (history_kept d0) (SecretRepo_GetVersion env i n)"
    "keeps (history_kept d0) (SecretRepo_SetVersionState env i st da)"
    "keeps (history_kept d0) (SecretRepo_SetCurrentVersion env i n)"
proof -
  have r: "rely env (history_kept d0)" using assms by (simp add: history_rely_def)
  have roll: "history_kept d0 (rollback d d')" if "history_kept d0 d" for d d'
    using that by (simp add: history_kept_def)
  show
    "keeps (history_kept d0) (SecretRepo_CreateNamespace env ns)"
    "keeps (history_kept d0) (SecretRepo_GetNamespace env name)"
    "keeps (history_kept d0) (SecretRepo_CreateSecretWithVersion env s v)"
    "keeps (history_kept d0) (SecretRepo_GetSecret env nsp path)"
    "keeps (history_kept d0) (SecretRepo_CreateVersion env v)"
    "keeps (history_kept d0) (SecretRepo_GetVersion env i n)"
    "keeps (history_kept d0) (SecretRepo_SetVersionState env i st da)"
    "keeps (history_kept d0) (SecretRepo_SetCurrentVersion env i n)"
    unfolding SecretRepo_defs
    by (intro pres keeps_sql keeps_sql_tx keeps_transaction r roll; assumption)+
qed

section \<open>Histories of requests\<close>

datatype SecretOp =
    OpCreateNamespace string string
  | OpPut PutSecretInput
  | OpSoftDelete string string int
  | OpRestore string string int
  | OpDestroy string string int
  | OpRollback string string int

fun secret_op :: "env \<Rightarrow> SecretService \<Rightarrow> SecretOp \<Rightarrow> world \<Rightarrow> world" where
  "secret_op env s (OpCreateNamespace n desc) w = snd (SecretService_CreateNamespace env n desc w)"
| "secret_op env s (OpPut input) w = snd (SecretService_PutSecret env s input w)"
| "secret_op env s (OpSoftDelete n p v) w = snd (SecretService_SoftDeleteVersion env s n p v w)"
| "secret_op env s (OpRestore n p v) w = snd (SecretService_RestoreVersion env n p v w)"
| "secret_op env s (OpDestroy n p v) w = snd (SecretService_DestroyVersion env n p v w)"
| "secret_op env s (OpRollback n p v) w = snd (SecretService_Rollback env n p v w)"

inductive secret_steps :: "env \<Rightarrow> SecretService \<Rightarrow> world \<Rightarrow> world \<Rightarrow> bool" for env s where
  steps_refl: "secret_steps env s w w"
| steps_op: "secret_steps env s w w' \<Longrightarrow> secret_steps env s w (secret_op env s op w')"

lemma secret_op_history:
  assumes "history_rely env" and "quiet_crypto s"
  shows "history_kept d0 (db w) \<Longrightarrow> history_kept d0 (db (secret_op env s op w))"
  by (cases op; simp; rule preservesD;
      auto simp: SecretService_defs Let_def intro!: pres keeps_history_SecretRepo keeps_Encrypt assms)

lemma secret_op_inv:
  assumes "secret_rely env" and "quiet_crypto s"
  shows "secret_inv (db w) \<Longrightarrow> secret_inv (db (secret_op env s op w))"
  by (cases op; simp; rule preservesD;
      auto simp: SecretService_CreateNamespace_def SecretService_SoftDeleteVersion_def SecretService_RestoreVersion_def
        SecretService_DestroyVersion_def Let_def
      intro!: pres keeps_inv_SecretRepo keeps_inv_PutSecret keeps_inv_Rollback keeps_inv_resolve assms)

lemma secret_inv_empty: "secret_inv empty_tables"
  by (simp add: secret_inv_def secret_schema_def current_exists_def empty_tables_def)

end
