(* ===== verification/Samples.thy ===== *)
theory Samples
  imports Backend_Provider
begin

text \<open>
  Concrete environments on which the theorems are exercised: a database that serves every
  statement and nobody else uses, a clock that ticks in seconds, identifiers in order, and
  toy primitives that satisfy \<^term>\<open>lawful_crypto\<close>.
\<close>

definition sample_env :: env where
  "sample_env =
     \<lparr>now_at = (\<lambda>n. 1700000000000000000 + int n * time_Second),
      uuid_at = (\<lambda>n. n),
      rand_at = (\<lambda>k n. Some (replicate n CHR ''r'')),
      outcome_at = (\<lambda>_. Served),
      rival_at = (\<lambda>_ d. d),
      ts_col = (\<lambda>t. t),
      json_col = (\<lambda>m. m),
      text_le = (\<lambda>x y. length x \<le> length y),
      sha256 = (\<lambda>b. b),
      hmac_sha256 = (\<lambda>k b. k @ b),
      hkdf_sha256 = (\<lambda>secret salt info n. Some (replicate n CHR ''k'')),
      gcm_seal = (\<lambda>key nonce pt aad. pt @ aad),
      gcm_open = (\<lambda>key nonce ct aad. Some (take (length ct - length aad) ct))\<rparr>"

lemma sample_simps [simp]:
  "now_at sample_env n = 1700000000000000000 + int n * time_Second"
  "uuid_at sample_env n = n" "rand_at sample_env k n = Some (replicate n CHR ''r'')"
  "outcome_at sample_env n = Served" "rival_at sample_env n d = d"
  "ts_col sample_env t = t" "json_col sample_env m = m"
  "sha256 sample_env b = b" "hmac_sha256 sample_env key b = key @ b"
  by (simp_all add: sample_env_def)

lemma sample_served [simp]: "served sample_env"
  by (simp add: served_def)

lemma sample_lawful [simp]: "lawful_crypto sample_env"
  by (simp add: lawful_crypto_def sample_env_def)

end
