(* ===== verification/Secret_Properties.thy ===== *)
theory Secret_Properties
  imports Secret_Liveness Samples
begin

text \<open>The properties of the secret store, each with a concrete run on which it is exercised.\<close>

section \<open>A sample run\<close>

definition sample_service :: SecretService where
  "sample_service =
     \<lparr>ss_crypto = \<lparr>cs_provider = SoftwareProvider sample_env ''master'' ''audit'', cs_aad = ''aad''\<rparr>,
      ss_deletionTTL = 86400 * time_Second\<rparr>"

definition sample_put :: "bytes \<Rightarrow> PutSecretInput" where
  "sample_put v = \<lparr>psi_Namespace = '' app '', psi_Path = ''/db/'', psi_Type = ''KV'', psi_Value = v\<rparr>"

definition sample_ns_world :: world where
  "sample_ns_world = snd (SecretService_CreateNamespace sample_env ''app'' ''demo'' init_world)"

definition sample_world :: world where
  "sample_world = snd (SecretService_PutSecret sample_env sample_service (sample_put ''pw'') sample_ns_world)"

lemma sample_quiet: "quiet_crypto sample_service"
  using software.quiet_service [of "(sample_env, ''master'', ''audit'')" "''aad''" "86400 * time_Second"]
  by (simp add: sample_service_def)

lemma init_schema: "secret_schema (db init_world)"
  by (simp add: init_world_def empty_tables_def secret_schema_def)

lemma sample_ns_schema: "secret_schema (db sample_ns_world)"
  unfolding sample_ns_world_def
  by (rule preservesD [OF keeps_schema_SecretService(1) [OF rely_served sample_quiet]]) (simp_all add: init_schema)

lemma sample_schema: "secret_schema (db sample_world)"
  unfolding sample_world_def
  by (rule preservesD [OF keeps_schema_SecretService(2) [OF rely_served sample_quiet]])
    (simp_all add: sample_ns_schema)

lemma sample_relies: "secret_rely sample_env" "history_rely sample_env"
  by (simp_all add: secret_rely_served history_rely_def rely_served)

section \<open>Properties\<close>

text \<open>C1: every state the service reaches, under any faults, keeps the schema's constraints and the current version of every secret exists.\<close>

theorem secret_inv_reachable:
  assumes "secret_rely env" and "quiet_crypto s" and "secret_steps env s w w'" and "secret_inv (db w)"
  shows "secret_inv (db w')"
  using assms(3,4) by (induction rule: secret_steps.induct) (auto intro: secret_op_inv [OF assms(1,2)])

theorem secret_inv_reachable_witness:
  "secret_inv (db (secret_op sample_env sample_service (OpPut (sample_put ''pw'')) sample_ns_world))"
proof -
  have "secret_steps sample_env sample_service init_world
      (secret_op sample_env sample_service (OpPut (sample_put ''pw''))
        (secret_op sample_env sample_service (OpCreateNamespace ''app'' ''demo'') init_world))"
    by (intro steps_op steps_refl)
  then show ?thesis
    using secret_inv_reachable [OF sample_relies(1) sample_quiet] secret_inv_empty
    by (simp add: sample_ns_world_def init_world_def)
qed

text \<open>C11: no operation, under any faults, changes the ciphertext, digest or key of a stored version or the type of a secret.\<close>

theorem secret_history_kept:
  assumes "history_rely env" and "quiet_crypto s" and "secret_steps env s w w'"
  shows "history_kept (db w) (db w')"
  using assms(3) by (induction rule: secret_steps.induct) (auto intro: secret_op_history [OF assms(1,2)])

theorem secret_history_kept_witness:
  "history_kept (db sample_world)
     (db (secret_op sample_env sample_service (OpDestroy ''app'' ''/db'' 0) sample_world))"
  by (rule secret_history_kept [OF sample_relies(2) sample_quiet]) (intro steps_op steps_refl)

text \<open>C12: creating a secret with its first version is all or nothing, whatever happens to its statements.\<close>

theorem create_secret_atomic:
  assumes "SecretRepo_CreateSecretWithVersion env s v w = (r, w')"
  shows "db w' = rival_at env (stmts w) (db w) \<or>
    fresh_secret s v (rival_at env (stmts w) (db w)) \<and>
    db w' = with_secret (store_Secret env s) (store_Version env v) (rival_at env (stmts w) (db w))"
  using CreateSecretWithVersion_cases [OF assms] by (simp add: Let_def)

definition faulty_env :: env where
  "faulty_env = sample_env\<lparr>outcome_at := (\<lambda>n. if n = 2 then Refused else Served)\<rparr>"

theorem create_secret_atomic_witness:
  "db (snd (SecretRepo_CreateSecretWithVersion faulty_env (put_secret_row (''app'', ''/db'') SecretTypeKV 0 1)
       (put_row faulty_env ''pw'' \<lparr>ct_Data = ''c'', ct_KeyVersion = ''v1''\<rparr> 0 2 1 1) init_world)) = empty_tables"
proof -
  let ?r = "SecretRepo_CreateSecretWithVersion faulty_env (put_secret_row (''app'', ''/db'') SecretTypeKV 0 1)
    (put_row faulty_env ''pw'' \<lparr>ct_Data = ''c'', ct_KeyVersion = ''v1''\<rparr> 0 2 1 1) init_world"
  have "length (secrets (db (snd ?r))) = 0" by code_simp
  moreover have "rival_at faulty_env (stmts init_world) (db init_world) = empty_tables"
    by (simp add: faulty_env_def init_world_def)
  ultimately show ?thesis
    using create_secret_atomic [OF surjective_pairing, of faulty_env "put_secret_row (''app'', ''/db'') SecretTypeKV 0 1"
      "put_row faulty_env ''pw'' \<lparr>ct_Data = ''c'', ct_KeyVersion = ''v1''\<rparr> 0 2 1 1" init_world]
    by (auto simp: with_secret_def)
qed



text \<open>C10: a put whose input is valid, whose namespace exists and that the store accepts succeeds when identifiers are fresh and encryption works.\<close>

theorem put_succeeds:
  assumes "served env" and "secret_schema (db w)" and "quiet_crypto s"
    and "fresh_uuids env (db w)" and "can_encrypt s (psi_Value input)"
    and "request_key (psi_Namespace input) (psi_Path input) = Some (n, p)"
    and "ValidateType (psi_Type input) = Inr ty" and "psi_Value input \<noteq> []"
    and "n \<in> ns_Name ` set (namespaces (db w))"
    and "abs_put (n, p) ty ct (abs_store (db w)) \<noteq> None"
  shows "\<not> isl (fst (SecretService_PutSecret env s input w))"
  by (rule PutSecret_succeeds [OF assms])

theorem put_succeeds_witness:
  "\<not> isl (fst (SecretService_PutSecret sample_env sample_service (sample_put ''pw'') sample_ns_world))"
proof (rule put_succeeds [OF sample_served sample_ns_schema sample_quiet])
  have rows: "secrets (db sample_ns_world) = []" "secret_versions (db sample_ns_world) = []"
    by code_simp+
  then show "fresh_uuids sample_env (db sample_ns_world)" by (simp add: fresh_uuids_def)
  show "can_encrypt sample_service (psi_Value (sample_put ''pw''))"
    by (simp add: can_encrypt_def sample_service_def sample_put_def CryptoService_Encrypt_def SoftwareProvider_def
        Software_Encrypt_def deriveKey_def sample_env_def aes_NewCipher_def randE_def eff_simps)
  show "request_key (psi_Namespace (sample_put ''pw'')) (psi_Path (sample_put ''pw'')) = Some (''app'', ''/db'')"
    "ValidateType (psi_Type (sample_put ''pw'')) = Inr SecretTypeKV" "psi_Value (sample_put ''pw'') \<noteq> []"
    by code_simp+
  show "''app'' \<in> ns_Name ` set (namespaces (db sample_ns_world))" by code_simp
  show "abs_put (''app'', ''/db'') SecretTypeKV \<lparr>ct_Data = [], ct_KeyVersion = []\<rparr> (abs_store (db sample_ns_world)) \<noteq> None"
    by (simp add: abs_put_def abs_store_def rows)
qed

text \<open>C19: a read gives exactly what the store holds: the decrypted value of the version when it exists and is active, an error otherwise, and changes nothing.\<close>

theorem get_reads_store:
  assumes "served env" and "SecretService_GetSecret env s nsp path version w = (r, w')"
  shows "(case r of Inl _ \<Rightarrow> None | Inr (pt, _) \<Rightarrow> Some pt) = abs_read s nsp path version (abs_store (db w))
    \<and> db w' = db w"
  using GetSecret_reads [OF assms] by simp

theorem get_reads_store_witness:
  "abs_read sample_service ''app'' ''/db'' 1 (abs_store (db sample_world)) = Some ''pw''"
proof -
  have "fst (SecretService_GetSecret sample_env sample_service ''app'' ''/db'' 1 sample_world) =
      Inr (''pw'', snd (projr (fst (SecretService_GetSecret sample_env sample_service ''app'' ''/db'' 1 sample_world))))"
    by code_simp
  then show ?thesis
    using get_reads_store [OF sample_served surjective_pairing, of sample_service "''app''" "''/db''" 1 sample_world]
    by (metis (no_types, lifting) case_prod_conv sum.case(2))
qed

text \<open>C9: with the software provider on lawful primitives, the value that a put stored is the value that the next get of the current version returns.\<close>

theorem put_then_get:
  assumes "served env" and "secret_schema (db w)" and "lawful_crypto env"
    and "s = \<lparr>ss_crypto = \<lparr>cs_provider = SoftwareProvider env masterKey auditKey, cs_aad = aad\<rparr>, ss_deletionTTL = ttl\<rparr>"
    and "SecretService_PutSecret env s input w = (Inr m, w')"
  shows "\<exists>m'. fst (SecretService_GetSecret env s (psi_Namespace input) (psi_Path input) 0 w') = Inr (psi_Value input, m')"
  using software.put_get [of env w "(env, masterKey, auditKey)" aad ttl input m w'] assms by simp

theorem put_then_get_witness:
  "\<exists>m'. fst (SecretService_GetSecret sample_env sample_service '' app '' ''/db/'' 0 sample_world) = Inr (''pw'', m')"
proof -
  have "fst (SecretService_PutSecret sample_env sample_service (sample_put ''pw'') sample_ns_world) =
      Inr (projr (fst (SecretService_PutSecret sample_env sample_service (sample_put ''pw'') sample_ns_world)))"
    by code_simp
  then show ?thesis
    using put_then_get [OF sample_served sample_ns_schema sample_lawful sample_service_def, of "sample_put ''pw''"]
    unfolding sample_world_def by (metis prod.collapse sample_put_def PutSecretInput.simps(1,2,4))
qed

text \<open>C20: soft deletion, restoring and destroying set the state and deletion time of exactly the version that was asked for and change nothing else of the store, or are refused without effect.\<close>

theorem version_state_refines:
  assumes "served env" and "secret_schema (db w)"
  shows "implements (Option.bind (request_key nsp path) (\<lambda>k. abs_set_state k version VersionStateDeleted
        (Some (ts_col env (now_at env (tick w) + ss_deletionTTL s))) (abs_store (db w))))
      (fst (SecretService_SoftDeleteVersion env s nsp path version w)) w
      (snd (SecretService_SoftDeleteVersion env s nsp path version w))
    \<and> implements (Option.bind (request_key nsp path) (\<lambda>k. abs_set_state k version VersionStateActive None (abs_store (db w))))
      (fst (SecretService_RestoreVersion env nsp path version w)) w
      (snd (SecretService_RestoreVersion env nsp path version w))
    \<and> implements (Option.bind (request_key nsp path) (\<lambda>k. abs_set_state k version VersionStateDestroyed None (abs_store (db w))))
      (fst (SecretService_DestroyVersion env nsp path version w)) w
      (snd (SecretService_DestroyVersion env nsp path version w))"
  using SoftDelete_refines [OF assms surjective_pairing] Restore_refines [OF assms surjective_pairing]
    Destroy_refines [OF assms surjective_pairing] by blast

theorem version_state_refines_witness:
  "abs_set_state (''app'', ''/db'') 1 VersionStateDestroyed None (abs_store (db sample_world)) =
     Some (abs_store (db (snd (SecretService_DestroyVersion sample_env ''app'' ''/db'' 1 sample_world))))"
proof -
  have "\<not> isl (fst (SecretService_DestroyVersion sample_env ''app'' ''/db'' 1 sample_world))"
    "request_key ''app'' ''/db'' = Some (''app'', ''/db'')" by code_simp+
  then show ?thesis
    using conjunct2 [OF conjunct2 [OF version_state_refines [OF sample_served sample_schema, of "''app''" "''/db''" 1 sample_service]]]
    by (cases "abs_set_state (''app'', ''/db'') 1 VersionStateDestroyed None (abs_store (db sample_world))") simp_all
qed

text \<open>C21: a rollback makes the version that was asked for the current one when it exists, whatever its state, and is refused without effect otherwise.\<close>

theorem rollback_refines:
  assumes "served env" and "secret_schema (db w)" and "SecretService_Rollback env nsp path version w = (r, w')"
  shows "implements (Option.bind (request_key nsp path) (\<lambda>k. abs_rollback k version (abs_store (db w)))) r w w'"
  by (rule Rollback_refines [OF assms])

theorem rollback_refines_witness:
  "isl (fst (SecretService_Rollback sample_env ''app'' ''/db'' 7 sample_world)) \<and>
   abs_rollback (''app'', ''/db'') 7 (abs_store (db sample_world)) = None"
proof -
  have "isl (fst (SecretService_Rollback sample_env ''app'' ''/db'' 7 sample_world))"
    "request_key ''app'' ''/db'' = Some (''app'', ''/db'')" by code_simp+
  then show ?thesis
    using rollback_refines [OF sample_served sample_schema surjective_pairing, of "''app''" "''/db''" 7]
    by (cases "abs_rollback (''app'', ''/db'') 7 (abs_store (db sample_world))") simp_all
qed

section \<open>Two behaviours of the code that its interface does not promise\<close>

lemma keeps_schema_Destroy:
  "rely env secret_schema \<Longrightarrow> keeps secret_schema (SecretService_DestroyVersion env nsp path version)"
  unfolding SecretService_defs Let_def by (intro pres keeps_schema_SecretRepo; assumption)

text \<open>A destroyed version can be restored: destroying keeps the ciphertext and restoring makes the value readable again.\<close>

theorem restore_revives_destroyed:
  assumes "served env" and "secret_schema (db w)"
    and "SecretService_DestroyVersion env nsp path version w = (Inr u, w1)"
    and "SecretService_RestoreVersion env nsp path version w1 = (r, w2)"
    and "abs_get k version (abs_store (db w)) = Some (ct, st)" and "request_key nsp path = Some k"
  shows "\<not> isl r \<and> abs_get k version (abs_store (db w2)) = Some (ct, VersionStateActive)"
proof -
  have d1: "secret_schema (db w1)"
    using preservesD [OF keeps_schema_Destroy [OF rely_served [OF assms(1)]] assms(2)] assms(3) by (metis snd_conv)
  have "abs_set_state k version VersionStateDestroyed None (abs_store (db w)) = Some (abs_store (db w1))"
    using Destroy_refines [OF assms(1,2,3)] assms(5,6)
      abs_set_state_None_iff [of k version VersionStateDestroyed None "abs_store (db w)"]
    by (cases "abs_set_state k version VersionStateDestroyed None (abs_store (db w))") simp_all
  then have g: "abs_get k version (abs_store (db w1)) = Some (ct, VersionStateDestroyed)"
    by (rule abs_set_state_get [OF _ assms(5)])
  then show ?thesis
    using Restore_refines [OF assms(1) d1 assms(4)] assms(6) abs_set_state_get [OF _ g]
      abs_set_state_None_iff [of k version VersionStateActive None "abs_store (db w1)"]
    by (cases "abs_set_state k version VersionStateActive None (abs_store (db w1))") simp_all
qed

theorem restore_revives_destroyed_witness:
  "abs_get (''app'', ''/db'') 1 (abs_store (db (snd (SecretService_RestoreVersion sample_env ''app'' ''/db'' 1
     (snd (SecretService_DestroyVersion sample_env ''app'' ''/db'' 1 sample_world)))))) =
   Some (\<lparr>ct_Data = ''rrrrrrrrrrrrpwaad'', ct_KeyVersion = ''v1''\<rparr>, VersionStateActive)"
proof (rule restore_revives_destroyed [OF sample_served sample_schema _ surjective_pairing, THEN conjunct2])
  show "SecretService_DestroyVersion sample_env ''app'' ''/db'' 1 sample_world =
      (Inr (), snd (SecretService_DestroyVersion sample_env ''app'' ''/db'' 1 sample_world))" by code_simp
  show "abs_get (''app'', ''/db'') 1 (abs_store (db sample_world)) =
      Some (\<lparr>ct_Data = ''rrrrrrrrrrrrpwaad'', ct_KeyVersion = ''v1''\<rparr>, VersionStateActive)" by code_simp
  show "request_key ''app'' ''/db'' = Some (''app'', ''/db'')" by code_simp
qed

text \<open>C39: after a rollback to a version that is not the latest, the next put fails: the version number after the current one is taken.\<close>

theorem put_after_rollback_fails:
  assumes "served env" and "secret_schema (db w)" and "quiet_crypto s"
    and "SecretService_Rollback env nsp path version w = (Inr m, w1)"
    and "request_key nsp path = Some k" and "request_key (psi_Namespace input) (psi_Path input) = Some k"
    and "abs_store (db w) k = Some a" and "st_versions a (wrap64 (version + 1)) \<noteq> None"
  shows "isl (fst (SecretService_PutSecret env s input w1))"
proof (rule ccontr)
  assume ok: "\<not> isl (fst (SecretService_PutSecret env s input w1))"
  have d1: "secret_schema (db w1)"
    using preservesD [OF keeps_schema_SecretService(8) [OF rely_served [OF assms(1)] assms(3)] assms(2)] assms(4)
    by (metis snd_conv)
  have "abs_rollback k version (abs_store (db w)) = Some (abs_store (db w1))"
    using Rollback_refines [OF assms(1,2,4)] assms(5)
    by (cases "abs_rollback k version (abs_store (db w))") simp_all
  then have "abs_store (db w1) k = Some (a\<lparr>st_current := version\<rparr>)"
    using assms(7) by (auto simp: abs_rollback_def split: if_splits) (metis fun_upd_same)
  then have "abs_put k ty ct (abs_store (db w1)) = None" for ty ct
    using assms(8) by (simp add: abs_put_def Let_def)
  with PutSecret_refines [OF assms(1) d1 assms(3) surjective_pairing, of input] ok assms(6) show False
    by (auto simp: put_step_def)
qed

definition sample_world2 :: world where
  "sample_world2 = snd (SecretService_PutSecret sample_env sample_service (sample_put ''pw2'') sample_world)"

lemma sample_schema2: "secret_schema (db sample_world2)"
  unfolding sample_world2_def
  by (rule preservesD [OF keeps_schema_SecretService(2) [OF rely_served sample_quiet]]) (simp_all add: sample_schema)

theorem put_after_rollback_fails_witness:
  "isl (fst (SecretService_PutSecret sample_env sample_service (sample_put ''pw3'')
     (snd (SecretService_Rollback sample_env ''app'' ''/db'' 1 sample_world2))))"
proof (rule put_after_rollback_fails [OF sample_served sample_schema2 sample_quiet])
  show "SecretService_Rollback sample_env ''app'' ''/db'' 1 sample_world2 =
      (Inr (projr (fst (SecretService_Rollback sample_env ''app'' ''/db'' 1 sample_world2))),
       snd (SecretService_Rollback sample_env ''app'' ''/db'' 1 sample_world2))" by code_simp
  show "request_key ''app'' ''/db'' = Some (''app'', ''/db'')"
    "request_key (psi_Namespace (sample_put ''pw3'')) (psi_Path (sample_put ''pw3'')) = Some (''app'', ''/db'')"
    by code_simp+
  show "abs_store (db sample_world2) (''app'', ''/db'') = Some (the (abs_store (db sample_world2) (''app'', ''/db'')))"
  proof -
    have "find (\<lambda>r. sec_key r = (''app'', ''/db'')) (secrets (db sample_world2)) \<noteq> None" by code_simp
    then show ?thesis by (auto simp: abs_store_def)
  qed
  show "st_versions (the (abs_store (db sample_world2) (''app'', ''/db''))) (wrap64 (1 + 1)) \<noteq> None"
    by code_simp
qed

end
