(* ===== verification/Go_Net.thy ===== *)
theory Go_Net
  imports Go_Strings "HOL-Library.Word"
begin

unbundle bit_operations_syntax

text \<open>
  The functions of Go's package \<open>net\<close> that \<open>conditionValueMatches\<close> calls: \<open>ParseIP\<close>,
  \<open>ParseCIDR\<close> and \<open>IPNet.Contains\<close>. An address is a list of bytes, four or sixteen of
  them. Both parsers reject an address with a zone, so a \<open>%\<close> is never accepted.
\<close>

type_synonym byte = "8 word"
type_synonym IP = "byte list"

section \<open>Parsing addresses\<close>

definition digit_value :: "char \<Rightarrow> nat option" where
  "digit_value c = (if 48 \<le> (of_char c :: nat) \<and> (of_char c :: nat) \<le> 57 then Some ((of_char c :: nat) - 48) else None)"

definition hex_value :: "char \<Rightarrow> nat option" where
  "hex_value c =
     (let n = (of_char c :: nat) in
      if 48 \<le> n \<and> n \<le> 57 then Some (n - 48)
      else if 97 \<le> n \<and> n \<le> 102 then Some (n - 87)
      else if 65 \<le> n \<and> n \<le> 70 then Some (n - 55) else None)"

text \<open>One decimal octet: digits, no leading zero, at most 255.\<close>

fun octet_loop :: "string \<Rightarrow> nat \<Rightarrow> nat \<Rightarrow> nat option" where
  "octet_loop [] val digLen = (if digLen = 0 then None else Some val)"
| "octet_loop (c # cs) val digLen =
     (case digit_value c of
        None \<Rightarrow> None
      | Some k \<Rightarrow>
          if digLen = 1 \<and> val = 0 then None
          else if val * 10 + k > 255 then None
          else octet_loop cs (val * 10 + k) (Suc digLen))"

fun octets :: "string list \<Rightarrow> IP option" where
  "octets [] = Some []"
| "octets (f # fs) =
     (case (octet_loop f 0 0, octets fs) of
        (Some v, Some bs) \<Rightarrow> Some (of_nat v # bs) | _ \<Rightarrow> None)"

definition parseIPv4 :: "string \<Rightarrow> IP option" where
  "parseIPv4 s = (let fs = Split s CHR ''.'' in if length fs = 4 then octets fs else None)"

definition hex_fold :: "string \<Rightarrow> nat" where
  "hex_fold s = foldl (\<lambda>acc c. acc * 16 + (case hex_value c of None \<Rightarrow> 0 | Some k \<Rightarrow> k)) 0 s"

text \<open>
  The loop over the hexadecimal groups of an IPv6 address: the rest of the text, the bytes
  read so far and the place of the ellipsis. The result is the bytes and the ellipsis.
\<close>

function v6_loop :: "string \<Rightarrow> IP \<Rightarrow> nat option \<Rightarrow> (IP \<times> nat option) option" where
  "v6_loop s ip ellipsis =
     (if length ip \<ge> 16 then (if s = [] then Some (ip, ellipsis) else None)
      else
        let group = takeWhile (\<lambda>c. hex_value c \<noteq> None) s; rest = dropWhile (\<lambda>c. hex_value c \<noteq> None) s in
        if length group > 4 \<or> group = [] then None
        else if rest \<noteq> [] \<and> hd rest = CHR ''.'' then
          (if (ellipsis = None \<and> length ip \<noteq> 12) \<or> length ip + 4 > 16 then None
           else map_option (\<lambda>b. (ip @ b, ellipsis)) (parseIPv4 s))
        else
          let acc = hex_fold group; ip = ip @ [of_nat (acc div 256), of_nat acc] in
          if rest = [] then Some (ip, ellipsis)
          else if hd rest \<noteq> CHR '':'' \<or> length rest = 1 then None
          else if rest ! 1 = CHR '':'' then
            (if ellipsis \<noteq> None then None
             else if length rest = 2 then Some (ip, Some (length ip))
             else v6_loop (drop 2 rest) ip (Some (length ip)))
          else v6_loop (drop 1 rest) ip ellipsis)"
  by pat_completeness auto
termination
proof (relation "measure (\<lambda>(s, ip, e). length s)", goal_cases)
  case (2 s ip e group rest acc ip')
  have "rest \<noteq> []" "length rest \<le> length s" using 2 by (auto simp: length_dropWhile_le)
  then show ?case by (cases rest) (auto simp: length_dropWhile_le)
next
  case (3 s ip e group rest acc ip')
  have "rest \<noteq> []" "length rest \<le> length s" using 3 by (auto simp: length_dropWhile_le)
  then show ?case by (cases rest) (auto simp: length_dropWhile_le)
qed simp

declare v6_loop.simps [simp del]

definition expand_ellipsis :: "IP \<times> nat option \<Rightarrow> IP option" where
  "expand_ellipsis r =
     (case r of (ip, ellipsis) \<Rightarrow>
        if length ip < 16
        then (case ellipsis of
                None \<Rightarrow> None
              | Some e \<Rightarrow> Some (take e ip @ replicate (16 - length ip) 0 @ drop e ip))
        else (if ellipsis = None then Some ip else None))"

definition parseIPv6 :: "string \<Rightarrow> IP option" where
  "parseIPv6 s =
     (if CHR ''%'' \<in> set s then None
      else if HasPrefix s ''::'' then
        (if drop 2 s = [] then Some (replicate 16 0)
         else Option.bind (v6_loop (drop 2 s) [] (Some 0)) expand_ellipsis)
      else Option.bind (v6_loop s [] None) expand_ellipsis)"

text \<open>\<open>netip.ParseAddr\<close>: the first of \<open>.\<close>, \<open>:\<close> and \<open>%\<close> decides.\<close>

definition ParseAddr :: "string \<Rightarrow> IP option" where
  "ParseAddr s =
     (case find (\<lambda>c. c \<in> {CHR ''.'', CHR '':'', CHR ''%''}) s of
        None \<Rightarrow> None
      | Some c \<Rightarrow> if c = CHR ''.'' then parseIPv4 s else if c = CHR '':'' then parseIPv6 s else None)"

definition v4InV6Prefix :: IP where
  "v4InV6Prefix = replicate 10 0 @ [0xFF, 0xFF]"

definition As16 :: "IP \<Rightarrow> IP" where
  "As16 ip = (if length ip = 4 then v4InV6Prefix @ ip else ip)"

definition To4 :: "IP \<Rightarrow> IP option" where
  "To4 ip =
     (if length ip = 4 then Some ip
      else if length ip = 16 \<and> take 12 ip = v4InV6Prefix then Some (drop 12 ip)
      else None)"

definition ParseIP :: "string \<Rightarrow> IP option" where
  "ParseIP s = map_option As16 (ParseAddr s)"

section \<open>Networks\<close>

fun cidr_mask :: "nat \<Rightarrow> nat \<Rightarrow> byte list" where
  "cidr_mask n 0 = []"
| "cidr_mask n (Suc l) =
     (if n \<ge> 8 then 0xFF # cidr_mask (n - 8) l else NOT (drop_bit n 0xFF) # cidr_mask 0 l)"

text \<open>\<open>CIDRMask(ones, bits)\<close> for a number of bits that is a multiple of eight.\<close>

definition CIDRMask :: "nat \<Rightarrow> nat \<Rightarrow> byte list" where
  "CIDRMask ones bits = cidr_mask ones (bits div 8)"

definition and_bytes :: "byte list \<Rightarrow> byte list \<Rightarrow> byte list" where
  "and_bytes xs ys = map2 (AND) xs ys"

record IPNet =
  net_IP :: IP
  net_Mask :: "byte list"

definition IP_Mask :: "IP \<Rightarrow> byte list \<Rightarrow> IP" where
  "IP_Mask ip0 m0 =
     (let m = (if length m0 = 16 \<and> length ip0 = 4 \<and> take 12 m0 = replicate 12 0xFF then drop 12 m0 else m0);
          ip = (if length m = 4 \<and> length ip0 = 16 \<and> take 12 ip0 = v4InV6Prefix then drop 12 ip0 else ip0) in
      if length ip \<noteq> length m then [] else and_bytes ip m)"

text \<open>\<open>dtoi\<close> on the whole text: the number, or \<open>None\<close> when a byte is no digit or it is too big.\<close>

fun dtoi :: "string \<Rightarrow> int \<Rightarrow> int option" where
  "dtoi [] n = Some n"
| "dtoi (c # cs) n =
     (case digit_value c of
        None \<Rightarrow> None
      | Some k \<Rightarrow> if n * 10 + int k \<ge> 0xFFFFFF then None else dtoi cs (n * 10 + int k))"

definition ParseCIDR :: "string \<Rightarrow> IPNet option" where
  "ParseCIDR s =
     (let addr = takeWhile (\<lambda>c. c \<noteq> CHR ''/'') s; bits = drop 1 (dropWhile (\<lambda>c. c \<noteq> CHR ''/'') s) in
      if CHR ''/'' \<notin> set s then None
      else
        (case ParseAddr addr of
           None \<Rightarrow> None
         | Some ip \<Rightarrow>
             (case (if bits = [] then None else dtoi bits 0) of
                None \<Rightarrow> None
              | Some n \<Rightarrow>
                  if n < 0 \<or> n > int (8 * length ip) then None
                  else
                    let m = CIDRMask (nat n) (8 * length ip) in
                    Some \<lparr>net_IP = IP_Mask (As16 ip) m, net_Mask = m\<rparr>)))"

definition networkNumberAndMask :: "IPNet \<Rightarrow> (IP \<times> byte list) option" where
  "networkNumberAndMask n =
     (case (case To4 (net_IP n) of Some ip \<Rightarrow> Some ip | None \<Rightarrow> if length (net_IP n) = 16 then Some (net_IP n) else None) of
        None \<Rightarrow> None
      | Some ip \<Rightarrow>
          if length (net_Mask n) = 4 then (if length ip = 4 then Some (ip, net_Mask n) else None)
          else if length (net_Mask n) = 16 then Some (ip, if length ip = 4 then drop 12 (net_Mask n) else net_Mask n)
          else None)"

definition IPNet_Contains :: "IPNet \<Rightarrow> IP \<Rightarrow> bool" where
  "IPNet_Contains n ip0 =
     (case networkNumberAndMask n of
        None \<Rightarrow> False
      | Some (nn, m) \<Rightarrow>
          let ip = (case To4 ip0 of Some x \<Rightarrow> x | None \<Rightarrow> ip0) in
          length ip = length nn \<and> and_bytes nn m = and_bytes ip m)"

section \<open>A mask keeps the leading bits\<close>

definition byte_bits :: "byte \<Rightarrow> bool list" where
  "byte_bits b = map (\<lambda>j. bit b (7 - j)) [0..<8]"

definition IP_bits :: "IP \<Rightarrow> bool list" where
  "IP_bits ip = concat (map byte_bits ip)"

lemma length_byte_bits [simp]: "length (byte_bits b) = 8"
  by (simp add: byte_bits_def)

lemma bit_ff [simp]: "bit (0xFF :: int) i \<longleftrightarrow> i < 8"
proof -
  have "(0xFF :: int) = mask 8" by (simp add: mask_eq_exp_minus_1)
  then show ?thesis by (simp only: bit_mask_iff) simp
qed

lemma bit_mask_byte: "bit (NOT (drop_bit n (0xFF :: byte))) i \<longleftrightarrow> i < 8 \<and> 8 \<le> n + i"
  by (auto simp: bit_simps)

lemma mask_byte_eq:
  assumes "n \<le> 8"
  shows "x AND NOT (drop_bit n 0xFF) = y AND NOT (drop_bit n (0xFF :: byte)) \<longleftrightarrow> take n (byte_bits x) = take n (byte_bits y)"
proof -
  have "x AND NOT (drop_bit n 0xFF) = y AND NOT (drop_bit n (0xFF :: byte)) \<longleftrightarrow>
      (\<forall>i. i < 8 \<and> 8 \<le> n + i \<longrightarrow> bit x i = bit y i)"
    by (auto simp: bit_eq_iff bit_and_iff bit_mask_byte)
  also have "\<dots> \<longleftrightarrow> (\<forall>j<n. bit x (7 - j) = bit y (7 - j))"
  proof safe
    fix j assume "\<forall>i. i < 8 \<and> 8 \<le> n + i \<longrightarrow> bit x i = bit y i" "j < n"
    moreover have "7 - j < 8 \<and> 8 \<le> n + (7 - j)" using \<open>j < n\<close> assms by arith
    ultimately have "bit x (7 - j) = bit y (7 - j)" by blast
    then show "bit x (7 - j) \<Longrightarrow> bit y (7 - j)" "bit y (7 - j) \<Longrightarrow> bit x (7 - j)" by simp_all
  next
    fix i assume a: "\<forall>j<n. bit x (7 - j) = bit y (7 - j)" "i < 8" "8 \<le> n + i"
    then have "7 - i < n" "7 - (7 - i) = i" by simp_all
    with a show "bit x i \<Longrightarrow> bit y i" "bit y i \<Longrightarrow> bit x i" by metis+
  qed
  also have "\<dots> \<longleftrightarrow> take n (byte_bits x) = take n (byte_bits y)"
    using assms by (auto simp: list_eq_iff_nth_eq byte_bits_def)
  finally show ?thesis .
qed

lemma and_bytes_Cons [simp]: "and_bytes (x # xs) (m # ms) = (x AND m) # and_bytes xs ms"
  by (simp add: and_bytes_def)

lemma cidr_mask_length [simp]: "length (cidr_mask n l) = l"
  by (induction n l rule: cidr_mask.induct) auto

lemma and_bytes_idem [simp]: "and_bytes (and_bytes xs ms) ms = and_bytes xs ms"
  by (simp add: and_bytes_def list_eq_iff_nth_eq ac_simps)

lemma and_bytes_length [simp]: "length (and_bytes xs ms) = min (length xs) (length ms)"
  by (simp add: and_bytes_def)

lemma IP_bits_Cons [simp]: "IP_bits (b # bs) = byte_bits b @ IP_bits bs"
  by (simp add: IP_bits_def)

lemma cidr_mask_eq:
  assumes "length xs = l" and "length ys = l"
  shows "and_bytes xs (cidr_mask n l) = and_bytes ys (cidr_mask n l) \<longleftrightarrow> take n (IP_bits xs) = take n (IP_bits ys)"
  using assms
proof (induction n l arbitrary: xs ys rule: cidr_mask.induct)
  case (2 n l)
  obtain x xs' y ys' where xy: "xs = x # xs'" "ys = y # ys'" "length xs' = l" "length ys' = l"
    using 2(3,4) by (auto simp: length_Suc_conv)
  have ff: "(a AND 0xFF :: byte) = a" for a by (rule bit_word_eqI) (simp add: bit_and_iff)
  show ?case
  proof (cases "n \<ge> 8")
    case True
    have "x = y \<longleftrightarrow> byte_bits x = byte_bits y"
      using mask_byte_eq [of 8 x y] by (simp add: ff)
    then show ?thesis using 2(1) [OF True] True xy by (simp add: ff)
  next
    case False
    have tail: "and_bytes xs' (cidr_mask 0 l) = and_bytes ys' (cidr_mask 0 l)"
      using 2(2) [OF False xy(3,4)] by (simp only: take_0)
    have mask: "cidr_mask n (Suc l) = NOT (drop_bit n 0xFF) # cidr_mask 0 l" using False by simp
    have bits: "take n (byte_bits b @ r) = take n (byte_bits b)" for b r using False by simp
    show ?thesis unfolding xy mask and_bytes_Cons IP_bits_Cons bits list.inject
      using mask_byte_eq [of n x y] tail False by linarith
  qed
qed (simp add: IP_bits_def)

text \<open>An IPv4 network of \<open>n\<close> bits contains the addresses that agree with it on them.\<close>

lemma ParseCIDR_v4_Contains:
  assumes a: "ParseAddr addr = Some a" "length a = 4" "CHR ''/'' \<notin> set addr"
    and n: "m \<noteq> []" "dtoi m 0 = Some (int n)" "n \<le> 32"
  shows "\<exists>net. ParseCIDR (addr @ ''/'' @ m) = Some net \<and>
    (\<forall>ip. IPNet_Contains net ip \<longleftrightarrow> (\<exists>b. To4 ip = Some b \<and> take n (IP_bits b) = take n (IP_bits a)))"
proof -
  let ?m = "cidr_mask n 4"
  have split: "takeWhile (\<lambda>c. c \<noteq> CHR ''/'') (addr @ ''/'' @ m) = addr"
    "drop 1 (dropWhile (\<lambda>c. c \<noteq> CHR ''/'') (addr @ ''/'' @ m)) = m"
    using a(3) by (induction addr) auto
  have masked: "IP_Mask (v4InV6Prefix @ a) ?m = and_bytes a ?m"
    using a(2) by (simp add: IP_Mask_def v4InV6Prefix_def)
  have net: "ParseCIDR (addr @ ''/'' @ m) = Some \<lparr>net_IP = and_bytes a ?m, net_Mask = ?m\<rparr>"
    unfolding ParseCIDR_def split Let_def using a n masked by (simp add: CIDRMask_def As16_def)
  have "IPNet_Contains \<lparr>net_IP = and_bytes a ?m, net_Mask = ?m\<rparr> ip \<longleftrightarrow>
      (\<exists>b. To4 ip = Some b \<and> take n (IP_bits b) = take n (IP_bits a))" for ip
  proof (cases "To4 ip")
    case None
    then have "length ip \<noteq> 4" by (auto simp: To4_def split: if_splits)
    with None a(2) show ?thesis by (simp add: IPNet_Contains_def networkNumberAndMask_def To4_def)
  next
    case (Some b)
    then have "length b = 4" by (auto simp: To4_def split: if_splits)
    with Some a(2) show ?thesis using cidr_mask_eq [of a 4 b n]
      by (auto simp: IPNet_Contains_def networkNumberAndMask_def To4_def [of "and_bytes a ?m"] Let_def)
  qed
  with net show ?thesis by blast
qed

text \<open>A dotted address followed by a colon, as in \<open>ip:port\<close>, is no address.\<close>

lemma octet_loop_digits: "octet_loop s v l = Some x \<Longrightarrow> \<forall>c \<in> set s. digit_value c \<noteq> None"
  by (induction s v l rule: octet_loop.induct) (auto split: option.splits if_splits)

lemma octets_digits: "octets fs = Some bs \<Longrightarrow> f \<in> set fs \<Longrightarrow> c \<in> set f \<Longrightarrow> digit_value c \<noteq> None"
  by (induction fs arbitrary: bs) (auto split: option.splits dest: octet_loop_digits)

lemma Split_chars: "c \<in> set s \<Longrightarrow> c \<noteq> d \<Longrightarrow> \<exists>f \<in> set (Split s d). c \<in> set f"
  by (induction s d rule: Split.induct) (auto split: list.splits)

lemma parseIPv4_colon: "CHR '':'' \<in> set s \<Longrightarrow> parseIPv4 s = None"
proof (rule ccontr)
  assume "CHR '':'' \<in> set s" and "parseIPv4 s \<noteq> None"
  moreover from this(2) obtain bs where "octets (Split s CHR ''.'') = Some bs"
    by (auto simp: parseIPv4_def Let_def split: if_splits)
  moreover from calculation(1) obtain f where "f \<in> set (Split s CHR ''.'')" "CHR '':'' \<in> set f"
    using Split_chars [of "CHR '':''" s "CHR ''.''"] by auto
  ultimately have "digit_value CHR '':'' \<noteq> None" using octets_digits by blast
  then show False by (simp add: digit_value_def)
qed

lemma ParseIP_port:
  assumes "CHR ''.'' \<in> set host" and "CHR '':'' \<notin> set host" and "CHR ''%'' \<notin> set host"
  shows "ParseIP (host @ '':'' @ port) = None"
proof -
  have "find (\<lambda>c. c \<in> {CHR ''.'', CHR '':'', CHR ''%''}) (host @ '':'' @ port) = Some CHR ''.''"
    using assms by (induction host) auto
  then show ?thesis by (simp add: ParseIP_def ParseAddr_def parseIPv4_colon)
qed

end
