(* ===== verification/Policy_Service.thy ===== *)
theory Policy_Service
  imports Tables Go_Net
begin

text \<open>
  \<open>internal/policy/infrastructure/postgres/repository.go\<close> and
  \<open>internal/policy/application/service.go\<close>: the policy table, the service and the
  authorization decision, with what it means that a policy grants a request.
\<close>

section \<open>The repository\<close>

definition store_Policy :: "env \<Rightarrow> Policy \<Rightarrow> Policy" where
  "store_Policy env p =
     p\<lparr>pol_Conditions := json_col env (pol_Conditions p),
       pol_CreatedAt := ts_col env (pol_CreatedAt p), pol_UpdatedAt := ts_col env (pol_UpdatedAt p)\<rparr>"

definition insert_policy :: "Policy \<Rightarrow> unit stmt" where
  "insert_policy p d =
     insert_stmt (list_ex (\<lambda>r. pol_ID r = pol_ID p \<or> pol_Name r = pol_Name p) (policies d)) False
       (d\<lparr>policies := policies d @ [p]\<rparr>) d"

definition select_policy :: "string \<Rightarrow> Policy stmt" where
  "select_policy name d = select_row (\<lambda>r. pol_Name r = name) (policies d) d"

definition delete_policy :: "uuid \<Rightarrow> unit stmt" where
  "delete_policy i d = (Inr (), d\<lparr>policies := filter (\<lambda>r. pol_ID r \<noteq> i) (policies d)\<rparr>)"

text \<open>PostgreSQL's \<open>length\<close> counts characters: the bytes that do not continue one.\<close>

definition sql_length :: "string \<Rightarrow> nat" where
  "sql_length s = length (filter (\<lambda>c. \<not> (128 \<le> (of_char c :: nat) \<and> (of_char c :: nat) < 192)) s)"

definition PolicyRepo_Create :: "env \<Rightarrow> Policy \<Rightarrow> unit io" where
  "PolicyRepo_Create env policy =
     wrapE ''insert policy: %w'' [] (sql env (insert_policy (store_Policy env policy)))"

definition PolicyRepo_Get :: "env \<Rightarrow> string \<Rightarrow> Policy io" where
  "PolicyRepo_Get env name = wrapE ''policy not found: %w'' [] (sql env (select_policy name))"

definition PolicyRepo_List :: "env \<Rightarrow> string \<Rightarrow> Policy list io" where
  "PolicyRepo_List env namespace =
     queryE env ''list policies: %w''
       (sql env (\<lambda>d. select_rows
          (order_by (\<lambda>x y. sql_length (pol_PathPrefix x) \<ge> sql_length (pol_PathPrefix y))
             (filter (\<lambda>p. pol_Namespace p = namespace) (policies d))) d))"

definition PolicyRepo_Delete :: "env \<Rightarrow> uuid \<Rightarrow> unit io" where
  "PolicyRepo_Delete env i = wrapE ''delete policy: %w'' [] (sql env (delete_policy i))"

interpretation pol_table: keyed_table policies pol_Name insert_policy select_policy
  by unfold_locales
    (auto simp: insert_policy_def select_policy_def insert_stmt_Inr_iff list_ex_iff dest: insert_stmt_Inl)

section \<open>Matching\<close>

definition policyMatchesIdentity :: "string \<Rightarrow> string \<Rightarrow> bool" where
  "policyMatchesIdentity pattern identity = (if pattern = ''*'' then True else pattern = identity)"

definition pathInherits :: "string \<Rightarrow> string \<Rightarrow> bool" where
  "pathInherits path0 prefix0 =
     (if prefix0 = ''/'' then True
      else
        let path = TrimSuffix path0 ''/''; prefix = TrimSuffix prefix0 ''/'' in
        path = prefix \<or> HasPrefix path (prefix @ ''/''))"

fun in_loop :: "string list \<Rightarrow> string \<Rightarrow> bool" where
  "in_loop [] actual = False"
| "in_loop (item # items) actual = (if actual = TrimSpace item then True else in_loop items actual)"

definition conditionValueMatches :: "string \<Rightarrow> string \<Rightarrow> bool" where
  "conditionValueMatches expected actual =
     (if HasPrefix expected ''eq:'' then actual = TrimPrefix expected ''eq:''
      else if HasPrefix expected ''prefix:'' then HasPrefix actual (TrimPrefix expected ''prefix:'')
      else if HasPrefix expected ''in:'' then in_loop (Split (TrimPrefix expected ''in:'') CHR '','') actual
      else if HasPrefix expected ''cidr:'' then
        (case ParseCIDR (TrimPrefix expected ''cidr:'') of
           None \<Rightarrow> False
         | Some network \<Rightarrow>
             (case ParseIP actual of None \<Rightarrow> False | Some ip \<Rightarrow> IPNet_Contains network ip))
      else actual = expected)"

fun conditionsMatch :: "smap \<Rightarrow> smap \<Rightarrow> bool" where
  "conditionsMatch [] ctx = True"
| "conditionsMatch ((key, expected) # conditions) ctx =
     (case map_of ctx key of
        None \<Rightarrow> False
      | Some actual \<Rightarrow> if \<not> conditionValueMatches expected actual then False else conditionsMatch conditions ctx)"

section \<open>The service\<close>

definition PolicyService_Create :: "env \<Rightarrow> CreatePolicyInput \<Rightarrow> Policy io" where
  "PolicyService_Create env input0 =
     bindE (liftE (NormalizePolicy input0)) (\<lambda>input.
     bindE (tryE (PolicyRepo_Get env (cpi_Name input))) (\<lambda>found.
     case found of
       Inr _ \<Rightarrow> failE (Errorf ''policy already exists'' [])
     | Inl _ \<Rightarrow>
         bindE (nowE env) (\<lambda>now.
         bindE (uuidE env) (\<lambda>i.
         let policy = \<lparr>pol_ID = i, pol_Name = cpi_Name input, pol_Namespace = cpi_Namespace input,
                       pol_PathPrefix = cpi_PathPrefix input, pol_Identity = cpi_Identity input,
                       pol_Capabilities = cpi_Capabilities input,
                       pol_Conditions = (case cpi_Conditions input of None \<Rightarrow> [] | Some m \<Rightarrow> m),
                       pol_CreatedAt = now, pol_UpdatedAt = now\<rparr> in
         bindE (PolicyRepo_Create env policy) (\<lambda>_. okE policy)))))"

definition PolicyService_Get :: "env \<Rightarrow> string \<Rightarrow> Policy io" where
  "PolicyService_Get env name = PolicyRepo_Get env name"

definition PolicyService_List :: "env \<Rightarrow> string \<Rightarrow> Policy list io" where
  "PolicyService_List env namespace = PolicyRepo_List env namespace"

definition PolicyService_Delete :: "env \<Rightarrow> string \<Rightarrow> unit io" where
  "PolicyService_Delete env name =
     bindE (PolicyRepo_Get env name) (\<lambda>policy. PolicyRepo_Delete env (pol_ID policy))"

fun authorize_loop :: "Policy list \<Rightarrow> AuthorizationRequest \<Rightarrow> bool" where
  "authorize_loop [] req = False"
| "authorize_loop (policy # rest) req =
     (if \<not> policyMatchesIdentity (pol_Identity policy) (req_Identity req) then authorize_loop rest req
      else if \<not> pathInherits (req_Path req) (pol_PathPrefix policy) then authorize_loop rest req
      else if \<not> Allows policy (req_Capability req) then authorize_loop rest req
      else if \<not> conditionsMatch (pol_Conditions policy) (req_Context req) then authorize_loop rest req
      else True)"

definition PolicyService_Authorize :: "env \<Rightarrow> string \<Rightarrow> AuthorizationRequest \<Rightarrow> bool io" where
  "PolicyService_Authorize env adminIdentity req =
     (if EqualFold (req_Identity req) adminIdentity then okE True
      else bindE (PolicyRepo_List env (req_Namespace req)) (\<lambda>policies. okE (authorize_loop policies req)))"

section \<open>When a policy grants a request\<close>

definition conditions_hold :: "smap \<Rightarrow> smap \<Rightarrow> bool" where
  "conditions_hold conditions ctx \<longleftrightarrow>
     (\<forall>(key, expected) \<in> set conditions.
        case map_of ctx key of None \<Rightarrow> False | Some actual \<Rightarrow> conditionValueMatches expected actual)"

definition segments :: "string \<Rightarrow> string list" where
  "segments s = Split (TrimSuffix s ''/'') CHR ''/''"

definition covers :: "string \<Rightarrow> string \<Rightarrow> bool" where
  "covers pre path \<longleftrightarrow> pre = ''/'' \<or> prefix (segments pre) (segments path)"

definition grants :: "Policy \<Rightarrow> AuthorizationRequest \<Rightarrow> bool" where
  "grants p req \<longleftrightarrow>
     pol_Namespace p = req_Namespace req \<and> (pol_Identity p = ''*'' \<or> pol_Identity p = req_Identity req) \<and>
     covers (pol_PathPrefix p) (req_Path req) \<and> req_Capability req \<in> set (pol_Capabilities p) \<and>
     conditions_hold (pol_Conditions p) (req_Context req)"

lemma conditionsMatch_iff: "conditionsMatch cs ctx \<longleftrightarrow> conditions_hold cs ctx"
  by (induction cs ctx rule: conditionsMatch.induct) (auto simp: conditions_hold_def split: option.splits)

lemma in_loop_iff: "in_loop items actual \<longleftrightarrow> actual \<in> TrimSpace ` set items"
  by (induction items) auto

lemma Split_nonempty [simp]: "Split s c \<noteq> []"
  by (induction s c rule: Split.induct) (auto split: list.splits)

lemma Split_append: "Split (s @ c # t) c = Split s c @ Split t c"
  by (induction s) (auto split: list.splits simp: neq_Nil_conv)

text \<open>Joining is the inverse of splitting.\<close>

fun join :: "char \<Rightarrow> string list \<Rightarrow> string" where
  "join c [] = []"
| "join c [x] = x"
| "join c (x # y # ys) = x @ c # join c (y # ys)"

lemma join_Split: "join c (Split s c) = s"
proof (induction s)
  case (Cons x xs)
  obtain y ys where "Split xs c = y # ys" by (meson Split_nonempty neq_Nil_conv)
  with Cons show ?case by (cases ys) auto
qed simp

lemma join_append: "xs \<noteq> [] \<Longrightarrow> ys \<noteq> [] \<Longrightarrow> join c (xs @ ys) = join c xs @ c # join c ys"
proof (induction c xs rule: join.induct)
  case (2 c x)
  then show ?case by (cases ys) auto
qed auto

lemma prefix_Split_iff: "prefix (Split p c) (Split s c) \<longleftrightarrow> s = p \<or> HasPrefix s (p @ [c])"
proof
  assume "prefix (Split p c) (Split s c)"
  then obtain r where r: "Split s c = Split p c @ r" by (auto simp: prefix_def)
  show "s = p \<or> HasPrefix s (p @ [c])"
  proof (cases "r = []")
    case True
    then show ?thesis using r join_Split by (metis append_Nil2)
  next
    case False
    then have "s = p @ c # join c r" using r join_Split join_append Split_nonempty by metis
    then show ?thesis by (simp add: HasPrefix_iff)
  qed
next
  assume "s = p \<or> HasPrefix s (p @ [c])"
  then show "prefix (Split p c) (Split s c)" by (auto simp: HasPrefix_iff Split_append)
qed

lemma pathInherits_iff: "pathInherits path pre \<longleftrightarrow> covers pre path"
  by (simp add: pathInherits_def covers_def segments_def Let_def prefix_Split_iff)

lemma authorize_loop_iff:
  "authorize_loop ps req \<longleftrightarrow> (\<exists>p \<in> set ps. (pol_Identity p = ''*'' \<or> pol_Identity p = req_Identity req) \<and>
     covers (pol_PathPrefix p) (req_Path req) \<and> req_Capability req \<in> set (pol_Capabilities p) \<and>
     conditions_hold (pol_Conditions p) (req_Context req))"
  by (induction ps) (auto simp: policyMatchesIdentity_def pathInherits_iff conditionsMatch_iff)

lemma Authorize_result:
  "PolicyService_Authorize env admin req w = (Inr ok, w') \<Longrightarrow>
     ok \<longleftrightarrow> EqualFold (req_Identity req) admin \<or> (\<exists>p \<in> set (policies (db w')). grants p req)"
  by (auto simp: PolicyService_Authorize_def PolicyRepo_List_def bindE_Inr_iff sql_def select_rows_def Let_def
      authorize_loop_iff grants_def split: if_splits outcome.splits)

lemma Authorize_frame:
  "served env \<Longrightarrow> db (snd (PolicyService_Authorize env admin req w)) = db w \<and>
     \<not> isl (fst (PolicyService_Authorize env admin req w))"
  by (simp add: PolicyService_Authorize_def PolicyRepo_List_def eff_simps sql_served select_rows_def)

section \<open>The table's constraints\<close>

definition policy_schema :: "tables \<Rightarrow> bool" where
  "policy_schema d \<longleftrightarrow> distinct (map pol_ID (policies d)) \<and> distinct (map pol_Name (policies d))"

lemma keeps_policy_stmts [pres]:
  "keeps_stmt policy_schema (insert_policy p)" "keeps_stmt policy_schema (select_policy n)"
  "keeps_stmt policy_schema (delete_policy i)"
  unfolding insert_policy_def select_policy_def delete_policy_def
  by (rule keeps_insert_stmt keeps_update_stmt keeps_select_row;
      auto simp: policy_schema_def list_ex_iff distinct_map_snoc distinct_map_filter)+

lemma keeps_schema_PolicyService:
  assumes "rely env policy_schema"
  shows "keeps policy_schema (PolicyService_Create env input)" "keeps policy_schema (PolicyService_Delete env name)"
    "keeps policy_schema (PolicyService_Authorize env admin req)"
  unfolding PolicyService_Create_def PolicyService_Delete_def PolicyService_Authorize_def
    PolicyRepo_Create_def PolicyRepo_Get_def PolicyRepo_Delete_def PolicyRepo_List_def Let_def
  by (intro pres keeps_sql assms)+

end
