(* ===== verification/Policy_Properties.thy ===== *)
theory Policy_Properties
  imports Policy_Service Samples
begin

text \<open>The properties of the policy engine, each exercised on a concrete policy table.\<close>

section \<open>What creating and deleting do to the table\<close>

lemma PolicyRepo_Get_served:
  "served env \<Longrightarrow> PolicyRepo_Get env name w =
     (case find (\<lambda>r. pol_Name r = name) (policies (db w)) of
        None \<Rightarrow> (Inl (Wrapf ''policy not found: %w'' [] ErrNoRows), w\<lparr>stmts := Suc (stmts w)\<rparr>)
      | Some p \<Rightarrow> (Inr p, w\<lparr>stmts := Suc (stmts w)\<rparr>))"
  by (simp add: PolicyRepo_Get_def sql_served wrapE_def select_policy_def select_row_def split: option.splits)

lemma Create_served:
  assumes "served env" and "PolicyService_Create env input w = (Inr p, w')"
  shows "\<exists>j. NormalizePolicy input = Inr j \<and> cpi_Name j \<notin> pol_Name ` set (policies (db w)) \<and>
    pol_Name p = cpi_Name j \<and> pol_Namespace p = cpi_Namespace j \<and> pol_PathPrefix p = cpi_PathPrefix j \<and>
    pol_Identity p = cpi_Identity j \<and> pol_Capabilities p = cpi_Capabilities j \<and>
    policies (db w') = policies (db w) @ [store_Policy env p]"
proof (cases "NormalizePolicy input")
  case (Inl e)
  then show ?thesis using assms by (simp add: PolicyService_Create_def)
next
  case (Inr j)
  show ?thesis
  proof (cases "find (\<lambda>r. pol_Name r = cpi_Name j) (policies (db w))")
    case None
    then have "cpi_Name j \<notin> pol_Name ` set (policies (db w))" by (auto simp: find_None_set)
    with None show ?thesis using assms Inr
      by (auto simp: PolicyService_Create_def eff_simps PolicyRepo_Get_served PolicyRepo_Create_def
          sql_served nowE_def uuidE_def insert_policy_def insert_stmt_def Let_def list_ex_iff store_Policy_def
          split: if_splits)
  next
    case (Some p)
    then show ?thesis using assms Inr
      by (simp add: PolicyService_Create_def eff_simps PolicyRepo_Get_served)
  qed
qed

lemma filter_key_one:
  assumes "distinct (map i xs)" and "distinct (map k xs)" and "x \<in> set xs"
  shows "filter (\<lambda>r. i r \<noteq> i x) xs = filter (\<lambda>r. k r \<noteq> k x) xs"
proof (rule filter_cong [OF refl])
  fix r assume "r \<in> set xs"
  then show "i r \<noteq> i x \<longleftrightarrow> k r \<noteq> k x"
    using assms by (metis distinct_map inj_onD)
qed

lemma Delete_served:
  assumes "served env" and "policy_schema (db w)" and "PolicyService_Delete env name w = (Inr u, w')"
  shows "policies (db w') = filter (\<lambda>p. pol_Name p \<noteq> name) (policies (db w))"
proof -
  obtain p where p: "find (\<lambda>r. pol_Name r = name) (policies (db w)) = Some p"
    and w': "policies (db w') = filter (\<lambda>r. pol_ID r \<noteq> pol_ID p) (policies (db w))"
    using assms(1,3)
    by (auto simp: PolicyService_Delete_def bindE_Inr_iff PolicyRepo_Get_served PolicyRepo_Delete_def
        sql_served delete_policy_def split: option.splits)
  with find_Some_set [OF p] filter_key_one [of pol_ID "policies (db w)" pol_Name p] assms(2)
  show ?thesis by (auto simp: policy_schema_def)
qed

section \<open>A sample table\<close>

definition sample_policy_input :: CreatePolicyInput where
  "sample_policy_input =
     \<lparr>cpi_Name = ''ops'', cpi_Namespace = ''app'', cpi_PathPrefix = ''/db'', cpi_Identity = ''alice'',
      cpi_Capabilities = [CapabilityRead], cpi_Conditions = Some [(''ip'', ''cidr:10.0.0.0/8'')]\<rparr>"

definition policy_world :: world where
  "policy_world = snd (PolicyService_Create sample_env sample_policy_input init_world)"

definition sample_request :: "string \<Rightarrow> string \<Rightarrow> AuthorizationRequest" where
  "sample_request path ip =
     \<lparr>req_Identity = ''alice'', req_Namespace = ''app'', req_Path = path, req_Capability = CapabilityRead,
      req_Context = [(''ip'', ip)]\<rparr>"

section \<open>Properties\<close>

text \<open>C4: the decision is right: a request is allowed exactly when its identity is the administrator's or a policy of its namespace grants it, whatever the order in which the rows come, and refused by default.\<close>

theorem authorize_iff_granted:
  assumes "PolicyService_Authorize env admin req w = (Inr ok, w')"
  shows "ok \<longleftrightarrow> EqualFold (req_Identity req) admin \<or> (\<exists>p \<in> set (policies (db w')). grants p req)"
  by (rule Authorize_result [OF assms])

theorem authorize_iff_granted_witness:
  "(\<exists>p \<in> set (policies (db policy_world)). grants p (sample_request ''/db/main'' ''10.9.8.7''))
   \<and> \<not> (\<exists>p \<in> set (policies (db policy_world)). grants p (sample_request ''/dbx'' ''10.9.8.7''))"
proof -
  have "fst (PolicyService_Authorize sample_env ''admin'' (sample_request ''/db/main'' ''10.9.8.7'') policy_world) = Inr True"
    "fst (PolicyService_Authorize sample_env ''admin'' (sample_request ''/dbx'' ''10.9.8.7'') policy_world) = Inr False"
    "\<not> EqualFold ''alice'' ''admin''"
    by code_simp+
  moreover have "req_Identity (sample_request path ip) = ''alice''" for path ip by (simp add: sample_request_def)
  ultimately show ?thesis
    using authorize_iff_granted [of sample_env "''admin''" _ policy_world] Authorize_frame [OF sample_served]
    by (metis prod.collapse)
qed

text \<open>C22: a policy's prefix covers a path exactly when its segments are the first segments of the path; a prefix never covers a sibling that merely starts with the same letters.\<close>

theorem path_inherits_segments:
  "pathInherits path pre \<longleftrightarrow> pre = ''/'' \<or> prefix (segments pre) (segments path)"
  by (simp add: pathInherits_iff covers_def)

text \<open>C23: a condition on an IPv4 network holds exactly when the value is an address whose leading bits are the network's.\<close>

theorem cidr_condition_bits:
  assumes "ParseAddr addr = Some a" and "length a = 4" and "CHR ''/'' \<notin> set addr"
    and "m \<noteq> []" and "dtoi m 0 = Some (int n)" and "n \<le> 32"
  shows "conditionValueMatches (''cidr:'' @ addr @ ''/'' @ m) actual \<longleftrightarrow>
    (\<exists>ip b. ParseIP actual = Some ip \<and> To4 ip = Some b \<and> take n (IP_bits b) = take n (IP_bits a))"
proof -
  obtain net where net: "ParseCIDR (addr @ ''/'' @ m) = Some net"
    "\<And>ip. IPNet_Contains net ip \<longleftrightarrow> (\<exists>b. To4 ip = Some b \<and> take n (IP_bits b) = take n (IP_bits a))"
    using ParseCIDR_v4_Contains [OF assms] by blast
  have "TrimPrefix (''cidr:'' @ addr @ ''/'' @ m) ''cidr:'' = addr @ ''/'' @ m" by (rule TrimPrefix_append)
  then have "conditionValueMatches (''cidr:'' @ addr @ ''/'' @ m) actual =
      (case ParseIP actual of None \<Rightarrow> False | Some ip \<Rightarrow> IPNet_Contains net ip)"
    using net(1) by (simp add: conditionValueMatches_def)
  then show ?thesis by (simp add: net(2) split: option.splits)
qed

theorem cidr_condition_bits_witness:
  "conditionValueMatches ''cidr:10.0.0.0/8'' ''10.1.2.3'' \<and> \<not> conditionValueMatches ''cidr:10.0.0.0/8'' ''11.1.2.3''"
proof -
  have a: "ParseAddr ''10.0.0.0'' = Some [10, 0, 0, 0]" "dtoi ''8'' 0 = Some (int 8)" by code_simp+
  have "ParseIP ''10.1.2.3'' = Some (v4InV6Prefix @ [10, 1, 2, 3])"
    "ParseIP ''11.1.2.3'' = Some (v4InV6Prefix @ [11, 1, 2, 3])"
    "To4 (v4InV6Prefix @ [10, 1, 2, 3]) = Some [10, 1, 2, 3]" "To4 (v4InV6Prefix @ [11, 1, 2, 3]) = Some [11, 1, 2, 3]"
    "take 8 (IP_bits [10, 1, 2, 3]) = take 8 (IP_bits [10, 0, 0, 0])"
    "take 8 (IP_bits [11, 1, 2, 3]) \<noteq> take 8 (IP_bits [10, 0, 0, 0])"
    by code_simp+
  then show ?thesis
    using cidr_condition_bits [OF a(1) _ _ _ a(2), of "''10.1.2.3''"] cidr_condition_bits [OF a(1) _ _ _ a(2), of "''11.1.2.3''"]
    by simp
qed

text \<open>A condition on a network never holds for the text of an address with a port, which is what a connection's remote address is.\<close>

theorem cidr_rejects_host_port:
  assumes "CHR ''.'' \<in> set host" and "CHR '':'' \<notin> set host" and "CHR ''%'' \<notin> set host"
  shows "\<not> conditionValueMatches (''cidr:'' @ network) (host @ '':'' @ port)"
  using ParseIP_port [OF assms] by (simp add: conditionValueMatches_def split: option.splits)

theorem cidr_rejects_host_port_witness: "\<not> conditionValueMatches ''cidr:10.0.0.0/8'' ''10.1.2.3:443''"
  using cidr_rejects_host_port [of "''10.1.2.3''" "''10.0.0.0/8''" "''443''"] by simp

text \<open>A policy that was created grants, from then on, every request of its namespace, identity, path, capabilities and conditions; its name was free before.\<close>

theorem created_policy_grants:
  assumes "served env" and "PolicyService_Create env input w = (Inr p, w')"
    and "req_Namespace req = TrimSpace (cpi_Namespace input)"
    and "TrimSpace (cpi_Identity input) \<in> {''*'', req_Identity req}"
    and "covers (TrimSpace (cpi_PathPrefix input)) (req_Path req)"
    and "req_Capability req \<in> set (cpi_Capabilities input)"
    and "conditions_hold (json_col env (pol_Conditions p)) (req_Context req)"
  shows "fst (PolicyService_Authorize env admin req w') = Inr True \<and> pol_Name p \<notin> pol_Name ` set (policies (db w))"
proof -
  obtain j where j: "NormalizePolicy input = Inr j" "cpi_Name j \<notin> pol_Name ` set (policies (db w))"
    "pol_Name p = cpi_Name j" "pol_Namespace p = cpi_Namespace j" "pol_PathPrefix p = cpi_PathPrefix j"
    "pol_Identity p = cpi_Identity j" "pol_Capabilities p = cpi_Capabilities j"
    "policies (db w') = policies (db w) @ [store_Policy env p]"
    using Create_served [OF assms(1,2)] by blast
  from j(1) have "cpi_Namespace j = TrimSpace (cpi_Namespace input)" "cpi_Identity j = TrimSpace (cpi_Identity input)"
    "cpi_PathPrefix j = TrimSpace (cpi_PathPrefix input)" "cpi_Capabilities j = cpi_Capabilities input"
    by (auto simp: NormalizePolicy_def Let_def split: if_splits)
  with j assms(3-7) have "grants (store_Policy env p) req"
    by (auto simp: grants_def store_Policy_def)
  moreover obtain r w2 where r: "PolicyService_Authorize env admin req w' = (r, w2)" by force
  ultimately show ?thesis
    using Authorize_frame [OF assms(1), of admin req w'] Authorize_result [of env admin req w' _ w2] j(2,3,8)
    by (cases r) auto
qed

theorem created_policy_grants_witness:
  "fst (PolicyService_Authorize sample_env ''admin'' (sample_request ''/db/main'' ''10.0.0.1'') policy_world) = Inr True"
proof -
  let ?c = "PolicyService_Create sample_env sample_policy_input init_world"
  have "\<not> isl (fst ?c)" "pol_Conditions (projr (fst ?c)) = [(''ip'', ''cidr:10.0.0.0/8'')]"
    "TrimSpace ''app'' = ''app''" "TrimSpace ''alice'' = ''alice''" "TrimSpace ''/db'' = ''/db''"
    by code_simp+
  moreover have "covers ''/db'' ''/db/main''" "conditions_hold [(''ip'', ''cidr:10.0.0.0/8'')] [(''ip'', ''10.0.0.1'')]"
    unfolding pathInherits_iff [symmetric] conditionsMatch_iff [symmetric] by code_simp+
  ultimately show ?thesis
    using created_policy_grants [OF sample_served, of sample_policy_input init_world "projr (fst ?c)" "snd ?c"
        "sample_request ''/db/main'' ''10.0.0.1''" "''admin''"]
    by (cases ?c) (auto simp: policy_world_def sample_policy_input_def sample_request_def isl_def)
qed

text \<open>C25: deleting a policy removes exactly the policy of that name, so that nothing it alone granted is allowed any more.\<close>

theorem deleted_policy_revokes:
  assumes "served env" and "policy_schema (db w)" and "PolicyService_Delete env name w = (Inr u, w')"
  shows "policies (db w') = filter (\<lambda>p. pol_Name p \<noteq> name) (policies (db w))
    \<and> (fst (PolicyService_Authorize env admin req w') = Inr True \<longleftrightarrow>
        EqualFold (req_Identity req) admin \<or> (\<exists>p \<in> set (policies (db w)). pol_Name p \<noteq> name \<and> grants p req))"
proof -
  note d = Delete_served [OF assms]
  obtain r w2 where r: "PolicyService_Authorize env admin req w' = (r, w2)" by force
  with Authorize_frame [OF assms(1), of admin req w'] Authorize_result [of env admin req w' _ w2] d
  show ?thesis by (cases r) auto
qed

theorem deleted_policy_revokes_witness:
  "policies (db (snd (PolicyService_Delete sample_env ''ops'' policy_world))) = []"
proof -
  have "PolicyService_Delete sample_env ''ops'' policy_world = (Inr (), snd (PolicyService_Delete sample_env ''ops'' policy_world))"
    "filter (\<lambda>p. pol_Name p \<noteq> ''ops'') (policies (db policy_world)) = []" by code_simp+
  moreover have "policy_schema (db policy_world)"
    unfolding policy_world_def
    by (rule preservesD [OF keeps_schema_PolicyService(1) [OF rely_served [OF sample_served]]])
      (simp add: init_world_def empty_tables_def policy_schema_def)
  ultimately show ?thesis using deleted_policy_revokes [OF sample_served] by metis
qed

end
