(* ===== verification/Go_Format.thy ===== *)
theory Go_Format
  imports Lease_Domain
begin

text \<open>
  Texts the program makes of numbers, times and bytes: decimal and hexadecimal numbers,
  \<open>time.RFC3339Nano\<close> in UTC and \<open>sort.Strings\<close>. A time is a number of nanoseconds since
  1970; the calendar is the proleptic Gregorian one, as in package \<open>time\<close>.
\<close>

definition digit :: "int \<Rightarrow> char" where
  "digit n = ''0123456789abcdef'' ! nat n"

function udec :: "int \<Rightarrow> string" where
  "udec n = (if n < 10 then [digit n] else udec (n div 10) @ [digit (n mod 10)])"
  by pat_completeness auto
termination by (relation "measure nat") auto

declare udec.simps [simp del]

definition Itoa :: "int \<Rightarrow> string" where
  "Itoa n = (if n < 0 then CHR ''-'' # udec (- n) else udec n)"

definition pad :: "nat \<Rightarrow> string \<Rightarrow> string" where
  "pad w s = replicate (w - length s) CHR ''0'' @ s"

text \<open>\<open>hex.EncodeToString\<close>.\<close>

definition hex_byte :: "char \<Rightarrow> string" where
  "hex_byte c = (let n = int (of_char c :: nat) in [digit (n div 16), digit (n mod 16)])"

definition EncodeToString :: "bytes \<Rightarrow> string" where
  "EncodeToString b = concat (map hex_byte b)"

text \<open>The date of a day counted from 1970-01-01: year, month and day of the month.\<close>

definition civil :: "int \<Rightarrow> int \<times> int \<times> int" where
  "civil days =
     (let z = days + 719468; era = z div 146097; doe = z mod 146097;
          yoe = (doe - doe div 1460 + doe div 36524 - doe div 146096) div 365;
          doy = doe - (365 * yoe + yoe div 4 - yoe div 100);
          mp = (5 * doy + 2) div 153; d = doy - (153 * mp + 2) div 5 + 1;
          m = (if mp < 10 then mp + 3 else mp - 9)
      in (yoe + era * 400 + (if m \<le> 2 then 1 else 0), m, d))"

definition fraction :: "int \<Rightarrow> string" where
  "fraction ns =
     (if ns = 0 then []
      else CHR ''.'' # rev (dropWhile (\<lambda>c. c = CHR ''0'') (rev (pad 9 (udec ns)))))"

definition RFC3339Nano :: "time \<Rightarrow> string" where
  "RFC3339Nano t =
     (let secs = t div time_Second; (y, m, d) = civil (secs div 86400); s = secs mod 86400 in
      (if y < 0 then CHR ''-'' # pad 4 (udec (- y)) else pad 4 (udec y)) @ ''-'' @ pad 2 (udec m) @ ''-'' @ pad 2 (udec d) @ ''T'' @
      pad 2 (udec (s div 3600)) @ '':'' @ pad 2 (udec (s div 60 mod 60)) @ '':'' @ pad 2 (udec (s mod 60)) @
      fraction (t mod time_Second) @ ''Z'')"

text \<open>\<open>sort.Strings\<close> orders by bytes.\<close>

fun bytes_le :: "string \<Rightarrow> string \<Rightarrow> bool" where
  "bytes_le [] t = True"
| "bytes_le (c # cs) [] = False"
| "bytes_le (c # cs) (d # ds) =
     ((of_char c :: nat) < of_char d \<or> (c = d \<and> bytes_le cs ds))"

lemma bytes_le_refl: "bytes_le s s"
  by (induction s) auto

lemma bytes_le_total: "bytes_le s t \<or> bytes_le t s"
proof (induction s t rule: bytes_le.induct)
  case (3 c cs d ds)
  then show ?case by (metis bytes_le.simps(3) linorder_less_linear of_char_eq_iff)
qed auto

lemma bytes_le_trans: "bytes_le s t \<Longrightarrow> bytes_le t u \<Longrightarrow> bytes_le s u"
proof (induction s t arbitrary: u rule: bytes_le.induct)
  case (3 c cs d ds)
  then show ?case by (cases u) (auto intro: less_trans)
qed auto

lemma bytes_le_antisym: "bytes_le s t \<Longrightarrow> bytes_le t s \<Longrightarrow> s = t"
  by (induction s t rule: bytes_le.induct) (auto elim: bytes_le.elims)

section \<open>Hexadecimal text\<close>

lemma digit_hex:
  assumes "0 \<le> n" and "n < 16"
  shows "digit n \<in> set ''0123456789abcdef''"
  unfolding digit_def by (rule nth_mem) (use assms in simp)

lemma digit_inj:
  assumes "0 \<le> m" "m < 16" "0 \<le> n" "n < 16" and "digit m = digit n"
  shows "m = n"
proof -
  have "distinct ''0123456789abcdef''" by simp
  then have "nat m = nat n"
    using assms nth_eq_iff_index_eq [of "''0123456789abcdef''" "nat m" "nat n"] by (simp add: digit_def)
  then show ?thesis using assms by simp
qed

lemma of_char_bound: "(of_char c :: nat) < 256"
  by simp

lemma nibble: "0 \<le> int (of_char c :: nat) div 16" "int (of_char c :: nat) div 16 < 16"
proof -
  have "x div 16 < 16" if "x < 256" for x :: int using that by presburger
  moreover have "int (of_char c :: nat) < 256" using of_char_bound [of c] by linarith
  ultimately show "int (of_char c :: nat) div 16 < 16" by blast
qed simp

lemma hex_byte_inj: "hex_byte c = hex_byte d \<Longrightarrow> c = d"
proof -
  assume h: "hex_byte c = hex_byte d"
  let ?m = "int (of_char c :: nat)" and ?n = "int (of_char d :: nat)"
  have "digit (?m div 16) = digit (?n div 16)" "digit (?m mod 16) = digit (?n mod 16)"
    using h by (simp_all add: hex_byte_def Let_def)
  moreover have "0 \<le> ?m div 16" "?m div 16 < 16" "0 \<le> ?n div 16" "?n div 16 < 16" by (rule nibble)+
  moreover have "0 \<le> ?m mod 16" "?m mod 16 < 16" "0 \<le> ?n mod 16" "?n mod 16 < 16" by auto
  ultimately have "?m div 16 = ?n div 16" "?m mod 16 = ?n mod 16" using digit_inj by blast+
  then have "?m = ?n" by (metis mult_div_mod_eq)
  then show "c = d" by simp
qed

lemma hex_byte_two: "\<exists>a b. hex_byte c = [a, b]"
  by (simp add: hex_byte_def Let_def)

lemma EncodeToString_inj: "EncodeToString x = EncodeToString y \<Longrightarrow> x = y"
proof (induction x arbitrary: y)
  case Nil
  then show ?case using hex_byte_two by (cases y) (auto simp: EncodeToString_def, metis list.distinct(1))
next
  case (Cons c cs)
  then obtain d ds where y: "y = d # ds"
    using hex_byte_two [of c] by (cases y) (auto simp: EncodeToString_def)
  obtain a b e f where ab: "hex_byte c = [a, b]" "hex_byte d = [e, f]" using hex_byte_two by meson
  with Cons.prems y have "hex_byte c = hex_byte d" "EncodeToString cs = EncodeToString ds"
    by (simp_all add: EncodeToString_def)
  then show ?case using hex_byte_inj Cons.IH y by blast
qed

lemma EncodeToString_hex: "set (EncodeToString b) \<subseteq> set ''0123456789abcdef''"
proof -
  have "set (hex_byte c) \<subseteq> set ''0123456789abcdef''" for c
  proof -
    show ?thesis using nibble [of c] digit_hex [of "int (of_char c :: nat) div 16"] digit_hex [of "int (of_char c :: nat) mod 16"]
      unfolding hex_byte_def Let_def by simp
  qed
  then show ?thesis unfolding EncodeToString_def by (simp add: UN_least)
qed

end
