(* ===== verification/Audit_Service.thy ===== *)
theory Audit_Service
  imports Tables Backend_Provider Go_Format
begin

text \<open>
  \<open>internal/audit/infrastructure/postgres/repository.go\<close> and
  \<open>internal/audit/application/service.go\<close>: the hash chain of audit events. The locale
  \<open>chain_log\<close> is what the service relies on of its repository.
\<close>

section \<open>The repository\<close>

definition store_Event :: "env \<Rightarrow> Event \<Rightarrow> Event" where
  "store_Event env e = e\<lparr>ev_Metadata := json_col env (ev_Metadata e), ev_CreatedAt := ts_col env (ev_CreatedAt e)\<rparr>"

definition newest_first :: "Event list \<Rightarrow> Event list" where
  "newest_first = order_by (\<lambda>x y. ev_Sequence x \<ge> ev_Sequence y)"

definition oldest_first :: "Event list \<Rightarrow> Event list" where
  "oldest_first = order_by (\<lambda>x y. ev_Sequence x \<le> ev_Sequence y)"

definition select_last_hash :: "string stmt" where
  "select_last_hash d =
     (Inr (case newest_first (audit_events d) of [] \<Rightarrow> ''genesis'' | e # _ \<Rightarrow> ev_EventHash e), d)"

text \<open>The sequence is advanced by every attempt, also by one that fails.\<close>

definition insert_event :: "Event \<Rightarrow> int stmt" where
  "insert_event e d0 =
     (let s = audit_seq d0; d = d0\<lparr>audit_seq := s + 1\<rparr> in
      if list_ex (\<lambda>r. ev_ID r = ev_ID e \<or> ev_Sequence r = s) (audit_events d) then (Inl UniqueViolation, d)
      else (Inr s, d\<lparr>audit_events := audit_events d @ [e\<lparr>ev_Sequence := s\<rparr>]\<rparr>))"

definition AuditRepo_Append :: "env \<Rightarrow> Event \<Rightarrow> Event io" where
  "AuditRepo_Append env event =
     transaction env ''begin audit transaction: %w'' ''commit audit event: %w''
       (bindE (wrapE ''lock audit chain: %w'' [] (sql_tx env noop)) (\<lambda>_.
        bindE (wrapE ''read previous audit hash: %w'' [] (sql_tx env select_last_hash)) (\<lambda>previous.
        bindE (guardE (previous \<noteq> ev_PreviousHash event) ErrChainConflict) (\<lambda>_.
        bindE (wrapE ''insert audit event: %w'' [] (sql_tx env (insert_event (store_Event env event)))) (\<lambda>sequence.
        okE (event\<lparr>ev_Sequence := sequence\<rparr>))))))"

definition AuditRepo_LastHash :: "env \<Rightarrow> string io" where
  "AuditRepo_LastHash env = wrapE ''read last audit hash: %w'' [] (sql env select_last_hash)"

definition AuditRepo_List :: "env \<Rightarrow> ListFilter \<Rightarrow> Event list io" where
  "AuditRepo_List env f =
     queryE env ''list audit events: %w''
       (sql env (\<lambda>d. select_rows (take (nat (lf_Limit f)) (newest_first (filter (\<lambda>e.
          (lf_Namespace f = [] \<or> ev_Namespace e = lf_Namespace f) \<and> (lf_Path f = [] \<or> ev_Path e = lf_Path f) \<and>
          (lf_Actor f = [] \<or> ev_Actor e = lf_Actor f) \<and> (lf_Action f = [] \<or> ev_Action e = lf_Action f))
          (audit_events d)))) d))"

definition AuditRepo_ListAll :: "env \<Rightarrow> Event list io" where
  "AuditRepo_ListAll env =
     queryE env ''list all audit events: %w'' (sql env (\<lambda>d. select_rows (oldest_first (audit_events d)) d))"

section \<open>The service\<close>

fun metadata_loop :: "nat \<Rightarrow> string list \<Rightarrow> smap \<Rightarrow> string" where
  "metadata_loop i [] metadata = []"
| "metadata_loop i (key # keys) metadata =
     (if i > 0 then ''&'' else []) @ key @ ''='' @ (case map_of metadata key of None \<Rightarrow> [] | Some v \<Rightarrow> v) @
     metadata_loop (Suc i) keys metadata"

definition canonicalMetadata :: "smap \<Rightarrow> string" where
  "canonicalMetadata metadata = metadata_loop 0 (order_by bytes_le (map fst metadata)) metadata"

definition audit_payload :: "Event \<Rightarrow> string" where
  "audit_payload e =
     ev_PreviousHash e @ ''|'' @ ev_Actor e @ ''|'' @ ev_Namespace e @ ''|'' @ ev_Path e @ ''|'' @
     ev_Action e @ ''|'' @ ev_Result e @ ''|'' @ RFC3339Nano (ev_CreatedAt e) @ ''|'' @ canonicalMetadata (ev_Metadata e)"

definition audit_hash :: "CryptoService \<Rightarrow> Event \<Rightarrow> string" where
  "audit_hash cs e =
     (case CryptoService_Sign cs (audit_payload e) of
        Inl _ \<Rightarrow> ''invalid''
      | Inr sig \<Rightarrow> EncodeToString (sig_Signature sig))"

definition audit_event :: "CryptoService \<Rightarrow> RecordInput \<Rightarrow> string \<Rightarrow> uuid \<Rightarrow> time \<Rightarrow> Event" where
  "audit_event cs input previous i now =
     (let event = \<lparr>ev_ID = i, ev_Sequence = 0, ev_EventHash = [], ev_PreviousHash = previous,
                  ev_Actor = ri_Actor input, ev_Namespace = ri_Namespace input, ev_Path = ri_Path input,
                  ev_Action = ri_Action input, ev_Result = ri_Result input,
                  ev_Metadata = (case ri_Metadata input of None \<Rightarrow> [] | Some m \<Rightarrow> m), ev_CreatedAt = now\<rparr> in
      event\<lparr>ev_EventHash := audit_hash cs event\<rparr>)"

definition append_attempt :: "env \<Rightarrow> CryptoService \<Rightarrow> RecordInput \<Rightarrow> string \<Rightarrow> uuid \<Rightarrow> time \<Rightarrow> (err + Event) io" where
  "append_attempt env cs input previous i now w =
     (case AuditRepo_Append env (audit_event cs input previous i now) w of (r, w') \<Rightarrow> (Inr r, w'))"

lemma append_attempt_tryE:
  "append_attempt env cs input previous i now = tryE (AuditRepo_Append env (audit_event cs input previous i now))"
  by (simp add: fun_eq_iff append_attempt_def tryE_def)

fun record_attempts :: "nat \<Rightarrow> env \<Rightarrow> CryptoService \<Rightarrow> RecordInput \<Rightarrow> Event io" where
  "record_attempts 0 env cs input = failE (Errorf ''failed to append audit event after retries'' [])"
| "record_attempts (Suc left) env cs input =
     bindE (AuditRepo_LastHash env) (\<lambda>previous.
     bindE (uuidE env) (\<lambda>i.
     bindE (nowE env) (\<lambda>now.
     bindE (append_attempt env cs input previous i now) (\<lambda>r.
     case r of
       Inl e \<Rightarrow> if e = ErrChainConflict then record_attempts left env cs input else failE e
     | Inr appended \<Rightarrow> okE appended))))"

definition AuditService_Record :: "env \<Rightarrow> CryptoService \<Rightarrow> RecordInput \<Rightarrow> Event io" where
  "AuditService_Record env cs input = record_attempts 3 env cs input"

definition AuditService_List :: "env \<Rightarrow> ListFilter \<Rightarrow> Event list io" where
  "AuditService_List env f =
     AuditRepo_List env (if lf_Limit f \<le> 0 \<or> lf_Limit f > 1000 then f\<lparr>lf_Limit := 100\<rparr> else f)"

text \<open>The loop of \<open>Verify\<close>: the index, the hash before, the events left.\<close>

fun verify_loop :: "CryptoService \<Rightarrow> nat \<Rightarrow> string \<Rightarrow> Event list \<Rightarrow> err + (bool \<times> nat)" where
  "verify_loop cs i previous [] = Inr (True, i)"
| "verify_loop cs i previous (event # events) =
     (if ev_PreviousHash event \<noteq> previous
      then Inl (Errorf ''previous hash mismatch at sequence %d'' [Itoa (ev_Sequence event)])
      else if ev_EventHash event \<noteq> audit_hash cs event
      then Inl (Errorf ''event hash mismatch at sequence %d'' [Itoa (ev_Sequence event)])
      else verify_loop cs (Suc i) (ev_EventHash event) events)"

definition AuditService_Verify :: "env \<Rightarrow> CryptoService \<Rightarrow> (bool \<times> nat) io" where
  "AuditService_Verify env cs =
     bindE (AuditRepo_ListAll env) (\<lambda>events. liftE (verify_loop cs 0 ''genesis'' events))"

section \<open>Chains\<close>

fun links :: "string \<Rightarrow> Event list \<Rightarrow> bool" where
  "links previous [] = True"
| "links previous (e # es) = (ev_PreviousHash e = previous \<and> links (ev_EventHash e) es)"

definition last_hash :: "Event list \<Rightarrow> string" where
  "last_hash es = (if es = [] then ''genesis'' else ev_EventHash (last es))"

definition in_sequence :: "tables \<Rightarrow> bool" where
  "in_sequence d \<longleftrightarrow> sorted_wrt (\<lambda>x y. ev_Sequence x < ev_Sequence y) (audit_events d) \<and>
     (\<forall>e \<in> set (audit_events d). ev_Sequence e < audit_seq d)"

definition audit_chain :: "tables \<Rightarrow> bool" where
  "audit_chain d \<longleftrightarrow> in_sequence d \<and> links ''genesis'' (audit_events d)"

definition hashed :: "CryptoService \<Rightarrow> Event list \<Rightarrow> bool" where
  "hashed cs es \<longleftrightarrow> (\<forall>e \<in> set es. ev_EventHash e = audit_hash cs e)"

lemma links_append: "links p (es @ fs) \<longleftrightarrow> links p es \<and> links (if es = [] then p else ev_EventHash (last es)) fs"
  by (induction es arbitrary: p) auto

lemma verify_loop_iff:
  "verify_loop cs i p es = Inr (ok, n) \<longleftrightarrow> ok \<and> n = i + length es \<and> links p es \<and> hashed cs es"
  by (induction cs i p es rule: verify_loop.induct) (auto simp: hashed_def)

lemma order_by_Nil [simp]: "order_by le [] = []"
  by (simp add: order_by_def)

lemma order_by_Cons [simp]: "order_by le (x # xs) = insort_le le x (order_by le xs)"
  by (simp add: order_by_def)

lemma order_by_sorted_id: "sorted_wrt le xs \<Longrightarrow> order_by le xs = xs"
proof (induction xs)
  case (Cons x xs)
  then show ?case by (cases xs) auto
qed simp

lemma oldest_first_id: "in_sequence d \<Longrightarrow> oldest_first (audit_events d) = audit_events d"
  unfolding oldest_first_def in_sequence_def
  by (rule order_by_sorted_id) (auto elim: sorted_wrt_mono_rel [rotated])

lemma insort_ge_last:
  assumes "\<forall>y \<in> set ys. ev_Sequence x < ev_Sequence y"
  shows "insort_le (\<lambda>x y. ev_Sequence x \<ge> ev_Sequence y) x ys = ys @ [x]"
  using assms by (induction ys) auto

lemma newest_first_rev:
  "sorted_wrt (\<lambda>x y. ev_Sequence x < ev_Sequence y) es \<Longrightarrow> newest_first es = rev es"
  unfolding newest_first_def by (induction es) (auto simp: insort_ge_last)

section \<open>What the service relies on of its repository\<close>

text \<open>
  \<open>events\<close> reads the log, \<open>add\<close> and \<open>newest\<close> are the two statements of an append. Under
  \<open>good\<close> the newest hash is the one of the last event, an insertion that succeeds adds the
  event at the end with a number, one that fails adds nothing, and \<open>good\<close> is kept.
\<close>

locale chain_log =
  fixes events :: "tables \<Rightarrow> Event list"
    and good :: "tables \<Rightarrow> bool"
    and newest :: "string stmt"
    and add :: "Event \<Rightarrow> int stmt"
  assumes newest_last: "good d \<Longrightarrow> newest d = (Inr (last_hash (events d)), d)"
    and add_Inr: "good d \<Longrightarrow> add e d = (Inr s, d') \<Longrightarrow> events d' = events d @ [e\<lparr>ev_Sequence := s\<rparr>]"
    and add_Inl: "add e d = (Inl x, d') \<Longrightarrow> events d' = events d"
    and add_good: "good d \<Longrightarrow> good (snd (add e d))"
begin

definition linked :: "tables \<Rightarrow> bool" where
  "linked d \<longleftrightarrow> good d \<and> links ''genesis'' (events d)"

text \<open>The guarded insertion of \<open>Append\<close> keeps the chain.\<close>

lemma add_linked:
  assumes "linked d" and "newest d = (Inr (ev_PreviousHash e), d)"
  shows "linked (snd (add e d))"
proof (cases "add e d")
  case (Pair r d')
  have p: "last_hash (events d) = ev_PreviousHash e"
    using assms newest_last by (auto simp: linked_def)
  have "links ''genesis'' (events d')"
  proof (cases r)
    case Inl
    then show ?thesis using Pair add_Inl assms(1) by (simp add: linked_def)
  next
    case (Inr s)
    then have "events d' = events d @ [e\<lparr>ev_Sequence := s\<rparr>]" using Pair add_Inr assms(1) by (simp add: linked_def)
    then show ?thesis using assms(1) p by (auto simp: linked_def links_append last_hash_def split: if_splits)
  qed
  then show ?thesis using Pair add_good [of d e] assms(1) by (simp add: linked_def)
qed

end

interpretation audit: chain_log audit_events in_sequence select_last_hash insert_event
proof unfold_locales
  fix d :: tables assume "in_sequence d"
  then have "newest_first (audit_events d) = rev (audit_events d)"
    by (simp add: newest_first_rev in_sequence_def)
  then show "select_last_hash d = (Inr (last_hash (audit_events d)), d)"
    by (cases "audit_events d" rule: rev_cases) (simp_all add: select_last_hash_def last_hash_def)
next
  fix d :: tables and e
  assume "in_sequence d"
  then show "in_sequence (snd (insert_event e d))"
    by (fastforce simp: insert_event_def Let_def in_sequence_def sorted_wrt_append)
qed (auto simp: insert_event_def Let_def split: if_splits)

lemma audit_linked: "audit.linked d = audit_chain d"
  by (simp add: audit.linked_def audit_chain_def)

end
