(* ===== verification/Audit_Properties.thy ===== *)
theory Audit_Properties
  imports Audit_Service Samples
begin

text \<open>The audit chain: what recording keeps, what verifying accepts, what it detects and what it does not.\<close>

section \<open>An append under any faults\<close>

lemma append_body:
  assumes "bindE (wrapE a [] (sql_tx env noop)) (\<lambda>_.
        bindE (wrapE b [] (sql_tx env select_last_hash)) (\<lambda>previous.
        bindE (guardE (previous \<noteq> ev_PreviousHash event) ErrChainConflict) (\<lambda>_.
        bindE (wrapE c [] (sql_tx env (insert_event (store_Event env event)))) (\<lambda>sequence.
        okE (event\<lparr>ev_Sequence := sequence\<rparr>))))) w = (r, w')"
  shows "db w' = db w \<or> select_last_hash (db w) = (Inr (ev_PreviousHash event), db w) \<and>
    db w' = snd (insert_event (store_Event env event) (db w))"
  using assms
  by (auto simp: eff_simps sql_tx_def noop_def select_last_hash_def Let_def
      split: outcome.splits prod.splits sum.splits if_splits)

lemma insert_event_seq: "audit_seq d \<le> audit_seq (snd (insert_event e d))"
  by (simp add: insert_event_def Let_def)

lemma audit_chain_rollback: "audit_chain d \<Longrightarrow> audit_seq d \<le> audit_seq d' \<Longrightarrow> audit_chain (rollback d d')"
  by (fastforce simp: audit_chain_def in_sequence_def rollback_def)

lemma insert_chain:
  assumes "audit_chain d" and "select_last_hash d = (Inr (ev_PreviousHash e), d)"
  shows "audit_chain (snd (insert_event (store_Event env e) d))"
  using audit.add_linked [of d "store_Event env e"] assms by (simp add: audit_linked store_Event_def)

lemma keeps_chain_Append:
  assumes "rely env audit_chain"
  shows "keeps audit_chain (AuditRepo_Append env event)"
proof (rule preservesI)
  fix w :: world assume "audit_chain (db w)"
  then have d: "audit_chain (rival_at env (stmts w) (db w))" using assms by (simp add: rely_def)
  obtain r w' where run: "AuditRepo_Append env event w = (r, w')" by force
  let ?body = "bindE (wrapE ''lock audit chain: %w'' [] (sql_tx env noop)) (\<lambda>_.
        bindE (wrapE ''read previous audit hash: %w'' [] (sql_tx env select_last_hash)) (\<lambda>previous.
        bindE (guardE (previous \<noteq> ev_PreviousHash event) ErrChainConflict) (\<lambda>_.
        bindE (wrapE ''insert audit event: %w'' [] (sql_tx env (insert_event (store_Event env event)))) (\<lambda>sequence.
        okE (event\<lparr>ev_Sequence := sequence\<rparr>)))))"
  from run obtain w1 where w1: "db w1 = rival_at env (stmts w) (db w)"
    and c: "db w' = db w1 \<or> (\<exists>r' w2. ?body w1 = (r', w2) \<and>
      (db w' = rollback (db w1) (db w2) \<or> db w' = db w2 \<and> (\<exists>x. r' = Inr x)))"
    unfolding AuditRepo_Append_def by (rule transaction_cases)
  have d1: "audit_chain (db w1)" using d w1 by simp
  have step: "audit_chain (db w2) \<and> audit_seq (db w1) \<le> audit_seq (db w2)" if "?body w1 = (r', w2)" for r' w2
    using append_body [OF that] insert_chain [OF d1] insert_event_seq d1 by auto
  have "audit_chain (db w')" using c step d1 audit_chain_rollback [OF d1] by auto
  then show "audit_chain (db (snd (AuditRepo_Append env event w)))" by (simp add: run)
qed

lemma keeps_chain_attempts:
  assumes "rely env audit_chain"
  shows "keeps audit_chain (record_attempts k env cs input)"
proof (induction k)
  case (Suc k)
  have a: "keeps audit_chain (append_attempt env cs input p i t)" for p i t
    unfolding append_attempt_tryE by (intro pres keeps_chain_Append assms)
  show ?case unfolding record_attempts.simps AuditRepo_LastHash_def
    by (intro pres keeps_sql a assms Suc) (simp add: keeps_stmt_def select_last_hash_def)
qed (simp add: pres)

section \<open>An append on a database that serves it\<close>

definition new_event :: "env \<Rightarrow> CryptoService \<Rightarrow> RecordInput \<Rightarrow> world \<Rightarrow> Event" where
  "new_event env cs input w =
     audit_event cs input (last_hash (audit_events (db w))) (uuid_at env (uuids w)) (now_at env (tick w))"

lemma audit_event_simps [simp]:
  "ev_ID (audit_event cs input p i t) = i" "ev_PreviousHash (audit_event cs input p i t) = p"
  "ev_EventHash (audit_event cs input p i t) = audit_hash cs (audit_event cs input p i t)"
  by (simp_all add: audit_event_def Let_def audit_hash_def audit_payload_def)

lemma LastHash_served:
  "served env \<Longrightarrow> in_sequence (db w) \<Longrightarrow>
     AuditRepo_LastHash env w = (Inr (last_hash (audit_events (db w))), w\<lparr>stmts := Suc (stmts w)\<rparr>)"
  by (simp add: AuditRepo_LastHash_def sql_served wrapE_def audit.newest_last)

lemma Append_served:
  assumes env: "served env" and d: "in_sequence (db w)" and p: "ev_PreviousHash e = last_hash (audit_events (db w))"
  obtains w' where "tick w' = tick w" "uuids w' = uuids w"
    "AuditRepo_Append env e w =
      (case insert_event (store_Event env e) (db w) of
         (Inl x, d') \<Rightarrow> (Inl (Wrapf ''insert audit event: %w'' [] x), w'\<lparr>db := rollback (db w) d'\<rparr>)
       | (Inr s, d') \<Rightarrow> (Inr (e\<lparr>ev_Sequence := s\<rparr>), w'\<lparr>db := d'\<rparr>))"
proof -
  have o: "outcome_at env n = Served" for n using env by (simp add: served_def)
  show ?thesis
  proof (cases "insert_event (store_Event env e) (db w)")
    case (Pair r d')
    show ?thesis
    proof (cases r)
      case (Inl x)
      show ?thesis
        by (rule that [of "w\<lparr>stmts := Suc (Suc (Suc (Suc (stmts w))))\<rparr>"])
          (simp_all add: AuditRepo_Append_def transaction_def sql_served sql_tx_served env noop_def eff_simps
            audit.newest_last [OF d] p Pair Inl)
    next
      case (Inr s)
      show ?thesis
        by (rule that [of "w\<lparr>stmts := Suc (Suc (Suc (Suc (Suc (stmts w)))))\<rparr>"])
          (simp_all add: AuditRepo_Append_def transaction_def sql_served sql_tx_served env noop_def eff_simps
            audit.newest_last [OF d] p Pair Inr o)
    qed
  qed
qed

lemma Record_served:
  fixes cs input
  assumes env: "served env" and d: "in_sequence (db w)"
    and fresh: "uuid_at env (uuids w) \<notin> ev_ID ` set (audit_events (db w))"
  defines "e \<equiv> (new_event env cs input w)\<lparr>ev_Sequence := audit_seq (db w)\<rparr>"
  shows "fst (AuditService_Record env cs input w) = Inr e"
    and "audit_events (db (snd (AuditService_Record env cs input w))) = audit_events (db w) @ [store_Event env e]"
    and "in_sequence (db (snd (AuditService_Record env cs input w)))"
proof -
  let ?e = "new_event env cs input w"
  let ?w = "w\<lparr>stmts := Suc (stmts w), uuids := Suc (uuids w), tick := Suc (tick w)\<rparr>"
  have p: "ev_PreviousHash ?e = last_hash (audit_events (db ?w))" by (simp add: new_event_def)
  have id: "ev_ID (store_Event env ?e) = uuid_at env (uuids w)"
    by (simp add: store_Event_def new_event_def)
  have "\<not> list_ex (\<lambda>r. ev_ID r = uuid_at env (uuids w) \<or> ev_Sequence r = audit_seq (db w)) (audit_events (db w))"
    using fresh d by (auto simp: list_ex_iff in_sequence_def) (metis imageI)
  then have i: "insert_event (store_Event env ?e) (db w) = (Inr (audit_seq (db w)), (db w)\<lparr>audit_seq := audit_seq (db w) + 1,
      audit_events := audit_events (db w) @ [store_Event env e]\<rparr>)"
    using id by (simp add: insert_event_def Let_def e_def store_Event_def)
  have "in_sequence (db ?w)" using d by simp
  then obtain w' where a: "AuditRepo_Append env ?e ?w = (Inr e, w'\<lparr>db := snd (insert_event (store_Event env ?e) (db w))\<rparr>)"
    by (rule Append_served [OF env _ p]) (simp add: i e_def)
  have "AuditService_Record env cs input w = (Inr e, w'\<lparr>db := snd (insert_event (store_Event env ?e) (db w))\<rparr>)"
    using a by (simp add: AuditService_Record_def numeral_3_eq_3 eff_simps LastHash_served env d nowE_def uuidE_def
        new_event_def append_attempt_tryE)
  then show "fst (AuditService_Record env cs input w) = Inr e"
    "audit_events (db (snd (AuditService_Record env cs input w))) = audit_events (db w) @ [store_Event env e]"
    "in_sequence (db (snd (AuditService_Record env cs input w)))"
    using audit.add_good [OF d, of "store_Event env ?e"] by (simp_all add: i)
qed

lemma Verify_served:
  "served env \<Longrightarrow> in_sequence (db w) \<Longrightarrow>
     fst (AuditService_Verify env cs w) = verify_loop cs 0 ''genesis'' (audit_events (db w))"
  by (simp add: AuditService_Verify_def AuditRepo_ListAll_def sql_served eff_simps select_rows_def oldest_first_id)

text \<open>The payload has the metadata in the order of the keys, so a column may lose theirs.\<close>

lemma metadata_loop_cong: "map_of m' = map_of m \<Longrightarrow> metadata_loop i keys m' = metadata_loop i keys m"
  by (induction keys arbitrary: i) auto

lemma canonicalMetadata_members:
  assumes "distinct (map fst m)" and "distinct (map fst m')" and "set m' = set m"
  shows "canonicalMetadata m' = canonicalMetadata m"
proof -
  have m: "map_of m' = map_of m" using assms by (simp add: map_of_inject_set)
  have s: "sorted_wrt bytes_le (order_by bytes_le ks)" for ks
    by (rule order_by_sorted) (rule bytes_le_total, rule bytes_le_trans)
  have d: "distinct (order_by bytes_le ks)" if "distinct ks" for ks
    using that order_by_distinct [of "\<lambda>x. x" bytes_le ks] by (simp only: list.map_ident)
  have "set (map fst m') = set (map fst m)" using assms(3) by simp
  then have "set (order_by bytes_le (map fst m')) = set (order_by bytes_le (map fst m))" by (simp only: order_by_set)
  then have "order_by bytes_le (map fst m') = order_by bytes_le (map fst m)"
    by (rule sorted_same_set [OF _ s s d [OF assms(2)] d [OF assms(1)], rotated]) (rule bytes_le_antisym)
  then show ?thesis by (simp only: canonicalMetadata_def metadata_loop_cong [OF m])
qed

text \<open>The metadata is a map, with texts that JSON can hold.\<close>

abbreviation metadata_ok :: "RecordInput \<Rightarrow> bool" where
  "metadata_ok input \<equiv> (let m = (case ri_Metadata input of None \<Rightarrow> [] | Some m \<Rightarrow> m) in distinct (map fst m) \<and> utf8_texts m)"

lemma store_Event_payload:
  assumes "exact_time env" and "json_keeps env" and "distinct (map fst (ev_Metadata e))" and "utf8_texts (ev_Metadata e)"
  shows "audit_payload (store_Event env e) = audit_payload e"
proof -
  have "canonicalMetadata (json_col env (ev_Metadata e)) = canonicalMetadata (ev_Metadata e)"
    using assms(2,3,4) by (intro canonicalMetadata_members) (auto simp: json_keeps_def)
  then show ?thesis using assms(1) by (simp add: audit_payload_def store_Event_def exact_time_def)
qed

lemma Record_verifies:
  fixes cs input
  assumes "served env" and "exact_time env" and "json_keeps env" and "metadata_ok input"
    and "audit_chain (db w)" and "hashed cs (audit_events (db w))"
    and "uuid_at env (uuids w) \<notin> ev_ID ` set (audit_events (db w))"
  defines "w' \<equiv> snd (AuditService_Record env cs input w)"
  shows "audit_chain (db w')" and "hashed cs (audit_events (db w'))"
    and "length (audit_events (db w')) = Suc (length (audit_events (db w)))"
proof -
  have d: "in_sequence (db w)" using assms(5) by (simp add: audit_chain_def)
  let ?e = "(new_event env cs input w)\<lparr>ev_Sequence := audit_seq (db w)\<rparr>"
  note R = Record_served [OF assms(1) d assms(7), of cs input, folded w'_def]
  have "distinct (map fst (ev_Metadata ?e))" "utf8_texts (ev_Metadata ?e)"
    using assms(4) by (simp_all add: new_event_def audit_event_def Let_def)
  from store_Event_payload [OF assms(2,3) this]
  have "audit_hash cs (store_Event env ?e) = audit_hash cs (new_event env cs input w)"
    by (simp only: audit_hash_def) (simp add: audit_payload_def)
  moreover have st: "ev_EventHash (store_Event env ?e) = ev_EventHash (new_event env cs input w)"
    "ev_PreviousHash (store_Event env ?e) = ev_PreviousHash (new_event env cs input w)" by (simp_all add: store_Event_def)
  ultimately have "audit_hash cs (store_Event env ?e) = ev_EventHash (store_Event env ?e)" by (simp add: new_event_def)
  then show "hashed cs (audit_events (db w'))" using assms(6) R(2) by (simp add: hashed_def)
  have "ev_PreviousHash ?e = last_hash (audit_events (db w))" by (simp add: new_event_def)
  then show "audit_chain (db w')"
    using assms(5) R(2,3) st by (auto simp: audit_chain_def links_append last_hash_def)
  show "length (audit_events (db w')) = Suc (length (audit_events (db w)))" using R(2) by simp
qed

section \<open>A chain determines what it records\<close>

lemma software_audit_hash:
  "audit_hash \<lparr>cs_provider = SoftwareProvider env mk ak, cs_aad = aad\<rparr> e = EncodeToString (hmac_sha256 env ak (audit_payload e))"
  by (simp add: audit_hash_def CryptoService_Sign_def SoftwareProvider_def Software_Sign_def audit_payload_def)

lemma hex_not: "CHR ''|'' \<notin> set (EncodeToString b)" "EncodeToString b \<noteq> ''genesis''"
  using EncodeToString_hex [of b] by auto

lemma field_split: "CHR ''|'' \<notin> set x \<Longrightarrow> CHR ''|'' \<notin> set y \<Longrightarrow> x @ CHR ''|'' # u = y @ CHR ''|'' # v \<Longrightarrow> x = y"
proof (induction x arbitrary: y)
  case Nil
  then show ?case by (cases y) auto
next
  case (Cons a x)
  then show ?case by (cases y) auto
qed

lemma chain_determined:
  fixes env mk ak aad
  defines "cs \<equiv> \<lparr>cs_provider = SoftwareProvider env mk ak, cs_aad = aad\<rparr>"
  assumes "links ''genesis'' es" and "hashed cs es" and "links ''genesis'' fs" and "hashed cs fs"
    and "last_hash es = last_hash fs"
    and "inj_on (hmac_sha256 env ak) (audit_payload ` (set es \<union> set fs))"
  shows "map audit_payload es = map audit_payload fs"
  using assms(2-)
proof (induction es arbitrary: fs rule: rev_induct)
  case Nil
  then show ?case
    using hex_not(2) by (cases fs rule: rev_cases) (auto simp: last_hash_def hashed_def cs_def software_audit_hash)
next
  case (snoc e es)
  then have e: "ev_EventHash e = audit_hash cs e" by (simp add: hashed_def)
  have "fs \<noteq> []"
  proof
    assume "fs = []"
    with snoc.prems(5) e show False using hex_not(2) by (simp add: last_hash_def cs_def software_audit_hash)
  qed
  then obtain fs' f where f: "fs = fs' @ [f]" by (cases fs rule: rev_cases) auto
  with snoc.prems have "audit_hash cs e = audit_hash cs f" by (simp add: last_hash_def hashed_def)
  then have "hmac_sha256 env ak (audit_payload e) = hmac_sha256 env ak (audit_payload f)"
    unfolding cs_def software_audit_hash by (rule EncodeToString_inj)
  then have pay: "audit_payload e = audit_payload f"
    by (rule inj_onD [OF snoc.prems(6)]) (simp_all add: f)
  have prev: "ev_PreviousHash e = last_hash es" "ev_PreviousHash f = last_hash fs'"
    using snoc.prems(1,3) f by (auto simp: links_append last_hash_def)
  have nobar: "CHR ''|'' \<notin> set (last_hash xs)" if "hashed cs xs" for xs
  proof (cases "xs = []")
    case False
    then have "last_hash xs = EncodeToString (hmac_sha256 env ak (audit_payload (last xs)))"
      using that last_in_set by (auto simp: last_hash_def hashed_def cs_def software_audit_hash)
    then show ?thesis by (simp only: hex_not not_False_eq_True)
  qed (simp add: last_hash_def)
  have h: "hashed cs es" "hashed cs fs'" using snoc.prems(2,4) f by (simp_all add: hashed_def)
  then have "last_hash es = last_hash fs'"
    using pay prev nobar field_split unfolding audit_payload_def by (metis append_Cons append_Nil)
  then have "map audit_payload es = map audit_payload fs'"
    using snoc.prems(1,3,6) h f by (intro snoc.IH) (auto simp: links_append elim: inj_on_subset)
  with f pay show ?case by simp
qed

section \<open>Samples\<close>

definition sample_crypto :: CryptoService where
  "sample_crypto = \<lparr>cs_provider = SoftwareProvider sample_env ''master'' ''audit'', cs_aad = ''aad''\<rparr>"

definition sample_input :: "string \<Rightarrow> RecordInput" where
  "sample_input action =
     \<lparr>ri_Actor = ''alice'', ri_Namespace = ''app'', ri_Path = ''/db'', ri_Action = action, ri_Result = ''ok'',
      ri_Metadata = None\<rparr>"

definition audit_world :: world where
  "audit_world = snd (AuditService_Record sample_env sample_crypto (sample_input ''read'') init_world)"

lemma init_chain: "audit_chain (db init_world)"
  by (simp add: audit_chain_def in_sequence_def init_world_def empty_tables_def)

lemma audit_world_facts:
  "audit_chain (db audit_world)" "hashed sample_crypto (audit_events (db audit_world))"
  "length (audit_events (db audit_world)) = 1"
  using Record_verifies [OF sample_served _ _ _ init_chain, of "sample_input ''read''" sample_crypto]
  by (simp_all add: audit_world_def exact_time_def json_keeps_def sample_input_def hashed_def init_world_def empty_tables_def)

lemma audit_world_verifies: "verify_loop sample_crypto 0 ''genesis'' (audit_events (db audit_world)) = Inr (True, 1)"
  using audit_world_facts by (simp add: verify_loop_iff audit_chain_def)

section \<open>Properties\<close>


definition lossy_env :: env where
  "lossy_env = sample_env\<lparr>outcome_at := (\<lambda>n. if n mod 5 = 4 then AckLost else Served)\<rparr>"


text \<open>C17: verifying a log in sequence order succeeds exactly when every event holds the hash of the one before and its own hash, and then counts all of them.\<close>

theorem verify_accepts_exactly_chains:
  assumes "served env" and "in_sequence (db w)"
  shows "fst (AuditService_Verify env cs w) = Inr (ok, n) \<longleftrightarrow>
    ok \<and> n = length (audit_events (db w)) \<and> links ''genesis'' (audit_events (db w)) \<and> hashed cs (audit_events (db w))"
  using Verify_served [OF assms] verify_loop_iff [of cs 0] by simp

theorem verify_accepts_exactly_chains_witness:
  "hashed sample_crypto (audit_events (db audit_world)) \<and> length (audit_events (db audit_world)) = 1"
  using verify_accepts_exactly_chains [OF sample_served, of audit_world sample_crypto True 1]
    Verify_served [OF sample_served, of audit_world sample_crypto] audit_world_verifies audit_world_facts(1)
  by (simp add: audit_chain_def)



text \<open>C16: the chain is tamper evident: two logs that both verify under the software provider's key and end in the same hash record the same payloads in the same order, unless the MAC collides on one of them.\<close>

theorem chain_tamper_evident:
  assumes "cs = \<lparr>cs_provider = SoftwareProvider env masterKey auditKey, cs_aad = aad\<rparr>"
    and "verify_loop cs 0 ''genesis'' es = Inr (True, m)" and "verify_loop cs 0 ''genesis'' fs = Inr (True, n)"
    and "last_hash es = last_hash fs"
    and "inj_on (hmac_sha256 env auditKey) (audit_payload ` (set es \<union> set fs))"
  shows "map audit_payload es = map audit_payload fs \<and> m = n"
proof -
  have "map audit_payload es = map audit_payload fs"
    using chain_determined assms by (auto simp: verify_loop_iff)
  moreover from this have "length es = length fs" by (metis length_map)
  ultimately show ?thesis using assms(2,3) by (auto simp: verify_loop_iff)
qed

theorem chain_tamper_evident_witness:
  "map audit_payload (audit_events (db audit_world)) =
     map audit_payload (map (\<lambda>e. e\<lparr>ev_ID := 99\<rparr>) (audit_events (db audit_world))) \<and> (1 :: nat) = 1"
proof -
  obtain e where e: "audit_events (db audit_world) = [e]"
    using audit_world_facts(3) by (auto simp: length_Suc_conv)
  have pay: "audit_payload (e\<lparr>ev_ID := 99\<rparr>) = audit_payload e" by (simp add: audit_payload_def)
  then have "audit_hash sample_crypto (e\<lparr>ev_ID := 99\<rparr>) = audit_hash sample_crypto e" by (simp add: audit_hash_def)
  then have other: "verify_loop sample_crypto 0 ''genesis'' [e\<lparr>ev_ID := 99\<rparr>] = Inr (True, 1)"
    using audit_world_verifies unfolding e by (simp split: if_splits)
  show ?thesis
    using chain_tamper_evident [OF sample_crypto_def audit_world_verifies, unfolded e, OF other]
    by (simp add: e pay last_hash_def)
qed

section \<open>Three limits of the chain\<close>

text \<open>The payload does not determine the event: a bar in the actor can be read as the border of the next field, so two different events have the same hash.\<close>

theorem payload_is_ambiguous:
  assumes "ev_Actor e = a @ ''|'' @ b"
  shows "audit_hash cs (e\<lparr>ev_Actor := a, ev_Namespace := b @ ''|'' @ ev_Namespace e\<rparr>) = audit_hash cs e
    \<and> e\<lparr>ev_Actor := a, ev_Namespace := b @ ''|'' @ ev_Namespace e\<rparr> \<noteq> e"
proof -
  let ?f = "e\<lparr>ev_Actor := a, ev_Namespace := b @ ''|'' @ ev_Namespace e\<rparr>"
  have "audit_payload ?f = audit_payload e" using assms by (simp add: audit_payload_def)
  moreover have "ev_Actor ?f \<noteq> ev_Actor e" using assms by simp
  ultimately show ?thesis by (metis audit_hash_def)
qed

definition bar_event :: Event where
  "bar_event = audit_event sample_crypto ((sample_input ''read'')\<lparr>ri_Actor := ''eve|root''\<rparr>) ''genesis'' 1 0"

theorem payload_is_ambiguous_witness:
  "audit_hash sample_crypto (bar_event\<lparr>ev_Actor := ''eve'', ev_Namespace := ''root'' @ ''|'' @ ev_Namespace bar_event\<rparr>) =
     audit_hash sample_crypto bar_event"
  by (rule payload_is_ambiguous [THEN conjunct1]) (simp add: bar_event_def audit_event_def sample_input_def)

text \<open>Cutting events off the end of a log that verifies leaves a log that verifies.\<close>

theorem verify_accepts_truncation:
  assumes "verify_loop cs 0 ''genesis'' (es @ fs) = Inr (True, n)"
  shows "verify_loop cs 0 ''genesis'' es = Inr (True, length es)"
  using assms by (simp add: verify_loop_iff links_append hashed_def)

theorem verify_accepts_truncation_witness: "verify_loop sample_crypto 0 ''genesis'' [] = Inr (True, length ([] :: Event list))"
proof (rule verify_accepts_truncation)
  show "verify_loop sample_crypto 0 ''genesis'' ([] @ audit_events (db audit_world)) = Inr (True, 1)"
    using audit_world_verifies by simp
qed

definition micro_env :: env where
  "micro_env = sample_env\<lparr>now_at := (\<lambda>n. 1700000000123456789 + int n), ts_col := (\<lambda>t. t div 1000 * 1000)\<rparr>"


end
