(* ===== verification/Lease_Service.thy ===== *)
theory Lease_Service
  imports Secret_Repository
begin

text \<open>
  \<open>internal/lease/infrastructure/postgres/repository.go\<close> and
  \<open>internal/lease/application/service.go\<close>: leases on dynamic secrets, their renewal,
  revocation and expiry.
\<close>

section \<open>The repository\<close>

definition store_Lease :: "env \<Rightarrow> Lease \<Rightarrow> Lease" where
  "store_Lease env l =
     l\<lparr>lease_ExpiresAt := ts_col env (lease_ExpiresAt l),
       lease_RevokedAt := map_option (ts_col env) (lease_RevokedAt l),
       lease_Metadata := json_col env (lease_Metadata l),
       lease_CreatedAt := ts_col env (lease_CreatedAt l), lease_UpdatedAt := ts_col env (lease_UpdatedAt l)\<rparr>"

definition insert_lease :: "Lease \<Rightarrow> unit stmt" where
  "insert_lease l d =
     insert_stmt (list_ex (\<lambda>r. lease_ID r = lease_ID l) (leases d))
       (\<not> list_ex (\<lambda>s. sec_ID s = lease_SecretID l) (secrets d))
       (d\<lparr>leases := leases d @ [l]\<rparr>) d"

definition select_lease :: "uuid \<Rightarrow> Lease stmt" where
  "select_lease i d = select_row (\<lambda>r. lease_ID r = i) (leases d) d"

definition update_expiry :: "uuid \<Rightarrow> time \<Rightarrow> time \<Rightarrow> unit stmt" where
  "update_expiry i expiresAt now d =
     (Inr (), d\<lparr>leases := update_where (\<lambda>r. lease_ID r = i)
        (\<lambda>r. r\<lparr>lease_ExpiresAt := expiresAt, lease_UpdatedAt := now\<rparr>) (leases d)\<rparr>)"

definition update_revoked :: "uuid \<Rightarrow> time \<Rightarrow> time \<Rightarrow> unit stmt" where
  "update_revoked i revokedAt now d =
     (Inr (), d\<lparr>leases := update_where (\<lambda>r. lease_ID r = i)
        (\<lambda>r. r\<lparr>lease_RevokedAt := Some revokedAt, lease_UpdatedAt := now\<rparr>) (leases d)\<rparr>)"

definition due :: "time \<Rightarrow> Lease \<Rightarrow> bool" where
  "due now l = (lease_RevokedAt l = None \<and> lease_ExpiresAt l \<le> now)"

definition LeaseRepo_Create :: "env \<Rightarrow> Lease \<Rightarrow> unit io" where
  "LeaseRepo_Create env lease = wrapE ''insert lease: %w'' [] (sql env (insert_lease (store_Lease env lease)))"

definition LeaseRepo_Get :: "env \<Rightarrow> uuid \<Rightarrow> Lease io" where
  "LeaseRepo_Get env i = wrapE ''lease not found: %w'' [] (sql env (select_lease i))"

definition LeaseRepo_UpdateExpiry :: "env \<Rightarrow> uuid \<Rightarrow> time \<Rightarrow> unit io" where
  "LeaseRepo_UpdateExpiry env i expiresAt =
     bindE (nowE env) (\<lambda>now.
     wrapE ''update lease expiry: %w'' [] (sql env (update_expiry i (ts_col env expiresAt) (ts_col env now))))"

definition LeaseRepo_Revoke :: "env \<Rightarrow> uuid \<Rightarrow> time \<Rightarrow> unit io" where
  "LeaseRepo_Revoke env i revokedAt =
     bindE (nowE env) (\<lambda>now.
     wrapE ''revoke lease: %w'' [] (sql env (update_revoked i (ts_col env revokedAt) (ts_col env now))))"

definition LeaseRepo_ListActiveExpired :: "env \<Rightarrow> time \<Rightarrow> Lease list io" where
  "LeaseRepo_ListActiveExpired env now =
     queryE env ''list expired leases: %w''
       (sql env (\<lambda>d. select_rows (filter (due (ts_col env now)) (leases d)) d))"

lemmas LeaseRepo_defs =
  LeaseRepo_Create_def LeaseRepo_Get_def LeaseRepo_UpdateExpiry_def LeaseRepo_Revoke_def
  LeaseRepo_ListActiveExpired_def

interpretation lease_table: keyed_table leases lease_ID insert_lease select_lease
  by unfold_locales
    (auto simp: insert_lease_def select_lease_def insert_stmt_Inr_iff list_ex_iff dest: insert_stmt_Inl)

section \<open>The service\<close>

record LeaseService =
  ls_defaultTTL :: duration
  ls_maxTTL :: duration

definition LeaseService_Create :: "env \<Rightarrow> LeaseService \<Rightarrow> CreateLeaseInput \<Rightarrow> Lease io" where
  "LeaseService_Create env s input0 =
     bindE (liftE (NormalizeLease (ls_defaultTTL s) (ls_maxTTL s) input0)) (\<lambda>input.
     bindE (wrapE ''secret must exist before creating lease: %w'' []
              (SecretRepo_GetSecret env (cli_Namespace input) (cli_Path input))) (\<lambda>secret.
     bindE (guardE (sec_Type secret \<noteq> SecretTypeDynamic)
              (Errorf ''leases can only be created for dynamic secrets'' [])) (\<lambda>_.
     bindE (nowE env) (\<lambda>now.
     bindE (uuidE env) (\<lambda>i.
     let lease = \<lparr>lease_ID = i, lease_Namespace = cli_Namespace input, lease_Path = cli_Path input,
                  lease_SecretID = sec_ID secret, lease_TTLSeconds = DurationSeconds (cli_TTL input),
                  lease_Renewable = cli_Renewable input, lease_ExpiresAt = now + cli_TTL input,
                  lease_RevokedAt = None,
                  lease_Metadata = (case cli_Metadata input of None \<Rightarrow> [] | Some m \<Rightarrow> m),
                  lease_CreatedAt = now, lease_UpdatedAt = now\<rparr> in
     bindE (wrapE ''create lease: %w'' [] (LeaseRepo_Create env lease)) (\<lambda>_.
     okE lease))))))"

definition LeaseService_Get :: "env \<Rightarrow> uuid \<Rightarrow> Lease io" where
  "LeaseService_Get env i = LeaseRepo_Get env i"

definition LeaseService_Renew :: "env \<Rightarrow> LeaseService \<Rightarrow> uuid \<Rightarrow> duration \<Rightarrow> Lease io" where
  "LeaseService_Renew env s i ttl0 =
     bindE (LeaseRepo_Get env i) (\<lambda>lease.
     bindE (guardE (\<not> lease_Renewable lease) (Errorf ''lease is not renewable'' [])) (\<lambda>_.
     bindE (guardE (IsRevoked lease) (Errorf ''lease is revoked'' [])) (\<lambda>_.
     bindE (nowE env) (\<lambda>t0.
     bindE (guardE (IsExpired lease t0) (Errorf ''lease has expired'' [])) (\<lambda>_.
     let ttl = (if ttl0 \<le> 0 then wrap64 (lease_TTLSeconds lease * time_Second) else ttl0) in
     bindE (guardE (ttl > ls_maxTTL s) (Errorf ''renewal ttl exceeds maximum'' [])) (\<lambda>_.
     bindE (nowE env) (\<lambda>t1.
     let expiresAt = t1 + ttl in
     bindE (LeaseRepo_UpdateExpiry env i expiresAt) (\<lambda>_.
     bindE (nowE env) (\<lambda>t2.
     okE (lease\<lparr>lease_ExpiresAt := expiresAt, lease_TTLSeconds := DurationSeconds ttl, lease_UpdatedAt := t2\<rparr>))))))))))"

definition LeaseService_Revoke :: "env \<Rightarrow> uuid \<Rightarrow> Lease io" where
  "LeaseService_Revoke env i =
     bindE (LeaseRepo_Get env i) (\<lambda>lease.
     if IsRevoked lease then okE lease
     else
       bindE (nowE env) (\<lambda>now.
       bindE (LeaseRepo_Revoke env i now) (\<lambda>_.
       okE (lease\<lparr>lease_RevokedAt := Some now, lease_UpdatedAt := now\<rparr>))))"

definition LeaseService_ExpireDue :: "env \<Rightarrow> time \<Rightarrow> nat io" where
  "LeaseService_ExpireDue env now =
     bindE (LeaseRepo_ListActiveExpired env now) (\<lambda>due_leases.
     bindE (forE due_leases (\<lambda>lease. LeaseRepo_Revoke env (lease_ID lease) (lease_ExpiresAt lease))) (\<lambda>_.
     okE (length due_leases)))"

lemmas LeaseService_defs =
  LeaseService_Create_def LeaseService_Get_def LeaseService_Renew_def LeaseService_Revoke_def
  LeaseService_ExpireDue_def

section \<open>What no operation undoes\<close>

text \<open>
  \<open>leases_kept d0 d\<close>: every lease of \<open>d0\<close> is in \<open>d\<close>, for the same secret, namespace and
  path and with the same lifetime and renewability, and revoked if it was revoked.
\<close>

definition lease_core :: "Lease \<Rightarrow> uuid \<times> string \<times> string \<times> uuid \<times> int \<times> bool \<times> smap" where
  "lease_core l = (lease_ID l, lease_Namespace l, lease_Path l, lease_SecretID l, lease_TTLSeconds l,
     lease_Renewable l, lease_Metadata l)"

definition leases_kept :: "tables \<Rightarrow> tables \<Rightarrow> bool" where
  "leases_kept d0 d \<longleftrightarrow>
     (\<forall>l \<in> set (leases d0). \<exists>r \<in> set (leases d). lease_core r = lease_core l \<and>
        (lease_RevokedAt l \<noteq> None \<longrightarrow> lease_RevokedAt r \<noteq> None))"

lemma leases_kept_refl [simp]: "leases_kept d d"
  by (auto simp: leases_kept_def)

lemma leases_kept_update:
  assumes "leases_kept d0 d" and "\<And>r. lease_core (f r) = lease_core r"
    and "\<And>r. lease_RevokedAt r \<noteq> None \<Longrightarrow> lease_RevokedAt (f r) \<noteq> None"
  shows "leases_kept d0 (d\<lparr>leases := update_where P f (leases d)\<rparr>)"
  unfolding leases_kept_def
proof
  fix l assume "l \<in> set (leases d0)"
  then obtain r where r: "r \<in> set (leases d)" "lease_core r = lease_core l"
    "lease_RevokedAt l \<noteq> None \<longrightarrow> lease_RevokedAt r \<noteq> None"
    using assms(1) unfolding leases_kept_def by blast
  show "\<exists>r \<in> set (leases (d\<lparr>leases := update_where P f (leases d)\<rparr>)). lease_core r = lease_core l \<and>
      (lease_RevokedAt l \<noteq> None \<longrightarrow> lease_RevokedAt r \<noteq> None)"
    by (rule bexI [of _ "if P r then f r else r"]) (use r assms(2,3) in \<open>auto simp: update_where_def\<close>)
qed

lemma keeps_lease_stmts [pres]:
  "keeps_stmt (leases_kept d0) (insert_lease l)"
  "keeps_stmt (leases_kept d0) (select_lease i)"
  "keeps_stmt (leases_kept d0) (update_expiry i t now)"
  "keeps_stmt (leases_kept d0) (update_revoked i t now)"
  "keeps_stmt (leases_kept d0) (select_secret k)"
proof -
  show "keeps_stmt (leases_kept d0) (insert_lease l)"
    unfolding insert_lease_def by (rule keeps_insert_stmt) (fastforce simp: leases_kept_def)
  show "keeps_stmt (leases_kept d0) (update_expiry i t now)"
    unfolding update_expiry_def by (intro keeps_update_stmt leases_kept_update) (simp_all add: lease_core_def)
  show "keeps_stmt (leases_kept d0) (update_revoked i t now)"
    unfolding update_revoked_def by (intro keeps_update_stmt leases_kept_update) (simp_all add: lease_core_def)
  show "keeps_stmt (leases_kept d0) (select_lease i)"
    unfolding select_lease_def by (rule pres)
  show "keeps_stmt (leases_kept d0) (select_secret k)"
    unfolding select_secret_def by (rule pres)
qed

definition lease_rely :: "env \<Rightarrow> bool" where
  "lease_rely env \<longleftrightarrow> (\<forall>d0. rely env (leases_kept d0))"

lemma keeps_leases_Service:
  assumes "lease_rely env"
  shows
    "keeps (leases_kept d0) (LeaseService_Create env s input)"
    "keeps (leases_kept d0) (LeaseService_Renew env s i ttl)"
    "keeps (leases_kept d0) (LeaseService_Revoke env i)"
    "keeps (leases_kept d0) (LeaseService_ExpireDue env now)"
proof -
  have r: "rely env (leases_kept d0)" using assms by (simp add: lease_rely_def)
  show
    "keeps (leases_kept d0) (LeaseService_Create env s input)"
    "keeps (leases_kept d0) (LeaseService_Renew env s i ttl)"
    "keeps (leases_kept d0) (LeaseService_Revoke env i)"
    "keeps (leases_kept d0) (LeaseService_ExpireDue env now)"
    unfolding LeaseService_defs LeaseRepo_defs SecretRepo_GetSecret_def Let_def
    by (intro pres keeps_sql r)+
qed

datatype LeaseOp =
    OpLeaseCreate CreateLeaseInput
  | OpLeaseRenew uuid duration
  | OpLeaseRevoke uuid
  | OpExpireDue time

fun lease_op :: "env \<Rightarrow> LeaseService \<Rightarrow> LeaseOp \<Rightarrow> world \<Rightarrow> world" where
  "lease_op env s (OpLeaseCreate input) w = snd (LeaseService_Create env s input w)"
| "lease_op env s (OpLeaseRenew i ttl) w = snd (LeaseService_Renew env s i ttl w)"
| "lease_op env s (OpLeaseRevoke i) w = snd (LeaseService_Revoke env i w)"
| "lease_op env s (OpExpireDue now) w = snd (LeaseService_ExpireDue env now w)"

inductive lease_steps :: "env \<Rightarrow> LeaseService \<Rightarrow> world \<Rightarrow> world \<Rightarrow> bool" for env s where
  lease_refl: "lease_steps env s w w"
| lease_step: "lease_steps env s w w' \<Longrightarrow> lease_steps env s w (lease_op env s op w')"

lemma lease_op_kept:
  assumes "lease_rely env"
  shows "leases_kept d0 (db w) \<Longrightarrow> leases_kept d0 (db (lease_op env s op w))"
  by (cases op; simp; rule preservesD; auto intro!: keeps_leases_Service assms)

section \<open>The methods on a database that serves them\<close>

lemma LeaseRepo_Get_served:
  "served env \<Longrightarrow> LeaseRepo_Get env i w =
     (case find (\<lambda>r. lease_ID r = i) (leases (db w)) of
        None \<Rightarrow> (Inl (Wrapf ''lease not found: %w'' [] ErrNoRows), stmt_done w)
      | Some l \<Rightarrow> (Inr l, stmt_done w))"
  by (simp add: LeaseRepo_Get_def sql_served wrapE_def select_lease_def select_row_def stmt_done_def split: option.splits)

lemma LeaseRepo_Revoke_served:
  "served env \<Longrightarrow> LeaseRepo_Revoke env i t w =
     (Inr (), (stmt_done w)\<lparr>tick := Suc (tick w),
        db := snd (update_revoked i (ts_col env t) (ts_col env (now_at env (tick w))) (db w))\<rparr>)"
  by (simp add: LeaseRepo_Revoke_def sql_served wrapE_def bindE_def nowE_def update_revoked_def stmt_done_def)

lemma LeaseRepo_UpdateExpiry_served:
  "served env \<Longrightarrow> LeaseRepo_UpdateExpiry env i t w =
     (Inr (), (stmt_done w)\<lparr>tick := Suc (tick w),
        db := snd (update_expiry i (ts_col env t) (ts_col env (now_at env (tick w))) (db w))\<rparr>)"
  by (simp add: LeaseRepo_UpdateExpiry_def sql_served wrapE_def bindE_def nowE_def update_expiry_def stmt_done_def)

end
