(* ===== verification/Result_Logic.thy ===== *)
theory Result_Logic
  imports Tables
begin

text \<open>
  A second judgement on effects beside \<^term>\<open>preserves\<close>: \<open>yields I m Q\<close> says that \<open>m\<close>
  keeps the invariant \<open>I\<close> of the tables and that what it returns satisfies \<open>Q\<close>. It
  carries a fact about a value read from the database to the statement that uses it.
\<close>

definition yields :: "(tables \<Rightarrow> bool) \<Rightarrow> 'a io \<Rightarrow> ('a \<Rightarrow> bool) \<Rightarrow> bool" where
  "yields I m Q \<longleftrightarrow> (\<forall>w. I (db w) \<longrightarrow> I (db (snd (m w))) \<and> (\<forall>x. fst (m w) = Inr x \<longrightarrow> Q x))"

named_theorems yld \<open>rules that carry facts about results through the combinators\<close>

lemma yieldsI:
  "(\<And>w r w'. I (db w) \<Longrightarrow> m w = (r, w') \<Longrightarrow> I (db w') \<and> (\<forall>x. r = Inr x \<longrightarrow> Q x)) \<Longrightarrow> yields I m Q"
  unfolding yields_def by (metis prod.collapse)

lemma yieldsD: "yields I m Q \<Longrightarrow> I (db w) \<Longrightarrow> m w = (r, w') \<Longrightarrow> I (db w') \<and> (\<forall>x. r = Inr x \<longrightarrow> Q x)"
  unfolding yields_def by (metis fst_conv snd_conv)

lemma yields_keeps: "yields I m Q \<Longrightarrow> keeps I m"
  by (simp add: yields_def preserves_def)

lemma keepsI: "yields I m (\<lambda>_. True) \<Longrightarrow> keeps I m"
  by (rule yields_keeps)

lemma keeps_yields: "keeps I m \<Longrightarrow> yields I m (\<lambda>_. True)"
  by (simp add: yields_def preserves_def)

lemma yields_weaken: "yields I m Q \<Longrightarrow> (\<And>x. Q x \<Longrightarrow> R x) \<Longrightarrow> yields I m R"
  by (auto simp: yields_def)

lemma yields_bindE [yld]:
  assumes "yields I m R" and "\<And>x. R x \<Longrightarrow> yields I (f x) Q"
  shows "yields I (bindE m f) Q"
proof (rule yieldsI)
  fix w r w' assume I: "I (db w)" and run: "bindE m f w = (r, w')"
  obtain r1 w1 where m: "m w = (r1, w1)" by force
  have 1: "I (db w1)" "\<And>x. r1 = Inr x \<Longrightarrow> R x" using yieldsD [OF assms(1) I m] by auto
  show "I (db w') \<and> (\<forall>x. r = Inr x \<longrightarrow> Q x)"
  proof (cases r1)
    case (Inl e)
    then show ?thesis using run m 1 by (auto simp: bindE_def)
  next
    case (Inr y)
    then have "f y w1 = (r, w')" using run m by (simp add: bindE_def)
    with yieldsD [OF assms(2) [OF 1(2) [OF Inr]] 1(1)] show ?thesis by blast
  qed
qed

text \<open>A step that establishes more about the tables, which what follows may use.\<close>

lemma yields_bind_grow:
  assumes "keeps I m" and "\<And>w x w'. I (db w) \<Longrightarrow> m w = (Inr x, w') \<Longrightarrow> J x (db w')"
    and "\<And>x. yields (J x) (f x) Q" and "\<And>x d. J x d \<Longrightarrow> I d"
  shows "yields I (bindE m f) Q"
proof (rule yieldsI)
  fix w r w' assume I: "I (db w)" and run: "bindE m f w = (r, w')"
  obtain r1 w1 where m: "m w = (r1, w1)" by force
  show "I (db w') \<and> (\<forall>x. r = Inr x \<longrightarrow> Q x)"
  proof (cases r1)
    case (Inl e)
    then show ?thesis using run m preserves_run [OF assms(1) I m] by (auto simp: bindE_def)
  next
    case (Inr y)
    then have "f y w1 = (r, w')" using run m by (simp add: bindE_def)
    with yieldsD [OF assms(3)] assms(2) [OF I] m Inr assms(4) show ?thesis by blast
  qed
qed

lemma yields_okE [yld]: "Q x \<Longrightarrow> yields I (okE x) Q"
  by (simp add: yields_def okE_def)

lemma yields_failE [yld]: "yields I (failE e) Q"
  by (simp add: yields_def failE_def)

lemma yields_liftE [yld]: "yields I (liftE r) (\<lambda>x. r = Inr x)"
  by (simp add: yields_def liftE_def)

lemma yields_guardE [yld]: "yields I (guardE c e) (\<lambda>_. \<not> c)"
  by (simp add: yields_def guardE_def okE_def failE_def)

lemma yields_queryE [yld]: "yields I m Q \<Longrightarrow> yields I (queryE env f m) Q"
  unfolding yields_def by (metis snd_queryE queryE_Inr_iff prod.collapse)

lemma yields_wrapE [yld]: "yields I m Q \<Longrightarrow> yields I (wrapE f a m) Q"
  unfolding yields_def wrapE_def by (auto split: prod.splits sum.splits)

lemma yields_tryE [yld]: "yields I m Q \<Longrightarrow> yields I (tryE m) (\<lambda>r. \<forall>x. r = Inr x \<longrightarrow> Q x)"
  unfolding yields_def tryE_def by (auto split: prod.splits sum.splits)

lemma yields_nowE [yld]: "yields I (nowE env) (\<lambda>t. \<exists>n. t = now_at env n)"
  by (auto simp: yields_def nowE_def)

lemma yields_uuidE [yld]: "yields I (uuidE env) (\<lambda>_. True)"
  by (simp add: yields_def uuidE_def)

lemma yields_gaugeE [yld]: "yields I (gaugeE k) (\<lambda>_. True)"
  by (simp add: yields_def gaugeE_def)

lemma yields_if [yld]:
  "(c \<Longrightarrow> yields I m Q) \<Longrightarrow> (\<not> c \<Longrightarrow> yields I n Q) \<Longrightarrow> yields I (if c then m else n) Q"
  by simp

lemma yields_case_option [yld]:
  "(r = None \<Longrightarrow> yields I m Q) \<Longrightarrow> (\<And>x. r = Some x \<Longrightarrow> yields I (f x) Q) \<Longrightarrow>
     yields I (case r of None \<Rightarrow> m | Some x \<Rightarrow> f x) Q"
  by (cases r) simp_all

lemma yields_case_sum [yld]:
  "(\<And>e. r = Inl e \<Longrightarrow> yields I (f e) Q) \<Longrightarrow> (\<And>x. r = Inr x \<Longrightarrow> yields I (g x) Q) \<Longrightarrow>
     yields I (case r of Inl e \<Rightarrow> f e | Inr x \<Rightarrow> g x) Q"
  by (cases r) simp_all

lemma yields_forE: "(\<And>x. x \<in> set xs \<Longrightarrow> keeps I (f x)) \<Longrightarrow> yields I (forE xs f) (\<lambda>_. True)"
  by (rule keeps_yields) (rule preserves_forE)

lemma yields_sql:
  assumes "rely env I" and "\<And>d. I d \<Longrightarrow> I (snd (f d))"
    and "\<And>d x. I d \<Longrightarrow> fst (f d) = Inr x \<Longrightarrow> Q x"
  shows "yields I (sql env f) Q"
proof (rule yieldsI)
  fix w r w' assume I: "I (db w)" and run: "sql env f w = (r, w')"
  define d where "d = rival_at env (stmts w) (db w)"
  have "I d" using I assms(1) by (simp add: d_def rely_def)
  then show "I (db w') \<and> (\<forall>x. r = Inr x \<longrightarrow> Q x)"
    using run assms(2,3) [of d] by (auto simp: sql_def Let_def d_def [symmetric] split: outcome.splits)
qed

lemma sql_Inr: "sql env f w = (Inr x, w') \<Longrightarrow> f (rival_at env (stmts w) (db w)) = (Inr x, db w')"
  by (cases "f (rival_at env (stmts w) (db w))") (auto simp: sql_def Let_def split: outcome.splits)

lemma nowE_Inr: "nowE env w = (Inr t, w') \<Longrightarrow> db w' = db w"
  by (auto simp: nowE_def)

lemma yields_sql_row:
  assumes "rely env I" and "\<And>d x. I d \<Longrightarrow> x \<in> set (rows d) \<Longrightarrow> Q x"
  shows "yields I (sql env (\<lambda>d. select_row P (rows d) d)) Q"
  by (rule yields_sql [OF assms(1)])
    (auto simp: select_row_def split: option.splits intro: assms(2) dest: find_Some_set)

lemma yields_sql_rows:
  assumes "rely env I" and "\<And>d. I d \<Longrightarrow> Q (rows d)"
  shows "yields I (sql env (\<lambda>d. select_rows (rows d) d)) Q"
  by (rule yields_sql [OF assms(1)]) (auto simp: select_rows_def assms(2))

end
