(* ===== verification/Lease_Properties.thy ===== *)
theory Lease_Properties
  imports Lease_Safety Secret_Properties
begin

text \<open>The properties of leases, each with a concrete run on which it is exercised.\<close>

section \<open>A sample run\<close>

definition sample_leases :: LeaseService where
  "sample_leases = \<lparr>ls_defaultTTL = 3600 * time_Second, ls_maxTTL = 86400 * time_Second\<rparr>"

definition sample_dynamic :: PutSecretInput where
  "sample_dynamic = \<lparr>psi_Namespace = ''app'', psi_Path = ''/creds'', psi_Type = ''dynamic'', psi_Value = ''pw''\<rparr>"

definition sample_lease_input :: CreateLeaseInput where
  "sample_lease_input =
     \<lparr>cli_Namespace = ''app'', cli_Path = ''/creds'', cli_TTL = 600 * time_Second, cli_Renewable = True,
      cli_Metadata = None\<rparr>"

definition sample_dynamic_world :: world where
  "sample_dynamic_world = snd (SecretService_PutSecret sample_env sample_service sample_dynamic sample_ns_world)"

definition sample_lease_run :: "(err + Lease) \<times> world" where
  "sample_lease_run = LeaseService_Create sample_env sample_leases sample_lease_input sample_dynamic_world"

definition sample_lease_world :: world where
  "sample_lease_world = snd sample_lease_run"

definition sample_lease :: Lease where
  "sample_lease =
     \<lparr>lease_ID = 3, lease_Namespace = ''app'', lease_Path = ''/creds'', lease_SecretID = 1, lease_TTLSeconds = 600,
      lease_Renewable = True, lease_ExpiresAt = 1700000602000000000, lease_RevokedAt = None, lease_Metadata = [],
      lease_CreatedAt = 1700000002000000000, lease_UpdatedAt = 1700000002000000000\<rparr>"

lemma sample_lease_created: "fst sample_lease_run = Inr sample_lease" "leases (db sample_lease_world) = [sample_lease]"
  by code_simp+

lemma sample_lease_env: "lease_env sample_env" "sane_ttl sample_leases" "lease_rely sample_env"
  by (simp_all add: lease_env_def sane_clock_def rely_served sane_ttl_def sample_leases_def time_Second_def lease_rely_def)

section \<open>What a revocation leaves behind\<close>

lemma LeaseRepo_Get_Inr:
  assumes "LeaseRepo_Get env i w = (Inr l, w')"
  shows "db w' = rival_at env (stmts w) (db w) \<and> l \<in> set (leases (db w')) \<and> lease_ID l = i"
proof -
  have "sql env (select_lease i) w = (Inr l, w')" using assms by (simp add: LeaseRepo_Get_def)
  then have g: "select_lease i (rival_at env (stmts w) (db w)) = (Inr l, db w')" by (rule sql_Inr)
  then have "db w' = rival_at env (stmts w) (db w)" using lease_table.get_Inr_iff by blast
  with lease_table.get_Inr_row [OF g] show ?thesis by simp
qed

lemma LeaseRepo_Revoke_Inr:
  assumes "LeaseRepo_Revoke env i t w = (Inr u, w')" and "l \<in> set (leases (db w))" and "lease_ID l = i"
    and "lease_rely env"
  shows "\<exists>r \<in> set (leases (db w')). lease_ID r = i \<and> lease_RevokedAt r \<noteq> None"
proof -
  obtain now w1 where db1: "db w1 = db w" and up: "sql env (update_revoked i (ts_col env t) now) w1 = (Inr u, w')"
    using assms(1) by (auto simp: LeaseRepo_Revoke_def bindE_Inr_iff dest: nowE_Inr)
  define d where "d = rival_at env (stmts w1) (db w1)"
  have "leases_kept (db w) d"
    using assms(4) leases_kept_refl [of "db w"] by (simp add: lease_rely_def rely_def d_def db1)
  then obtain r where "r \<in> set (leases d)" "lease_ID r = i"
    using assms(2,3) by (fastforce simp: leases_kept_def lease_core_def)
  then have "\<exists>r \<in> set (leases (snd (update_revoked i (ts_col env t) now d))). lease_ID r = i \<and> lease_RevokedAt r \<noteq> None"
    by (intro bexI [of _ "r\<lparr>lease_RevokedAt := Some (ts_col env t), lease_UpdatedAt := now\<rparr>"])
      (auto simp: update_revoked_def update_where_def image_iff intro!: bexI [of _ r])
  with sql_Inr [OF up] show ?thesis by (simp add: d_def)
qed

lemma LeaseService_Revoke_Inr:
  assumes "LeaseService_Revoke env i w = (Inr l, w')" and "lease_rely env" and "lease_env env" and "lease_inv (db w)"
  shows "\<exists>r \<in> set (leases (db w')). lease_ID r = i \<and> lease_RevokedAt r \<noteq> None"
proof -
  obtain l0 w1 where get: "LeaseRepo_Get env i w = (Inr l0, w1)"
    and rest: "(if IsRevoked l0 then okE l0 else bindE (nowE env) (\<lambda>now. bindE (LeaseRepo_Revoke env i now)
       (\<lambda>_. okE (l0\<lparr>lease_RevokedAt := Some now, lease_UpdatedAt := now\<rparr>)))) w1 = (Inr l, w')"
    using assms(1) by (auto simp: LeaseService_Revoke_def bindE_Inr_iff)
  have wf: "lease_wf l0" using yieldsD [OF yields_LeaseRepo_Get [OF assms(3)] assms(4) get] by simp
  note row = LeaseRepo_Get_Inr [OF get]
  show ?thesis
  proof (cases "IsRevoked l0")
    case True
    then show ?thesis using rest row IsRevoked_wf [OF wf] by auto
  next
    case False
    then obtain now w2 u where "db w2 = db w1" "LeaseRepo_Revoke env i now w2 = (Inr u, w')"
      using rest by (auto simp: bindE_Inr_iff dest: nowE_Inr)
    then show ?thesis using LeaseRepo_Revoke_Inr [OF _ _ _ assms(2)] row by metis
  qed
qed

lemma Renew_revoked_row:
  assumes "lease_env env" and "lease_rely env" and "lease_inv (db w)"
    and "r \<in> set (leases (db w))" and "lease_ID r = i" and "lease_RevokedAt r \<noteq> None"
  shows "\<exists>e w'. LeaseService_Renew env s i ttl w = (Inl e, w') \<and> db w' = rival_at env (stmts w) (db w)"
proof -
  define d where "d = rival_at env (stmts w) (db w)"
  have inv: "lease_inv d" using assms(1,3) by (simp add: d_def lease_env_def rely_def)
  have "leases_kept (db w) d" using assms(2) leases_kept_refl by (simp add: lease_rely_def rely_def d_def)
  then obtain r' where r': "r' \<in> set (leases d)" "lease_ID r' = i" "lease_RevokedAt r' \<noteq> None"
    using assms(4-6) by (fastforce simp: leases_kept_def lease_core_def)
  have sel: "select_lease i d = (Inr r', d)"
    using lease_table.get_row [of d r'] r' inv by (simp add: lease_inv_def)
  have rev: "IsRevoked r'" using r' IsRevoked_wf lease_inv_row [OF inv] by blast
  obtain q w1 where get: "LeaseRepo_Get env i w = (q, w1)" by force
  then have q: "db w1 = d" "q = Inr r' \<or> (\<exists>e. q = Inl e)"
    by (auto simp: LeaseRepo_Get_def sql_def wrapE_def Let_def sel d_def [symmetric]
        split: outcome.splits prod.splits sum.splits)
  show ?thesis
  proof (cases q)
    case (Inl e)
    then show ?thesis using get q(1) by (simp add: LeaseService_Renew_def bindE_def d_def)
  next
    case (Inr l)
    with q have "l = r'" by auto
    with Inr get q(1) rev show ?thesis
      by (cases "lease_Renewable r'") (simp_all add: LeaseService_Renew_def bindE_def guardE_def okE_def failE_def d_def)
  qed
qed

lemma lease_steps_inv:
  assumes "lease_env env" and "lease_rely env" and "sane_ttl s" and "lease_steps env s w w'"
  shows "lease_inv (db w) \<Longrightarrow> lease_inv (db w')" and "leases_kept d0 (db w) \<Longrightarrow> leases_kept d0 (db w')"
  using assms(4) by (induction rule: lease_steps.induct) (auto intro: lease_op_inv lease_op_kept assms(1-3))

text \<open>The lifetime a renewal asks for: the lease's own when none is given.\<close>

definition renewal_ttl :: "Lease \<Rightarrow> duration \<Rightarrow> duration" where
  "renewal_ttl l ttl = (if ttl \<le> 0 then wrap64 (lease_TTLSeconds l * time_Second) else ttl)"

section \<open>The expiry loop\<close>

text \<open>The row a loop over \<open>ls\<close> leaves in the place of \<open>r\<close>.\<close>

definition expired_to :: "env \<Rightarrow> Lease list \<Rightarrow> Lease \<Rightarrow> Lease \<Rightarrow> bool" where
  "expired_to env ls r r' \<longleftrightarrow>
     (case find (\<lambda>l. lease_ID l = lease_ID r) ls of
        None \<Rightarrow> r' = r
      | Some l \<Rightarrow> \<exists>t. r' = r\<lparr>lease_RevokedAt := Some (ts_col env (lease_ExpiresAt l)), lease_UpdatedAt := t\<rparr>)"

lemma expire_loop:
  assumes "served env" and "distinct (map lease_ID ls)"
  shows "\<exists>w'. forE ls (\<lambda>l. LeaseRepo_Revoke env (lease_ID l) (lease_ExpiresAt l)) w = (Inr (), w') \<and>
    list_all2 (expired_to env ls) (leases (db w)) (leases (db w')) \<and>
    db w' = (db w)\<lparr>leases := leases (db w')\<rparr>"
  using assms(2)
proof (induction ls arbitrary: w)
  case Nil
  then show ?case by (auto simp: okE_def expired_to_def list.rel_refl)
next
  case (Cons l ls)
  define w1 where "w1 = snd (LeaseRepo_Revoke env (lease_ID l) (lease_ExpiresAt l) w)"
  have run: "LeaseRepo_Revoke env (lease_ID l) (lease_ExpiresAt l) w = (Inr (), w1)"
    by (simp add: w1_def LeaseRepo_Revoke_served [OF assms(1)])
  have db1: "db w1 = snd (update_revoked (lease_ID l) (ts_col env (lease_ExpiresAt l)) (ts_col env (now_at env (tick w))) (db w))"
    by (simp add: w1_def LeaseRepo_Revoke_served [OF assms(1)])
  obtain w' where w': "forE ls (\<lambda>l. LeaseRepo_Revoke env (lease_ID l) (lease_ExpiresAt l)) w1 = (Inr (), w')"
    "list_all2 (expired_to env ls) (leases (db w1)) (leases (db w'))" "db w' = (db w1)\<lparr>leases := leases (db w')\<rparr>"
    using Cons by auto
  have notin: "find (\<lambda>x. lease_ID x = lease_ID l) ls = None" unfolding find_None_set using Cons.prems by (metis distinct.simps(2) imageI list.map(2) list.set_map)
  have "expired_to env (l # ls) r r'"
    if "expired_to env ls (if lease_ID r = lease_ID l
        then r\<lparr>lease_RevokedAt := Some (ts_col env (lease_ExpiresAt l)), lease_UpdatedAt := t\<rparr> else r) r'" for r r' t
    using that notin by (auto simp: expired_to_def split: if_splits)
  then have "list_all2 (expired_to env (l # ls)) (leases (db w)) (leases (db w'))"
    using w'(2) by (auto simp: db1 update_revoked_def update_where_def list_all2_map1 elim!: list_all2_mono)
  moreover have "db w' = (db w)\<lparr>leases := leases (db w')\<rparr>"
    using w'(3) by (simp add: db1 update_revoked_def)
  ultimately show ?case using w'(1) by (simp add: bindE_def run)
qed

lemma find_filter_key:
  assumes "distinct (map k xs)" and "x \<in> set xs"
  shows "find (\<lambda>r. k r = k x) (filter P xs) = (if P x then Some x else None)"
proof (cases "P x")
  case True
  then show ?thesis using assms by (simp add: find_key_unique distinct_map_filter)
next
  case False
  have "r = x" if "r \<in> set xs" "k r = k x" for r
    using assms that by (metis find_key_unique option.inject)
  with False show ?thesis by (auto simp: find_None_set)
qed

section \<open>Properties\<close>

text \<open>C27: every state the lease operations reach, in any order and under any faults, keeps the identifiers of leases distinct and every lease well formed.\<close>

theorem lease_inv_reachable:
  assumes "lease_env env" and "lease_rely env" and "sane_ttl s" and "lease_steps env s w w'" and "lease_inv (db w)"
  shows "lease_inv (db w')"
  using lease_steps_inv(1) [OF assms(1-4)] assms(5) .

theorem lease_inv_reachable_witness:
  "lease_inv (db (lease_op sample_env sample_leases (OpLeaseRevoke 3) sample_lease_world))"
proof -
  have "lease_steps sample_env sample_leases sample_lease_world
      (lease_op sample_env sample_leases (OpLeaseRevoke 3) sample_lease_world)"
    by (intro lease_steps.intros)
  moreover have "lease_inv (db sample_lease_world)"
    by (simp add: lease_inv_def sample_lease_created lease_wf_def sample_lease_def time_Second_def)
  ultimately show ?thesis using lease_inv_reachable [OF sample_lease_env(1,3,2)] by blast
qed

text \<open>C15: once a revocation has returned, a renewal of that lease fails without an update, whatever lease operations and faults come between.\<close>

theorem revoked_stays_refused:
  assumes "lease_env env" and "lease_rely env" and "sane_ttl s" and "lease_inv (db w)"
    and "LeaseService_Revoke env i w = (Inr l, w1)" and "lease_steps env s w1 w2"
  shows "\<exists>e w3. LeaseService_Renew env s i ttl w2 = (Inl e, w3) \<and> db w3 = rival_at env (stmts w2) (db w2)"
proof -
  obtain r where r: "r \<in> set (leases (db w1))" "lease_ID r = i" "lease_RevokedAt r \<noteq> None"
    using LeaseService_Revoke_Inr [OF assms(5,2,1,4)] by blast
  have "lease_inv (db w1)"
    using preservesD [OF keeps_inv_Revoke [OF assms(1)], of w i] assms(4,5) by simp
  then have inv: "lease_inv (db w2)" by (rule lease_steps_inv(1) [OF assms(1-3,6)])
  have "leases_kept (db w1) (db w2)"
    by (rule lease_steps_inv(2) [OF assms(1-3,6)]) simp
  with r obtain r' where "r' \<in> set (leases (db w2))" "lease_ID r' = i" "lease_RevokedAt r' \<noteq> None"
    by (fastforce simp: leases_kept_def lease_core_def)
  then show ?thesis by (rule Renew_revoked_row [OF assms(1,2) inv])
qed

theorem revoked_stays_refused_witness:
  "\<exists>e w3. LeaseService_Renew sample_env sample_leases 3 time_Second
      (snd (LeaseService_Revoke sample_env 3 sample_lease_world)) = (Inl e, w3) \<and>
    db w3 = db (snd (LeaseService_Revoke sample_env 3 sample_lease_world))"
proof -
  have inv: "lease_inv (db sample_lease_world)"
    by (simp add: lease_inv_def sample_lease_created lease_wf_def sample_lease_def time_Second_def)
  have "fst (LeaseService_Revoke sample_env 3 sample_lease_world) =
      Inr (sample_lease\<lparr>lease_RevokedAt := Some 1700000003000000000, lease_UpdatedAt := 1700000003000000000\<rparr>)"
    by code_simp
  then obtain l w1 where run: "LeaseService_Revoke sample_env 3 sample_lease_world = (Inr l, w1)"
    by (metis prod.collapse)
  show ?thesis
    using revoked_stays_refused [OF sample_lease_env(1,3,2) inv run lease_steps.lease_refl] by (simp add: run)
qed

text \<open>C29: a lease that is created is for an existing dynamic secret, lives for the requested or the default time and no longer than the maximum, and is the only change to the database.\<close>

theorem lease_created:
  assumes "served env" and "LeaseService_Create env s input w = (Inr l, w')"
  shows "(\<exists>sec \<in> set (secrets (db w)). sec_key sec = (cli_Namespace input, cli_Path input) \<and>
      sec_Type sec = SecretTypeDynamic \<and> lease_SecretID l = sec_ID sec) \<and>
    lease_ExpiresAt l = lease_CreatedAt l + (if cli_TTL input \<le> 0 then ls_defaultTTL s else cli_TTL input) \<and>
    lease_ExpiresAt l - lease_CreatedAt l \<le> ls_maxTTL s \<and>
    lease_RevokedAt l = None \<and> lease_Renewable l = cli_Renewable input \<and>
    db w' = (db w)\<lparr>leases := leases (db w) @ [store_Lease env l]\<rparr>"
proof -
  obtain i where n: "NormalizeLease (ls_defaultTTL s) (ls_maxTTL s) input = Inr i"
    using assms(2) by (auto simp: LeaseService_Create_def bindE_Inr_iff)
  with assms(2) obtain sec w1 where g: "SecretRepo_GetSecret env (cli_Namespace i) (cli_Path i) w = (Inr sec, w1)"
    by (auto simp: LeaseService_Create_def bindE_Inr_iff)
  have rest: "sec_Type sec = SecretTypeDynamic \<and> lease_SecretID l = sec_ID sec \<and>
      lease_ExpiresAt l = lease_CreatedAt l + cli_TTL i \<and> lease_RevokedAt l = None \<and>
      lease_Renewable l = cli_Renewable i \<and> (\<exists>w2. db w2 = db w1 \<and> LeaseRepo_Create env l w2 = (Inr (), w'))"
    using assms(2) n g
    by (auto simp: LeaseService_Create_def Let_def bindE_Inr_iff uuidE_def nowE_def
        intro!: exI [of _ "w1\<lparr>tick := Suc (tick w1), uuids := Suc (uuids w1)\<rparr>"])
  then have dyn: "sec_Type sec = SecretTypeDynamic"
    and run: "lease_SecretID l = sec_ID sec" "lease_ExpiresAt l = lease_CreatedAt l + cli_TTL i"
      "lease_RevokedAt l = None" "lease_Renewable l = cli_Renewable i"
    and ins: "\<exists>w2. db w2 = db w1 \<and> LeaseRepo_Create env l w2 = (Inr (), w')"
    by blast+
  note n = NormalizeLease_ok [OF n]
  have sec: "find (\<lambda>r. sec_key r = (cli_Namespace i, cli_Path i)) (secrets (db w)) = Some sec" "db w1 = db w"
    using g by (auto simp: GetSecret_served [OF assms(1)] split: option.splits)
  have "db w' = (db w)\<lparr>leases := leases (db w) @ [store_Lease env l]\<rparr>"
    using ins sec(2)
    by (auto simp: LeaseRepo_Create_def sql_served [OF assms(1)] insert_lease_def insert_stmt_def
        wrapE_def split: sum.splits if_splits)
  with sec(1) n run dyn show ?thesis by (auto dest!: find_Some_set intro!: bexI [of _ sec])
qed

theorem lease_created_witness:
  "lease_ExpiresAt sample_lease - lease_CreatedAt sample_lease \<le> ls_maxTTL sample_leases \<and>
   leases (db sample_lease_world) = leases (db sample_dynamic_world) @ [store_Lease sample_env sample_lease]"
proof -
  have "LeaseService_Create sample_env sample_leases sample_lease_input sample_dynamic_world =
      (Inr sample_lease, sample_lease_world)"
    using sample_lease_created(1) by (simp add: sample_lease_world_def sample_lease_run_def prod_eq_iff)
  from lease_created [OF sample_served this] show ?thesis by simp
qed

text \<open>C28: a renewal succeeds exactly for a lease in the table that is renewable, not revoked and not expired and for a lifetime within the maximum; it moves the expiry to that lifetime from now and keeps the rest of the row, so that the lifetime it reports is not the one stored.\<close>

theorem lease_renewed:
  assumes "served env" and "LeaseService_Renew env s i ttl w = (r, w')"
  shows "case find (\<lambda>l. lease_ID l = i) (leases (db w)) of
      None \<Rightarrow> isl r \<and> db w' = db w
    | Some l \<Rightarrow>
        if lease_Renewable l \<and> \<not> IsRevoked l \<and> now_at env (tick w) \<le> lease_ExpiresAt l \<and>
           renewal_ttl l ttl \<le> ls_maxTTL s
        then
          (\<exists>t now. r = Inr (l\<lparr>lease_ExpiresAt := now_at env (Suc (tick w)) + renewal_ttl l ttl,
                          lease_TTLSeconds := DurationSeconds (renewal_ttl l ttl), lease_UpdatedAt := t\<rparr>) \<and>
            leases (db w') = update_where (\<lambda>r. lease_ID r = i)
              (\<lambda>r. r\<lparr>lease_ExpiresAt := ts_col env (now_at env (Suc (tick w)) + renewal_ttl l ttl),
                     lease_UpdatedAt := now\<rparr>) (leases (db w)))
        else isl r \<and> db w' = db w"
proof (cases "find (\<lambda>l. lease_ID l = i) (leases (db w))")
  case None
  then show ?thesis using assms
    by (auto simp: LeaseService_Renew_def bindE_def LeaseRepo_Get_served)
next
  case (Some l)
  then show ?thesis using assms(2)
    by (auto simp: LeaseService_Renew_def bindE_def LeaseRepo_Get_served [OF assms(1)]
        LeaseRepo_UpdateExpiry_served [OF assms(1)] guardE_def failE_def okE_def nowE_def IsExpired_def
        Let_def renewal_ttl_def update_expiry_def split: if_splits)
qed

theorem lease_renewed_witness:
  "\<exists>t now. fst (LeaseService_Renew sample_env sample_leases 3 (60 * time_Second) sample_lease_world) =
      Inr (sample_lease\<lparr>lease_ExpiresAt := 1700000064000000000, lease_TTLSeconds := 60, lease_UpdatedAt := t\<rparr>) \<and>
    leases (db (snd (LeaseService_Renew sample_env sample_leases 3 (60 * time_Second) sample_lease_world))) =
      [sample_lease\<lparr>lease_ExpiresAt := 1700000064000000000, lease_UpdatedAt := now\<rparr>]"
proof -
  have tick: "tick sample_lease_world = 3" by code_simp
  obtain r w' where run: "LeaseService_Renew sample_env sample_leases 3 (60 * time_Second) sample_lease_world = (r, w')"
    by force
  have sums: "find (\<lambda>l. lease_ID l = 3) [sample_lease] = Some sample_lease" "lease_Renewable sample_lease"
    "\<not> IsRevoked sample_lease" "renewal_ttl sample_lease (60 * time_Second) = 60 * time_Second"
    "60 * time_Second \<le> ls_maxTTL sample_leases" "DurationSeconds (60 * time_Second) = 60"
    "1700000000000000000 + 3 * time_Second \<le> lease_ExpiresAt sample_lease"
    "1700000000000000000 + 4 * time_Second + 60 * time_Second = 1700000064000000000" "lease_ID sample_lease = 3"
    by code_simp+
  have num: "1700000000000000000 + int (Suc 3) * time_Second + 60 * time_Second = 1700000064000000000"
    "1700000000000000000 + int 3 * time_Second = 1700000000000000000 + 3 * time_Second"
    using sums(8) by simp_all
  show ?thesis using lease_renewed [OF sample_served run]
    unfolding run sample_lease_created(2) tick sums(1,4,6) fst_conv snd_conv
    by (simp only: option.case sample_simps num sums if_True simp_thms update_where_def list.map)
qed



end
