(* ===== verification/PKI_Repository.thy ===== *)
theory PKI_Repository
  imports Result_Logic
begin

text \<open>
  \<open>internal/pki/infrastructure/postgres/repository.go\<close> over the tables \<open>pki_cas\<close>,
  \<open>certificates\<close> and \<open>revocations\<close>, with the constraints of the migration: primary keys,
  \<open>UNIQUE(name)\<close>, \<open>UNIQUE(namespace, serial_number)\<close> and the references of a CA to its
  parent, of a certificate to its CA and of a revocation to its certificate. A query for one
  row that selects several reads the first.
\<close>

definition store_CA :: "env \<Rightarrow> CA \<Rightarrow> CA" where
  "store_CA env ca =
     ca\<lparr>ca_Policy := json_col env (ca_Policy ca), ca_NotBefore := ts_col env (ca_NotBefore ca),
        ca_NotAfter := ts_col env (ca_NotAfter ca), ca_CreatedAt := ts_col env (ca_CreatedAt ca),
        ca_UpdatedAt := ts_col env (ca_UpdatedAt ca)\<rparr>"

definition store_Certificate :: "env \<Rightarrow> Certificate \<Rightarrow> Certificate" where
  "store_Certificate env c =
     c\<lparr>cert_NotBefore := ts_col env (cert_NotBefore c), cert_NotAfter := ts_col env (cert_NotAfter c),
       cert_RevokedAt := map_option (ts_col env) (cert_RevokedAt c),
       cert_CreatedAt := ts_col env (cert_CreatedAt c), cert_UpdatedAt := ts_col env (cert_UpdatedAt c)\<rparr>"

definition store_Revocation :: "env \<Rightarrow> Revocation \<Rightarrow> Revocation" where
  "store_Revocation env r =
     r\<lparr>rev_RevokedAt := ts_col env (rev_RevokedAt r), rev_CreatedAt := ts_col env (rev_CreatedAt r)\<rparr>"

definition cert_key :: "Certificate \<Rightarrow> string \<times> string" where
  "cert_key c = (cert_Namespace c, cert_SerialNumber c)"

section \<open>Statements\<close>

definition refers :: "uuid option \<Rightarrow> uuid set \<Rightarrow> bool" where
  "refers r ids = (case r of None \<Rightarrow> True | Some i \<Rightarrow> i \<in> ids)"

definition insert_ca :: "CA \<Rightarrow> unit stmt" where
  "insert_ca ca d =
     insert_stmt (list_ex (\<lambda>r. ca_ID r = ca_ID ca \<or> ca_Name r = ca_Name ca) (pki_cas d))
       (\<not> refers (ca_ParentID ca) (ca_ID ` set (pki_cas d)))
       (d\<lparr>pki_cas := pki_cas d @ [ca]\<rparr>) d"

definition select_ca :: "string \<Rightarrow> CA stmt" where
  "select_ca name d = select_row (\<lambda>r. ca_Name r = name) (pki_cas d) d"

definition select_ca_id :: "uuid \<Rightarrow> CA stmt" where
  "select_ca_id i d = select_row (\<lambda>r. ca_ID r = i) (pki_cas d) d"

definition insert_certificate :: "Certificate \<Rightarrow> unit stmt" where
  "insert_certificate c d =
     insert_stmt (list_ex (\<lambda>r. cert_ID r = cert_ID c \<or> cert_key r = cert_key c) (certificates d))
       (\<not> refers (cert_CAID c) (ca_ID ` set (pki_cas d)))
       (d\<lparr>certificates := certificates d @ [c]\<rparr>) d"

definition select_certificate :: "string \<times> string \<Rightarrow> Certificate stmt" where
  "select_certificate k d = select_row (\<lambda>r. cert_key r = k) (certificates d) d"

definition select_certificate_serial :: "string \<Rightarrow> Certificate stmt" where
  "select_certificate_serial serial d = select_row (\<lambda>r. cert_SerialNumber r = serial) (certificates d) d"

definition update_certificate_revoked :: "uuid \<Rightarrow> time \<Rightarrow> string \<Rightarrow> time \<Rightarrow> unit stmt" where
  "update_certificate_revoked i revokedAt reason now d =
     (Inr (), d\<lparr>certificates := update_where (\<lambda>r. cert_ID r = i)
        (\<lambda>r. r\<lparr>cert_Status := CertificateRevoked, cert_RevokedAt := Some revokedAt,
               cert_RevocationReason := reason, cert_UpdatedAt := now\<rparr>) (certificates d)\<rparr>)"

definition insert_revocation :: "Revocation \<Rightarrow> unit stmt" where
  "insert_revocation v d =
     insert_stmt (list_ex (\<lambda>r. rev_ID r = rev_ID v) (revocations d))
       (\<not> list_ex (\<lambda>c. cert_ID c = rev_CertificateID v) (certificates d))
       (d\<lparr>revocations := revocations d @ [v]\<rparr>) d"

text \<open>The join of revocations with the certificates of a CA, newest revocation first.\<close>

definition revocations_of :: "uuid \<Rightarrow> tables \<Rightarrow> Revocation list" where
  "revocations_of caID d =
     order_by (\<lambda>x y. rev_RevokedAt x \<ge> rev_RevokedAt y)
       (concat (map (\<lambda>r. map (\<lambda>_. r)
          (filter (\<lambda>c. cert_ID c = rev_CertificateID r \<and> cert_CAID c = Some caID) (certificates d)))
          (revocations d)))"

section \<open>Methods\<close>

definition PKIRepo_CreateCA :: "env \<Rightarrow> CA \<Rightarrow> unit io" where
  "PKIRepo_CreateCA env ca = wrapE ''insert ca: %w'' [] (sql env (insert_ca (store_CA env ca)))"

definition PKIRepo_GetCA :: "env \<Rightarrow> string \<Rightarrow> CA io" where
  "PKIRepo_GetCA env name = wrapE ''ca not found: %w'' [] (sql env (select_ca name))"

definition PKIRepo_GetCAByID :: "env \<Rightarrow> uuid \<Rightarrow> CA io" where
  "PKIRepo_GetCAByID env i = wrapE ''ca not found: %w'' [] (sql env (select_ca_id i))"

definition PKIRepo_ListCAs :: "env \<Rightarrow> string \<Rightarrow> CA list io" where
  "PKIRepo_ListCAs env namespace =
     queryE env ''list cas: %w''
       (sql env (\<lambda>d. select_rows (order_by (\<lambda>x y. text_le env (ca_Name x) (ca_Name y))
          (filter (\<lambda>r. ca_Namespace r = namespace) (pki_cas d))) d))"

definition PKIRepo_CreateCertificate :: "env \<Rightarrow> Certificate \<Rightarrow> unit io" where
  "PKIRepo_CreateCertificate env cert =
     wrapE ''insert certificate: %w'' [] (sql env (insert_certificate (store_Certificate env cert)))"

definition PKIRepo_GetCertificate :: "env \<Rightarrow> string \<Rightarrow> string \<Rightarrow> Certificate io" where
  "PKIRepo_GetCertificate env namespace serial =
     wrapE ''certificate not found: %w'' [] (sql env (select_certificate (namespace, serial)))"

definition PKIRepo_GetCertificateBySerial :: "env \<Rightarrow> string \<Rightarrow> Certificate io" where
  "PKIRepo_GetCertificateBySerial env serial =
     wrapE ''certificate not found: %w'' [] (sql env (select_certificate_serial serial))"

definition PKIRepo_ListCertificates :: "env \<Rightarrow> string \<Rightarrow> Certificate list io" where
  "PKIRepo_ListCertificates env namespace =
     queryE env ''list certificates: %w''
       (sql env (\<lambda>d. select_rows (order_by (\<lambda>x y. cert_CreatedAt x \<ge> cert_CreatedAt y)
          (filter (\<lambda>r. cert_Namespace r = namespace) (certificates d))) d))"

definition PKIRepo_RevokeCertificate :: "env \<Rightarrow> uuid \<Rightarrow> time \<Rightarrow> string \<Rightarrow> unit io" where
  "PKIRepo_RevokeCertificate env i revokedAt reason =
     bindE (nowE env) (\<lambda>now.
     wrapE ''revoke certificate: %w'' []
       (sql env (update_certificate_revoked i (ts_col env revokedAt) reason (ts_col env now))))"

definition PKIRepo_CreateRevocation :: "env \<Rightarrow> Revocation \<Rightarrow> unit io" where
  "PKIRepo_CreateRevocation env revocation =
     wrapE ''insert revocation: %w'' [] (sql env (insert_revocation (store_Revocation env revocation)))"

definition PKIRepo_ListRevocations :: "env \<Rightarrow> uuid \<Rightarrow> Revocation list io" where
  "PKIRepo_ListRevocations env caID =
     queryE env ''list revocations: %w'' (sql env (\<lambda>d. select_rows (revocations_of caID d) d))"

lemmas PKIRepo_defs =
  PKIRepo_CreateCA_def PKIRepo_GetCA_def PKIRepo_GetCAByID_def PKIRepo_ListCAs_def
  PKIRepo_CreateCertificate_def PKIRepo_GetCertificate_def PKIRepo_GetCertificateBySerial_def
  PKIRepo_ListCertificates_def PKIRepo_RevokeCertificate_def PKIRepo_CreateRevocation_def
  PKIRepo_ListRevocations_def

lemma revocations_of_set:
  "r \<in> set (revocations_of caID d) \<longleftrightarrow> r \<in> set (revocations d) \<and>
     (\<exists>c \<in> set (certificates d). cert_ID c = rev_CertificateID r \<and> cert_CAID c = Some caID)"
  by (auto simp: revocations_of_def)

section \<open>The tables honour the contract of a keyed table\<close>

interpretation ca_table: keyed_table pki_cas ca_Name insert_ca select_ca
  by unfold_locales
    (auto simp: insert_ca_def select_ca_def insert_stmt_Inr_iff list_ex_iff dest: insert_stmt_Inl)

interpretation cert_table: keyed_table certificates cert_key insert_certificate select_certificate
  by unfold_locales
    (auto simp: insert_certificate_def select_certificate_def insert_stmt_Inr_iff list_ex_iff dest: insert_stmt_Inl)

end
