(* ===== verification/Go_Parse.thy ===== *)
theory Go_Parse
  imports Go_Format
begin

text \<open>Reading numbers back: \<open>big.Int.SetString\<close> and \<open>strconv\<close>, with their inverse laws.\<close>

text \<open>\<open>big.Int.SetString(s, 10)\<close>: an optional sign and at least one digit.\<close>

definition digits_value :: "string \<Rightarrow> int" where
  "digits_value s = foldl (\<lambda>n c. 10 * n + (int (of_char c :: nat) - 48)) 0 s"

definition is_digit :: "char \<Rightarrow> bool" where
  "is_digit c = (48 \<le> (of_char c :: nat) \<and> (of_char c :: nat) \<le> 57)"

definition SetString10 :: "string \<Rightarrow> int option" where
  "SetString10 s =
     (let neg = HasPrefix s ''-''; body = (if neg \<or> HasPrefix s ''+'' then drop 1 s else s) in
      if body = [] \<or> \<not> list_all is_digit body then None
      else Some (if neg then - digits_value body else digits_value body))"

lemma digits_value_snoc: "digits_value (s @ [c]) = 10 * digits_value s + (int (of_char c :: nat) - 48)"
  by (simp add: digits_value_def)

lemma digit_dec:
  assumes "0 \<le> n" and "n < 10"
  shows "int (of_char (digit n) :: nat) = 48 + n"
proof -
  have "n = 0 \<or> n = 1 \<or> n = 2 \<or> n = 3 \<or> n = 4 \<or> n = 5 \<or> n = 6 \<or> n = 7 \<or> n = 8 \<or> n = 9"
    using assms by presburger
  then show ?thesis by (elim disjE) (simp_all add: digit_def)
qed

lemma udec_digits:
  assumes "0 \<le> n"
  shows "list_all is_digit (udec n) \<and> udec n \<noteq> [] \<and> digits_value (udec n) = n"
  using assms
proof (induction n rule: udec.induct)
  case (1 n)
  show ?case
  proof (cases "n < 10")
    case True
    then have "int (of_char (digit n) :: nat) = 48 + n" using 1(2) by (rule digit_dec [rotated])
    then show ?thesis using True 1(2)
      by (simp add: udec.simps [of n] is_digit_def digits_value_def)
  next
    case False
    have d: "int (of_char (digit (n mod 10)) :: nat) = 48 + n mod 10" by (rule digit_dec) simp_all
    moreover have "0 \<le> n mod 10" "n mod 10 < 10" by simp_all
    ultimately have "is_digit (digit (n mod 10))" unfolding is_digit_def by linarith
    then show ?thesis using False 1 d
      by (simp add: udec.simps [of n] digits_value_snoc)
  qed
qed

lemma is_digit_sign: "is_digit c \<Longrightarrow> c \<noteq> CHR ''-'' \<and> c \<noteq> CHR ''+''"
  by (auto simp: is_digit_def)

lemma SetString10_Itoa: "SetString10 (Itoa n) = Some n"
proof -
  have body: "SetString10 (udec k) = Some k" "SetString10 (CHR ''-'' # udec k) = Some (- k)" if "0 \<le> k" for k
    using udec_digits [OF that] is_digit_sign
    by (cases "udec k"; force simp: SetString10_def Let_def)+
  show ?thesis using body [of n] body [of "- n"] by (cases "n < 0") (simp_all add: Itoa_def)
qed

lemma Itoa_inject: "Itoa n = Itoa m \<Longrightarrow> n = m"
  by (metis SetString10_Itoa option.inject)

end
