(* ===== verification/PKI_Service.thy ===== *)
theory PKI_Service
  imports PKI_Repository Backend_Provider Go_Parse
begin

text \<open>
  \<open>internal/pki/application/service.go\<close>: certificate authorities, the issue, renewal and
  revocation of certificates, revocation lists and OCSP answers.

  The packages \<open>crypto/x509\<close>, \<open>encoding/pem\<close>, \<open>crypto/ecdsa\<close> and
  \<open>golang.org/x/crypto/ocsp\<close> are a parameter, the record \<open>x509_lib\<close>: DER, PEM and PKCS8
  texts are bytes, a key is the bytes that stand for it, a certificate is the record of the
  fields the code sets or reads. Calls that draw from \<open>rand.Reader\<close> take the number of the
  draw. What the proofs need of the packages is \<open>lawful_x509\<close>.
\<close>

section \<open>The certificate library\<close>

datatype KeyUsage =
    KeyUsageCertSign | KeyUsageCRLSign | KeyUsageDigitalSignature | KeyUsageKeyEncipherment

datatype ExtKeyUsage = ExtKeyUsageServerAuth | ExtKeyUsageClientAuth

record X509 =
  x_SerialNumber :: int
  x_CommonName :: string
  x_NotBefore :: time
  x_NotAfter :: time
  x_IsCA :: bool
  x_BasicConstraintsValid :: bool
  x_MaxPathLen :: int
  x_KeyUsage :: "KeyUsage list"
  x_ExtKeyUsage :: "ExtKeyUsage list"
  x_DNSNames :: "string list"
  x_PublicKey :: bytes

datatype AnyKey = ECKey bytes | OtherKey

record RevocationListEntry =
  rle_SerialNumber :: int
  rle_RevocationTime :: time
  rle_ReasonCode :: int

record RevocationList =
  rl_Number :: int
  rl_ThisUpdate :: time
  rl_NextUpdate :: time
  rl_RevokedCertificateEntries :: "RevocationListEntry list"

datatype OcspStatus = ocsp_Good | ocsp_Revoked

record OcspResponse =
  or_Status :: OcspStatus
  or_SerialNumber :: int
  or_ThisUpdate :: time
  or_NextUpdate :: time

record x509_lib =
  GenerateKey :: "nat \<Rightarrow> err + bytes"
  rand_Int :: "nat \<Rightarrow> int \<Rightarrow> err + int"
  PublicKey :: "bytes \<Rightarrow> bytes"
  CreateCertificate :: "nat \<Rightarrow> X509 \<Rightarrow> X509 \<Rightarrow> bytes \<Rightarrow> bytes \<Rightarrow> err + bytes"
  ParseCertificate :: "bytes \<Rightarrow> err + X509"
  MarshalPKCS8PrivateKey :: "bytes \<Rightarrow> err + bytes"
  ParsePKCS8PrivateKey :: "bytes \<Rightarrow> err + AnyKey"
  pem_Encode :: "string \<Rightarrow> bytes \<Rightarrow> bytes"
  pem_Decode :: "bytes \<Rightarrow> bytes option"
  CreateRevocationList :: "nat \<Rightarrow> RevocationList \<Rightarrow> X509 \<Rightarrow> bytes \<Rightarrow> err + bytes"
  CreateResponse :: "X509 \<Rightarrow> X509 \<Rightarrow> OcspResponse \<Rightarrow> bytes \<Rightarrow> err + bytes"
  CheckSignature :: "bytes \<Rightarrow> bytes \<Rightarrow> bool"

text \<open>A call that draws randomness.\<close>

definition drawE :: "(nat \<Rightarrow> err + 'a) \<Rightarrow> 'a io" where
  "drawE f w = (f (rands w), w\<lparr>rands := Suc (rands w)\<rparr>)"

section \<open>The service\<close>

record PKIService =
  pk_x509 :: x509_lib
  pk_crypto :: CryptoService
  pk_defaultTTL :: duration

definition generateECKey :: "x509_lib \<Rightarrow> bytes io" where
  "generateECKey x = wrapE ''generate ec key: %w'' [] (drawE (GenerateKey x))"

text \<open>
  \<open>randomSerial\<close> drops the error of \<open>rand.Int\<close>; the nil result makes \<open>Add\<close> panic, which
  ends the call like an error does.
\<close>

definition randomSerial :: "x509_lib \<Rightarrow> int io" where
  "randomSerial x = bindE (drawE (\<lambda>n. rand_Int x n (2 ^ 120))) (\<lambda>n. okE (n + 1))"

definition parseCertificate :: "x509_lib \<Rightarrow> string \<Rightarrow> err + X509" where
  "parseCertificate x pemText =
     (case pem_Decode x pemText of
        None \<Rightarrow> Inl (Errorf ''invalid certificate pem'' [])
      | Some block \<Rightarrow>
          (case ParseCertificate x block of
             Inl e \<Rightarrow> Inl (Wrapf ''parse certificate: %w'' [] e)
           | Inr cert \<Rightarrow> Inr cert))"

definition parseECPrivateKey :: "x509_lib \<Rightarrow> bytes \<Rightarrow> err + bytes" where
  "parseECPrivateKey x pemBytes =
     (case pem_Decode x pemBytes of
        None \<Rightarrow> Inl (Errorf ''invalid private key pem'' [])
      | Some block \<Rightarrow>
          (case ParsePKCS8PrivateKey x block of
             Inl e \<Rightarrow> Inl (Wrapf ''parse private key: %w'' [] e)
           | Inr (ECKey key) \<Rightarrow> Inr key
           | Inr OtherKey \<Rightarrow> Inl (Errorf ''private key is not ecdsa'' [])))"

definition backendCipher :: "bytes \<Rightarrow> string \<Rightarrow> Ciphertext" where
  "backendCipher data keyVersion = \<lparr>ct_Data = data, ct_KeyVersion = keyVersion\<rparr>"

definition encryptPrivateKey :: "PKIService \<Rightarrow> bytes \<Rightarrow> (bytes \<times> string) io" where
  "encryptPrivateKey s key =
     bindE (wrapE ''marshal private key: %w'' [] (liftE (MarshalPKCS8PrivateKey (pk_x509 s) key))) (\<lambda>der.
     let pemBytes = pem_Encode (pk_x509 s) ''PRIVATE KEY'' der in
     bindE (wrapE ''encrypt private key: %w'' [] (CryptoService_Encrypt (pk_crypto s) pemBytes)) (\<lambda>encrypted.
     okE (ct_Data encrypted, ct_KeyVersion encrypted)))"

definition decryptCAKey :: "PKIService \<Rightarrow> CA \<Rightarrow> err + bytes" where
  "decryptCAKey s ca =
     (case CryptoService_Decrypt (pk_crypto s) (backendCipher (ca_EncryptedPrivateKey ca) (ca_KeyVersion ca)) of
        Inl e \<Rightarrow> Inl (Wrapf ''decrypt ca private key: %w'' [] e)
      | Inr plaintext \<Rightarrow> parseECPrivateKey (pk_x509 s) plaintext)"

definition decryptCertificateKey :: "PKIService \<Rightarrow> Certificate \<Rightarrow> err + bytes" where
  "decryptCertificateKey s cert =
     (case CryptoService_Decrypt (pk_crypto s) (backendCipher (cert_EncryptedPrivateKey cert) (cert_KeyVersion cert)) of
        Inl e \<Rightarrow> Inl (Wrapf ''decrypt certificate private key: %w'' [] e)
      | Inr plaintext \<Rightarrow> parseECPrivateKey (pk_x509 s) plaintext)"

definition revocationReasonCode :: "string \<Rightarrow> int" where
  "revocationReasonCode reason =
     (if reason = ''key_compromise'' then 1
      else if reason = ''ca_compromise'' then 2
      else if reason = ''affiliation_changed'' then 3
      else if reason = ''superseded'' then 4
      else if reason = ''cessation_of_operation'' then 5
      else if reason = ''certificate_hold'' then 6
      else if reason = ''remove_from_crl'' then 8
      else 0)"

definition five_minutes :: duration where
  "five_minutes = 300 * time_Second"

text \<open>The template of a CA certificate, the same for a root and for an intermediate.\<close>

definition ca_template :: "CreateCAInput \<Rightarrow> int \<Rightarrow> time \<Rightarrow> time \<Rightarrow> X509" where
  "ca_template input serial notBefore notAfter =
     \<lparr>x_SerialNumber = serial, x_CommonName = cci_CommonName input, x_NotBefore = notBefore,
      x_NotAfter = notAfter, x_IsCA = True, x_BasicConstraintsValid = True,
      x_MaxPathLen = cci_MaxPathLen input,
      x_KeyUsage = [KeyUsageCertSign, KeyUsageCRLSign, KeyUsageDigitalSignature],
      x_ExtKeyUsage = [], x_DNSNames = cci_DNSDomains input, x_PublicKey = []\<rparr>"

definition new_ca ::
  "CreateCAInput \<Rightarrow> uuid option \<Rightarrow> uuid \<Rightarrow> string \<Rightarrow> bytes \<times> string \<Rightarrow> int \<Rightarrow> time \<Rightarrow> time \<Rightarrow> time \<Rightarrow> CA" where
  "new_ca input parentID i certPEM enc serial notBefore notAfter now =
     \<lparr>ca_ID = i, ca_Name = cci_Name input, ca_Namespace = cci_Namespace input, ca_Type = cci_Type input,
      ca_ParentID = parentID, ca_CertificatePEM = certPEM, ca_EncryptedPrivateKey = fst enc,
      ca_KeyVersion = snd enc, ca_SerialNumber = wrap64 serial,
      ca_Policy = [(''max_path_len'', Itoa (cci_MaxPathLen input))],
      ca_NotBefore = notBefore, ca_NotAfter = notAfter, ca_Status = StatusActive,
      ca_CreatedAt = now, ca_UpdatedAt = now\<rparr>"

definition PKIService_CreateRoot :: "env \<Rightarrow> PKIService \<Rightarrow> CreateCAInput \<Rightarrow> CA io" where
  "PKIService_CreateRoot env s input0 =
     bindE (liftE (NormalizeCA (pk_defaultTTL s) (input0\<lparr>cci_Type := CATypeRoot\<rparr>))) (\<lambda>input.
     bindE (generateECKey (pk_x509 s)) (\<lambda>key.
     bindE (randomSerial (pk_x509 s)) (\<lambda>serial.
     bindE (nowE env) (\<lambda>t0.
     let notBefore = t0 - five_minutes; notAfter = notBefore + cci_TTL input;
         template = ca_template input serial notBefore notAfter in
     bindE (wrapE ''create root certificate: %w'' []
       (drawE (\<lambda>n. CreateCertificate (pk_x509 s) n template template (PublicKey (pk_x509 s) key) key))) (\<lambda>der.
     let certPEM = pem_Encode (pk_x509 s) ''CERTIFICATE'' der in
     bindE (encryptPrivateKey s key) (\<lambda>enc.
     bindE (nowE env) (\<lambda>now.
     bindE (uuidE env) (\<lambda>i.
     let ca = new_ca input None i certPEM enc serial notBefore notAfter now in
     bindE (PKIRepo_CreateCA env ca) (\<lambda>_.
     okE ca)))))))))"

definition PKIService_CreateIntermediate :: "env \<Rightarrow> PKIService \<Rightarrow> CreateCAInput \<Rightarrow> CA io" where
  "PKIService_CreateIntermediate env s input0 =
     bindE (liftE (NormalizeCA (pk_defaultTTL s) (input0\<lparr>cci_Type := CATypeIntermediate\<rparr>))) (\<lambda>input.
     bindE (PKIRepo_GetCA env (cci_ParentName input)) (\<lambda>parent.
     bindE (liftE (parseCertificate (pk_x509 s) (ca_CertificatePEM parent))) (\<lambda>parentCert.
     bindE (liftE (decryptCAKey s parent)) (\<lambda>parentKey.
     bindE (generateECKey (pk_x509 s)) (\<lambda>key.
     bindE (randomSerial (pk_x509 s)) (\<lambda>serial.
     bindE (nowE env) (\<lambda>t0.
     let notBefore = t0 - five_minutes; notAfter = notBefore + cci_TTL input;
         template = ca_template input serial notBefore notAfter in
     bindE (wrapE ''create intermediate certificate: %w'' []
       (drawE (\<lambda>n. CreateCertificate (pk_x509 s) n template parentCert (PublicKey (pk_x509 s) key) parentKey))) (\<lambda>der.
     let certPEM = pem_Encode (pk_x509 s) ''CERTIFICATE'' der in
     bindE (encryptPrivateKey s key) (\<lambda>enc.
     bindE (nowE env) (\<lambda>now.
     bindE (uuidE env) (\<lambda>i.
     let ca = new_ca input (Some (ca_ID parent)) i certPEM enc serial notBefore notAfter now in
     bindE (PKIRepo_CreateCA env ca) (\<lambda>_.
     okE ca))))))))))))"

definition leaf_template :: "string \<Rightarrow> string list \<Rightarrow> int \<Rightarrow> time \<Rightarrow> time \<Rightarrow> X509" where
  "leaf_template commonName dnsNames serial notBefore notAfter =
     \<lparr>x_SerialNumber = serial, x_CommonName = commonName, x_NotBefore = notBefore,
      x_NotAfter = notAfter, x_IsCA = False, x_BasicConstraintsValid = False, x_MaxPathLen = 0,
      x_KeyUsage = [KeyUsageDigitalSignature, KeyUsageKeyEncipherment],
      x_ExtKeyUsage = [ExtKeyUsageServerAuth, ExtKeyUsageClientAuth], x_DNSNames = dnsNames, x_PublicKey = []\<rparr>"

definition issueWithKey ::
  "env \<Rightarrow> PKIService \<Rightarrow> CA \<Rightarrow> X509 \<Rightarrow> bytes \<Rightarrow> bytes \<Rightarrow> string \<Rightarrow> string list \<Rightarrow> duration \<Rightarrow> Certificate io" where
  "issueWithKey env s ca caCert caKey leafKey commonName dnsNames ttl =
     bindE (randomSerial (pk_x509 s)) (\<lambda>serial.
     bindE (nowE env) (\<lambda>t0.
     let notBefore = t0 - five_minutes; notAfter = notBefore + ttl;
         template = leaf_template commonName dnsNames serial notBefore notAfter in
     bindE (wrapE ''sign certificate: %w'' []
       (drawE (\<lambda>n. CreateCertificate (pk_x509 s) n template caCert (PublicKey (pk_x509 s) leafKey) caKey))) (\<lambda>der.
     let certPEM = pem_Encode (pk_x509 s) ''CERTIFICATE'' der in
     bindE (encryptPrivateKey s leafKey) (\<lambda>enc.
     bindE (nowE env) (\<lambda>now.
     bindE (uuidE env) (\<lambda>i.
     let cert = \<lparr>cert_ID = i, cert_Namespace = ca_Namespace ca, cert_CAID = Some (ca_ID ca),
                 cert_CommonName = commonName, cert_SerialNumber = Itoa serial, cert_CertificatePEM = certPEM,
                 cert_EncryptedPrivateKey = fst enc, cert_KeyVersion = snd enc, cert_Status = CertificateIssued,
                 cert_NotBefore = notBefore, cert_NotAfter = notAfter, cert_RevokedAt = None,
                 cert_RevocationReason = [], cert_CreatedAt = now, cert_UpdatedAt = now\<rparr> in
     bindE (PKIRepo_CreateCertificate env cert) (\<lambda>_.
     okE cert)))))))"

definition PKIService_Issue :: "env \<Rightarrow> PKIService \<Rightarrow> IssueInput \<Rightarrow> Certificate io" where
  "PKIService_Issue env s input0 =
     bindE (liftE (NormalizeIssue (pk_defaultTTL s) input0)) (\<lambda>input.
     bindE (PKIRepo_GetCA env (ii_CAName input)) (\<lambda>ca.
     bindE (liftE (parseCertificate (pk_x509 s) (ca_CertificatePEM ca))) (\<lambda>caCert.
     bindE (liftE (decryptCAKey s ca)) (\<lambda>caKey.
     bindE (generateECKey (pk_x509 s)) (\<lambda>leafKey.
     issueWithKey env s ca caCert caKey leafKey (ii_CommonName input) (ii_DNSNames input) (ii_TTL input))))))"

definition PKIService_Renew :: "env \<Rightarrow> PKIService \<Rightarrow> RenewInput \<Rightarrow> Certificate io" where
  "PKIService_Renew env s input =
     bindE (guardE (rni_SerialNumber input = []) (Errorf ''serial_number is required'' [])) (\<lambda>_.
     bindE (PKIRepo_GetCertificateBySerial env (rni_SerialNumber input)) (\<lambda>existing.
     case cert_CAID existing of
       None \<Rightarrow> failE (Errorf ''certificate has no signing ca'' [])
     | Some caID \<Rightarrow>
         bindE (PKIRepo_GetCAByID env caID) (\<lambda>ca.
         bindE (liftE (parseCertificate (pk_x509 s) (ca_CertificatePEM ca))) (\<lambda>caCert.
         bindE (liftE (decryptCAKey s ca)) (\<lambda>caKey.
         bindE (liftE (decryptCertificateKey s existing)) (\<lambda>leafKey.
         let ttl = (if rni_TTL input \<le> 0 then pk_defaultTTL s else rni_TTL input) in
         issueWithKey env s ca caCert caKey leafKey (cert_CommonName existing) [] ttl))))))"

definition PKIService_Revoke :: "env \<Rightarrow> RevokeInput \<Rightarrow> Revocation io" where
  "PKIService_Revoke env input =
     bindE (guardE (rvi_SerialNumber input = [] \<or> rvi_Reason input = [])
              (Errorf ''serial_number and reason are required'' [])) (\<lambda>_.
     bindE (PKIRepo_GetCertificateBySerial env (rvi_SerialNumber input)) (\<lambda>cert.
     bindE (nowE env) (\<lambda>now.
     bindE (PKIRepo_RevokeCertificate env (cert_ID cert) now (rvi_Reason input)) (\<lambda>_.
     bindE (uuidE env) (\<lambda>i.
     let revocation = \<lparr>rev_ID = i, rev_CertificateID = cert_ID cert, rev_SerialNumber = cert_SerialNumber cert,
                       rev_Reason = rvi_Reason input, rev_RevokedAt = now, rev_CreatedAt = now\<rparr> in
     bindE (PKIRepo_CreateRevocation env revocation) (\<lambda>_.
     okE revocation))))))"

fun crl_entries :: "Revocation list \<Rightarrow> RevocationListEntry list" where
  "crl_entries [] = []"
| "crl_entries (r # rs) =
     (case SetString10 (rev_SerialNumber r) of
        None \<Rightarrow> crl_entries rs
      | Some serial \<Rightarrow>
          \<lparr>rle_SerialNumber = serial, rle_RevocationTime = rev_RevokedAt r,
           rle_ReasonCode = revocationReasonCode (rev_Reason r)\<rparr> # crl_entries rs)"

definition PKIService_CRL :: "env \<Rightarrow> PKIService \<Rightarrow> string \<Rightarrow> string io" where
  "PKIService_CRL env s caName =
     bindE (PKIRepo_GetCA env caName) (\<lambda>ca.
     bindE (liftE (parseCertificate (pk_x509 s) (ca_CertificatePEM ca))) (\<lambda>caCert.
     bindE (liftE (decryptCAKey s ca)) (\<lambda>caKey.
     bindE (PKIRepo_ListRevocations env (ca_ID ca)) (\<lambda>revs.
     bindE (nowE env) (\<lambda>now.
     let rl = \<lparr>rl_Number = now div time_Second, rl_ThisUpdate = now, rl_NextUpdate = now + 86400 * time_Second,
               rl_RevokedCertificateEntries = crl_entries revs\<rparr> in
     bindE (wrapE ''create revocation list: %w'' []
       (drawE (\<lambda>n. CreateRevocationList (pk_x509 s) n rl caCert caKey))) (\<lambda>der.
     okE (pem_Encode (pk_x509 s) ''X509 CRL'' der)))))))"

definition PKIService_OCSP :: "env \<Rightarrow> PKIService \<Rightarrow> string \<Rightarrow> string \<Rightarrow> string io" where
  "PKIService_OCSP env s caName serialNumber =
     bindE (PKIRepo_GetCA env caName) (\<lambda>ca.
     bindE (liftE (parseCertificate (pk_x509 s) (ca_CertificatePEM ca))) (\<lambda>caCert.
     bindE (liftE (decryptCAKey s ca)) (\<lambda>caKey.
     case SetString10 serialNumber of
       None \<Rightarrow> failE (Errorf ''invalid serial number'' [])
     | Some serial \<Rightarrow>
         bindE (tryE (PKIRepo_GetCertificateBySerial env serialNumber)) (\<lambda>found.
         let status = (case found of
                Inl _ \<Rightarrow> ocsp_Good
              | Inr cert \<Rightarrow> if cert_Status cert = CertificateRevoked then ocsp_Revoked else ocsp_Good) in
         bindE (nowE env) (\<lambda>t1.
         bindE (nowE env) (\<lambda>t2.
         let template = \<lparr>or_Status = status, or_SerialNumber = serial, or_ThisUpdate = t1,
                         or_NextUpdate = t2 + 3600 * time_Second\<rparr> in
         bindE (wrapE ''create ocsp response: %w'' []
           (liftE (CreateResponse (pk_x509 s) caCert caCert template caKey))) (\<lambda>der.
         okE (pem_Encode (pk_x509 s) ''OCSP RESPONSE'' der))))))))"

definition PKIService_GetCA :: "env \<Rightarrow> string \<Rightarrow> CA io" where
  "PKIService_GetCA env name = PKIRepo_GetCA env name"

definition PKIService_ListCAs :: "env \<Rightarrow> string \<Rightarrow> CA list io" where
  "PKIService_ListCAs env namespace = PKIRepo_ListCAs env namespace"

definition PKIService_GetCertificate :: "env \<Rightarrow> string \<Rightarrow> string \<Rightarrow> Certificate io" where
  "PKIService_GetCertificate env namespace serial = PKIRepo_GetCertificate env namespace serial"

definition PKIService_ListCertificates :: "env \<Rightarrow> string \<Rightarrow> Certificate list io" where
  "PKIService_ListCertificates env namespace = PKIRepo_ListCertificates env namespace"

end
