(* ===== verification/PKI_Safety.thy ===== *)
theory PKI_Safety
  imports PKI_Service
begin

text \<open>
  The chain of trust: what every stored certificate authority and certificate satisfies
  under any interleaving of PKI operations and any faults of the database.
\<close>

section \<open>What the certificate library and the crypto service promise\<close>

text \<open>
  PEM decodes what it encoded; a certificate that \<open>CreateCertificate\<close> made parses back to
  the fields of its template with the given public key, is a CA certificate when the template
  asks for one, and its signature verifies under the public half of the signing key; a
  private key survives PKCS8.
\<close>

definition lawful_x509 :: "x509_lib \<Rightarrow> bool" where
  "lawful_x509 x \<longleftrightarrow>
     (\<forall>t b. pem_Decode x (pem_Encode x t b) = Some b) \<and>
     (\<forall>n tpl parent pub priv der. CreateCertificate x n tpl parent pub priv = Inr der \<longrightarrow>
        CheckSignature x der (PublicKey x priv) \<and>
        (\<exists>c. ParseCertificate x der = Inr c \<and> x_PublicKey c = pub \<and> x_SerialNumber c = x_SerialNumber tpl \<and>
           x_CommonName c = x_CommonName tpl \<and> x_IsCA c = (x_BasicConstraintsValid tpl \<and> x_IsCA tpl))) \<and>
     (\<forall>k d. MarshalPKCS8PrivateKey x k = Inr d \<longrightarrow> ParsePKCS8PrivateKey x d = Inr (ECKey k))"

definition sound_crypto :: "CryptoService \<Rightarrow> bool" where
  "sound_crypto cs \<longleftrightarrow>
     (\<forall>pt w r w'. CryptoService_Encrypt cs pt w = (r, w') \<longrightarrow>
        db w' = db w \<and> (\<forall>ct. r = Inr ct \<longrightarrow> CryptoService_Decrypt cs ct = Inr pt))"

context crypto_provider
begin

lemma sound: "good c \<Longrightarrow> sound_crypto \<lparr>cs_provider = mk c, cs_aad = aad\<rparr>"
  unfolding sound_crypto_def using service_decrypt_encrypt service_encrypt_frame by blast

end

section \<open>The invariant\<close>

definition signed_by :: "PKIService \<Rightarrow> string \<Rightarrow> CA \<Rightarrow> bool" where
  "signed_by s certPEM ca =
     (case (pem_Decode (pk_x509 s) certPEM, parseCertificate (pk_x509 s) (ca_CertificatePEM ca)) of
        (Some der, Inr issuer) \<Rightarrow> CheckSignature (pk_x509 s) der (x_PublicKey issuer)
      | _ \<Rightarrow> False)"

definition ca_ok :: "PKIService \<Rightarrow> CA \<Rightarrow> bool" where
  "ca_ok s ca =
     (case (parseCertificate (pk_x509 s) (ca_CertificatePEM ca), decryptCAKey s ca) of
        (Inr c, Inr key) \<Rightarrow> x_IsCA c \<and> x_PublicKey c = PublicKey (pk_x509 s) key
      | _ \<Rightarrow> False)"

definition leaf_ok :: "PKIService \<Rightarrow> Certificate \<Rightarrow> bool" where
  "leaf_ok s cert =
     (case (parseCertificate (pk_x509 s) (cert_CertificatePEM cert), decryptCertificateKey s cert) of
        (Inr c, Inr key) \<Rightarrow>
          \<not> x_IsCA c \<and> x_PublicKey c = PublicKey (pk_x509 s) key \<and> x_CommonName c = cert_CommonName cert \<and>
          cert_SerialNumber cert = Itoa (x_SerialNumber c)
      | _ \<Rightarrow> False)"

lemma leaf_ok_serial: "leaf_ok s cert \<Longrightarrow> \<exists>n. cert_SerialNumber cert = Itoa n"
  by (auto simp: leaf_ok_def split: sum.splits)

definition ca_chained :: "PKIService \<Rightarrow> CA set \<Rightarrow> CA \<Rightarrow> bool" where
  "ca_chained s cas ca =
     (case ca_ParentID ca of
        None \<Rightarrow> signed_by s (ca_CertificatePEM ca) ca
      | Some p \<Rightarrow> \<exists>parent \<in> cas. ca_ID parent = p \<and> signed_by s (ca_CertificatePEM ca) parent)"

definition leaf_chained :: "PKIService \<Rightarrow> CA set \<Rightarrow> Certificate \<Rightarrow> bool" where
  "leaf_chained s cas cert \<longleftrightarrow>
     (\<exists>ca \<in> cas. cert_CAID cert = Some (ca_ID ca) \<and> signed_by s (cert_CertificatePEM cert) ca)"

definition trust_inv :: "PKIService \<Rightarrow> tables \<Rightarrow> bool" where
  "trust_inv s d \<longleftrightarrow>
     distinct (map ca_ID (pki_cas d)) \<and> distinct (map ca_Name (pki_cas d)) \<and>
     (\<forall>ca \<in> set (pki_cas d). ca_ok s ca \<and> ca_chained s (set (pki_cas d)) ca) \<and>
     (\<forall>cert \<in> set (certificates d). leaf_ok s cert \<and> leaf_chained s (set (pki_cas d)) cert)"

text \<open>The invariant, together with authorities that were read and are still there.\<close>

definition trust_with :: "PKIService \<Rightarrow> CA list \<Rightarrow> tables \<Rightarrow> bool" where
  "trust_with s cas d \<longleftrightarrow> trust_inv s d \<and> set cas \<subseteq> set (pki_cas d)"

definition pki_rely :: "env \<Rightarrow> PKIService \<Rightarrow> bool" where
  "pki_rely env s \<longleftrightarrow> (\<forall>cas. rely env (trust_with s cas))"

lemma trust_with_Nil [simp]: "trust_with s [] = trust_inv s"
  by (simp add: fun_eq_iff trust_with_def)

text \<open>Storing a row changes its times and its policy, none of which the invariant reads.\<close>

lemma store_CA_simps [simp]:
  "ca_ID (store_CA env ca) = ca_ID ca" "ca_Name (store_CA env ca) = ca_Name ca"
  "ca_ParentID (store_CA env ca) = ca_ParentID ca"
  "ca_CertificatePEM (store_CA env ca) = ca_CertificatePEM ca"
  "ca_EncryptedPrivateKey (store_CA env ca) = ca_EncryptedPrivateKey ca"
  "ca_KeyVersion (store_CA env ca) = ca_KeyVersion ca"
  "ca_Namespace (store_CA env ca) = ca_Namespace ca"
  by (simp_all add: store_CA_def)

lemma store_Certificate_simps [simp]:
  "cert_ID (store_Certificate env c) = cert_ID c" "cert_CAID (store_Certificate env c) = cert_CAID c"
  "cert_CertificatePEM (store_Certificate env c) = cert_CertificatePEM c"
  "cert_CommonName (store_Certificate env c) = cert_CommonName c"
  "cert_SerialNumber (store_Certificate env c) = cert_SerialNumber c"
  "cert_EncryptedPrivateKey (store_Certificate env c) = cert_EncryptedPrivateKey c"
  "cert_KeyVersion (store_Certificate env c) = cert_KeyVersion c"
  "cert_Status (store_Certificate env c) = cert_Status c"
  "cert_Namespace (store_Certificate env c) = cert_Namespace c"
  by (simp_all add: store_Certificate_def)

lemma signed_by_store [simp]: "signed_by s pem (store_CA env ca) = signed_by s pem ca"
  by (simp add: signed_by_def)

lemma ca_ok_store [simp]: "ca_ok s (store_CA env ca) = ca_ok s ca"
  by (simp add: ca_ok_def decryptCAKey_def)

lemma leaf_ok_store [simp]: "leaf_ok s (store_Certificate env c) = leaf_ok s c"
  by (simp add: leaf_ok_def decryptCertificateKey_def cong: sum.case_cong)

lemma leaf_ok_revoked [simp]:
  "leaf_ok s (c\<lparr>cert_Status := st, cert_RevokedAt := t, cert_RevocationReason := reason, cert_UpdatedAt := now\<rparr>) = leaf_ok s c"
  by (simp add: leaf_ok_def decryptCertificateKey_def cong: sum.case_cong)

lemma chained_store [simp]:
  "ca_chained s cas (store_CA env ca) = ca_chained s cas ca"
  "leaf_chained s cas (store_Certificate env c) = leaf_chained s cas c"
  by (simp_all add: ca_chained_def leaf_chained_def split: option.splits)

lemma chained_mono:
  "ca_chained s cas ca \<Longrightarrow> cas \<subseteq> cas' \<Longrightarrow> ca_chained s cas' ca"
  "leaf_chained s cas c \<Longrightarrow> cas \<subseteq> cas' \<Longrightarrow> leaf_chained s cas' c"
  by (auto simp: ca_chained_def leaf_chained_def split: option.splits)

section \<open>Statements\<close>

lemma trust_insert_ca:
  assumes "ca_ok s ca" and "\<And>cas. set ps \<subseteq> cas \<Longrightarrow> ca \<in> cas \<Longrightarrow> ca_chained s cas ca"
  shows "keeps_stmt (trust_with s ps) (insert_ca ca)"
  unfolding insert_ca_def
proof (rule keeps_insert_stmt)
  fix d
  assume I: "trust_with s ps d" and new: "\<not> list_ex (\<lambda>r. ca_ID r = ca_ID ca \<or> ca_Name r = ca_Name ca) (pki_cas d)"
  have ch: "ca_chained s (set (pki_cas d @ [ca])) ca"
    using assms(2) [of "set (pki_cas d @ [ca])"] I by (auto simp: trust_with_def)
  show "trust_with s ps (d\<lparr>pki_cas := pki_cas d @ [ca]\<rparr>)"
    using I new ch assms(1)
    by (auto simp: trust_with_def trust_inv_def list_ex_iff intro: chained_mono)
qed

lemma trust_insert_certificate:
  assumes "leaf_ok s c" and "\<And>cas. set ps \<subseteq> cas \<Longrightarrow> leaf_chained s cas c"
  shows "keeps_stmt (trust_with s ps) (insert_certificate c)"
  unfolding insert_certificate_def
  by (rule keeps_insert_stmt) (use assms in \<open>auto simp: trust_with_def trust_inv_def\<close>)

lemma trust_update_revoked: "keeps_stmt (trust_with s ps) (update_certificate_revoked i t reason now)"
  unfolding update_certificate_revoked_def
  by (rule keeps_update_stmt)
    (auto simp: trust_with_def trust_inv_def update_where_def leaf_chained_def)

lemma trust_insert_revocation: "keeps_stmt (trust_with s ps) (insert_revocation v)"
  unfolding insert_revocation_def
  by (rule keeps_insert_stmt) (simp add: trust_with_def trust_inv_def)

section \<open>What the service's steps give\<close>

text \<open>A step that reads an authority, followed by one that may rely on it being there.\<close>

lemma yields_with_ca:
  assumes "rely env (trust_inv s)"
    and "\<And>ca. ca_ok s ca \<Longrightarrow> P ca \<Longrightarrow> yields (trust_with s [ca]) (f ca) Q"
    and "\<And>d ca d'. m d = (Inr ca, d') \<Longrightarrow> ca \<in> set (pki_cas d) \<and> d' = d \<and> P ca"
    and "\<And>d e d'. m d = (Inl e, d') \<Longrightarrow> d' = d"
  shows "yields (trust_inv s) (bindE (wrapE a b (sql env m)) f) Q"
proof (rule yieldsI)
  fix w r w' assume I: "trust_inv s (db w)" and run: "bindE (wrapE a b (sql env m)) f w = (r, w')"
  define d where "d = rival_at env (stmts w) (db w)"
  have Id: "trust_inv s d" using I assms(1) by (simp add: d_def rely_def)
  obtain q w1 where q: "wrapE a b (sql env m) w = (q, w1)" by force
  obtain x d' where md: "m d = (x, d')" by force
  then have nop: "d' = d" using assms(3,4) [of d] by (cases x) auto
  have w1: "db w1 = d" "\<And>ca. q = Inr ca \<Longrightarrow> m d = (Inr ca, d)"
    using q by (auto simp: wrapE_def sql_def Let_def d_def [symmetric] md nop
        split: outcome.splits prod.splits sum.splits)
  show "trust_inv s (db w') \<and> (\<forall>x. r = Inr x \<longrightarrow> Q x)"
  proof (cases q)
    case (Inl e)
    then show ?thesis using run q w1 Id by (auto simp: bindE_def)
  next
    case (Inr ca)
    with w1 assms(3) have ca: "ca \<in> set (pki_cas d)" "P ca" by blast+
    then have "trust_with s [ca] (db w1)" using Id w1 by (simp add: trust_with_def)
    moreover have "ca_ok s ca" using Id ca by (simp add: trust_inv_def)
    moreover have "f ca w1 = (r, w')" using run q Inr by (simp add: bindE_def)
    ultimately show ?thesis
      using yieldsD [OF assms(2) [of ca], of w1 r w'] ca(2) by (simp add: trust_with_def)
  qed
qed

lemma yields_GetCA:
  assumes "pki_rely env s" and "\<And>ca. ca_ok s ca \<Longrightarrow> yields (trust_with s [ca]) (f ca) Q"
  shows "yields (trust_inv s) (bindE (PKIRepo_GetCA env name) f) Q"
    and "yields (trust_inv s) (bindE (PKIRepo_GetCAByID env i) f) Q"
proof -
  have r: "rely env (trust_inv s)" using assms(1) unfolding pki_rely_def by (metis trust_with_Nil)
  show "yields (trust_inv s) (bindE (PKIRepo_GetCA env name) f) Q"
    unfolding PKIRepo_GetCA_def
    by (rule yields_with_ca [OF r, where P = "\<lambda>_. True"])
      (auto simp: select_ca_def select_row_def assms(2) split: option.splits dest: find_Some_set)
  show "yields (trust_inv s) (bindE (PKIRepo_GetCAByID env i) f) Q"
    unfolding PKIRepo_GetCAByID_def
    by (rule yields_with_ca [OF r, where P = "\<lambda>_. True"])
      (auto simp: select_ca_id_def select_row_def assms(2) split: option.splits dest: find_Some_set)
qed

lemma yields_drawE: "yields I (drawE f) (\<lambda>x. \<exists>n. f n = Inr x)"
  by (auto simp: yields_def drawE_def)

lemma backendCipher_eta [simp]: "backendCipher (ct_Data ct) (ct_KeyVersion ct) = ct"
  by (cases ct) (simp add: backendCipher_def)

text \<open>What is stored of a private key gives the key back.\<close>

definition seals :: "PKIService \<Rightarrow> bytes \<times> string \<Rightarrow> bytes \<Rightarrow> bool" where
  "seals s enc key \<longleftrightarrow>
     (case CryptoService_Decrypt (pk_crypto s) (backendCipher (fst enc) (snd enc)) of
        Inl e \<Rightarrow> False | Inr pt \<Rightarrow> parseECPrivateKey (pk_x509 s) pt = Inr key)"

lemma yields_encryptPrivateKey:
  assumes "lawful_x509 (pk_x509 s)" and "sound_crypto (pk_crypto s)"
  shows "yields I (encryptPrivateKey s key) (\<lambda>enc. seals s enc key)"
proof -
  have enc: "yields I (CryptoService_Encrypt (pk_crypto s) pt)
      (\<lambda>ct. CryptoService_Decrypt (pk_crypto s) ct = Inr pt)" for pt
    using assms(2) by (intro yieldsI) (auto simp: sound_crypto_def)
  have parse: "parseECPrivateKey (pk_x509 s) (pem_Encode (pk_x509 s) ''PRIVATE KEY'' der) = Inr key"
    if "MarshalPKCS8PrivateKey (pk_x509 s) key = Inr der" for der
    using assms(1) that by (simp add: parseECPrivateKey_def lawful_x509_def)
  show ?thesis
    unfolding encryptPrivateKey_def Let_def
    by (rule yields_bindE [OF yields_wrapE [OF yields_liftE]],
        rule yields_bindE [OF yields_wrapE [OF enc]], rule yields_okE)
      (simp add: parse seals_def)
qed

end
