(* ===== verification/PKI_Trust.thy ===== *)
theory PKI_Trust
  imports PKI_Safety
begin

text \<open>Every operation of the PKI service keeps the chain of trust, whatever it returns.\<close>

definition good_pki :: "PKIService \<Rightarrow> bool" where
  "good_pki s \<longleftrightarrow> lawful_x509 (pk_x509 s) \<and> sound_crypto (pk_crypto s)"

lemma good_pkiD: "good_pki s \<Longrightarrow> lawful_x509 (pk_x509 s)" "good_pki s \<Longrightarrow> sound_crypto (pk_crypto s)"
  by (simp_all add: good_pki_def)

lemma lawful_created:
  assumes "lawful_x509 x" and "CreateCertificate x n tpl parent pub priv = Inr der"
  shows "pem_Decode x (pem_Encode x t der) = Some der" and "CheckSignature x der (PublicKey x priv)"
    and "\<exists>c. parseCertificate x (pem_Encode x t der) = Inr c \<and> x_PublicKey c = pub \<and>
      x_SerialNumber c = x_SerialNumber tpl \<and> x_CommonName c = x_CommonName tpl \<and>
      x_IsCA c = (x_BasicConstraintsValid tpl \<and> x_IsCA tpl)"
  using assms unfolding lawful_x509_def parseCertificate_def by fastforce+

lemma signed_by_created:
  assumes "lawful_x509 (pk_x509 s)" and "CreateCertificate (pk_x509 s) n tpl parent pub priv = Inr der"
    and "parseCertificate (pk_x509 s) (ca_CertificatePEM ca) = Inr issuer"
    and "x_PublicKey issuer = PublicKey (pk_x509 s) priv"
  shows "signed_by s (pem_Encode (pk_x509 s) t der) ca"
  using lawful_created(1,2) [OF assms(1,2)] assms(3,4) by (simp add: signed_by_def)

lemma ca_okD:
  assumes "ca_ok s ca" and "parseCertificate (pk_x509 s) (ca_CertificatePEM ca) = Inr c"
    and "decryptCAKey s ca = Inr key"
  shows "x_PublicKey c = PublicKey (pk_x509 s) key" and "x_IsCA c"
  using assms by (simp_all add: ca_ok_def)

section \<open>Certificates\<close>

lemma leaf_row_ok:
  assumes "good_pki s" and "seals s enc leafKey"
    and "CreateCertificate (pk_x509 s) n (leaf_template cn dns serial nb na) caCert (PublicKey (pk_x509 s) leafKey) caKey = Inr der"
    and "cert_CertificatePEM c = pem_Encode (pk_x509 s) ''CERTIFICATE'' der"
    and "cert_EncryptedPrivateKey c = fst enc" and "cert_KeyVersion c = snd enc"
    and "cert_CommonName c = cn" and "cert_SerialNumber c = Itoa serial"
  shows "leaf_ok s c"
proof -
  have "decryptCertificateKey s c = Inr leafKey"
    using assms(2,5,6) by (auto simp: seals_def decryptCertificateKey_def split: sum.splits)
  moreover obtain x where "parseCertificate (pk_x509 s) (cert_CertificatePEM c) = Inr x"
    "x_PublicKey x = PublicKey (pk_x509 s) leafKey" "x_SerialNumber x = serial" "x_CommonName x = cn" "\<not> x_IsCA x"
    using lawful_created(3) [OF good_pkiD(1) [OF assms(1)] assms(3), of "''CERTIFICATE''"] assms(4)
    by (auto simp: leaf_template_def)
  ultimately show ?thesis using assms(7,8) by (simp add: leaf_ok_def)
qed

lemma yields_randomSerial: "yields I (randomSerial x) (\<lambda>_. True)"
  unfolding randomSerial_def by (rule yields_bindE [OF yields_drawE yields_okE]) simp

lemma yields_generateECKey: "yields I (generateECKey x) (\<lambda>_. True)"
  unfolding generateECKey_def by (rule yields_weaken [OF yields_wrapE [OF yields_drawE]]) simp

lemma pki_relyD: "pki_rely env s \<Longrightarrow> rely env (trust_with s cas)"
  by (simp add: pki_rely_def)

lemma keeps_issueWithKey:
  assumes "good_pki s" and "pki_rely env s" and "ca_ok s ca"
    and "parseCertificate (pk_x509 s) (ca_CertificatePEM ca) = Inr caCert" and "decryptCAKey s ca = Inr caKey"
  shows "keeps (trust_with s [ca]) (issueWithKey env s ca caCert caKey leafKey cn dns ttl)"
proof -
  note law = good_pkiD [OF assms(1)]
  note key = ca_okD(1) [OF assms(3-5)]
  have store: "keeps (trust_with s [ca]) (PKIRepo_CreateCertificate env c)"
    if "leaf_ok s c" and "cert_CAID c = Some (ca_ID ca)" and "signed_by s (cert_CertificatePEM c) ca" for c
    unfolding PKIRepo_CreateCertificate_def
    using that by (intro pres keeps_sql pki_relyD assms(2) trust_insert_certificate) (auto simp: leaf_chained_def)
  show ?thesis
    unfolding issueWithKey_def Let_def
    by (rule keepsI, intro yields_bindE [OF yields_randomSerial]
        yields_bindE [OF yields_wrapE [OF yields_drawE]] yields_bindE [OF yields_encryptPrivateKey [OF law]]
        yields_bindE [OF yields_nowE] yields_bindE [OF yields_uuidE]
        yields_bindE [OF keeps_yields [OF store]] yields_okE TrueI)
      (auto intro: leaf_row_ok [OF assms(1)] signed_by_created [OF law(1) _ assms(4) key])
qed

lemma pki_rely_inv: "pki_rely env s \<Longrightarrow> rely env (trust_inv s)"
  using pki_relyD [of env s "[]"] by simp

lemma keeps_trust_Issue:
  assumes "good_pki s" and "pki_rely env s"
  shows "keeps (trust_inv s) (PKIService_Issue env s input)"
  unfolding PKIService_Issue_def
  by (rule keepsI, rule yields_bindE [OF yields_liftE], rule yields_GetCA(1) [OF assms(2)],
      intro yields_bindE [OF yields_liftE] yields_bindE [OF yields_generateECKey]
        keeps_yields keeps_issueWithKey [OF assms])
    assumption+

lemma keeps_trust_reads:
  assumes "pki_rely env s"
  shows "keeps (trust_inv s) (PKIRepo_GetCertificateBySerial env serial)"
    and "keeps (trust_inv s) (PKIRepo_GetCertificate env nsp serial)"
    and "keeps (trust_inv s) (PKIRepo_ListRevocations env i)"
    and "keeps (trust_with s cas) (PKIRepo_GetCA env name)"
    and "keeps (trust_inv s) (PKIRepo_RevokeCertificate env i t reason)"
    and "keeps (trust_inv s) (PKIRepo_CreateRevocation env v)"
  unfolding PKIRepo_defs select_certificate_serial_def select_certificate_def select_ca_def
  using trust_update_revoked [of s "[]"] trust_insert_revocation [of s "[]"]
  by (intro pres keeps_sql pki_rely_inv pki_relyD assms; simp)+

lemma keeps_trust_Renew:
  assumes "good_pki s" and "pki_rely env s"
  shows "keeps (trust_inv s) (PKIService_Renew env s input)"
  unfolding PKIService_Renew_def Let_def
  by (rule keepsI, rule yields_bindE [OF yields_guardE],
      rule yields_bindE [OF keeps_yields [OF keeps_trust_reads(1) [OF assms(2)]]],
      rule yields_case_option, rule yields_failE, rule yields_GetCA(2) [OF assms(2)],
      intro yields_bindE [OF yields_liftE] keeps_yields keeps_issueWithKey [OF assms])
    assumption+

lemma keeps_trust_Revoke:
  assumes "pki_rely env s"
  shows "keeps (trust_inv s) (PKIService_Revoke env input)"
  unfolding PKIService_Revoke_def Let_def
  by (intro pres keeps_trust_reads assms)

section \<open>Authorities\<close>

lemma ca_row_ok:
  assumes "good_pki s" and "seals s enc key"
    and "CreateCertificate (pk_x509 s) n (ca_template input serial nb na) parent (PublicKey (pk_x509 s) key) priv = Inr der"
  shows "ca_ok s (new_ca input p i (pem_Encode (pk_x509 s) ''CERTIFICATE'' der) enc serial nb na now)"
    and "priv = key \<Longrightarrow> signed_by s (pem_Encode (pk_x509 s) ''CERTIFICATE'' der)
      (new_ca input p i (pem_Encode (pk_x509 s) ''CERTIFICATE'' der) enc serial nb na now)"
proof -
  let ?ca = "new_ca input p i (pem_Encode (pk_x509 s) ''CERTIFICATE'' der) enc serial nb na now"
  have key: "decryptCAKey s ?ca = Inr key"
    using assms(2) by (auto simp: seals_def decryptCAKey_def new_ca_def split: sum.splits)
  obtain x where x: "parseCertificate (pk_x509 s) (ca_CertificatePEM ?ca) = Inr x"
    "x_PublicKey x = PublicKey (pk_x509 s) key" "x_IsCA x"
    using lawful_created(3) [OF good_pkiD(1) [OF assms(1)] assms(3), of "''CERTIFICATE''"]
    by (auto simp: ca_template_def new_ca_def)
  then show "ca_ok s ?ca" using key by (simp add: ca_ok_def)
  show "signed_by s (pem_Encode (pk_x509 s) ''CERTIFICATE'' der) ?ca" if "priv = key"
    using signed_by_created [OF good_pkiD(1) [OF assms(1)] assms(3) x(1)] x(2) that by simp
qed

lemma keeps_CreateCA:
  assumes "pki_rely env s" and "ca_ok s ca" and "\<And>cas. set ps \<subseteq> cas \<Longrightarrow> ca \<in> cas \<Longrightarrow> ca_chained s cas ca"
  shows "keeps (trust_with s ps) (PKIRepo_CreateCA env ca)"
proof -
  have "ca_chained s cas (store_CA env ca)" if "set ps \<subseteq> cas" "store_CA env ca \<in> cas" for cas
  proof (cases "ca_ParentID ca")
    case None
    then show ?thesis using assms(3) [of "insert ca (set ps)"] that
      by (auto simp: ca_chained_def split: option.splits)
  next
    case (Some p)
    with assms(3) [of "insert ca (set ps)"]
    obtain q where "q \<in> insert ca (set ps)" "ca_ID q = p" "signed_by s (ca_CertificatePEM ca) q"
      by (auto simp: ca_chained_def)
    then show ?thesis using Some that
      by (auto simp: ca_chained_def intro: bexI [of _ "store_CA env ca"])
  qed
  then show ?thesis
    unfolding PKIRepo_CreateCA_def
    by (intro pres keeps_sql pki_relyD assms trust_insert_ca) (simp_all add: assms(2))
qed

lemma new_ca_simps [simp]:
  "ca_ParentID (new_ca input p i pem enc serial nb na now) = p"
  "ca_CertificatePEM (new_ca input p i pem enc serial nb na now) = pem"
  by (simp_all add: new_ca_def)

lemma keeps_trust_CreateRoot:
  assumes "good_pki s" and "pki_rely env s"
  shows "keeps (trust_inv s) (PKIService_CreateRoot env s input0)"
proof -
  have store: "keeps (trust_inv s) (PKIRepo_CreateCA env (new_ca input None i (pem_Encode (pk_x509 s) ''CERTIFICATE'' der) enc serial nb na now))"
    if sl: "seals s enc key"
      and "\<exists>n. CreateCertificate (pk_x509 s) n (ca_template input serial nb na) parent (PublicKey (pk_x509 s) key) key = Inr der"
    for input i der enc serial nb na now key parent
  proof -
    from that(2) obtain n where
      cr: "CreateCertificate (pk_x509 s) n (ca_template input serial nb na) parent (PublicKey (pk_x509 s) key) key = Inr der" ..
    show ?thesis
      using keeps_CreateCA [OF assms(2) ca_row_ok(1) [OF assms(1) sl cr], where ps = "[]" and p1 = None]
        ca_row_ok(2) [OF assms(1) sl cr refl] by (simp add: ca_chained_def)
  qed
  show ?thesis
    unfolding PKIService_CreateRoot_def Let_def
    by (rule keepsI, rule yields_bindE [OF yields_liftE],
        intro yields_bindE [OF yields_wrapE [OF yields_drawE]] yields_bindE [OF yields_randomSerial] yields_bindE [OF yields_generateECKey]
          yields_bindE [OF yields_encryptPrivateKey [OF good_pkiD [OF assms(1)]]]
          yields_bindE [OF yields_nowE] yields_bindE [OF yields_uuidE]
          yields_bindE [OF keeps_yields [OF store]] yields_okE TrueI; assumption?)
qed

lemma keeps_trust_CreateIntermediate:
  assumes "good_pki s" and "pki_rely env s"
  shows "keeps (trust_inv s) (PKIService_CreateIntermediate env s input0)"
proof -
  have store: "keeps (trust_with s [parent])
      (PKIRepo_CreateCA env (new_ca input (Some (ca_ID parent)) i (pem_Encode (pk_x509 s) ''CERTIFICATE'' der) enc serial nb na now))"
    if sl: "seals s enc key"
      and "\<exists>n. CreateCertificate (pk_x509 s) n (ca_template input serial nb na) pc (PublicKey (pk_x509 s) key) pk = Inr der"
      and pa: "ca_ok s parent" "parseCertificate (pk_x509 s) (ca_CertificatePEM parent) = Inr pc" "decryptCAKey s parent = Inr pk"
    for parent input i der enc serial nb na now key pc pk
  proof -
    from that(2) obtain n where
      cr: "CreateCertificate (pk_x509 s) n (ca_template input serial nb na) pc (PublicKey (pk_x509 s) key) pk = Inr der" ..
    show ?thesis
      using keeps_CreateCA [OF assms(2) ca_row_ok(1) [OF assms(1) sl cr], where ps = "[parent]" and p1 = "Some (ca_ID parent)"]
        signed_by_created [OF good_pkiD(1) [OF assms(1)] cr pa(2) ca_okD(1) [OF pa]]
      by (auto simp: ca_chained_def)
  qed
  show ?thesis
    unfolding PKIService_CreateIntermediate_def Let_def
    by (rule keepsI, rule yields_bindE [OF yields_liftE], rule yields_GetCA(1) [OF assms(2)],
        intro yields_bindE [OF yields_liftE] yields_bindE [OF yields_wrapE [OF yields_drawE]] yields_bindE [OF yields_randomSerial] yields_bindE [OF yields_generateECKey]
          yields_bindE [OF yields_encryptPrivateKey [OF good_pkiD [OF assms(1)]]]
          yields_bindE [OF yields_nowE] yields_bindE [OF yields_uuidE]
          yields_bindE [OF keeps_yields [OF store]] yields_okE TrueI; assumption?)
qed

end
