(* ===== verification/PKI_Revocation.thy ===== *)
theory PKI_Revocation
  imports PKI_Trust
begin

text \<open>
  Revocations: every revocation row belongs to a certificate that is revoked, a revoked
  certificate stays revoked, and rows are never lost.
\<close>

definition cert_core :: "Certificate \<Rightarrow> uuid \<times> string \<times> uuid option \<times> string \<times> string \<times> string" where
  "cert_core c = (cert_ID c, cert_Namespace c, cert_CAID c, cert_CommonName c, cert_SerialNumber c, cert_CertificatePEM c)"

definition pki_kept :: "tables \<Rightarrow> tables \<Rightarrow> bool" where
  "pki_kept d0 d \<longleftrightarrow>
     set (revocations d0) \<subseteq> set (revocations d) \<and> set (pki_cas d0) \<subseteq> set (pki_cas d) \<and>
     (\<forall>c \<in> set (certificates d0). \<exists>c' \<in> set (certificates d). cert_core c' = cert_core c \<and>
        (cert_Status c = CertificateRevoked \<longrightarrow> cert_Status c' = CertificateRevoked))"

definition rev_ok :: "Certificate list \<Rightarrow> Revocation \<Rightarrow> bool" where
  "rev_ok certs r = list_ex (\<lambda>c. cert_ID c = rev_CertificateID r \<and> cert_SerialNumber c = rev_SerialNumber r \<and>
     cert_Status c = CertificateRevoked) certs"

definition rev_inv :: "tables \<Rightarrow> bool" where
  "rev_inv d = (distinct (map cert_ID (certificates d)) \<and> list_all (rev_ok (certificates d)) (revocations d))"

definition rev_rely :: "env \<Rightarrow> bool" where
  "rev_rely env \<longleftrightarrow> rely env rev_inv \<and> (\<forall>d0. rely env (pki_kept d0))"

lemma pki_kept_refl [simp]: "pki_kept d d"
  by (auto simp: pki_kept_def)

lemma rev_relyD: "rev_rely env \<Longrightarrow> rely env rev_inv" "rev_rely env \<Longrightarrow> rely env (pki_kept d0)"
  by (simp_all add: rev_rely_def)

lemma rely_step: "rely env I \<Longrightarrow> I d \<Longrightarrow> I (rival_at env n d)"
  by (simp add: rely_def)

section \<open>Statements\<close>

lemma keeps_pki_kept_stmts:
  "keeps_stmt (pki_kept d0) (insert_ca ca)"
  "keeps_stmt (pki_kept d0) (insert_certificate c)"
  "keeps_stmt (pki_kept d0) (insert_revocation r)"
  unfolding insert_ca_def insert_certificate_def insert_revocation_def
  by (rule keeps_insert_stmt; fastforce simp: pki_kept_def)+

lemma keeps_pki_kept_update: "keeps_stmt (pki_kept d0) (update_certificate_revoked i t reason now)"
  unfolding update_certificate_revoked_def
proof (rule keeps_update_stmt)
  fix d assume k: "pki_kept d0 d"
  let ?f = "\<lambda>r. r\<lparr>cert_Status := CertificateRevoked, cert_RevokedAt := Some t,
               cert_RevocationReason := reason, cert_UpdatedAt := now\<rparr>"
  have "\<exists>c'' \<in> set (update_where (\<lambda>r. cert_ID r = i) ?f (certificates d)). cert_core c'' = cert_core c' \<and>
      (cert_Status c' = CertificateRevoked \<longrightarrow> cert_Status c'' = CertificateRevoked)"
    if "c' \<in> set (certificates d)" for c'
    by (rule bexI [of _ "if cert_ID c' = i then ?f c' else c'"])
      (use that in \<open>auto simp: update_where_def cert_core_def\<close>)
  with k show "pki_kept d0 (d\<lparr>certificates := update_where (\<lambda>r. cert_ID r = i) ?f (certificates d)\<rparr>)"
    unfolding pki_kept_def by simp metis
qed

lemma list_ex_update_where:
  assumes "list_ex Q rows" and "\<And>r. Q r \<Longrightarrow> P r \<Longrightarrow> Q' (f r)" and "\<And>r. Q r \<Longrightarrow> \<not> P r \<Longrightarrow> Q' r"
  shows "list_ex Q' (update_where P f rows)"
  using assms(1) by (induction rows) (auto simp: update_where_def assms(2,3))

lemma rev_ok_mono:
  "rev_ok certs r \<Longrightarrow> rev_ok (certs @ cs) r"
  "rev_ok certs r \<Longrightarrow> rev_ok (update_where P (\<lambda>r. r\<lparr>cert_Status := CertificateRevoked, cert_RevokedAt := t,
      cert_RevocationReason := reason, cert_UpdatedAt := now\<rparr>) certs) r"
  by (auto simp: rev_ok_def elim!: list_ex_update_where)

lemma keeps_rev_inv_stmts:
  "keeps_stmt rev_inv (insert_ca ca)"
  "keeps_stmt rev_inv (insert_certificate c)"
  "keeps_stmt rev_inv (update_certificate_revoked i t reason now)"
proof -
  show "keeps_stmt rev_inv (insert_ca ca)"
    unfolding insert_ca_def by (rule keeps_insert_stmt) (simp add: rev_inv_def)
  show "keeps_stmt rev_inv (insert_certificate c)"
    unfolding insert_certificate_def
    by (rule keeps_insert_stmt) (auto simp: rev_inv_def list_ex_iff list_all_iff intro: rev_ok_mono)
  show "keeps_stmt rev_inv (update_certificate_revoked i t reason now)"
    unfolding update_certificate_revoked_def
    by (rule keeps_update_stmt) (auto simp: rev_inv_def update_where_key list_all_iff intro: rev_ok_mono)
qed

section \<open>The revocation of a certificate\<close>

text \<open>The row of a certificate that was read is still there; later it is there and revoked.\<close>

definition rev_seen :: "Certificate \<Rightarrow> tables \<Rightarrow> bool" where
  "rev_seen cert d = (rev_inv d \<and> list_ex (\<lambda>c. cert_core c = cert_core cert) (certificates d))"

definition rev_done :: "Certificate \<Rightarrow> tables \<Rightarrow> bool" where
  "rev_done cert d = (rev_inv d \<and>
     list_ex (\<lambda>c. cert_core c = cert_core cert \<and> cert_Status c = CertificateRevoked) (certificates d))"

lemma rely_rev:
  assumes "rev_rely env"
  shows "rely env (rev_seen cert)" and "rely env (rev_done cert)"
proof -
  have "pki_kept d (rival_at env n d)" for n d
    using rely_step [OF rev_relyD(2) [OF assms]] by simp
  then have "rev_inv d \<Longrightarrow> c \<in> set (certificates d) \<Longrightarrow> rev_inv (rival_at env n d) \<and>
     (\<exists>c' \<in> set (certificates (rival_at env n d)). cert_core c' = cert_core c \<and>
        (cert_Status c = CertificateRevoked \<longrightarrow> cert_Status c' = CertificateRevoked))" for n d c
    using rely_step [OF rev_relyD(1) [OF assms]] by (simp add: pki_kept_def)
  then show "rely env (rev_seen cert)" "rely env (rev_done cert)"
    unfolding rely_def rev_seen_def rev_done_def list_ex_iff by metis+
qed

lemma keeps_rev_seen_update: "keeps_stmt (rev_seen cert) (update_certificate_revoked i t reason now)"
proof -
  have "list_ex (\<lambda>c. cert_core c = cert_core cert) (certificates (snd (update_certificate_revoked i t reason now d)))"
    if "list_ex (\<lambda>c. cert_core c = cert_core cert) (certificates d)" for d
    using that by (auto simp: update_certificate_revoked_def cert_core_def elim!: list_ex_update_where)
  then show ?thesis
    using keeps_rev_inv_stmts(3) by (auto simp: keeps_stmt_def rev_seen_def)
qed

lemma update_certificate_done:
  "rev_seen cert d \<Longrightarrow> rev_done cert (snd (update_certificate_revoked (cert_ID cert) t reason now d))"
proof -
  assume d: "rev_seen cert d"
  then have "list_ex (\<lambda>c. cert_core c = cert_core cert \<and> cert_Status c = CertificateRevoked)
      (certificates (snd (update_certificate_revoked (cert_ID cert) t reason now d)))"
    by (auto simp: rev_seen_def update_certificate_revoked_def cert_core_def elim!: list_ex_update_where)
  moreover have "rev_inv (snd (update_certificate_revoked (cert_ID cert) t reason now d))"
    using d keeps_rev_inv_stmts(3) by (simp add: keeps_stmt_def rev_seen_def)
  ultimately show ?thesis by (simp add: rev_done_def)
qed

lemma RevokeCertificate_done:
  assumes "rev_rely env" and "rev_seen cert (db w)"
    and "PKIRepo_RevokeCertificate env (cert_ID cert) t reason w = (Inr u, w')"
  shows "rev_done cert (db w')"
proof -
  obtain now w1 where "db w1 = db w" and
    up: "sql env (update_certificate_revoked (cert_ID cert) (ts_col env t) reason now) w1 = (Inr u, w')"
    using assms(3) by (auto simp: PKIRepo_RevokeCertificate_def bindE_Inr_iff dest: nowE_Inr)
  then have "rev_seen cert (rival_at env (stmts w1) (db w1))"
    using rely_step [OF rely_rev(1) [OF assms(1)]] assms(2) by simp
  from update_certificate_done [OF this] sql_Inr [OF up] show ?thesis by (metis snd_conv)
qed

lemma keeps_RevokeCertificate:
  assumes "rev_rely env"
  shows "keeps (rev_seen cert) (PKIRepo_RevokeCertificate env i t reason)"
  unfolding PKIRepo_RevokeCertificate_def
  by (intro pres keeps_sql rely_rev assms keeps_rev_seen_update)

lemma keeps_insert_revocation:
  assumes "rev_rely env" and "rev_CertificateID v = cert_ID cert" and "rev_SerialNumber v = cert_SerialNumber cert"
  shows "keeps (rev_done cert) (PKIRepo_CreateRevocation env v)"
proof -
  have "keeps_stmt (rev_done cert) (insert_revocation (store_Revocation env v))"
    unfolding insert_revocation_def
    by (rule keeps_insert_stmt)
      (use assms(2,3) in \<open>auto simp: rev_done_def rev_inv_def rev_ok_def list_ex_iff list_all_iff store_Revocation_def cert_core_def\<close>)
  then show ?thesis
    unfolding PKIRepo_CreateRevocation_def by (intro pres keeps_sql rely_rev assms)
qed

lemma keeps_stmt_selects:
  "keeps_stmt I (select_certificate_serial serial)" "keeps_stmt I (select_ca name)" "keeps_stmt I (select_ca_id i)"
  unfolding select_certificate_serial_def select_ca_def select_ca_id_def by (rule pres)+

lemma GetCertificateBySerial_seen:
  assumes "rev_rely env" and "rev_inv (db w)" and "PKIRepo_GetCertificateBySerial env serial w = (Inr cert, w')"
  shows "rev_seen cert (db w') \<and> cert_SerialNumber cert = serial"
proof -
  have "select_certificate_serial serial (rival_at env (stmts w) (db w)) = (Inr cert, db w')"
    using assms(3) by (intro sql_Inr) (simp add: PKIRepo_GetCertificateBySerial_def)
  then show ?thesis
    using rely_step [OF rev_relyD(1) [OF assms(1)] assms(2), of "stmts w"]
    by (auto simp: select_certificate_serial_def select_row_def rev_seen_def list_ex_iff
        split: option.splits dest: find_Some_set)
qed

lemma keeps_GetCertificateBySerial: "rely env I \<Longrightarrow> keeps I (PKIRepo_GetCertificateBySerial env serial)"
  unfolding PKIRepo_GetCertificateBySerial_def by (intro pres keeps_sql keeps_stmt_selects)

text \<open>The rest of a revocation, after the certificate was read.\<close>

definition revoke_cert :: "env \<Rightarrow> string \<Rightarrow> Certificate \<Rightarrow> Revocation io" where
  "revoke_cert env reason cert =
     bindE (nowE env) (\<lambda>now.
     bindE (PKIRepo_RevokeCertificate env (cert_ID cert) now reason) (\<lambda>_.
     bindE (uuidE env) (\<lambda>i.
     let revocation = \<lparr>rev_ID = i, rev_CertificateID = cert_ID cert, rev_SerialNumber = cert_SerialNumber cert,
                       rev_Reason = reason, rev_RevokedAt = now, rev_CreatedAt = now\<rparr> in
     bindE (PKIRepo_CreateRevocation env revocation) (\<lambda>_.
     okE revocation))))"

lemma Revoke_unfold:
  "PKIService_Revoke env input =
     bindE (guardE (rvi_SerialNumber input = [] \<or> rvi_Reason input = [])
              (Errorf ''serial_number and reason are required'' [])) (\<lambda>_.
     bindE (PKIRepo_GetCertificateBySerial env (rvi_SerialNumber input)) (revoke_cert env (rvi_Reason input)))"
  by (simp add: PKIService_Revoke_def revoke_cert_def [abs_def])

lemma yields_revoke_cert:
  assumes "rev_rely env"
  shows "yields (rev_seen cert) (revoke_cert env reason cert) (\<lambda>_. True)"
  unfolding revoke_cert_def Let_def
proof (rule yields_bindE [OF yields_nowE], rule yields_bind_grow [where J = "\<lambda>_. rev_done cert"], goal_cases)
  case (1 t)
  show ?case by (rule keeps_RevokeCertificate [OF assms])
next
  case (2 t w x w')
  then show ?case by (metis RevokeCertificate_done [OF assms])
next
  case (3 t x)
  show ?case
    by (intro yields_bindE [OF yields_uuidE] yields_bindE [OF keeps_yields [OF keeps_insert_revocation [OF assms]]]
        yields_okE TrueI) simp_all
next
  case (4 t x d)
  then show ?case by (auto simp: rev_done_def rev_seen_def list_ex_iff)
qed

lemma keeps_rev_inv_Revoke:
  assumes "rev_rely env"
  shows "keeps rev_inv (PKIService_Revoke env input)"
  unfolding Revoke_unfold
proof (rule keepsI, rule yields_bindE [OF yields_guardE], rule yields_bind_grow [where J = rev_seen], goal_cases)
  case 1
  show ?case by (rule keeps_GetCertificateBySerial [OF rev_relyD(1) [OF assms]])
next
  case (2 u w x w')
  then show ?case using GetCertificateBySerial_seen [OF assms] by blast
next
  case (3 u x)
  show ?case by (rule yields_revoke_cert [OF assms])
next
  case (4 u x d)
  then show ?case by (simp add: rev_seen_def)
qed

end
