(* ===== verification/PKI_Steps.thy ===== *)
theory PKI_Steps
  imports PKI_Revocation
begin

text \<open>
  Runs of the PKI service: any sequence of its operations, the chain of trust and the
  revocation records along it, and the revocation lists and OCSP answers it signs.
\<close>

datatype PKIOp =
    OpCreateRoot CreateCAInput
  | OpCreateIntermediate CreateCAInput
  | OpIssue IssueInput
  | OpRenewCertificate RenewInput
  | OpRevokeCertificate RevokeInput
  | OpCRL string
  | OpOCSP string string

fun pki_op :: "env \<Rightarrow> PKIService \<Rightarrow> PKIOp \<Rightarrow> world \<Rightarrow> world" where
  "pki_op env s (OpCreateRoot i) w = snd (PKIService_CreateRoot env s i w)"
| "pki_op env s (OpCreateIntermediate i) w = snd (PKIService_CreateIntermediate env s i w)"
| "pki_op env s (OpIssue i) w = snd (PKIService_Issue env s i w)"
| "pki_op env s (OpRenewCertificate i) w = snd (PKIService_Renew env s i w)"
| "pki_op env s (OpRevokeCertificate i) w = snd (PKIService_Revoke env i w)"
| "pki_op env s (OpCRL name) w = snd (PKIService_CRL env s name w)"
| "pki_op env s (OpOCSP name serial) w = snd (PKIService_OCSP env s name serial w)"

inductive pki_steps :: "env \<Rightarrow> PKIService \<Rightarrow> world \<Rightarrow> world \<Rightarrow> bool" for env s where
  pki_refl: "pki_steps env s w w"
| pki_step: "pki_steps env s w w' \<Longrightarrow> pki_steps env s w (pki_op env s op w')"

section \<open>Invariants that no operation breaks\<close>

text \<open>An invariant of the tables that every statement of the PKI repository keeps.\<close>

definition pki_stable :: "env \<Rightarrow> (tables \<Rightarrow> bool) \<Rightarrow> bool" where
  "pki_stable env I \<longleftrightarrow> rely env I \<and> (\<forall>ca. keeps_stmt I (insert_ca ca)) \<and>
     (\<forall>c. keeps_stmt I (insert_certificate c)) \<and>
     (\<forall>i t reason now. keeps_stmt I (update_certificate_revoked i t reason now))"

lemma keeps_drawE [pres]: "keeps I (drawE f)"
  by (simp add: preserves_def drawE_def)

lemma keeps_encryptPrivateKey: "sound_crypto (pk_crypto s) \<Longrightarrow> keeps I (encryptPrivateKey s key)"
proof -
  assume "sound_crypto (pk_crypto s)"
  then have "keeps I (CryptoService_Encrypt (pk_crypto s) pt)" for pt
    by (intro preservesI) (metis sound_crypto_def prod.collapse)
  then show ?thesis unfolding encryptPrivateKey_def Let_def by (intro pres)
qed

lemma keeps_stable_repo:
  assumes "pki_stable env I"
  shows
    "keeps I (PKIRepo_CreateCA env ca)" "keeps I (PKIRepo_GetCA env name)" "keeps I (PKIRepo_GetCAByID env i)"
    "keeps I (PKIRepo_CreateCertificate env c)" "keeps I (PKIRepo_GetCertificateBySerial env serial)"
    "keeps I (PKIRepo_ListRevocations env i)" "keeps I (PKIRepo_RevokeCertificate env i t reason)"
  unfolding PKIRepo_defs
  by (intro pres keeps_sql keeps_stmt_selects; use assms in \<open>simp add: pki_stable_def\<close>)+

lemma keeps_stable_Service:
  assumes "pki_stable env I" and "sound_crypto (pk_crypto s)"
  shows
    "keeps I (PKIService_CreateRoot env s ci)" "keeps I (PKIService_CreateIntermediate env s ci)"
    "keeps I (PKIService_Issue env s ii)" "keeps I (PKIService_Renew env s ri)"
    "keeps I (PKIService_CRL env s name)" "keeps I (PKIService_OCSP env s name serial)"
proof -
  note k = keeps_stable_repo [OF assms(1)] keeps_encryptPrivateKey [OF assms(2)]
  show "keeps I (PKIService_CreateRoot env s ci)" "keeps I (PKIService_CreateIntermediate env s ci)"
    unfolding PKIService_CreateRoot_def PKIService_CreateIntermediate_def Let_def generateECKey_def randomSerial_def
    by (intro pres k)+
  show "keeps I (PKIService_Issue env s ii)" "keeps I (PKIService_Renew env s ri)"
    unfolding PKIService_Issue_def PKIService_Renew_def issueWithKey_def Let_def generateECKey_def randomSerial_def
    by (intro pres k)+
  show "keeps I (PKIService_CRL env s name)" "keeps I (PKIService_OCSP env s name serial)"
    unfolding PKIService_CRL_def PKIService_OCSP_def Let_def
    by (intro pres k)+
qed

lemma keeps_kept_Revoke:
  assumes "rev_rely env"
  shows "keeps (pki_kept d0) (PKIService_Revoke env input)"
  unfolding PKIService_Revoke_def Let_def PKIRepo_defs
  by (intro pres keeps_sql keeps_stmt_selects rev_relyD(2) [OF assms] keeps_pki_kept_update keeps_pki_kept_stmts)

lemma stable_kept: "rev_rely env \<Longrightarrow> pki_stable env (pki_kept d0)"
  using keeps_pki_kept_stmts keeps_pki_kept_update by (auto simp: pki_stable_def rev_rely_def)

lemma stable_rev: "rev_rely env \<Longrightarrow> pki_stable env rev_inv"
  using keeps_rev_inv_stmts by (auto simp: pki_stable_def rev_rely_def)

definition pki_env :: "env \<Rightarrow> PKIService \<Rightarrow> bool" where
  "pki_env env s \<longleftrightarrow> good_pki s \<and> pki_rely env s \<and> rev_rely env"

lemma pki_op_invs:
  assumes "pki_env env s"
  shows "pki_kept d0 (db w) \<Longrightarrow> pki_kept d0 (db (pki_op env s op w))"
    and "rev_inv (db w) \<Longrightarrow> rev_inv (db (pki_op env s op w))"
    and "trust_inv s (db w) \<Longrightarrow> trust_inv s (db (pki_op env s op w))"
proof -
  have g: "good_pki s" "pki_rely env s" "rev_rely env" "sound_crypto (pk_crypto s)"
    using assms by (simp_all add: pki_env_def good_pki_def)
  have trust_reads: "keeps (trust_inv s) (PKIService_CRL env s name)" "keeps (trust_inv s) (PKIService_OCSP env s name serial)" for name serial
    unfolding PKIService_CRL_def PKIService_OCSP_def Let_def
    using keeps_trust_reads(4) [OF g(2), of "[]"]
    by (auto intro!: pres keeps_trust_reads(1-3) [OF g(2)])
  show "pki_kept d0 (db w) \<Longrightarrow> pki_kept d0 (db (pki_op env s op w))"
    using keeps_stable_Service [OF stable_kept [OF g(3)] g(4)] keeps_kept_Revoke [OF g(3)]
    by (cases op) (auto intro: preservesD)
  show "rev_inv (db w) \<Longrightarrow> rev_inv (db (pki_op env s op w))"
    using keeps_stable_Service [OF stable_rev [OF g(3)] g(4)] keeps_rev_inv_Revoke [OF g(3)]
    by (cases op) (auto intro: preservesD)
  show "trust_inv s (db w) \<Longrightarrow> trust_inv s (db (pki_op env s op w))"
    using keeps_trust_CreateRoot [OF g(1,2)] keeps_trust_CreateIntermediate [OF g(1,2)] keeps_trust_Issue [OF g(1,2)]
      keeps_trust_Renew [OF g(1,2)] keeps_trust_Revoke [OF g(2)] trust_reads
    by (cases op) (auto intro: preservesD)
qed

lemma pki_steps_invs:
  assumes "pki_env env s" and "pki_steps env s w w'"
  shows "pki_kept d0 (db w) \<Longrightarrow> pki_kept d0 (db w')"
    and "rev_inv (db w) \<Longrightarrow> rev_inv (db w')"
    and "trust_inv s (db w) \<Longrightarrow> trust_inv s (db w')"
  using assms(2) by (induction rule: pki_steps.induct) (auto intro: pki_op_invs [OF assms(1)])

section \<open>What the service signs\<close>

lemma crl_entries_set:
  "r \<in> set rs \<Longrightarrow> SetString10 (rev_SerialNumber r) = Some n \<Longrightarrow>
     \<lparr>rle_SerialNumber = n, rle_RevocationTime = rev_RevokedAt r,
      rle_ReasonCode = revocationReasonCode (rev_Reason r)\<rparr> \<in> set (crl_entries rs)"
  by (induction rs) (auto split: option.splits)

lemma liftE_Inr_db: "liftE r w = (Inr x, w') \<Longrightarrow> w' = w \<and> r = Inr x"
  by simp

text \<open>A revocation list that is returned is signed with the key of the authority and lists what the join selects.\<close>

lemma CRL_Inr:
  assumes "PKIService_CRL env s name w = (Inr text, w')"
  shows "\<exists>d0 ca caCert caKey d rl n der. d0 = rival_at env (stmts w) (db w) \<and>
    find (\<lambda>r. ca_Name r = name) (pki_cas d0) = Some ca \<and>
    d = rival_at env (Suc (stmts w)) d0 \<and>
    parseCertificate (pk_x509 s) (ca_CertificatePEM ca) = Inr caCert \<and> decryptCAKey s ca = Inr caKey \<and>
    CreateRevocationList (pk_x509 s) n rl caCert caKey = Inr der \<and>
    text = pem_Encode (pk_x509 s) ''X509 CRL'' der \<and>
    rl_RevokedCertificateEntries rl = crl_entries (revocations_of (ca_ID ca) d)"
proof -
  from assms obtain ca w1 where get: "PKIRepo_GetCA env name w = (Inr ca, w1)"
    and rest: "(\<lambda>w. bindE (liftE (parseCertificate (pk_x509 s) (ca_CertificatePEM ca))) (\<lambda>caCert.
       bindE (liftE (decryptCAKey s ca)) (\<lambda>caKey.
       bindE (PKIRepo_ListRevocations env (ca_ID ca)) (\<lambda>revs.
       bindE (nowE env) (\<lambda>now.
       bindE (wrapE ''create revocation list: %w'' []
         (drawE (\<lambda>n. CreateRevocationList (pk_x509 s) n \<lparr>rl_Number = now div time_Second, rl_ThisUpdate = now,
            rl_NextUpdate = now + 86400 * time_Second, rl_RevokedCertificateEntries = crl_entries revs\<rparr> caCert caKey))) (\<lambda>der.
       okE (pem_Encode (pk_x509 s) ''X509 CRL'' der)))))) w) w1 = (Inr text, w')"
    unfolding PKIService_CRL_def Let_def by (erule bindE_InrE)
  have g: "select_ca name (rival_at env (stmts w) (db w)) = (Inr ca, db w1)"
    using get by (intro sql_Inr) (simp add: PKIRepo_GetCA_def)
  then have ca: "find (\<lambda>r. ca_Name r = name) (pki_cas (rival_at env (stmts w) (db w))) = Some ca"
    "db w1 = rival_at env (stmts w) (db w)"
    by (auto simp: ca_table.get_Inr_iff)
  have st: "stmts w1 = Suc (stmts w)"
    using get by (auto simp: PKIRepo_GetCA_def sql_def Let_def split: outcome.splits)
  from rest obtain caCert caKey revs w2 n now der where c: "parseCertificate (pk_x509 s) (ca_CertificatePEM ca) = Inr caCert"
    "decryptCAKey s ca = Inr caKey" and l: "PKIRepo_ListRevocations env (ca_ID ca) w1 = (Inr revs, w2)"
    and fin: "CreateRevocationList (pk_x509 s) n \<lparr>rl_Number = now div time_Second, rl_ThisUpdate = now,
            rl_NextUpdate = now + 86400 * time_Second, rl_RevokedCertificateEntries = crl_entries revs\<rparr> caCert caKey = Inr der"
       "text = pem_Encode (pk_x509 s) ''X509 CRL'' der"
    by (auto simp: bindE_Inr_iff drawE_def)
  have "select_rows (revocations_of (ca_ID ca) (rival_at env (stmts w1) (db w1))) (rival_at env (stmts w1) (db w1)) =
      (Inr revs, db w2)"
    using sql_Inr [of env "\<lambda>d. select_rows (revocations_of (ca_ID ca) d) d" w1 revs w2] l
    by (simp add: PKIRepo_ListRevocations_def)
  then have "revs = revocations_of (ca_ID ca) (rival_at env (Suc (stmts w)) (db w1))"
    unfolding select_rows_def st by blast
  with ca c fin show ?thesis by fastforce
qed

text \<open>A revocation that is returned was stored, with the identifier and serial number of the certificate it read.\<close>

lemma store_Revocation_simps [simp]:
  "rev_ID (store_Revocation env r) = rev_ID r" "rev_CertificateID (store_Revocation env r) = rev_CertificateID r"
  "rev_SerialNumber (store_Revocation env r) = rev_SerialNumber r" "rev_Reason (store_Revocation env r) = rev_Reason r"
  by (simp_all add: store_Revocation_def)

lemma CreateRevocation_stored:
  assumes "PKIRepo_CreateRevocation env v w = (Inr u, w')"
  shows "store_Revocation env v \<in> set (revocations (db w'))"
proof -
  have "insert_revocation (store_Revocation env v) (rival_at env (stmts w) (db w)) = (Inr u, db w')"
    using assms by (intro sql_Inr) (simp add: PKIRepo_CreateRevocation_def)
  then show ?thesis by (auto simp: insert_revocation_def insert_stmt_Inr_iff)
qed

lemma Revoke_stored:
  assumes "PKIService_Revoke env input w = (Inr r, w1)"
  shows "\<exists>found w0. PKIRepo_GetCertificateBySerial env (rvi_SerialNumber input) w = (Inr found, w0) \<and>
    rev_CertificateID r = cert_ID found \<and> rev_SerialNumber r = cert_SerialNumber found \<and>
    rev_Reason r = rvi_Reason input \<and> store_Revocation env r \<in> set (revocations (db w1))"
  using assms
  by (auto simp: PKIService_Revoke_def Let_def bindE_Inr_iff dest!: CreateRevocation_stored)

text \<open>What the issuing of a certificate leaves in the table.\<close>

lemma issueWithKey_Inr:
  assumes "served env" and "sound_crypto (pk_crypto s)"
    and "issueWithKey env s ca caCert caKey leafKey cn dns ttl w = (Inr c, w')"
  shows "cert_CAID c = Some (ca_ID ca) \<and> cert_Namespace c = ca_Namespace ca \<and> cert_CommonName c = cn \<and>
    cert_Status c = CertificateIssued \<and> cert_RevokedAt c = None \<and> cert_NotAfter c - cert_NotBefore c = ttl \<and>
    db w' = (db w)\<lparr>certificates := certificates (db w) @ [store_Certificate env c]\<rparr>"
proof -
  have enc: "encryptPrivateKey s leafKey v = (Inr e, v') \<Longrightarrow> db v' = db v" for e v v'
    using assms(2) by (auto simp: encryptPrivateKey_def Let_def bindE_Inr_iff sound_crypto_def)
  have ser: "randomSerial x v = (Inr e, v') \<Longrightarrow> db v' = db v" for x e v v'
    by (auto simp: randomSerial_def bindE_Inr_iff drawE_def)
  have ins: "PKIRepo_CreateCertificate env k v = (Inr u, v') \<Longrightarrow>
      db v' = (db v)\<lparr>certificates := certificates (db v) @ [store_Certificate env k]\<rparr>" for k u v v'
    by (auto simp: PKIRepo_CreateCertificate_def sql_served [OF assms(1)] insert_certificate_def insert_stmt_def
        wrapE_def split: if_splits)
  show ?thesis using assms(3)
    by (auto simp: issueWithKey_def Let_def bindE_Inr_iff drawE_def uuidE_def dest!: ser enc nowE_Inr ins)
qed

text \<open>A revocation keeps the invariants, and the certificate it names has the serial number it was asked for.\<close>

lemma Revoke_serial:
  assumes "pki_rely env s" and "rev_rely env" and "trust_inv s (db w)" and "rev_inv (db w)"
    and "PKIService_Revoke env input w = (Inr r, w1)"
    and "cert \<in> set (certificates (db w1))" and "cert_ID cert = rev_CertificateID r"
  shows "rev_inv (db w1) \<and> trust_inv s (db w1) \<and> cert_SerialNumber cert = rvi_SerialNumber input"
proof -
  have run: "db (snd (PKIService_Revoke env input w)) = db w1" using assms(5) by simp
  have inv1: "rev_inv (db w1)" "trust_inv s (db w1)"
    using preservesD [OF keeps_rev_inv_Revoke [OF assms(2)], of w input] assms(4)
      preservesD [OF keeps_trust_Revoke [OF assms(1)], of w input] assms(3) by (simp_all add: run)
  obtain found w0 where get: "PKIRepo_GetCertificateBySerial env (rvi_SerialNumber input) w = (Inr found, w0)"
    and r: "rev_SerialNumber r = cert_SerialNumber found" "store_Revocation env r \<in> set (revocations (db w1))"
    using Revoke_stored [OF assms(5)] by blast
  from inv1(1) r(2) obtain c where c: "c \<in> set (certificates (db w1))" "cert_ID c = rev_CertificateID r"
    "cert_SerialNumber c = rev_SerialNumber r"
    by (auto simp: rev_inv_def list_all_iff rev_ok_def list_ex_iff)
  have "distinct (map cert_ID (certificates (db w1)))" using inv1(1) by (simp add: rev_inv_def)
  then have "c = cert"
    using find_key_unique [of cert_ID "certificates (db w1)" c] find_key_unique [of cert_ID "certificates (db w1)" cert]
      c(1,2) assms(6,7) by simp
  with c r(1) GetCertificateBySerial_seen [OF assms(2,4) get] inv1 show ?thesis by simp
qed

end
