(* ===== verification/PKI_Samples.thy ===== *)
theory PKI_Samples
  imports PKI_Steps Samples
begin

text \<open>
  A small certificate library that satisfies \<^term>\<open>lawful_x509\<close>, on which the theorems
  about the PKI are exercised, and a run: a root authority, a certificate, its revocation.
\<close>

section \<open>A certificate library\<close>

definition encode_field :: "string \<Rightarrow> string" where
  "encode_field s = concat (map (\<lambda>c. [CHR ''a'', c]) s) @ ''z''"

fun decode_field :: "string \<Rightarrow> (string \<times> string) option" where
  "decode_field [] = None"
| "decode_field [x] = (if x = CHR ''z'' then Some ([], []) else None)"
| "decode_field (x # c # ys) =
     (if x = CHR ''z'' then Some ([], c # ys)
      else case decode_field ys of None \<Rightarrow> None | Some (s, r) \<Rightarrow> Some (c # s, r))"

lemma decode_encode: "decode_field (encode_field s @ r) = Some (s, r)"
proof (induction s)
  case Nil
  then show ?case by (cases r) (simp_all add: encode_field_def)
qed (simp add: encode_field_def)

fun decode_fields :: "nat \<Rightarrow> string \<Rightarrow> string list option" where
  "decode_fields 0 b = Some []"
| "decode_fields (Suc n) b =
     (case decode_field b of
        None \<Rightarrow> None
      | Some (s, r) \<Rightarrow> (case decode_fields n r of None \<Rightarrow> None | Some ss \<Rightarrow> Some (s # ss)))"

lemma decode_fields_encode: "decode_fields (length ss) (concat (map encode_field ss)) = Some ss"
  by (induction ss) (simp_all add: decode_encode)

definition sample_der :: "X509 \<Rightarrow> bytes \<Rightarrow> bytes \<Rightarrow> bytes" where
  "sample_der tpl pub signer =
     concat (map encode_field [Itoa (x_SerialNumber tpl), x_CommonName tpl,
       if x_BasicConstraintsValid tpl \<and> x_IsCA tpl then ''C'' else [], pub, signer])"

definition sample_parse :: "bytes \<Rightarrow> err + X509" where
  "sample_parse b =
     (case decode_fields 5 b of
        Some [serial, cn, flag, pub, signer] \<Rightarrow>
          (case SetString10 serial of
             Some n \<Rightarrow> Inr \<lparr>x_SerialNumber = n, x_CommonName = cn, x_NotBefore = 0, x_NotAfter = 0, x_IsCA = (flag \<noteq> []),
               x_BasicConstraintsValid = (flag \<noteq> []), x_MaxPathLen = 0, x_KeyUsage = [], x_ExtKeyUsage = [],
               x_DNSNames = [], x_PublicKey = pub\<rparr>
           | None \<Rightarrow> Inl (PrimitiveError ''x509: malformed certificate''))
      | _ \<Rightarrow> Inl (PrimitiveError ''x509: malformed certificate''))"

definition sample_check :: "bytes \<Rightarrow> bytes \<Rightarrow> bool" where
  "sample_check b pub =
     (case decode_fields 5 b of Some [serial, cn, flag, p, signer] \<Rightarrow> signer = pub | _ \<Rightarrow> False)"

definition sample_x509 :: x509_lib where
  "sample_x509 =
     \<lparr>GenerateKey = (\<lambda>n. Inr (''k'' @ Itoa (int n))),
      rand_Int = (\<lambda>n m. Inr (int n + 100)),
      PublicKey = (\<lambda>k. CHR ''P'' # k),
      CreateCertificate = (\<lambda>n tpl parent pub priv. Inr (sample_der tpl pub (CHR ''P'' # priv))),
      ParseCertificate = sample_parse,
      MarshalPKCS8PrivateKey = (\<lambda>k. Inr k),
      ParsePKCS8PrivateKey = (\<lambda>b. Inr (ECKey b)),
      pem_Encode = (\<lambda>t b. encode_field t @ b),
      pem_Decode = (\<lambda>b. case decode_field b of None \<Rightarrow> None | Some (t, r) \<Rightarrow> Some r),
      CreateRevocationList = (\<lambda>n rl c k. Inr (concat (map (\<lambda>e. encode_field (Itoa (rle_SerialNumber e)))
        (rl_RevokedCertificateEntries rl)))),
      CreateResponse = (\<lambda>c1 c2 resp k. Inr (if or_Status resp = ocsp_Revoked then ''R'' else ''G'')),
      CheckSignature = sample_check\<rparr>"

lemma sample_der_decode:
  "decode_fields 5 (sample_der tpl pub signer) =
     Some [Itoa (x_SerialNumber tpl), x_CommonName tpl,
       if x_BasicConstraintsValid tpl \<and> x_IsCA tpl then ''C'' else [], pub, signer]"
  unfolding sample_der_def
  using decode_fields_encode [of "[Itoa (x_SerialNumber tpl), x_CommonName tpl,
       if x_BasicConstraintsValid tpl \<and> x_IsCA tpl then ''C'' else [], pub, signer]"]
  by (simp only: list.size) (simp add: numeral_eq_Suc)

lemma sample_lawful_x509 [simp]: "lawful_x509 sample_x509"
  by (simp add: lawful_x509_def sample_x509_def decode_encode sample_check_def sample_parse_def
      sample_der_decode SetString10_Itoa)

section \<open>A run\<close>

definition sample_pki :: PKIService where
  "sample_pki =
     \<lparr>pk_x509 = sample_x509,
      pk_crypto = \<lparr>cs_provider = SoftwareProvider sample_env ''master'' ''audit'', cs_aad = ''aad''\<rparr>,
      pk_defaultTTL = 86400 * time_Second\<rparr>"

lemma sample_good_pki: "good_pki sample_pki"
  using software.sound [of "(sample_env, ''master'', ''audit'')" "''aad''"]
  by (simp add: good_pki_def sample_pki_def)

lemma sample_pki_env: "pki_env sample_env sample_pki"
  using sample_good_pki by (simp add: pki_env_def pki_rely_def rev_rely_def rely_served)

definition sample_root :: CreateCAInput where
  "sample_root = \<lparr>cci_Name = ''root'', cci_Namespace = ''app'', cci_Type = CATypeOther [], cci_ParentName = [],
     cci_CommonName = ''Root CA'', cci_TTL = 0, cci_MaxPathLen = 1, cci_DNSDomains = []\<rparr>"

definition sample_issue :: IssueInput where
  "sample_issue = \<lparr>ii_CAName = ''root'', ii_CommonName = ''db.app'', ii_DNSNames = [''db.app''], ii_TTL = 3600 * time_Second\<rparr>"

definition root_world :: world where
  "root_world = snd (PKIService_CreateRoot sample_env sample_pki sample_root init_world)"

definition issued_world :: world where
  "issued_world = snd (PKIService_Issue sample_env sample_pki sample_issue root_world)"

definition sample_revoke :: RevokeInput where
  "sample_revoke = \<lparr>rvi_SerialNumber = ''106'', rvi_Reason = ''key_compromise''\<rparr>"

definition revoked_world :: world where
  "revoked_world = snd (PKIService_Revoke sample_env sample_revoke issued_world)"

lemma sample_pki_run:
  "map ca_Name (pki_cas (db root_world)) = [''root'']"
  "map cert_SerialNumber (certificates (db issued_world)) = [''106'']"
  "map cert_Status (certificates (db revoked_world)) = [CertificateRevoked]"
  "map cert_SerialNumber (certificates (db revoked_world)) = [''106'']"
  "certificates (db root_world) = []"
  by code_simp+

lemma init_pki_invs: "trust_inv sample_pki (db init_world)" "rev_inv (db init_world)"
  by (simp_all add: init_world_def empty_tables_def trust_inv_def rev_inv_def)

lemma issued_reached: "pki_steps sample_env sample_pki init_world issued_world"
proof -
  have "pki_steps sample_env sample_pki init_world (pki_op sample_env sample_pki (OpIssue sample_issue)
      (pki_op sample_env sample_pki (OpCreateRoot sample_root) init_world))"
    by (intro pki_steps.intros)
  then show ?thesis by (simp add: issued_world_def root_world_def)
qed

lemma issued_invs: "trust_inv sample_pki (db issued_world)" "rev_inv (db issued_world)"
  using pki_steps_invs [OF sample_pki_env issued_reached] init_pki_invs by blast+

lemma sample_revoked:
  "\<exists>r. PKIService_Revoke sample_env sample_revoke issued_world = (Inr r, revoked_world) \<and> rev_CertificateID r = 1"
proof -
  have "(case fst (PKIService_Revoke sample_env sample_revoke issued_world) of Inl e \<Rightarrow> False | Inr r \<Rightarrow> rev_CertificateID r = 1)"
    by code_simp
  then show ?thesis
    unfolding revoked_world_def
    by (cases "PKIService_Revoke sample_env sample_revoke issued_world") (auto split: sum.splits)
qed

lemma sample_crl: "\<exists>text w. PKIService_CRL sample_env sample_pki ''root'' revoked_world = (Inr text, w)"
proof -
  have "(case fst (PKIService_CRL sample_env sample_pki ''root'' revoked_world) of Inl e \<Rightarrow> False | Inr t \<Rightarrow> True)"
    by code_simp
  then show ?thesis
    by (cases "PKIService_CRL sample_env sample_pki ''root'' revoked_world") (auto split: sum.splits)
qed

lemma sample_revoked_rows:
  "\<exists>cert ca. certificates (db revoked_world) = [cert] \<and> pki_cas (db revoked_world) = [ca] \<and>
     cert_ID cert = 1 \<and> cert_CAID cert = Some (ca_ID ca) \<and> ca_Name ca = ''root''"
proof -
  have "(case (certificates (db revoked_world), pki_cas (db revoked_world)) of
      ([cert], [ca]) \<Rightarrow> cert_ID cert = 1 \<and> cert_CAID cert = Some (ca_ID ca) \<and> ca_Name ca = ''root'' | _ \<Rightarrow> False)"
    by code_simp
  then show ?thesis by (auto split: list.splits)
qed

end
