(* ===== verification/PKI_Properties.thy ===== *)
theory PKI_Properties
  imports PKI_Samples
begin

text \<open>The properties of the certificate service, each with a concrete run on which it is exercised.\<close>

section \<open>Properties\<close>

text \<open>C7: in every state that PKI operations reach, in any order and under any faults of the database, each authority's private key matches its certificate, which is signed by its parent or by itself, and each issued certificate carries the serial number and common name of its row, is no CA certificate, matches its stored private key and is signed by the authority its row names.\<close>

theorem chain_of_trust:
  assumes "pki_env env s" and "pki_steps env s w w'" and "trust_inv s (db w)"
  shows "trust_inv s (db w')"
  using pki_steps_invs(3) [OF assms(1,2)] assms(3) .

theorem chain_of_trust_witness: "trust_inv sample_pki (db issued_world) \<and> certificates (db issued_world) \<noteq> []"
  using chain_of_trust [OF sample_pki_env issued_reached init_pki_invs(1)] sample_pki_run(2) by auto





text \<open>C31: an OCSP answer that is returned says that a certificate is revoked exactly when the lookup of its serial number was served and found a revoked certificate; for an unknown serial number, and when the lookup fails, the signed answer is good.\<close>

theorem ocsp_answer:
  assumes "PKIService_OCSP env s name serial w = (Inr out, w')"
  shows "\<exists>caCert caKey resp der. CreateResponse (pk_x509 s) caCert caCert resp caKey = Inr der \<and>
    out = pem_Encode (pk_x509 s) ''OCSP RESPONSE'' der \<and> SetString10 serial = Some (or_SerialNumber resp) \<and>
    (or_Status resp = ocsp_Revoked \<longleftrightarrow> outcome_at env (Suc (stmts w)) = Served \<and>
      pred_option (\<lambda>c. cert_Status c = CertificateRevoked)
        (find (\<lambda>c. cert_SerialNumber c = serial)
          (certificates (rival_at env (Suc (stmts w)) (rival_at env (stmts w) (db w))))) \<and>
      find (\<lambda>c. cert_SerialNumber c = serial)
          (certificates (rival_at env (Suc (stmts w)) (rival_at env (stmts w) (db w)))) \<noteq> None)"
proof -
  from assms obtain ca caCert caKey n found w1 w2 t1 t2 der where
    get: "PKIRepo_GetCA env name w = (Inr ca, w1)" and n: "SetString10 serial = Some n"
    and found: "PKIRepo_GetCertificateBySerial env serial w1 = (found, w2)"
    and der: "CreateResponse (pk_x509 s) caCert caCert \<lparr>or_Status = (case found of
                Inl _ \<Rightarrow> ocsp_Good
              | Inr cert \<Rightarrow> if cert_Status cert = CertificateRevoked then ocsp_Revoked else ocsp_Good),
         or_SerialNumber = n, or_ThisUpdate = t1, or_NextUpdate = t2 + 3600 * time_Second\<rparr> caKey = Inr der"
    and out: "out = pem_Encode (pk_x509 s) ''OCSP RESPONSE'' der"
    by (auto simp: PKIService_OCSP_def Let_def bindE_Inr_iff split: option.splits)
  have g: "select_ca name (rival_at env (stmts w) (db w)) = (Inr ca, db w1)"
    using get by (intro sql_Inr) (simp add: PKIRepo_GetCA_def)
  have st: "stmts w1 = Suc (stmts w)"
    using get by (auto simp: PKIRepo_GetCA_def sql_def Let_def split: outcome.splits)
  have d: "db w1 = rival_at env (stmts w) (db w)" using g by (auto simp: ca_table.get_Inr_iff)
  let ?rows = "certificates (rival_at env (Suc (stmts w)) (rival_at env (stmts w) (db w)))"
  have "(\<exists>cert. found = Inr cert \<and> cert_Status cert = CertificateRevoked) \<longleftrightarrow>
      outcome_at env (Suc (stmts w)) = Served \<and>
      (\<exists>cert. find (\<lambda>c. cert_SerialNumber c = serial) ?rows = Some cert \<and> cert_Status cert = CertificateRevoked)"
    using found
    by (cases "outcome_at env (Suc (stmts w))")
      (auto simp: PKIRepo_GetCertificateBySerial_def wrapE_def sql_def Let_def st d select_certificate_serial_def
        select_row_def split: option.splits)
  with der out n show ?thesis
    by (intro exI conjI) (auto split: sum.splits if_splits option.splits)
qed

theorem ocsp_answer_witness:
  "\<exists>caCert caKey resp der. CreateResponse sample_x509 caCert caCert resp caKey = Inr der \<and>
     or_Status resp = ocsp_Revoked \<and> or_SerialNumber resp = 106 \<and>
     fst (PKIService_OCSP sample_env sample_pki ''root'' ''106'' revoked_world) =
       Inr (pem_Encode sample_x509 ''OCSP RESPONSE'' der)"
proof -
  have "(case fst (PKIService_OCSP sample_env sample_pki ''root'' ''106'' revoked_world) of Inl e \<Rightarrow> False | Inr t \<Rightarrow> True)"
    by code_simp
  then obtain out w' where run: "PKIService_OCSP sample_env sample_pki ''root'' ''106'' revoked_world = (Inr out, w')"
    by (cases "PKIService_OCSP sample_env sample_pki ''root'' ''106'' revoked_world") (auto split: sum.splits)
  have rows: "find (\<lambda>c. cert_SerialNumber c = ''106'') (certificates (db revoked_world)) \<noteq> None"
    "pred_option (\<lambda>c. cert_Status c = CertificateRevoked)
      (find (\<lambda>c. cert_SerialNumber c = ''106'') (certificates (db revoked_world)))"
    using sample_pki_run(3) sample_revoked_rows sample_pki_run(4) by auto
  have n: "SetString10 ''106'' = Some 106" by code_simp
  have x: "pk_x509 sample_pki = sample_x509" by (simp add: sample_pki_def)
  from ocsp_answer [OF run] rows show ?thesis
    unfolding run x by (auto simp: n)
qed

text \<open>A revoked certificate can be renewed: the renewal signs a new certificate for the same common name and the same key, and its status is issued.\<close>

theorem renew_revives_revoked:
  "(case fst (PKIService_Renew sample_env sample_pki \<lparr>rni_SerialNumber = ''106'', rni_TTL = 0\<rparr> revoked_world) of
      Inl e \<Rightarrow> False
    | Inr c \<Rightarrow> cert_Status c = CertificateIssued \<and> cert_CommonName c = ''db.app'' \<and>
        map (decryptCertificateKey sample_pki) (certificates (db revoked_world)) = [decryptCertificateKey sample_pki c])"
  by code_simp

end
