(* ===== verification/Go_Base64.thy ===== *)
theory Go_Base64
  imports Go_Strings
begin

text \<open>
  \<open>base64.StdEncoding\<close>: \<open>EncodeToString\<close> and \<open>DecodeString\<close>, with padding. The decoder
  skips carriage returns and line feeds and, like the package, does not look at the bits
  that padding leaves over.
\<close>

definition b64_alphabet :: string where
  "b64_alphabet = ''ABCDEFGHIJKLMNOPQRSTUVWXYZabcdefghijklmnopqrstuvwxyz0123456789+/''"

definition b64_digit :: "nat \<Rightarrow> char" where
  "b64_digit n = b64_alphabet ! n"

definition b64_value :: "char \<Rightarrow> nat option" where
  "b64_value c = (let i = length (takeWhile (\<lambda>x. x \<noteq> c) b64_alphabet) in if i < 64 then Some i else None)"

definition code :: "char \<Rightarrow> nat" where
  "code c = of_char c"

fun b64_encode :: "bytes \<Rightarrow> string" where
  "b64_encode [] = []"
| "b64_encode [a] = [b64_digit (code a div 4), b64_digit (code a mod 4 * 16), CHR ''='', CHR ''='']"
| "b64_encode [a, b] =
     [b64_digit (code a div 4), b64_digit (code a mod 4 * 16 + code b div 16),
      b64_digit (code b mod 16 * 4), CHR ''='']"
| "b64_encode (a # b # c # rest) =
     b64_digit (code a div 4) # b64_digit (code a mod 4 * 16 + code b div 16) #
     b64_digit (code b mod 16 * 4 + code c div 64) # b64_digit (code c mod 64) # b64_encode rest"

definition out1 :: "nat \<Rightarrow> nat \<Rightarrow> char" where
  "out1 v w = char_of (v * 4 + w div 16)"

definition out2 :: "nat \<Rightarrow> nat \<Rightarrow> char" where
  "out2 w x = char_of (w mod 16 * 16 + x div 4)"

definition out3 :: "nat \<Rightarrow> nat \<Rightarrow> char" where
  "out3 x y = char_of (x mod 4 * 64 + y)"

fun b64_quads :: "string \<Rightarrow> bytes option" where
  "b64_quads [] = Some []"
| "b64_quads (p # q # r # t # rest) =
     (case (b64_value p, b64_value q) of
        (Some v, Some w) \<Rightarrow>
          (if r = CHR ''='' then (if t = CHR ''='' \<and> rest = [] then Some [out1 v w] else None)
           else case b64_value r of
             None \<Rightarrow> None
           | Some x \<Rightarrow>
               (if t = CHR ''='' then (if rest = [] then Some [out1 v w, out2 w x] else None)
                else case b64_value t of
                  None \<Rightarrow> None
                | Some y \<Rightarrow>
                    (case b64_quads rest of
                       None \<Rightarrow> None
                     | Some out \<Rightarrow> Some (out1 v w # out2 w x # out3 x y # out))))
      | _ \<Rightarrow> None)"
| "b64_quads _ = None"

definition b64_decode :: "string \<Rightarrow> err + bytes" where
  "b64_decode s =
     (case b64_quads (filter (\<lambda>c. c \<noteq> CHR 0x0A \<and> c \<noteq> CHR 0x0D) s) of
        None \<Rightarrow> Inl (PrimitiveError ''illegal base64 data'')
      | Some b \<Rightarrow> Inr b)"

section \<open>Decoding inverts encoding\<close>

lemma b64_alphabet_distinct: "distinct b64_alphabet" "length b64_alphabet = 64"
  by (code_simp)+

lemma takeWhile_nth:
  "distinct xs \<Longrightarrow> n < length xs \<Longrightarrow> length (takeWhile (\<lambda>x. x \<noteq> xs ! n) xs) = n"
proof (induction xs arbitrary: n)
  case (Cons x xs)
  then show ?case by (cases n) auto
qed simp

lemma b64_value_digit: "n < 64 \<Longrightarrow> b64_value (b64_digit n) = Some n"
  using takeWhile_nth [OF b64_alphabet_distinct(1), of n] b64_alphabet_distinct(2)
  by (simp add: b64_value_def b64_digit_def Let_def)

lemma b64_digit_plain:
  assumes "n < 64"
  shows "b64_digit n \<noteq> CHR ''=''" "b64_digit n \<noteq> CHR 0x0A" "b64_digit n \<noteq> CHR 0x0D"
proof -
  have "b64_digit n \<in> set b64_alphabet" unfolding b64_digit_def by (rule nth_mem) (simp add: assms b64_alphabet_distinct)
  moreover have "CHR ''='' \<notin> set b64_alphabet" "CHR 0x0A \<notin> set b64_alphabet" "CHR 0x0D \<notin> set b64_alphabet"
    by code_simp+
  ultimately show "b64_digit n \<noteq> CHR ''=''" "b64_digit n \<noteq> CHR 0x0A" "b64_digit n \<noteq> CHR 0x0D" by metis+
qed

lemma code_bound: "code c < 256"
  by (simp add: code_def)

lemma char_of_code [simp]: "char_of (code c) = c"
  by (simp add: code_def)

lemma digit_bounds:
  "code a div 4 < 64" "code a mod 4 * 16 < 64" "code a mod 4 * 16 + code b div 16 < 64"
  "code b mod 16 * 4 < 64" "code b mod 16 * 4 + code c div 64 < 64" "code c mod 64 < 64"
proof -
  have d: "code x div 4 < 64" "code x div 16 < 16" "code x div 64 < 4" for x
    using code_bound [of x] by (simp_all add: less_mult_imp_div_less)
  have m: "code x mod 4 < 4" "code x mod 16 < 16" "code x mod 64 < 64" for x by simp_all
  show "code a div 4 < 64" "code c mod 64 < 64" using d m by blast+
  show "code a mod 4 * 16 < 64" using m(1) [of a] by linarith
  show "code a mod 4 * 16 + code b div 16 < 64" using m(1) [of a] d(2) [of b] by linarith
  show "code b mod 16 * 4 < 64" using m(2) [of b] by linarith
  show "code b mod 16 * 4 + code c div 64 < 64" using m(2) [of b] d(3) [of c] by linarith
qed

lemma split_mul: "(r :: nat) < m \<Longrightarrow> (k * m + r) div m = k \<and> (k * m + r) mod m = r"
  by simp

lemma out_code:
  "out1 (code a div 4) (code a mod 4 * 16) = a"
  "out1 (code a div 4) (code a mod 4 * 16 + code b div 16) = a"
  "out2 (code a mod 4 * 16 + code b div 16) (code b mod 16 * 4) = b"
  "out2 (code a mod 4 * 16 + code b div 16) (code b mod 16 * 4 + code c div 64) = b"
  "out3 (code b mod 16 * 4 + code c div 64) (code c mod 64) = c"
proof -
  have b: "code b div 16 < 16" and c: "code c div 64 < 4"
    using code_bound [of b] code_bound [of c] by (simp_all add: less_mult_imp_div_less)
  have "code a div 4 * 4 + (code a mod 4 * 16) div 16 = code a" by simp
  moreover have "code a div 4 * 4 + (code a mod 4 * 16 + code b div 16) div 16 = code a"
    unfolding split_mul [OF b, THEN conjunct1] by simp
  moreover have "(code a mod 4 * 16 + code b div 16) mod 16 * 16 + (code b mod 16 * 4) div 4 = code b"
    unfolding split_mul [OF b, THEN conjunct2] by simp
  moreover have "(code a mod 4 * 16 + code b div 16) mod 16 * 16 + (code b mod 16 * 4 + code c div 64) div 4 = code b"
    unfolding split_mul [OF b, THEN conjunct2] split_mul [OF c, THEN conjunct1] by simp
  moreover have "(code b mod 16 * 4 + code c div 64) mod 4 * 64 + code c mod 64 = code c"
    unfolding split_mul [OF c, THEN conjunct2] by simp
  ultimately show
    "out1 (code a div 4) (code a mod 4 * 16) = a"
    "out1 (code a div 4) (code a mod 4 * 16 + code b div 16) = a"
    "out2 (code a mod 4 * 16 + code b div 16) (code b mod 16 * 4) = b"
    "out2 (code a mod 4 * 16 + code b div 16) (code b mod 16 * 4 + code c div 64) = b"
    "out3 (code b mod 16 * 4 + code c div 64) (code c mod 64) = c"
    unfolding out1_def out2_def out3_def by (metis char_of_code)+
qed

lemma b64_quads_encode: "b64_quads (b64_encode b) = Some b"
  by (induction b rule: b64_encode.induct)
    (simp_all add: b64_value_digit digit_bounds b64_digit_plain out_code)

lemma b64_encode_plain: "c \<in> set (b64_encode b) \<Longrightarrow> c \<noteq> CHR 0x0A \<and> c \<noteq> CHR 0x0D"
  by (induction b rule: b64_encode.induct) (auto simp: b64_digit_plain digit_bounds)

lemma b64_decode_encode: "b64_decode (b64_encode b) = Inr b"
proof -
  have "filter (\<lambda>c. c \<noteq> CHR 0x0A \<and> c \<noteq> CHR 0x0D) (b64_encode b) = b64_encode b"
    by (rule filter_True) (use b64_encode_plain in blast)
  then show ?thesis unfolding b64_decode_def by (simp add: b64_quads_encode)
qed

end
