(* ===== verification/Go_Duration.thy ===== *)
theory Go_Duration
  imports Go_Parse
begin

text \<open>
  \<open>time.ParseDuration\<close>, \<open>strconv.ParseInt\<close> and \<open>fmt.Sscanf(s, "%d", &n)\<close>. A fraction of a unit
  is the exact quotient rounded down; Go computes it in floating point, which may differ by
  a nanosecond.
\<close>

definition digits_prefix :: "string \<Rightarrow> string" where
  "digits_prefix s = takeWhile is_digit s"

definition unit_ns :: "string \<Rightarrow> int option" where
  "unit_ns u =
     (if u = ''ns'' then Some 1
      else if u = ''us'' \<or> u = [CHR 0xC2, CHR 0xB5, CHR ''s''] \<or> u = [CHR 0xCE, CHR 0xBC, CHR ''s''] then Some 1000
      else if u = ''ms'' then Some 1000000
      else if u = ''s'' then Some 1000000000
      else if u = ''m'' then Some 60000000000
      else if u = ''h'' then Some 3600000000000
      else None)"

text \<open>\<open>leadingFraction\<close> stops taking digits when the value would pass \<open>2 ^ 63\<close>: value and scale.\<close>

fun fraction_loop :: "string \<Rightarrow> int \<Rightarrow> int \<Rightarrow> bool \<Rightarrow> int \<times> int" where
  "fraction_loop [] f scale overflow = (f, scale)"
| "fraction_loop (c # cs) f scale overflow =
     (let y = f * 10 + (int (of_char c :: nat) - 48) in
      if overflow \<or> f > (2 ^ 63 - 1) div 10 \<or> y > 2 ^ 63 then fraction_loop cs f scale True
      else fraction_loop cs y (scale * 10) False)"

definition unit_char :: "char \<Rightarrow> bool" where
  "unit_char c = (c \<noteq> CHR ''.'' \<and> \<not> is_digit c)"

text \<open>One number with its unit: the nanoseconds and the rest of the text.\<close>

definition duration_term :: "string \<Rightarrow> (int \<times> string) option" where
  "duration_term s =
     (let whole = digits_prefix s; v = digits_value whole; s1 = drop (length whole) s;
          dot = HasPrefix s1 ''.''; s2 = (if dot then drop 1 s1 else s1);
          frac = (if dot then digits_prefix s2 else []); (f, scale) = fraction_loop frac 0 1 False;
          s3 = drop (length frac) s2; u = takeWhile unit_char s3; s4 = drop (length u) s3 in
      if v > 2 ^ 63 \<or> (whole = [] \<and> frac = []) \<or> u = [] then None
      else case unit_ns u of
        None \<Rightarrow> None
      | Some unit \<Rightarrow>
          (if v > 2 ^ 63 div unit then None
           else let d = v * unit + f * unit div scale in if d > 2 ^ 63 then None else Some (d, s4)))"

lemma duration_term_shorter: "duration_term s = Some (v, rest) \<Longrightarrow> length rest < length s"
proof -
  assume a: "duration_term s = Some (v, rest)"
  define whole where "whole = digits_prefix s"
  define s1 where "s1 = drop (length whole) s"
  define s2 where "s2 = (if HasPrefix s1 ''.'' then drop 1 s1 else s1)"
  define frac where "frac = (if HasPrefix s1 ''.'' then digits_prefix s2 else [])"
  define s3 where "s3 = drop (length frac) s2"
  note a' = a [unfolded duration_term_def Let_def, folded whole_def, folded s1_def, folded s2_def,
      folded frac_def, folded s3_def]
  have "rest = drop (length (takeWhile unit_char s3)) s3" and "takeWhile unit_char s3 \<noteq> []"
    using a' by (auto split: option.splits if_splits prod.splits)
  then have "length rest < length s3" by (cases s3) (auto simp: less_Suc_eq_le split: if_splits)
  moreover have "length s3 \<le> length s" by (simp add: s3_def s2_def s1_def)
  ultimately show ?thesis by simp
qed

text \<open>The loop ends because every number consumes a byte.\<close>

function duration_loop :: "string \<Rightarrow> int \<Rightarrow> int option" where
  "duration_loop s d =
     (if s = [] then Some d
      else case duration_term s of
        None \<Rightarrow> None
      | Some (v, rest) \<Rightarrow> if d + v > 2 ^ 63 then None else duration_loop rest (d + v))"
  by pat_completeness auto
termination
  by (relation "measure (\<lambda>(s, d). length s)") (auto dest: duration_term_shorter)

declare duration_loop.simps [simp del]

definition ParseDuration :: "string \<Rightarrow> duration option" where
  "ParseDuration s0 =
     (let neg = HasPrefix s0 ''-''; s = (if neg \<or> HasPrefix s0 ''+'' then drop 1 s0 else s0) in
      if s = ''0'' then Some 0
      else if s = [] then None
      else case duration_loop s 0 of
        None \<Rightarrow> None
      | Some d \<Rightarrow> if neg then Some (- d) else if d > 2 ^ 63 - 1 then None else Some d)"

text \<open>\<open>ttl, _ := time.ParseDuration(s)\<close>\<close>

definition duration_or_zero :: "string \<Rightarrow> duration" where
  "duration_or_zero s = (case ParseDuration s of None \<Rightarrow> 0 | Some d \<Rightarrow> d)"

text \<open>\<open>n, _ := strconv.ParseInt(s, 10, 64)\<close>: 0 for text that is no number, the nearest bound when out of range.\<close>

definition int64_or_zero :: "string \<Rightarrow> int" where
  "int64_or_zero s =
     (case SetString10 s of None \<Rightarrow> 0 | Some n \<Rightarrow> max (- (2 ^ 63)) (min (2 ^ 63 - 1) n))"

definition ParseInt64 :: "string \<Rightarrow> int option" where
  "ParseInt64 s =
     (case SetString10 s of
        None \<Rightarrow> None
      | Some n \<Rightarrow> if - (2 ^ 63) \<le> n \<and> n < 2 ^ 63 then Some n else None)"

end
