(* ===== verification/Go_JSON.thy ===== *)
theory Go_JSON
  imports Go_Duration Go_UTF8
begin

text \<open>
  JSON values and their decoding by \<open>encoding/json\<close> into the request structs of the HTTP
  handlers (\<open>decodeJSON\<close> of \<open>api/http/response.go\<close>, which refuses unknown fields). A
  number keeps its text. A body is \<open>None\<close> when its first value is no JSON.

  A member belongs to the field whose name it folds to; a later member overrides an earlier
  one, \<open>null\<close> leaves a field as it is. An error of one member does not stop the decoder
  from storing the others, which is what \<open>decoded\<close> keeps.
\<close>

datatype json =
    JNull
  | JBool bool
  | JNum string
  | JStr string
  | JArr "json list"
  | JObj "(string \<times> json) list"

text \<open>What the encoder makes of the texts.\<close>

fun json_utf8 :: "json \<Rightarrow> json" where
  "json_utf8 (JStr s) = JStr (to_utf8 s)"
| "json_utf8 (JArr xs) = JArr (map json_utf8 xs)"
| "json_utf8 (JObj ms) = JObj (map (\<lambda>(k, x). (to_utf8 k, json_utf8 x)) ms)"
| "json_utf8 j = j"

datatype FieldKind = KText | KInt | KBool | KTexts | KTextMap

fun is_text :: "json \<Rightarrow> bool" where
  "is_text JNull = True"
| "is_text (JStr s) = True"
| "is_text _ = False"

fun kind_ok :: "FieldKind \<Rightarrow> json \<Rightarrow> bool" where
  "kind_ok k JNull = True"
| "kind_ok KText (JStr s) = True"
| "kind_ok KInt (JNum n) = (ParseInt64 n \<noteq> None)"
| "kind_ok KBool (JBool b) = True"
| "kind_ok KTexts (JArr xs) = list_all is_text xs"
| "kind_ok KTextMap (JObj ms) = list_all (\<lambda>(k, v). is_text v) ms"
| "kind_ok _ _ = False"

type_synonym fields = "(string \<times> FieldKind) list"

definition member_ok :: "fields \<Rightarrow> string \<times> json \<Rightarrow> bool" where
  "member_ok fs m = (case find (\<lambda>(name, _). EqualFold (fst m) name) fs of
     None \<Rightarrow> False | Some (_, k) \<Rightarrow> kind_ok k (snd m))"

text \<open>The members the decoder has seen, and whether it reports an error.\<close>

definition decodeJSON :: "fields \<Rightarrow> json option \<Rightarrow> (string \<times> json) list \<times> bool" where
  "decodeJSON fs body =
     (case body of
        Some JNull \<Rightarrow> ([], False)
      | Some (JObj ms) \<Rightarrow> (ms, \<not> list_all (member_ok fs) ms)
      | _ \<Rightarrow> ([], True))"

definition decode_error :: err where
  "decode_error = PrimitiveError ''json''"

text \<open>\<open>if err := decodeJSON(r, &req); err != nil\<close>\<close>

definition decode :: "fields \<Rightarrow> json option \<Rightarrow> err + (string \<times> json) list" where
  "decode fs body = (case decodeJSON fs body of (ms, bad) \<Rightarrow> if bad then Inl decode_error else Inr ms)"

definition values_of :: "string \<Rightarrow> (string \<times> json) list \<Rightarrow> json list" where
  "values_of name ms = map snd (filter (\<lambda>(k, _). EqualFold k name) ms)"

fun put_text :: "string \<Rightarrow> json \<Rightarrow> string" where
  "put_text old (JStr s) = s"
| "put_text old _ = old"

definition text_of :: "string \<Rightarrow> (string \<times> json) list \<Rightarrow> string" where
  "text_of name ms = foldl put_text [] (values_of name ms)"

fun put_int :: "int \<Rightarrow> json \<Rightarrow> int" where
  "put_int old (JNum n) = (case ParseInt64 n of None \<Rightarrow> old | Some i \<Rightarrow> i)"
| "put_int old _ = old"

definition int_of_field :: "string \<Rightarrow> (string \<times> json) list \<Rightarrow> int" where
  "int_of_field name ms = foldl put_int 0 (values_of name ms)"

fun put_bool :: "bool \<Rightarrow> json \<Rightarrow> bool" where
  "put_bool old (JBool b) = b"
| "put_bool old _ = old"

definition bool_of_field :: "string \<Rightarrow> (string \<times> json) list \<Rightarrow> bool" where
  "bool_of_field name ms = foldl put_bool False (values_of name ms)"

fun put_texts :: "string list \<Rightarrow> json \<Rightarrow> string list" where
  "put_texts old (JArr xs) = map (put_text []) xs"
| "put_texts old JNull = []"
| "put_texts old _ = old"

definition texts_of :: "string \<Rightarrow> (string \<times> json) list \<Rightarrow> string list" where
  "texts_of name ms = foldl put_texts [] (values_of name ms)"

text \<open>Storing under a key of a \<open>map[string]string\<close>.\<close>

fun map_put :: "smap \<Rightarrow> string \<Rightarrow> string \<Rightarrow> smap" where
  "map_put [] k v = [(k, v)]"
| "map_put ((k', v') # m) k v = (if k' = k then (k, v) # m else (k', v') # map_put m k v)"

fun put_map :: "smap option \<Rightarrow> json \<Rightarrow> smap option" where
  "put_map old (JObj ms) =
     Some (foldl (\<lambda>m (k, v). map_put m k (put_text [] v)) (case old of None \<Rightarrow> [] | Some m \<Rightarrow> m) ms)"
| "put_map old JNull = None"
| "put_map old _ = old"

definition map_of_field :: "string \<Rightarrow> (string \<times> json) list \<Rightarrow> smap option" where
  "map_of_field name ms = foldl put_map None (values_of name ms)"

lemma map_put_keys: "fst ` set (map_put m k v) = insert k (fst ` set m)"
  by (induction m k v rule: map_put.induct) auto

lemma map_put_lookup: "map_of (map_put m k v) = (map_of m)(k \<mapsto> v)"
  by (induction m k v rule: map_put.induct) auto

end
