(* ===== verification/Gateway.thy ===== *)
theory Gateway
  imports Secret_Service Policy_Service Audit_Service Lease_Service PKI_Service Go_Base64 Go_JSON
begin

text \<open>
  What the HTTP and the gRPC server share: the services they are built on, the values they
  answer with, how they tell who calls and how they write to the audit log.
\<close>

section \<open>The server and its answers\<close>

text \<open>
  The services, the configuration that the servers read, and as parameters the functions of
  \<open>github.com/google/uuid\<close>, what the conversion of a \<open>float64\<close> text to \<open>int\<close> gives (beyond
  \<open>int\<close> it is the machine's choice; \<open>None\<close> beyond \<open>float64\<close>, where decoding fails),
  \<open>fmt.Sprint\<close> of a number or composite value and the status of \<open>net/http\<close> for a request
  without a route.
\<close>

record Server =
  sv_TokenHeader :: string
  sv_IdentityHeader :: string
  sv_AdminToken :: string
  sv_adminIdentity :: string
  sv_secret :: SecretService
  sv_lease :: LeaseService
  sv_audit :: "CryptoService option"
  sv_pki :: PKIService
  sv_crypto :: CryptoService
  sv_ParseUUID :: "string \<Rightarrow> err + uuid"
  sv_UUIDString :: "uuid \<Rightarrow> string"
  sv_float_int :: "string \<Rightarrow> int option"
  sv_Sprint :: "json \<Rightarrow> string"
  sv_startedAt :: time
  sv_unmatched :: "string \<Rightarrow> string list \<Rightarrow> nat"

text \<open>A payload is the Go value that is encoded as the answer.\<close>

datatype payload =
    PError err
  | PReady duration
  | PMetrics
  | PNetHttp
  | PTexts smap
  | PFlag string bool
  | PNamespace Namespace
  | PNamespaces "Namespace list"
  | PVersion VersionMetadata
  | PVersions "VersionMetadata list"
  | PSecrets "Secret list"
  | PSecretValue bytes int VersionState
  | PLease Lease
  | PPolicy Policy
  | PPolicies "Policy list"
  | PEvents "Event list"
  | PVerified bool nat
  | PCA CA
  | PCAs "CA list"
  | PCertificate Certificate
  | PCertificates "Certificate list"
  | PRevocation Revocation

section \<open>Authentication\<close>

text \<open>
  The actor both servers derive from the token and the identity the caller sends
  (\<open>withAuth\<close>, \<open>authInterceptor\<close>), as \<open>actorFromContext\<close> reads it back.
\<close>

definition authenticate :: "Server \<Rightarrow> string \<Rightarrow> string \<Rightarrow> string option" where
  "authenticate s token identity =
     (if token = [] \<and> identity = [] then None
      else
        let actor0 = identity;
            actor1 = (if token = sv_AdminToken s then ''admin'' else actor0);
            actor2 = (if actor1 = [] then token else actor1) in
        Some (TrimSpace actor2))"

definition actorFromContext :: "string \<Rightarrow> string" where
  "actorFromContext value = (if value = [] then ''anonymous'' else value)"

section \<open>Audit records\<close>

definition recordAudit ::
  "env \<Rightarrow> Server \<Rightarrow> string \<Rightarrow> string \<Rightarrow> string \<Rightarrow> string \<Rightarrow> string \<Rightarrow> smap option \<Rightarrow> unit io" where
  "recordAudit env s actor namespace path action res metadata =
     (case sv_audit s of
        None \<Rightarrow> okE ()
      | Some cs \<Rightarrow>
          bindE (tryE (AuditService_Record env cs
            \<lparr>ri_Actor = actor, ri_Namespace = namespace, ri_Path = path, ri_Action = action,
             ri_Result = res, ri_Metadata = metadata\<rparr>)) (\<lambda>_. okE ()))"

end
