(* ===== verification/Mediation.thy ===== *)
theory Mediation
  imports Gateway
begin

text \<open>
  Complete mediation: a request that changes the database or is answered with more than a
  refusal was granted by a policy. \<open>mediated\<close> is the judgement on one handler, with rules
  that follow the shape of the handlers; the locale \<open>guarded_server\<close> is the contract of a
  server all of whose handlers obey it, and holds what follows for sequences of requests.
\<close>

section \<open>The state a policy protects\<close>

text \<open>Everything but the audit log.\<close>

definition core :: "tables \<Rightarrow> tables" where
  "core d = d\<lparr>audit_events := [], audit_seq := 0\<rparr>"

lemma core_simps [simp]:
  "namespaces (core d) = namespaces d" "secrets (core d) = secrets d"
  "secret_versions (core d) = secret_versions d" "leases (core d) = leases d"
  "policies (core d) = policies d" "pki_cas (core d) = pki_cas d"
  "certificates (core d) = certificates d" "revocations (core d) = revocations d"
  "core (core d) = core d"
  "core (d\<lparr>audit_seq := n\<rparr>) = core d" "core (d\<lparr>audit_events := es\<rparr>) = core d"
  by (simp_all add: core_def)

lemma core_eq_policies: "core d = core d' \<Longrightarrow> policies d = policies d'"
  by (metis core_simps(5))

text \<open>The database is used by nobody else; statements may still fail.\<close>

definition alone :: "env \<Rightarrow> bool" where
  "alone env \<longleftrightarrow> (\<forall>n d. rival_at env n d = d)"

lemma alone_rely: "alone env \<Longrightarrow> rely env I"
  by (simp add: alone_def rely_def)

text \<open>\<open>logs m\<close>: running \<open>m\<close> changes at most the audit log.\<close>

definition logs :: "'a io \<Rightarrow> bool" where
  "logs m \<longleftrightarrow> (\<forall>c. keeps (\<lambda>d. core d = c) m)"

lemma logsD: "logs m \<Longrightarrow> core (db (snd (m w))) = core (db w)"
  by (simp add: logs_def preserves_def)

lemma logs_run: "logs m \<Longrightarrow> m w = (r, w') \<Longrightarrow> core (db w') = core (db w)"
  using logsD by (metis snd_conv)

lemma logsI: "(\<And>c. keeps (\<lambda>d. core d = c) m) \<Longrightarrow> logs m"
  by (simp add: logs_def)

named_theorems log_rules \<open>rules for effects that change at most the audit log\<close>

lemma logs_combinators [log_rules]:
  "logs (okE x)" "logs (failE e)" "logs (liftE r)" "logs (guardE c e)" "logs (nowE env)" "logs (uuidE env)"
  "logs (gaugeE k)"
  by (rule logsI; (rule pres | rule keeps_nowE | rule keeps_uuidE | rule keeps_gaugeE))+

lemma logs_bindE [log_rules]: "logs m \<Longrightarrow> (\<And>x. logs (f x)) \<Longrightarrow> logs (bindE m f)"
  by (simp add: logs_def pres)

lemma logs_queryE [log_rules]: "logs m \<Longrightarrow> logs (queryE env f m)"
  by (simp add: logs_def preserves_def snd_queryE)

lemma logs_wrapE [log_rules]: "logs m \<Longrightarrow> logs (wrapE f a m)"
  by (simp add: logs_def pres)

lemma logs_tryE [log_rules]: "logs m \<Longrightarrow> logs (tryE m)"
  by (simp add: logs_def pres)

lemma logs_if [log_rules]: "logs m \<Longrightarrow> logs n \<Longrightarrow> logs (if c then m else n)"
  by simp

lemma logs_case_sum [log_rules]:
  "(\<And>e. logs (f e)) \<Longrightarrow> (\<And>x. logs (g x)) \<Longrightarrow> logs (case r of Inl e \<Rightarrow> f e | Inr x \<Rightarrow> g x)"
  by (cases r) simp_all

lemma logs_sql: "alone env \<Longrightarrow> (\<And>d. core (snd (f d)) = core d) \<Longrightarrow> logs (sql env f)"
  by (rule logsI, rule keeps_sql) (auto simp: alone_rely keeps_stmt_def)

lemma logs_transaction: "alone env \<Longrightarrow> logs m \<Longrightarrow> logs (transaction env b c m)"
  by (rule logsI, rule keeps_transaction) (auto simp: alone_rely logs_def rollback_def)

lemma logs_sql_tx: "(\<And>d. core (snd (f d)) = core d) \<Longrightarrow> logs (sql_tx env f)"
  by (rule logsI, rule keeps_sql_tx) (auto simp: keeps_stmt_def)

lemma core_insert_event: "core (snd (insert_event e d)) = core d"
  by (simp add: insert_event_def Let_def)

lemma core_select [simp]: "core (snd (select_row P rows d)) = core d" "core (snd (select_rows rows d)) = core d"
  "core (snd (select_last_hash d)) = core d" "core (snd (noop d)) = core d"
  by (simp_all add: select_row_def select_rows_def select_last_hash_def noop_def split: option.splits)

lemma logs_AuditRepo_Append: "alone env \<Longrightarrow> logs (AuditRepo_Append env e)"
  unfolding AuditRepo_Append_def
  by (intro logs_transaction log_rules logs_sql_tx; simp add: core_insert_event)

lemma logs_record_attempts: "alone env \<Longrightarrow> logs (record_attempts n env cs input)"
proof (induction n)
  case 0
  show ?case by (simp add: log_rules)
next
  case (Suc n)
  then show ?case
    unfolding record_attempts.simps append_attempt_tryE AuditRepo_LastHash_def
    by (intro log_rules logs_sql logs_AuditRepo_Append) simp_all
qed

lemma logs_recordAudit [log_rules]: "alone env \<Longrightarrow> logs (recordAudit env s a n p c r m)"
  unfolding recordAudit_def AuditService_Record_def
  by (cases "sv_audit s") (auto intro!: log_rules logs_record_attempts)

section \<open>Reads\<close>

text \<open>\<open>fetches m P\<close>: \<open>m\<close> leaves the tables alone, and what it returns is a value the tables hold.\<close>

definition fetches :: "'a io \<Rightarrow> (tables \<Rightarrow> 'a \<Rightarrow> bool) \<Rightarrow> bool" where
  "fetches m P \<longleftrightarrow> (\<forall>w r w'. m w = (r, w') \<longrightarrow> db w' = db w \<and> (\<forall>x. r = Inr x \<longrightarrow> P (db w) x))"

lemma fetchesD: "fetches m P \<Longrightarrow> m w = (r, w') \<Longrightarrow> db w' = db w \<and> (\<forall>x. r = Inr x \<longrightarrow> P (db w) x)"
  unfolding fetches_def by blast

lemma fetches_queryE: "fetches m P \<Longrightarrow> fetches (queryE env f m) P"
  unfolding fetches_def
proof (intro allI impI)
  fix w r w' assume m: "\<forall>w r w'. m w = (r, w') \<longrightarrow> db w' = db w \<and> (\<forall>x. r = Inr x \<longrightarrow> P (db w) x)"
    and q: "queryE env f m w = (r, w')"
  from q have "w' = snd (m w)" using snd_queryE [of env f m w] by simp
  moreover have "r = Inr x \<Longrightarrow> m w = (Inr x, w')" for x using q by simp
  ultimately show "db w' = db w \<and> (\<forall>x. r = Inr x \<longrightarrow> P (db w) x)" using m by (metis prod.collapse)
qed

lemma fetches_wrapE: "fetches m P \<Longrightarrow> fetches (wrapE f a m) P"
  unfolding fetches_def wrapE_def by (fastforce split: prod.splits sum.splits)

lemma fetches_liftE: "fetches (liftE r) (\<lambda>_ x. r = Inr x)"
  by (simp add: fetches_def liftE_def)

lemma fetches_select_row:
  "alone env \<Longrightarrow> fetches (sql env (\<lambda>d. select_row K (rows d) d)) (\<lambda>d x. find K (rows d) = Some x)"
  by (auto simp: fetches_def sql_def alone_def select_row_def Let_def split: outcome.splits option.splits)

lemma fetches_Get [log_rules]:
  assumes "alone env"
  shows "fetches (LeaseService_Get env i) (\<lambda>d l. find (\<lambda>r. lease_ID r = i) (leases d) = Some l)"
    and "fetches (PolicyService_Get env n) (\<lambda>d p. find (\<lambda>r. pol_Name r = n) (policies d) = Some p)"
    and "fetches (PKIService_GetCA env n) (\<lambda>d a. find (\<lambda>r. ca_Name r = n) (pki_cas d) = Some a)"
    and "fetches (PKIService_GetCertificate env ns k)
           (\<lambda>d c. find (\<lambda>r. cert_key r = (ns, k)) (certificates d) = Some c)"
  unfolding LeaseService_Get_def LeaseRepo_Get_def PolicyService_Get_def PolicyRepo_Get_def
    PKIService_GetCA_def PKIRepo_GetCA_def PKIService_GetCertificate_def PKIRepo_GetCertificate_def
    select_lease_def select_policy_def select_ca_def select_certificate_def
  by (intro fetches_wrapE fetches_select_row assms)+

section \<open>The decision\<close>

definition allowed :: "string \<Rightarrow> Policy list \<Rightarrow> AuthorizationRequest \<Rightarrow> bool" where
  "allowed admin ps ar \<longleftrightarrow> EqualFold (req_Identity ar) admin \<or> (\<exists>p \<in> set ps. grants p ar)"

lemma Authorize_fetches:
  "alone env \<Longrightarrow> fetches (PolicyService_Authorize env admin ar) (\<lambda>d ok. ok \<longleftrightarrow> allowed admin (policies d) ar)"
  unfolding fetches_def
proof (intro allI impI conjI)
  fix w r w'
  assume alone: "alone env" and run: "PolicyService_Authorize env admin ar w = (r, w')"
  show same: "db w' = db w"
    using run alone
    by (auto simp: PolicyService_Authorize_def PolicyRepo_List_def queryE_def eff_simps sql_def alone_def select_rows_def Let_def
        split: if_splits outcome.splits)
  fix ok assume "r = Inr ok"
  with Authorize_result [of env admin ar w ok w'] run same
  show "ok \<longleftrightarrow> allowed admin (policies (db w)) ar" by (simp add: allowed_def)
qed

section \<open>The judgement\<close>

text \<open>
  \<open>mediated refused admin A m\<close>: either a request in \<open>A\<close> is allowed by the policies in the
  database, or \<open>m\<close> changes nothing but the audit log and its answer is a refusal.
\<close>

definition mediated ::
  "(err + 'r \<Rightarrow> bool) \<Rightarrow> string \<Rightarrow> (tables \<Rightarrow> AuthorizationRequest \<Rightarrow> bool) \<Rightarrow> 'r io \<Rightarrow> bool" where
  "mediated refused admin A m \<longleftrightarrow>
     (\<forall>w. (\<exists>ar. A (core (db w)) ar \<and> allowed admin (policies (db w)) ar) \<or>
        core (db (snd (m w))) = core (db w) \<and> refused (fst (m w)))"

lemma mediatedD:
  "mediated refused admin A m \<Longrightarrow> m w = (r, w') \<Longrightarrow>
     (\<exists>ar. A (core (db w)) ar \<and> allowed admin (policies (db w)) ar) \<or> core (db w') = core (db w) \<and> refused r"
  unfolding mediated_def by (metis fst_conv snd_conv)

lemma mediatedI:
  "(\<And>w r w'. m w = (r, w') \<Longrightarrow> \<not> (\<exists>ar. A (core (db w)) ar \<and> allowed admin (policies (db w)) ar) \<Longrightarrow>
      core (db w') = core (db w) \<and> refused r) \<Longrightarrow> mediated refused admin A m"
  unfolding mediated_def by (metis prod.collapse)

lemma mediated_weaken:
  "mediated refused admin A m \<Longrightarrow> (\<And>d ar. A d ar \<Longrightarrow> B d ar) \<Longrightarrow> mediated refused admin B m"
  unfolding mediated_def by blast

text \<open>A lookup before the check: what follows is mediated for the value that was found.\<close>

lemma mediated_fetch:
  assumes "fetches m P" and "\<And>e. logs (fail e)" and "\<And>e w. refused (fst (fail e w))"
    and "\<And>x. mediated refused admin (\<lambda>d ar. P' d x \<longrightarrow> A d ar) (k x)" and "\<And>d x. P d x \<Longrightarrow> P' (core d) x"
  shows "mediated refused admin A (bindE (tryE m) (\<lambda>r. case r of Inl e \<Rightarrow> fail e | Inr x \<Rightarrow> k x))"
proof (rule mediatedI)
  fix w r w'
  assume run: "bindE (tryE m) (\<lambda>r. case r of Inl e \<Rightarrow> fail e | Inr x \<Rightarrow> k x) w = (r, w')"
    and denied: "\<not> (\<exists>ar. A (core (db w)) ar \<and> allowed admin (policies (db w)) ar)"
  obtain r1 w1 where m: "m w = (r1, w1)" by force
  have 1: "db w1 = db w" "\<And>x. r1 = Inr x \<Longrightarrow> P (db w) x" using fetchesD [OF assms(1) m] by auto
  show "core (db w') = core (db w) \<and> refused r"
  proof (cases r1)
    case (Inl e)
    then have f: "fail e w1 = (r, w')" using run m by (simp add: bindE_def tryE_def)
    with logs_run [OF assms(2) f] assms(3) [of e w1] 1 show ?thesis by simp
  next
    case (Inr x)
    then have "k x w1 = (r, w')" using run m by (simp add: bindE_def tryE_def)
    from mediatedD [OF assms(4) this] 1 Inr assms(5) denied show ?thesis by auto
  qed
qed

text \<open>The check itself: what follows a grant need not be looked at.\<close>

lemma mediated_check:
  assumes "alone env" and "\<And>d. A d ar"
    and "\<And>e. logs (fail e)" and "\<And>e w. refused (fst (fail e w))"
    and "logs deny" and "\<And>w. refused (fst (deny w))"
  shows "mediated refused admin A
    (bindE (tryE (PolicyService_Authorize env admin ar)) (\<lambda>r. case r of
       Inl e \<Rightarrow> fail e | Inr ok \<Rightarrow> if \<not> ok then deny else k))"
proof (rule mediatedI)
  fix w r w'
  assume run: "bindE (tryE (PolicyService_Authorize env admin ar)) (\<lambda>r. case r of
       Inl e \<Rightarrow> fail e | Inr ok \<Rightarrow> if \<not> ok then deny else k) w = (r, w')"
    and denied: "\<not> (\<exists>ar. A (core (db w)) ar \<and> allowed admin (policies (db w)) ar)"
  obtain r1 w1 where m: "PolicyService_Authorize env admin ar w = (r1, w1)" by force
  have same: "db w1 = db w" and dec: "\<And>ok. r1 = Inr ok \<Longrightarrow> ok \<longleftrightarrow> allowed admin (policies (db w)) ar"
    using fetchesD [OF Authorize_fetches [OF assms(1)] m] by auto
  show "core (db w') = core (db w) \<and> refused r"
  proof (cases r1)
    case (Inl e)
    then have f: "fail e w1 = (r, w')" using run m by (simp add: bindE_def tryE_def)
    with logs_run [OF assms(3) f] assms(4) [of e w1] same show ?thesis by simp
  next
    case (Inr ok)
    with dec denied assms(2) have "\<not> ok" by blast
    then have f: "deny w1 = (r, w')" using run m Inr by (simp add: bindE_def tryE_def)
    with logs_run [OF assms(5) f] assms(6) [of w1] same show ?thesis by simp
  qed
qed

section \<open>Servers that obey it\<close>

text \<open>Requests one after the other: the answers and the state after the last one.\<close>

fun serve_all :: "('r \<Rightarrow> 'a io) \<Rightarrow> 'r list \<Rightarrow> world \<Rightarrow> (err + 'a) list \<times> world" where
  "serve_all f [] w = ([], w)"
| "serve_all f (r # rs) w =
     (case f r w of (a, w1) \<Rightarrow> (case serve_all f rs w1 of (as, w2) \<Rightarrow> (a # as, w2)))"

text \<open>
  The contract of a server with configuration \<open>c\<close>: a request that the policies in the
  database do not permit changes nothing but the audit log, and is refused when it is one
  of the requests that need permission. Permission does not depend on the audit log.
\<close>

locale guarded_server =
  fixes serve :: "'c \<Rightarrow> 'r \<Rightarrow> 'a io"
    and good :: "'c \<Rightarrow> bool"
    and permitted :: "'c \<Rightarrow> 'r \<Rightarrow> tables \<Rightarrow> bool"
    and guarded :: "'r \<Rightarrow> bool"
    and refused :: "err + 'a \<Rightarrow> bool"
  assumes permitted_core: "permitted c r (core d) = permitted c r d"
    and inert: "good c \<Longrightarrow> \<not> permitted c r (db w) \<Longrightarrow> serve c r w = (a, w') \<Longrightarrow> core (db w') = core (db w)"
    and refusal: "good c \<Longrightarrow> \<not> permitted c r (db w) \<Longrightarrow> guarded r \<Longrightarrow> serve c r w = (a, w') \<Longrightarrow> refused a"
begin

lemma no_bootstrap:
  assumes "good c" and "\<forall>r \<in> set rs. \<not> permitted c r (db w)" and "serve_all (serve c) rs w = (as, w')"
  shows "core (db w') = core (db w)" and "\<forall>(r, a) \<in> set (zip rs as). guarded r \<longrightarrow> refused a"
proof -
  have "core (db w') = core (db w) \<and> (\<forall>(r, a) \<in> set (zip rs as). guarded r \<longrightarrow> refused a)"
    using assms(2,3)
  proof (induction rs arbitrary: w w' as)
    case (Cons r rs)
    obtain a w1 where 1: "serve c r w = (a, w1)" by force
    obtain bs w2 where 2: "serve_all (serve c) rs w1 = (bs, w2)" by force
    have denied: "\<not> permitted c r (db w)" using Cons.prems(1) by simp
    have same: "core (db w1) = core (db w)" by (rule inert [OF assms(1) denied 1])
    have "\<forall>r \<in> set rs. \<not> permitted c r (db w1)"
      using Cons.prems(1) same permitted_core by (metis list.set_intros(2))
    with Cons.IH [OF this 2] same refusal [OF assms(1) denied _ 1] Cons.prems(2) 1 2
    show ?case by auto
  qed simp
  then show "core (db w') = core (db w)" and "\<forall>(r, a) \<in> set (zip rs as). guarded r \<longrightarrow> refused a" by simp_all
qed

text \<open>So a change of the protected state was permitted at the start to one of the callers.\<close>

lemma change_was_permitted:
  assumes "good c" and "serve_all (serve c) rs w = (as, w')" and "core (db w') \<noteq> core (db w)"
  obtains r where "r \<in> set rs" and "permitted c r (db w)"
  using no_bootstrap(1) [OF assms(1) _ assms(2)] assms(3) by blast

end

end
