(* ===== verification/HTTP_Core.thy ===== *)
theory HTTP_Core
  imports Mediation
begin

text \<open>
  Requests, answers and the helpers every HTTP handler uses (\<open>api/http/response.go\<close>,
  \<open>audit.go\<close>, \<open>context.go\<close>, \<open>server.go\<close> and the helpers of the handler files).
  A path is the list of its unescaped segments, a header or query parameter that is absent
  is the empty string, as \<open>Header.Get\<close> and \<open>Query().Get\<close> give it, and \<open>rq_Actor\<close> is
  what \<open>withAuth\<close> put into the context. An answer is a status and the value it encodes.
\<close>

record Request =
  rq_Method :: string
  rq_Path :: "string list"
  rq_Query :: "string \<Rightarrow> string"
  rq_Header :: "string \<Rightarrow> string"
  rq_RemoteAddr :: string
  rq_Body :: "json option"
  rq_Actor :: string

record Response =
  rs_Status :: nat
  rs_Body :: payload

definition writeJSON :: "nat \<Rightarrow> payload \<Rightarrow> Response io" where
  "writeJSON status value = okE \<lparr>rs_Status = status, rs_Body = value\<rparr>"

definition writeError :: "nat \<Rightarrow> err \<Rightarrow> Response io" where
  "writeError status e = writeJSON status (PError e)"

text \<open>\<open>x, err := m; if err != nil { writeError(w, status, err); return }\<close>, and then \<open>k x\<close>.\<close>

definition answerE :: "nat \<Rightarrow> 'a io \<Rightarrow> ('a \<Rightarrow> Response io) \<Rightarrow> Response io" where
  "answerE status m k = bindE (tryE m) (\<lambda>r. case r of Inl e \<Rightarrow> writeError status e | Inr x \<Rightarrow> k x)"

section \<open>Parameters of a request\<close>

definition clientIP :: "Request \<Rightarrow> string" where
  "clientIP r =
     (let value = rq_Header r ''X-Forwarded-For'' in if value \<noteq> [] then value else rq_RemoteAddr r)"

definition cleanWildcardPath :: "string \<Rightarrow> string" where
  "cleanWildcardPath path0 =
     (let path1 = TrimSpace path0 in
      if path1 = [] then ''/''
      else
        let path2 = (if \<not> HasPrefix path1 ''/'' then ''/'' @ path1 else path1) in
        ''/'' @ Trim path2 ''/'')"

definition queryVersion :: "Request \<Rightarrow> int" where
  "queryVersion r =
     (let value = rq_Query r ''version'' in if value = [] then 0 else int64_or_zero value)"

text \<open>\<open>itoa\<close> fills its buffer only while the number is positive.\<close>

definition itoa :: "int \<Rightarrow> string" where
  "itoa n = (if n = 0 then ''0'' else if n > 0 then Itoa n else [])"

definition decodeBody :: "fields \<Rightarrow> Request \<Rightarrow> ((string \<times> json) list \<Rightarrow> Response io) \<Rightarrow> Response io" where
  "decodeBody fs r k = answerE 400 (liftE (decode fs (rq_Body r))) k"

section \<open>Authorisation and audit\<close>

definition policyAuthorizationRequest ::
  "string \<Rightarrow> string \<Rightarrow> string \<Rightarrow> Capability \<Rightarrow> Request \<Rightarrow> AuthorizationRequest" where
  "policyAuthorizationRequest actor namespace path capability r =
     \<lparr>req_Identity = actor, req_Namespace = namespace, req_Path = path, req_Capability = capability,
      req_Context = [(''ip'', clientIP r), (''method'', rq_Method r)]\<rparr>"

definition errUnauthorized :: err where "errUnauthorized = Errorf ''unauthorized'' []"
definition errForbidden :: err where "errForbidden = Errorf ''forbidden'' []"
definition errTooManyRequests :: err where "errTooManyRequests = Errorf ''rate limit exceeded'' []"
definition errInternal :: err where "errInternal = Errorf ''internal server error'' []"

definition capability_text :: "Capability \<Rightarrow> string" where
  "capability_text c = (case c of
     CapabilityRead \<Rightarrow> ''read'' | CapabilityCreate \<Rightarrow> ''create'' | CapabilityUpdate \<Rightarrow> ''update''
   | CapabilityDelete \<Rightarrow> ''delete'' | CapabilityList \<Rightarrow> ''list'')"

text \<open>\<open>if !s.authorize(w, r, namespace, path, capability) { return }\<close>, and then \<open>k\<close>.\<close>

definition authorize ::
  "env \<Rightarrow> Server \<Rightarrow> Request \<Rightarrow> string \<Rightarrow> string \<Rightarrow> Capability \<Rightarrow> Response io \<Rightarrow> Response io" where
  "authorize env s r namespace path capability k =
     (let actor = actorFromContext (rq_Actor r) in
      bindE (tryE (PolicyService_Authorize env (sv_adminIdentity s)
               (policyAuthorizationRequest actor namespace path capability r))) (\<lambda>res.
      case res of
        Inl e \<Rightarrow> writeError 500 e
      | Inr ok \<Rightarrow>
          if \<not> ok then
            bindE (recordAudit env s actor namespace path (capability_text capability) ''denied''
                     (Some [(''actor'', actor)])) (\<lambda>_.
            writeError 403 errForbidden)
          else k))"

definition recordSuccess ::
  "env \<Rightarrow> Server \<Rightarrow> Request \<Rightarrow> string \<Rightarrow> string \<Rightarrow> string \<Rightarrow> smap option \<Rightarrow> unit io" where
  "recordSuccess env s r namespace path action metadata =
     recordAudit env s (actorFromContext (rq_Actor r)) namespace path action ''success'' metadata"

text \<open>The end of every handler: the audit record, then the answer.\<close>

definition finish ::
  "env \<Rightarrow> Server \<Rightarrow> Request \<Rightarrow> string \<Rightarrow> string \<Rightarrow> string \<Rightarrow> smap option \<Rightarrow> nat \<Rightarrow> payload \<Rightarrow> Response io" where
  "finish env s r namespace path action metadata status value =
     bindE (recordSuccess env s r namespace path action metadata) (\<lambda>_. writeJSON status value)"

section \<open>Rules for mediation\<close>

definition http_refused :: "err + Response \<Rightarrow> bool" where
  "http_refused r = (case r of Inl _ \<Rightarrow> True | Inr rs \<Rightarrow> 400 \<le> rs_Status rs)"

lemma logs_write [log_rules]: "logs (writeJSON n v)" "logs (writeError n e)"
  by (simp_all add: writeJSON_def writeError_def log_rules)

lemma refused_writeError [simp]: "http_refused (fst (writeError n e w)) \<longleftrightarrow> 400 \<le> n"
  by (simp add: http_refused_def writeError_def writeJSON_def okE_def)

lemma refused_bindE [simp]: "(\<And>x w. http_refused (fst (f x w))) \<Longrightarrow> http_refused (fst (bindE m f w))"
  by (fastforce simp: bindE_def http_refused_def split: prod.split sum.split sum.split_asm)

abbreviation mediatedH ::
  "Server \<Rightarrow> (tables \<Rightarrow> AuthorizationRequest \<Rightarrow> bool) \<Rightarrow> Response io \<Rightarrow> bool" where
  "mediatedH s A m \<equiv> mediated http_refused (sv_adminIdentity s) A m"

named_theorems med \<open>rules of complete mediation for the handlers\<close>

lemma med_answer:
  assumes "fetches m P" and "400 \<le> n" and "\<And>d x. P d x \<Longrightarrow> P' (core d) x"
    and "\<And>x. mediatedH s (\<lambda>d ar. P' d x \<longrightarrow> A d ar) (k x)"
  shows "mediatedH s A (answerE n m k)"
  unfolding answerE_def
proof (rule mediated_fetch [OF assms(1)])
  show "\<And>x. mediatedH s (\<lambda>d ar. P' d x \<longrightarrow> A d ar) (k x)" by (rule assms(4))
qed (simp_all add: assms(2,3) log_rules)

lemma med_lift [med]:
  assumes "400 \<le> n" and "\<And>x. r = Inr x \<Longrightarrow> mediatedH s A (k x)"
  shows "mediatedH s A (answerE n (liftE r) k)"
proof (cases r)
  case (Inl e)
  then show ?thesis using assms(1)
    by (intro mediatedI) (auto simp: answerE_def eff_simps writeError_def writeJSON_def http_refused_def)
next
  case (Inr x)
  then show ?thesis using assms(2) [OF Inr] by (simp add: answerE_def tryE_def liftE_def bindE_def mediated_def)
qed

lemma med_decode [med]:
  "(\<And>ms. decode fs (rq_Body r) = Inr ms \<Longrightarrow> mediatedH s A (k ms)) \<Longrightarrow> mediatedH s A (decodeBody fs r k)"
  unfolding decodeBody_def by (rule med_lift) simp_all

lemma med_authorize [med]:
  assumes "alone env"
    and "\<And>d. A d (policyAuthorizationRequest (actorFromContext (rq_Actor r)) ns p c r)"
  shows "mediatedH s A (authorize env s r ns p c k)"
  unfolding authorize_def Let_def
  by (rule mediated_check) (auto intro!: log_rules assms)

lemma med_get_lease [med]:
  assumes "alone env"
    and "\<And>x. mediatedH s (\<lambda>d ar. find (\<lambda>r. lease_ID r = i) (leases d) = Some x \<longrightarrow> A d ar) (k x)"
  shows "mediatedH s A (answerE 404 (LeaseService_Get env i) k)"
  by (rule med_answer [OF fetches_Get(1) [OF assms(1)] _ _ assms(2)]) simp_all

lemma med_get_policy [med]:
  assumes "alone env"
    and "\<And>x. mediatedH s (\<lambda>d ar. find (\<lambda>r. pol_Name r = n) (policies d) = Some x \<longrightarrow> A d ar) (k x)"
  shows "mediatedH s A (answerE 404 (PolicyService_Get env n) k)"
  by (rule med_answer [OF fetches_Get(2) [OF assms(1)] _ _ assms(2)]) simp_all

lemma med_get_ca [med]:
  assumes "alone env" and "400 \<le> st"
    and "\<And>x. mediatedH s (\<lambda>d ar. find (\<lambda>r. ca_Name r = n) (pki_cas d) = Some x \<longrightarrow> A d ar) (k x)"
  shows "mediatedH s A (answerE st (PKIService_GetCA env n) k)"
  by (rule med_answer [OF fetches_Get(3) [OF assms(1)] assms(2) _ assms(3)]) simp

lemma med_get_certificate [med]:
  assumes "alone env" and "400 \<le> st"
    and "\<And>x. mediatedH s (\<lambda>d ar. find (\<lambda>r. cert_key r = (ns, sn)) (certificates d) = Some x \<longrightarrow> A d ar) (k x)"
  shows "mediatedH s A (answerE st (PKIService_GetCertificate env ns sn) k)"
  by (rule med_answer [OF fetches_Get(4) [OF assms(1)] assms(2) _ assms(3)]) simp

end
