(* ===== verification/HTTP_Handlers.thy ===== *)
theory HTTP_Handlers
  imports HTTP_Core
begin

text \<open>
  The handlers of namespaces, secrets, leases, policies and the audit log
  (\<open>api/http/namespaces.go\<close>, \<open>secrets.go\<close>, \<open>leases.go\<close>, \<open>policies.go\<close>,
  \<open>audit_handlers.go\<close>). The values that the pattern of a route binds are arguments.
\<close>

section \<open>Namespaces\<close>

definition createNamespace :: "env \<Rightarrow> Server \<Rightarrow> Request \<Rightarrow> Response io" where
  "createNamespace env s r =
     decodeBody [(''name'', KText), (''description'', KText)] r (\<lambda>req.
     authorize env s r (text_of ''name'' req) ''/'' CapabilityCreate (
     answerE 400 (SecretService_CreateNamespace env (text_of ''name'' req) (text_of ''description'' req)) (\<lambda>ns.
     finish env s r (ns_Name ns) ''/'' ''namespace.create'' (Some [(''namespace'', ns_Name ns)]) 201 (PNamespace ns))))"

definition listNamespaces :: "env \<Rightarrow> Server \<Rightarrow> Request \<Rightarrow> Response io" where
  "listNamespaces env s r =
     authorize env s r ''*'' ''/'' CapabilityList (
     answerE 500 (SecretService_ListNamespaces env) (\<lambda>namespaces.
     finish env s r ''*'' ''/'' ''namespace.list'' (Some [(''count'', itoa (int (length namespaces)))]) 200
       (PNamespaces namespaces)))"

section \<open>Secrets\<close>

definition version_metadata :: "VersionMetadata \<Rightarrow> smap option" where
  "version_metadata m = Some [(''version'', Itoa (vm_Version m))]"

definition createSecret :: "env \<Rightarrow> Server \<Rightarrow> Request \<Rightarrow> string \<Rightarrow> Response io" where
  "createSecret env s r namespace =
     decodeBody [(''path'', KText), (''type'', KText), (''value'', KText)] r (\<lambda>req.
     let path = cleanWildcardPath (text_of ''path'' req) in
     authorize env s r namespace path CapabilityCreate (
     answerE 400 (SecretService_PutSecret env (sv_secret s)
       \<lparr>psi_Namespace = namespace, psi_Path = path, psi_Type = text_of ''type'' req,
        psi_Value = text_of ''value'' req\<rparr>) (\<lambda>metadata.
     finish env s r namespace path ''secret.create'' (version_metadata metadata) 201 (PVersion metadata))))"

definition listSecrets :: "env \<Rightarrow> Server \<Rightarrow> Request \<Rightarrow> string \<Rightarrow> Response io" where
  "listSecrets env s r namespace =
     authorize env s r namespace ''/'' CapabilityList (
     answerE 500 (SecretService_ListSecrets env namespace) (\<lambda>secrets.
     finish env s r namespace ''/'' ''secret.list'' (Some [(''count'', itoa (int (length secrets)))]) 200
       (PSecrets secrets)))"

definition getSecret :: "env \<Rightarrow> Server \<Rightarrow> Request \<Rightarrow> string \<Rightarrow> string \<Rightarrow> Response io" where
  "getSecret env s r namespace path0 =
     (let path = cleanWildcardPath path0 in
      authorize env s r namespace path CapabilityRead (
      answerE 404 (SecretService_GetSecret env (sv_secret s) namespace path (queryVersion r)) (\<lambda>(plaintext, metadata).
      finish env s r namespace path ''secret.read'' (version_metadata metadata) 200
        (PSecretValue plaintext (vm_Version metadata) (vm_State metadata)))))"

definition putSecret :: "env \<Rightarrow> Server \<Rightarrow> Request \<Rightarrow> string \<Rightarrow> string \<Rightarrow> Response io" where
  "putSecret env s r namespace path0 =
     (let path = cleanWildcardPath path0 in
      decodeBody [(''type'', KText), (''value'', KText)] r (\<lambda>req.
      authorize env s r namespace path CapabilityUpdate (
      answerE 400 (SecretService_PutSecret env (sv_secret s)
        \<lparr>psi_Namespace = namespace, psi_Path = path, psi_Type = text_of ''type'' req,
         psi_Value = text_of ''value'' req\<rparr>) (\<lambda>metadata.
      finish env s r namespace path ''secret.update'' (version_metadata metadata) 200 (PVersion metadata)))))"

definition listVersions :: "env \<Rightarrow> Server \<Rightarrow> Request \<Rightarrow> string \<Rightarrow> string \<Rightarrow> Response io" where
  "listVersions env s r namespace path0 =
     (let path = cleanWildcardPath path0 in
      authorize env s r namespace path CapabilityRead (
      answerE 404 (SecretService_ListVersions env namespace path) (\<lambda>versions.
      finish env s r namespace path ''secret.versions.list'' (Some [(''count'', itoa (int (length versions)))]) 200
        (PVersions versions))))"

definition softDeleteVersion :: "env \<Rightarrow> Server \<Rightarrow> Request \<Rightarrow> string \<Rightarrow> string \<Rightarrow> Response io" where
  "softDeleteVersion env s r namespace path0 =
     (let path = cleanWildcardPath path0 in
      authorize env s r namespace path CapabilityDelete (
      answerE 400 (SecretService_SoftDeleteVersion env (sv_secret s) namespace path (queryVersion r)) (\<lambda>metadata.
      finish env s r namespace path ''secret.version.delete'' (version_metadata metadata) 200 (PVersion metadata))))"

definition restoreVersion :: "env \<Rightarrow> Server \<Rightarrow> Request \<Rightarrow> string \<Rightarrow> string \<Rightarrow> Response io" where
  "restoreVersion env s r namespace path0 =
     (let path = cleanWildcardPath path0 in
      authorize env s r namespace path CapabilityUpdate (
      answerE 400 (SecretService_RestoreVersion env namespace path (queryVersion r)) (\<lambda>metadata.
      finish env s r namespace path ''secret.version.restore'' (version_metadata metadata) 200 (PVersion metadata))))"

definition destroyVersion :: "env \<Rightarrow> Server \<Rightarrow> Request \<Rightarrow> string \<Rightarrow> string \<Rightarrow> Response io" where
  "destroyVersion env s r namespace path0 =
     (let path = cleanWildcardPath path0 in
      authorize env s r namespace path CapabilityDelete (
      let version = queryVersion r in
      answerE 400 (SecretService_DestroyVersion env namespace path version) (\<lambda>_.
      finish env s r namespace path ''secret.version.destroy'' (Some [(''version'', Itoa version)]) 200
        (PFlag ''destroyed'' True))))"

definition rollbackVersion :: "env \<Rightarrow> Server \<Rightarrow> Request \<Rightarrow> string \<Rightarrow> string \<Rightarrow> Response io" where
  "rollbackVersion env s r namespace path0 =
     (let path = cleanWildcardPath path0 in
      authorize env s r namespace path CapabilityUpdate (
      answerE 400 (SecretService_Rollback env namespace path (queryVersion r)) (\<lambda>metadata.
      finish env s r namespace path ''secret.version.rollback'' (version_metadata metadata) 200 (PVersion metadata))))"

section \<open>Leases\<close>

definition lease_metadata :: "Server \<Rightarrow> Lease \<Rightarrow> smap option" where
  "lease_metadata s lease = Some [(''lease_id'', sv_UUIDString s (lease_ID lease))]"

definition createLease :: "env \<Rightarrow> Server \<Rightarrow> Request \<Rightarrow> Response io" where
  "createLease env s r =
     decodeBody [(''namespace'', KText), (''path'', KText), (''ttl'', KText), (''renewable'', KBool),
                 (''metadata'', KTextMap)] r (\<lambda>req.
     let path = cleanWildcardPath (text_of ''path'' req);
         ttl = duration_or_zero (text_of ''ttl'' req) in
     authorize env s r (text_of ''namespace'' req) path CapabilityCreate (
     answerE 400 (LeaseService_Create env (sv_lease s)
       \<lparr>cli_Namespace = text_of ''namespace'' req, cli_Path = path, cli_TTL = ttl,
        cli_Renewable = bool_of_field ''renewable'' req, cli_Metadata = map_of_field ''metadata'' req\<rparr>) (\<lambda>lease.
     bindE (gaugeE 1) (\<lambda>_.
     finish env s r (text_of ''namespace'' req) path ''lease.create'' (lease_metadata s lease) 201 (PLease lease)))))"

definition getLease :: "env \<Rightarrow> Server \<Rightarrow> Request \<Rightarrow> string \<Rightarrow> Response io" where
  "getLease env s r idText =
     answerE 400 (liftE (sv_ParseUUID s idText)) (\<lambda>i.
     answerE 404 (LeaseService_Get env i) (\<lambda>lease.
     authorize env s r (lease_Namespace lease) (lease_Path lease) CapabilityRead (
     finish env s r (lease_Namespace lease) (lease_Path lease) ''lease.read'' (lease_metadata s lease) 200
       (PLease lease))))"

definition renewLease :: "env \<Rightarrow> Server \<Rightarrow> Request \<Rightarrow> string \<Rightarrow> Response io" where
  "renewLease env s r idText =
     answerE 400 (liftE (sv_ParseUUID s idText)) (\<lambda>i.
     answerE 404 (LeaseService_Get env i) (\<lambda>lease.
     authorize env s r (lease_Namespace lease) (lease_Path lease) CapabilityUpdate (
     let req = fst (decodeJSON [(''ttl'', KText)] (rq_Body r));
         ttl = duration_or_zero (text_of ''ttl'' req) in
     answerE 400 (LeaseService_Renew env (sv_lease s) i ttl) (\<lambda>renewed.
     finish env s r (lease_Namespace renewed) (lease_Path renewed) ''lease.renew'' (lease_metadata s renewed) 200
       (PLease renewed)))))"

definition revokeLease :: "env \<Rightarrow> Server \<Rightarrow> Request \<Rightarrow> string \<Rightarrow> Response io" where
  "revokeLease env s r idText =
     answerE 400 (liftE (sv_ParseUUID s idText)) (\<lambda>i.
     answerE 404 (LeaseService_Get env i) (\<lambda>lease.
     authorize env s r (lease_Namespace lease) (lease_Path lease) CapabilityDelete (
     answerE 400 (LeaseService_Revoke env i) (\<lambda>revoked.
     bindE (gaugeE (- 1)) (\<lambda>_.
     finish env s r (lease_Namespace revoked) (lease_Path revoked) ''lease.revoke'' (lease_metadata s revoked) 200
       (PLease revoked))))))"

section \<open>Policies\<close>

text \<open>The loop over the capabilities of the body.\<close>

fun validate_capabilities :: "string list \<Rightarrow> err + Capability list" where
  "validate_capabilities [] = Inr []"
| "validate_capabilities (c # cs) =
     (case ValidateCapability c of
        Inl e \<Rightarrow> Inl e
      | Inr x \<Rightarrow> (case validate_capabilities cs of Inl e \<Rightarrow> Inl e | Inr xs \<Rightarrow> Inr (x # xs)))"

definition createPolicy :: "env \<Rightarrow> Server \<Rightarrow> Request \<Rightarrow> Response io" where
  "createPolicy env s r =
     decodeBody [(''name'', KText), (''namespace'', KText), (''path_prefix'', KText), (''identity'', KText),
                 (''capabilities'', KTexts), (''conditions'', KTextMap)] r (\<lambda>req.
     authorize env s r (text_of ''namespace'' req) ''/'' CapabilityCreate (
     answerE 400 (liftE (validate_capabilities (texts_of ''capabilities'' req))) (\<lambda>caps.
     answerE 400 (PolicyService_Create env
       \<lparr>cpi_Name = text_of ''name'' req, cpi_Namespace = text_of ''namespace'' req,
        cpi_PathPrefix = cleanWildcardPath (text_of ''path_prefix'' req), cpi_Identity = text_of ''identity'' req,
        cpi_Capabilities = caps, cpi_Conditions = map_of_field ''conditions'' req\<rparr>) (\<lambda>policy.
     finish env s r (text_of ''namespace'' req) ''/'' ''policy.create'' (Some [(''policy'', pol_Name policy)]) 201
       (PPolicy policy)))))"

text \<open>The namespace a listing is for: \<open>*\<close> when the query names none.\<close>

definition queryNamespace :: "Request \<Rightarrow> string" where
  "queryNamespace r = (let namespace = rq_Query r ''namespace'' in if namespace = [] then ''*'' else namespace)"

definition listPolicies :: "env \<Rightarrow> Server \<Rightarrow> Request \<Rightarrow> Response io" where
  "listPolicies env s r =
     (let namespace = queryNamespace r in
      authorize env s r namespace ''/'' CapabilityList (
      answerE 400 (PolicyService_List env namespace) (\<lambda>policies.
      finish env s r namespace ''/'' ''policy.list'' (Some [(''count'', itoa (int (length policies)))]) 200
        (PPolicies policies))))"

definition getPolicy :: "env \<Rightarrow> Server \<Rightarrow> Request \<Rightarrow> string \<Rightarrow> Response io" where
  "getPolicy env s r name =
     answerE 404 (PolicyService_Get env name) (\<lambda>policy.
     authorize env s r (pol_Namespace policy) ''/'' CapabilityRead (
     finish env s r (pol_Namespace policy) ''/'' ''policy.read'' (Some [(''policy'', pol_Name policy)]) 200
       (PPolicy policy)))"

definition deletePolicy :: "env \<Rightarrow> Server \<Rightarrow> Request \<Rightarrow> string \<Rightarrow> Response io" where
  "deletePolicy env s r name =
     answerE 404 (PolicyService_Get env name) (\<lambda>policy.
     authorize env s r (pol_Namespace policy) ''/'' CapabilityDelete (
     answerE 400 (PolicyService_Delete env name) (\<lambda>_.
     finish env s r (pol_Namespace policy) ''/'' ''policy.delete'' (Some [(''policy'', pol_Name policy)]) 200
       (PFlag ''deleted'' True))))"

section \<open>The audit log\<close>

text \<open>A server without an audit service panics on the two handlers that use it, and recovers.\<close>

definition listAudit :: "env \<Rightarrow> Server \<Rightarrow> Request \<Rightarrow> Response io" where
  "listAudit env s r =
     (let namespace = rq_Query r ''namespace'' in
      authorize env s r namespace ''/'' CapabilityList (
      case sv_audit s of
        None \<Rightarrow> writeError 500 errInternal
      | Some _ \<Rightarrow>
          answerE 500 (AuditService_List env
            \<lparr>lf_Namespace = namespace, lf_Path = rq_Query r ''path'', lf_Actor = rq_Query r ''actor'',
             lf_Action = rq_Query r ''action'', lf_Limit = int64_or_zero (rq_Query r ''limit'')\<rparr>) (\<lambda>events.
          finish env s r namespace ''/'' ''audit.list'' (Some [(''count'', itoa (int (length events)))]) 200
            (PEvents events))))"

definition verifyAudit :: "env \<Rightarrow> Server \<Rightarrow> Request \<Rightarrow> Response io" where
  "verifyAudit env s r =
     authorize env s r ''*'' ''/'' CapabilityRead (
     case sv_audit s of
       None \<Rightarrow> writeError 500 errInternal
     | Some cs \<Rightarrow>
         answerE 500 (AuditService_Verify env cs) (\<lambda>(ok, count).
         finish env s r ''*'' ''/'' ''audit.verify'' (Some [(''events'', itoa (int count))]) 200
           (PVerified ok count)))"

end
