(* ===== verification/HTTP_PKI.thy ===== *)
theory HTTP_PKI
  imports HTTP_Handlers
begin

text \<open>
  The handlers of the PKI (\<open>api/http/pki_handlers.go\<close>) and of the crypto service
  (\<open>api/http/crypto_handlers.go\<close>). Binary values cross the interface as base64 text.
\<close>

section \<open>Authorities\<close>

definition createRootCA :: "env \<Rightarrow> Server \<Rightarrow> Request \<Rightarrow> Response io" where
  "createRootCA env s r =
     decodeBody [(''name'', KText), (''namespace'', KText), (''common_name'', KText), (''ttl'', KText),
                 (''max_path_len'', KInt), (''dns_domains'', KTexts)] r (\<lambda>req.
     authorize env s r (text_of ''namespace'' req) ''/'' CapabilityCreate (
     answerE 400 (PKIService_CreateRoot env (sv_pki s)
       \<lparr>cci_Name = text_of ''name'' req, cci_Namespace = text_of ''namespace'' req, cci_Type = CATypeOther [],
        cci_ParentName = [], cci_CommonName = text_of ''common_name'' req,
        cci_TTL = duration_or_zero (text_of ''ttl'' req), cci_MaxPathLen = int_of_field ''max_path_len'' req,
        cci_DNSDomains = texts_of ''dns_domains'' req\<rparr>) (\<lambda>ca.
     finish env s r (text_of ''namespace'' req) ''/'' ''pki.ca.root.create'' (Some [(''ca'', ca_Name ca)]) 201 (PCA ca))))"

definition createIntermediateCA :: "env \<Rightarrow> Server \<Rightarrow> Request \<Rightarrow> Response io" where
  "createIntermediateCA env s r =
     decodeBody [(''name'', KText), (''namespace'', KText), (''parent_name'', KText), (''common_name'', KText),
                 (''ttl'', KText), (''max_path_len'', KInt), (''dns_domains'', KTexts)] r (\<lambda>req.
     authorize env s r (text_of ''namespace'' req) ''/'' CapabilityCreate (
     answerE 400 (PKIService_CreateIntermediate env (sv_pki s)
       \<lparr>cci_Name = text_of ''name'' req, cci_Namespace = text_of ''namespace'' req, cci_Type = CATypeOther [],
        cci_ParentName = text_of ''parent_name'' req, cci_CommonName = text_of ''common_name'' req,
        cci_TTL = duration_or_zero (text_of ''ttl'' req), cci_MaxPathLen = int_of_field ''max_path_len'' req,
        cci_DNSDomains = texts_of ''dns_domains'' req\<rparr>) (\<lambda>ca.
     finish env s r (text_of ''namespace'' req) ''/'' ''pki.ca.intermediate.create'' (Some [(''ca'', ca_Name ca)]) 201
       (PCA ca))))"

definition listCAs :: "env \<Rightarrow> Server \<Rightarrow> Request \<Rightarrow> Response io" where
  "listCAs env s r =
     (let namespace = queryNamespace r in
      authorize env s r namespace ''/'' CapabilityList (
      answerE 400 (PKIService_ListCAs env namespace) (\<lambda>cas.
      finish env s r namespace ''/'' ''pki.ca.list'' (Some [(''count'', itoa (int (length cas)))]) 200 (PCAs cas))))"

definition getCA :: "env \<Rightarrow> Server \<Rightarrow> Request \<Rightarrow> string \<Rightarrow> Response io" where
  "getCA env s r name =
     answerE 404 (PKIService_GetCA env name) (\<lambda>ca.
     authorize env s r (ca_Namespace ca) ''/'' CapabilityRead (
     finish env s r (ca_Namespace ca) ''/'' ''pki.ca.read'' (Some [(''ca'', ca_Name ca)]) 200 (PCA ca)))"

definition getCRL :: "env \<Rightarrow> Server \<Rightarrow> Request \<Rightarrow> string \<Rightarrow> Response io" where
  "getCRL env s r name =
     answerE 404 (PKIService_GetCA env name) (\<lambda>ca.
     authorize env s r (ca_Namespace ca) ''/'' CapabilityRead (
     answerE 400 (PKIService_CRL env (sv_pki s) name) (\<lambda>crl.
     finish env s r (ca_Namespace ca) ''/'' ''pki.crl.read'' (Some [(''ca'', name)]) 200 (PTexts [(''crl'', crl)]))))"

definition getOCSP :: "env \<Rightarrow> Server \<Rightarrow> Request \<Rightarrow> string \<Rightarrow> string \<Rightarrow> Response io" where
  "getOCSP env s r name serial =
     answerE 404 (PKIService_GetCA env name) (\<lambda>ca.
     authorize env s r (ca_Namespace ca) ''/'' CapabilityRead (
     answerE 400 (PKIService_OCSP env (sv_pki s) name serial) (\<lambda>ocspResponse.
     finish env s r (ca_Namespace ca) ''/'' ''pki.ocsp.read'' (Some [(''ca'', name), (''serial'', serial)]) 200
       (PTexts [(''ocsp_response'', ocspResponse)]))))"

section \<open>Certificates\<close>

definition issueCertificate :: "env \<Rightarrow> Server \<Rightarrow> Request \<Rightarrow> Response io" where
  "issueCertificate env s r =
     decodeBody [(''ca_name'', KText), (''common_name'', KText), (''dns_names'', KTexts), (''ttl'', KText)] r (\<lambda>req.
     answerE 400 (PKIService_GetCA env (text_of ''ca_name'' req)) (\<lambda>ca.
     authorize env s r (ca_Namespace ca) ''/'' CapabilityCreate (
     answerE 400 (PKIService_Issue env (sv_pki s)
       \<lparr>ii_CAName = text_of ''ca_name'' req, ii_CommonName = text_of ''common_name'' req,
        ii_DNSNames = texts_of ''dns_names'' req, ii_TTL = duration_or_zero (text_of ''ttl'' req)\<rparr>) (\<lambda>cert.
     finish env s r (cert_Namespace cert) ''/'' ''pki.certificate.issue'' (Some [(''serial'', cert_SerialNumber cert)])
       201 (PCertificate cert)))))"

definition renewCertificate :: "env \<Rightarrow> Server \<Rightarrow> Request \<Rightarrow> Response io" where
  "renewCertificate env s r =
     decodeBody [(''serial_number'', KText), (''ttl'', KText)] r (\<lambda>req.
     answerE 400 (PKIService_GetCertificate env (rq_Query r ''namespace'') (text_of ''serial_number'' req)) (\<lambda>cert.
     authorize env s r (cert_Namespace cert) ''/'' CapabilityUpdate (
     answerE 400 (PKIService_Renew env (sv_pki s)
       \<lparr>rni_SerialNumber = text_of ''serial_number'' req, rni_TTL = duration_or_zero (text_of ''ttl'' req)\<rparr>) (\<lambda>renewed.
     finish env s r (cert_Namespace renewed) ''/'' ''pki.certificate.renew''
       (Some [(''serial'', cert_SerialNumber renewed)]) 200 (PCertificate renewed)))))"

definition revokeCertificate :: "env \<Rightarrow> Server \<Rightarrow> Request \<Rightarrow> Response io" where
  "revokeCertificate env s r =
     decodeBody [(''serial_number'', KText), (''reason'', KText)] r (\<lambda>req.
     answerE 400 (PKIService_GetCertificate env (rq_Query r ''namespace'') (text_of ''serial_number'' req)) (\<lambda>cert.
     authorize env s r (cert_Namespace cert) ''/'' CapabilityDelete (
     answerE 400 (PKIService_Revoke env
       \<lparr>rvi_SerialNumber = text_of ''serial_number'' req, rvi_Reason = text_of ''reason'' req\<rparr>) (\<lambda>revocation.
     finish env s r (cert_Namespace cert) ''/'' ''pki.certificate.revoke''
       (Some [(''serial'', text_of ''serial_number'' req), (''reason'', text_of ''reason'' req)]) 200
       (PRevocation revocation)))))"

definition listCertificates :: "env \<Rightarrow> Server \<Rightarrow> Request \<Rightarrow> Response io" where
  "listCertificates env s r =
     (let namespace = queryNamespace r in
      authorize env s r namespace ''/'' CapabilityList (
      answerE 400 (PKIService_ListCertificates env namespace) (\<lambda>certs.
      finish env s r namespace ''/'' ''pki.certificate.list'' (Some [(''count'', itoa (int (length certs)))]) 200
        (PCertificates certs))))"

definition getCertificate :: "env \<Rightarrow> Server \<Rightarrow> Request \<Rightarrow> string \<Rightarrow> Response io" where
  "getCertificate env s r serial =
     answerE 404 (PKIService_GetCertificate env (rq_Query r ''namespace'') serial) (\<lambda>cert.
     authorize env s r (cert_Namespace cert) ''/'' CapabilityRead (
     finish env s r (cert_Namespace cert) ''/'' ''pki.certificate.read'' (Some [(''serial'', serial)]) 200
       (PCertificate cert)))"

section \<open>The crypto service\<close>

definition cryptoEncrypt :: "env \<Rightarrow> Server \<Rightarrow> Request \<Rightarrow> Response io" where
  "cryptoEncrypt env s r =
     authorize env s r ''*'' ''/crypto'' CapabilityCreate (
     decodeBody [(''plaintext'', KText)] r (\<lambda>req.
     answerE 400 (CryptoService_Encrypt (sv_crypto s) (text_of ''plaintext'' req)) (\<lambda>ciphertext.
     finish env s r ''*'' ''/crypto'' ''crypto.encrypt'' None 200
       (PTexts [(''ciphertext'', b64_encode (ct_Data ciphertext)), (''key_version'', ct_KeyVersion ciphertext)]))))"

definition cryptoDecrypt :: "env \<Rightarrow> Server \<Rightarrow> Request \<Rightarrow> Response io" where
  "cryptoDecrypt env s r =
     authorize env s r ''*'' ''/crypto'' CapabilityRead (
     decodeBody [(''ciphertext'', KText), (''key_version'', KText)] r (\<lambda>req.
     answerE 400 (liftE (b64_decode (text_of ''ciphertext'' req))) (\<lambda>data.
     answerE 400 (liftE (CryptoService_Decrypt (sv_crypto s)
       \<lparr>ct_Data = data, ct_KeyVersion = text_of ''key_version'' req\<rparr>)) (\<lambda>plaintext.
     finish env s r ''*'' ''/crypto'' ''crypto.decrypt'' None 200 (PTexts [(''plaintext'', plaintext)])))))"

definition cryptoSign :: "env \<Rightarrow> Server \<Rightarrow> Request \<Rightarrow> Response io" where
  "cryptoSign env s r =
     authorize env s r ''*'' ''/crypto'' CapabilityUpdate (
     decodeBody [(''data'', KText)] r (\<lambda>req.
     answerE 400 (liftE (CryptoService_Sign (sv_crypto s) (text_of ''data'' req))) (\<lambda>sig.
     finish env s r ''*'' ''/crypto'' ''crypto.sign'' None 200
       (PTexts [(''signature'', b64_encode (sig_Signature sig)), (''algorithm'', sig_Algorithm sig)]))))"

definition cryptoVerify :: "env \<Rightarrow> Server \<Rightarrow> Request \<Rightarrow> Response io" where
  "cryptoVerify env s r =
     authorize env s r ''*'' ''/crypto'' CapabilityRead (
     decodeBody [(''data'', KText), (''signature'', KText), (''algorithm'', KText)] r (\<lambda>req.
     answerE 400 (liftE (b64_decode (text_of ''signature'' req))) (\<lambda>sig.
     answerE 400 (liftE (CryptoService_Verify (sv_crypto s) (text_of ''data'' req)
       \<lparr>sig_Signature = sig, sig_Algorithm = text_of ''algorithm'' req\<rparr>)) (\<lambda>ok.
     finish env s r ''*'' ''/crypto'' ''crypto.verify'' None 200 (PFlag ''valid'' ok)))))"

definition cryptoDerive :: "env \<Rightarrow> Server \<Rightarrow> Request \<Rightarrow> Response io" where
  "cryptoDerive env s r =
     authorize env s r ''*'' ''/crypto'' CapabilityCreate (
     decodeBody [(''material'', KText), (''salt'', KText), (''length'', KInt)] r (\<lambda>req.
     answerE 400 (liftE (CryptoService_DeriveKey (sv_crypto s) (text_of ''material'' req) (text_of ''salt'' req)
       (int_of_field ''length'' req))) (\<lambda>derived.
     finish env s r ''*'' ''/crypto'' ''crypto.derive'' None 200 (PTexts [(''derived'', b64_encode derived)]))))"

definition cryptoRandom :: "env \<Rightarrow> Server \<Rightarrow> Request \<Rightarrow> Response io" where
  "cryptoRandom env s r =
     authorize env s r ''*'' ''/crypto'' CapabilityRead (
     decodeBody [(''length'', KInt)] r (\<lambda>req.
     answerE 400 (CryptoService_Random (sv_crypto s) (int_of_field ''length'' req)) (\<lambda>random.
     finish env s r ''*'' ''/crypto'' ''crypto.random'' None 200 (PTexts [(''random'', b64_encode random)]))))"

end
