(* ===== verification/HTTP_Server.thy ===== *)
theory HTTP_Server
  imports HTTP_PKI
begin

text \<open>
  The HTTP server as a whole: the routes the handlers are registered for, authentication,
  and what each route demands of the policies. \<open>route\<close> is what \<open>http.ServeMux\<close> does with
  the registered patterns: a pattern for GET also serves HEAD, a wildcard in braces binds
  one segment that is not empty, a final wildcard with dots binds the rest of the path.
\<close>

section \<open>Routes\<close>

datatype Route =
    R_Health | R_Ready | R_Metrics
  | R_CreateNamespace | R_ListNamespaces
  | R_CreateSecret string | R_ListSecrets string
  | R_GetSecret string string | R_PutSecret string string | R_ListVersions string string
  | R_SoftDelete string string | R_Restore string string | R_Destroy string string | R_Rollback string string
  | R_CreateLease | R_GetLease string | R_RenewLease string | R_RevokeLease string
  | R_CreatePolicy | R_ListPolicies | R_GetPolicy string | R_DeletePolicy string
  | R_ListAudit | R_VerifyAudit
  | R_CreateRootCA | R_CreateIntermediateCA | R_ListCAs | R_GetCA string | R_GetCRL string | R_GetOCSP string string
  | R_Issue | R_Renew | R_Revoke | R_ListCertificates | R_GetCertificate string
  | R_Encrypt | R_Decrypt | R_Sign | R_Verify | R_Derive | R_Random

definition is_get :: "string \<Rightarrow> bool" where
  "is_get m \<longleftrightarrow> m = ''GET'' \<or> m = ''HEAD''"

definition rest_path :: "string list \<Rightarrow> string" where
  "rest_path segs = join CHR ''/'' segs"

definition on :: "bool \<Rightarrow> Route \<Rightarrow> Route option" where
  "on c rt = (if c then Some rt else None)"

definition route_namespaces :: "string \<Rightarrow> string list \<Rightarrow> Route option" where
  "route_namespaces m segs = (case segs of
     [] \<Rightarrow> if m = ''POST'' then Some R_CreateNamespace else on (is_get m) R_ListNamespaces
   | [ns, t] \<Rightarrow>
       if ns \<noteq> [] \<and> t = ''secrets''
       then if m = ''POST'' then Some (R_CreateSecret ns) else on (is_get m) (R_ListSecrets ns) else None
   | _ \<Rightarrow> None)"

definition route_secrets :: "string \<Rightarrow> string list \<Rightarrow> Route option" where
  "route_secrets m segs = (case segs of
     ns # p # ps \<Rightarrow>
       if ns = [] then None
       else if m = ''PUT'' then Some (R_PutSecret ns (rest_path (p # ps)))
       else on (is_get m) (R_GetSecret ns (rest_path (p # ps)))
   | _ \<Rightarrow> None)"

definition route_versions :: "string \<Rightarrow> string list \<Rightarrow> Route option" where
  "route_versions m segs = (case segs of
     ns # p # ps \<Rightarrow>
       if ns = [] then None
       else if is_get m then Some (R_ListVersions ns (rest_path (p # ps)))
       else if ps = [] then None
       else if m = ''DELETE'' then on (p = ''delete'') (R_SoftDelete ns (rest_path ps))
       else if m = ''POST'' then
         (if p = ''restore'' then Some (R_Restore ns (rest_path ps))
          else if p = ''destroy'' then Some (R_Destroy ns (rest_path ps))
          else on (p = ''rollback'') (R_Rollback ns (rest_path ps)))
       else None
   | _ \<Rightarrow> None)"

definition route_leases :: "string \<Rightarrow> string list \<Rightarrow> Route option" where
  "route_leases m segs = (case segs of
     [] \<Rightarrow> on (m = ''POST'') R_CreateLease
   | [i] \<Rightarrow> on (is_get m \<and> i \<noteq> []) (R_GetLease i)
   | [i, t] \<Rightarrow>
       if m = ''POST'' \<and> i \<noteq> []
       then if t = ''renew'' then Some (R_RenewLease i) else on (t = ''revoke'') (R_RevokeLease i) else None
   | _ \<Rightarrow> None)"

definition route_policies :: "string \<Rightarrow> string list \<Rightarrow> Route option" where
  "route_policies m segs = (case segs of
     [] \<Rightarrow> if m = ''POST'' then Some R_CreatePolicy else on (is_get m) R_ListPolicies
   | [n] \<Rightarrow> if n = [] then None else if m = ''DELETE'' then Some (R_DeletePolicy n) else on (is_get m) (R_GetPolicy n)
   | _ \<Rightarrow> None)"

definition route_audit :: "string \<Rightarrow> string list \<Rightarrow> Route option" where
  "route_audit m segs = (case segs of
     [] \<Rightarrow> on (is_get m) R_ListAudit
   | [t] \<Rightarrow> on (is_get m \<and> t = ''verify'') R_VerifyAudit
   | _ \<Rightarrow> None)"

definition route_cas :: "string \<Rightarrow> string list \<Rightarrow> Route option" where
  "route_cas m segs = (case segs of
     [] \<Rightarrow> on (is_get m) R_ListCAs
   | [n] \<Rightarrow>
       if m = ''POST'' then
         (if n = ''root'' then Some R_CreateRootCA else on (n = ''intermediate'') R_CreateIntermediateCA)
       else on (is_get m \<and> n \<noteq> []) (R_GetCA n)
   | [n, t] \<Rightarrow> on (is_get m \<and> n \<noteq> [] \<and> t = ''crl'') (R_GetCRL n)
   | [n, t, k] \<Rightarrow> on (is_get m \<and> n \<noteq> [] \<and> t = ''ocsp'' \<and> k \<noteq> []) (R_GetOCSP n k)
   | _ \<Rightarrow> None)"

definition route_pki :: "string \<Rightarrow> string list \<Rightarrow> Route option" where
  "route_pki m segs = (case segs of
     t # ts \<Rightarrow>
       if t = ''cas'' then route_cas m ts
       else if t = ''certificates'' then
         (case ts of [] \<Rightarrow> on (is_get m) R_ListCertificates
          | [k] \<Rightarrow> on (is_get m \<and> k \<noteq> []) (R_GetCertificate k) | _ \<Rightarrow> None)
       else if ts = [] \<and> m = ''POST'' then
         (if t = ''issue'' then Some R_Issue else if t = ''renew'' then Some R_Renew else on (t = ''revoke'') R_Revoke)
       else None
   | _ \<Rightarrow> None)"

definition route_crypto :: "string \<Rightarrow> string list \<Rightarrow> Route option" where
  "route_crypto m segs =
     (if m \<noteq> ''POST'' then None
      else map_of [([''encrypt''], R_Encrypt), ([''decrypt''], R_Decrypt), ([''sign''], R_Sign),
                   ([''verify''], R_Verify), ([''derive''], R_Derive), ([''random''], R_Random)] segs)"

definition route :: "string \<Rightarrow> string list \<Rightarrow> Route option" where
  "route m path = (case path of
     [t] \<Rightarrow>
       if t = ''healthz'' then on (is_get m) R_Health
       else if t = ''readyz'' then on (is_get m) R_Ready
       else on (is_get m \<and> t = ''metrics'') R_Metrics
   | v # t # segs \<Rightarrow>
       if v \<noteq> ''v1'' then None
       else if t = ''namespaces'' then route_namespaces m segs
       else if t = ''secrets'' then route_secrets m segs
       else if t = ''versions'' then route_versions m segs
       else if t = ''leases'' then route_leases m segs
       else if t = ''policies'' then route_policies m segs
       else if t = ''audit'' then route_audit m segs
       else if t = ''pki'' then route_pki m segs
       else if t = ''crypto'' then route_crypto m segs
       else None
   | _ \<Rightarrow> None)"

section \<open>The handlers of the routes\<close>

definition handleHealth :: "Response io" where
  "handleHealth = writeJSON 200 (PTexts [(''status'', ''ok'')])"

text \<open>The uptime is written as the text of the duration.\<close>

definition handleReady :: "env \<Rightarrow> Server \<Rightarrow> Response io" where
  "handleReady env s = bindE (nowE env) (\<lambda>now. writeJSON 200 (PReady (now - sv_startedAt s)))"

fun handle :: "env \<Rightarrow> Server \<Rightarrow> Request \<Rightarrow> Route \<Rightarrow> Response io" where
  "handle env s r R_Health = handleHealth"
| "handle env s r R_Ready = handleReady env s"
| "handle env s r R_Metrics = writeJSON 200 PMetrics"
| "handle env s r R_CreateNamespace = createNamespace env s r"
| "handle env s r R_ListNamespaces = listNamespaces env s r"
| "handle env s r (R_CreateSecret ns) = createSecret env s r ns"
| "handle env s r (R_ListSecrets ns) = listSecrets env s r ns"
| "handle env s r (R_GetSecret ns p) = getSecret env s r ns p"
| "handle env s r (R_PutSecret ns p) = putSecret env s r ns p"
| "handle env s r (R_ListVersions ns p) = listVersions env s r ns p"
| "handle env s r (R_SoftDelete ns p) = softDeleteVersion env s r ns p"
| "handle env s r (R_Restore ns p) = restoreVersion env s r ns p"
| "handle env s r (R_Destroy ns p) = destroyVersion env s r ns p"
| "handle env s r (R_Rollback ns p) = rollbackVersion env s r ns p"
| "handle env s r R_CreateLease = createLease env s r"
| "handle env s r (R_GetLease i) = getLease env s r i"
| "handle env s r (R_RenewLease i) = renewLease env s r i"
| "handle env s r (R_RevokeLease i) = revokeLease env s r i"
| "handle env s r R_CreatePolicy = createPolicy env s r"
| "handle env s r R_ListPolicies = listPolicies env s r"
| "handle env s r (R_GetPolicy n) = getPolicy env s r n"
| "handle env s r (R_DeletePolicy n) = deletePolicy env s r n"
| "handle env s r R_ListAudit = listAudit env s r"
| "handle env s r R_VerifyAudit = verifyAudit env s r"
| "handle env s r R_CreateRootCA = createRootCA env s r"
| "handle env s r R_CreateIntermediateCA = createIntermediateCA env s r"
| "handle env s r R_ListCAs = listCAs env s r"
| "handle env s r (R_GetCA n) = getCA env s r n"
| "handle env s r (R_GetCRL n) = getCRL env s r n"
| "handle env s r (R_GetOCSP n k) = getOCSP env s r n k"
| "handle env s r R_Issue = issueCertificate env s r"
| "handle env s r R_Renew = renewCertificate env s r"
| "handle env s r R_Revoke = revokeCertificate env s r"
| "handle env s r R_ListCertificates = listCertificates env s r"
| "handle env s r (R_GetCertificate k) = getCertificate env s r k"
| "handle env s r R_Encrypt = cryptoEncrypt env s r"
| "handle env s r R_Decrypt = cryptoDecrypt env s r"
| "handle env s r R_Sign = cryptoSign env s r"
| "handle env s r R_Verify = cryptoVerify env s r"
| "handle env s r R_Derive = cryptoDerive env s r"
| "handle env s r R_Random = cryptoRandom env s r"

text \<open>
  The mux. A request that no pattern matches is answered by \<open>net/http\<close> itself, with 404 or 405
  or with a redirection to the clean path; \<open>sv_unmatched\<close> is the status it chooses.
\<close>

definition serve_mux :: "env \<Rightarrow> Server \<Rightarrow> Request \<Rightarrow> Response io" where
  "serve_mux env s r =
     (case route (rq_Method r) (rq_Path r) of
        None \<Rightarrow> writeJSON (sv_unmatched s (rq_Method r) (rq_Path r)) PNetHttp
      | Some rt \<Rightarrow> handle env s r rt)"

section \<open>Authentication\<close>

definition public_path :: "string list \<Rightarrow> bool" where
  "public_path p \<longleftrightarrow> p = [''healthz''] \<or> p = [''readyz''] \<or> p = [''metrics'']"

definition withAuth :: "Server \<Rightarrow> (Request \<Rightarrow> Response io) \<Rightarrow> Request \<Rightarrow> Response io" where
  "withAuth s nxt r =
     (if public_path (rq_Path r) then nxt r
      else
        case authenticate s (rq_Header r (sv_TokenHeader s)) (rq_Header r (sv_IdentityHeader s)) of
          None \<Rightarrow> writeError 401 errUnauthorized
        | Some actor \<Rightarrow> nxt (r\<lparr>rq_Actor := actor\<rparr>))"

text \<open>The server without the limiter, which is below: authentication, then the mux.\<close>

definition http_serve :: "env \<Rightarrow> Server \<Rightarrow> Request \<Rightarrow> Response io" where
  "http_serve env s = withAuth s (serve_mux env s)"

end
