(* ===== verification/HTTP_Mediation.thy ===== *)
theory HTTP_Mediation
  imports HTTP_Server
begin

text \<open>
  What each HTTP route demands of the policies, and the proof that every handler asks for
  exactly that before it acts. \<open>guarded_server\<close> is the contract of a server that does so.
\<close>

section \<open>The access matrix\<close>

text \<open>The namespace, the path and the capability that a policy must grant.\<close>

type_synonym demand = "string \<times> string \<times> Capability"

definition members :: "Request \<Rightarrow> (string \<times> json) list" where
  "members r = (case rq_Body r of Some (JObj ms) \<Rightarrow> ms | _ \<Rightarrow> [])"

definition body_text :: "Request \<Rightarrow> string \<Rightarrow> string" where
  "body_text r name = text_of name (members r)"

definition lease_demand :: "Server \<Rightarrow> string \<Rightarrow> Capability \<Rightarrow> tables \<Rightarrow> demand option" where
  "lease_demand s t c d = (case sv_ParseUUID s t of
     Inl _ \<Rightarrow> None
   | Inr i \<Rightarrow> map_option (\<lambda>l. (lease_Namespace l, lease_Path l, c)) (find (\<lambda>l. lease_ID l = i) (leases d)))"

definition policy_demand :: "string \<Rightarrow> Capability \<Rightarrow> tables \<Rightarrow> demand option" where
  "policy_demand n c d = map_option (\<lambda>p. (pol_Namespace p, ''/'', c)) (find (\<lambda>p. pol_Name p = n) (policies d))"

definition ca_demand :: "string \<Rightarrow> Capability \<Rightarrow> tables \<Rightarrow> demand option" where
  "ca_demand n c d = map_option (\<lambda>a. (ca_Namespace a, ''/'', c)) (find (\<lambda>a. ca_Name a = n) (pki_cas d))"

definition certificate_demand :: "string \<Rightarrow> string \<Rightarrow> Capability \<Rightarrow> tables \<Rightarrow> demand option" where
  "certificate_demand ns k c d =
     map_option (\<lambda>x. (cert_Namespace x, ''/'', c)) (find (\<lambda>x. cert_key x = (ns, k)) (certificates d))"

fun demand :: "Server \<Rightarrow> Request \<Rightarrow> Route \<Rightarrow> tables \<Rightarrow> demand option" where
  "demand s r R_Health d = None"
| "demand s r R_Ready d = None"
| "demand s r R_Metrics d = None"
| "demand s r R_CreateNamespace d = Some (body_text r ''name'', ''/'', CapabilityCreate)"
| "demand s r R_ListNamespaces d = Some (''*'', ''/'', CapabilityList)"
| "demand s r (R_CreateSecret ns) d = Some (ns, cleanWildcardPath (body_text r ''path''), CapabilityCreate)"
| "demand s r (R_ListSecrets ns) d = Some (ns, ''/'', CapabilityList)"
| "demand s r (R_GetSecret ns p) d = Some (ns, cleanWildcardPath p, CapabilityRead)"
| "demand s r (R_PutSecret ns p) d = Some (ns, cleanWildcardPath p, CapabilityUpdate)"
| "demand s r (R_ListVersions ns p) d = Some (ns, cleanWildcardPath p, CapabilityRead)"
| "demand s r (R_SoftDelete ns p) d = Some (ns, cleanWildcardPath p, CapabilityDelete)"
| "demand s r (R_Restore ns p) d = Some (ns, cleanWildcardPath p, CapabilityUpdate)"
| "demand s r (R_Destroy ns p) d = Some (ns, cleanWildcardPath p, CapabilityDelete)"
| "demand s r (R_Rollback ns p) d = Some (ns, cleanWildcardPath p, CapabilityUpdate)"
| "demand s r R_CreateLease d =
     Some (body_text r ''namespace'', cleanWildcardPath (body_text r ''path''), CapabilityCreate)"
| "demand s r (R_GetLease i) d = lease_demand s i CapabilityRead d"
| "demand s r (R_RenewLease i) d = lease_demand s i CapabilityUpdate d"
| "demand s r (R_RevokeLease i) d = lease_demand s i CapabilityDelete d"
| "demand s r R_CreatePolicy d = Some (body_text r ''namespace'', ''/'', CapabilityCreate)"
| "demand s r R_ListPolicies d = Some (queryNamespace r, ''/'', CapabilityList)"
| "demand s r (R_GetPolicy n) d = policy_demand n CapabilityRead d"
| "demand s r (R_DeletePolicy n) d = policy_demand n CapabilityDelete d"
| "demand s r R_ListAudit d = Some (rq_Query r ''namespace'', ''/'', CapabilityList)"
| "demand s r R_VerifyAudit d = Some (''*'', ''/'', CapabilityRead)"
| "demand s r R_CreateRootCA d = Some (body_text r ''namespace'', ''/'', CapabilityCreate)"
| "demand s r R_CreateIntermediateCA d = Some (body_text r ''namespace'', ''/'', CapabilityCreate)"
| "demand s r R_ListCAs d = Some (queryNamespace r, ''/'', CapabilityList)"
| "demand s r (R_GetCA n) d = ca_demand n CapabilityRead d"
| "demand s r (R_GetCRL n) d = ca_demand n CapabilityRead d"
| "demand s r (R_GetOCSP n k) d = ca_demand n CapabilityRead d"
| "demand s r R_Issue d = ca_demand (body_text r ''ca_name'') CapabilityCreate d"
| "demand s r R_Renew d =
     certificate_demand (rq_Query r ''namespace'') (body_text r ''serial_number'') CapabilityUpdate d"
| "demand s r R_Revoke d =
     certificate_demand (rq_Query r ''namespace'') (body_text r ''serial_number'') CapabilityDelete d"
| "demand s r R_ListCertificates d = Some (queryNamespace r, ''/'', CapabilityList)"
| "demand s r (R_GetCertificate k) d = certificate_demand (rq_Query r ''namespace'') k CapabilityRead d"
| "demand s r R_Encrypt d = Some (''*'', ''/crypto'', CapabilityCreate)"
| "demand s r R_Decrypt d = Some (''*'', ''/crypto'', CapabilityRead)"
| "demand s r R_Sign d = Some (''*'', ''/crypto'', CapabilityUpdate)"
| "demand s r R_Verify d = Some (''*'', ''/crypto'', CapabilityRead)"
| "demand s r R_Derive d = Some (''*'', ''/crypto'', CapabilityCreate)"
| "demand s r R_Random d = Some (''*'', ''/crypto'', CapabilityRead)"

definition requires :: "Server \<Rightarrow> Request \<Rightarrow> Route \<Rightarrow> tables \<Rightarrow> AuthorizationRequest \<Rightarrow> bool" where
  "requires s r rt d ar = (case demand s r rt d of
     None \<Rightarrow> False
   | Some (ns, p, c) \<Rightarrow> ar = policyAuthorizationRequest (actorFromContext (rq_Actor r)) ns p c r)"

lemma requiresI:
  "demand s r rt d = Some (ns, p, c) \<Longrightarrow>
     requires s r rt d (policyAuthorizationRequest (actorFromContext (rq_Actor r)) ns p c r)"
  by (simp add: requires_def)

lemmas demand_defs = lease_demand_def policy_demand_def ca_demand_def certificate_demand_def body_text_def

lemma demand_core [simp]: "demand s r rt (core d) = demand s r rt d"
  by (cases rt) (simp_all add: demand_defs split: sum.split)

lemma decode_members: "decode fs (rq_Body r) = Inr ms \<Longrightarrow> ms = members r"
  by (auto simp: decode_def decodeJSON_def members_def split: option.splits json.splits if_splits)

definition is_public :: "Route \<Rightarrow> bool" where
  "is_public rt \<longleftrightarrow> rt = R_Health \<or> rt = R_Ready \<or> rt = R_Metrics"

section \<open>Every handler asks first\<close>

lemmas http_handler_defs =
  createNamespace_def listNamespaces_def createSecret_def listSecrets_def getSecret_def putSecret_def
  listVersions_def softDeleteVersion_def restoreVersion_def destroyVersion_def rollbackVersion_def
  createLease_def getLease_def renewLease_def revokeLease_def createPolicy_def listPolicies_def getPolicy_def
  deletePolicy_def listAudit_def verifyAudit_def createRootCA_def createIntermediateCA_def listCAs_def getCA_def
  getCRL_def getOCSP_def issueCertificate_def renewCertificate_def revokeCertificate_def listCertificates_def
  getCertificate_def cryptoEncrypt_def cryptoDecrypt_def cryptoSign_def cryptoVerify_def cryptoDerive_def
  cryptoRandom_def

lemma handlers_mediated:
  assumes "alone env" and "\<not> is_public rt"
  shows "mediatedH s (requires s r rt) (handle env s r rt)"
  using assms(2) unfolding is_public_def
  by (cases rt; simp only: handle.simps http_handler_defs Let_def simp_thms Route.simps;
      (intro med assms(1))?; (auto intro!: requiresI simp: demand_defs dest!: decode_members)?)

lemma public_logs: "is_public rt \<Longrightarrow> logs (handle env s r rt)"
  by (auto simp: is_public_def handleHealth_def handleReady_def intro!: log_rules)

text \<open>A path that needs no authentication leads to no other handler.\<close>

lemma public_path_route: "public_path p \<Longrightarrow> route m p = Some rt \<Longrightarrow> is_public rt"
  by (auto simp: public_path_def route_def on_def is_public_def split: if_splits)

section \<open>The server\<close>

text \<open>
  Whether the policies in the database permit a request: the caller is known, a route is
  registered, and the demand of the route is granted.
\<close>

definition http_permitted :: "Server \<Rightarrow> Request \<Rightarrow> tables \<Rightarrow> bool" where
  "http_permitted s r d =
     (case authenticate s (rq_Header r (sv_TokenHeader s)) (rq_Header r (sv_IdentityHeader s)) of
        None \<Rightarrow> False
      | Some actor \<Rightarrow>
          (case route (rq_Method r) (rq_Path r) of
             None \<Rightarrow> False
           | Some rt \<Rightarrow>
               (case demand s r rt d of
                  None \<Rightarrow> False
                | Some (ns, p, c) \<Rightarrow> allowed (sv_adminIdentity s) (policies d)
                    (policyAuthorizationRequest (actorFromContext actor) ns p c r))))"

text \<open>The requests for which an answer other than a refusal needs permission.\<close>

definition http_guarded :: "Request \<Rightarrow> bool" where
  "http_guarded r = (case route (rq_Method r) (rq_Path r) of None \<Rightarrow> False | Some rt \<Rightarrow> \<not> is_public rt)"

lemma body_text_actor [simp]: "body_text (r\<lparr>rq_Actor := a\<rparr>) n = body_text r n"
  by (simp add: body_text_def members_def)

lemma queryNamespace_actor [simp]: "queryNamespace (r\<lparr>rq_Actor := a\<rparr>) = queryNamespace r"
  by (simp add: queryNamespace_def)

lemma demand_actor [simp]: "demand s (r\<lparr>rq_Actor := a\<rparr>) rt d = demand s r rt d"
  by (cases rt) simp_all

lemma requires_permitted:
  assumes "authenticate s (rq_Header r (sv_TokenHeader s)) (rq_Header r (sv_IdentityHeader s)) = Some actor"
    and "route (rq_Method r) (rq_Path r) = Some rt"
    and "requires s (r\<lparr>rq_Actor := actor\<rparr>) rt d ar" and "allowed (sv_adminIdentity s) (policies d) ar"
  shows "http_permitted s r d"
  using assms
  by (auto simp: http_permitted_def requires_def policyAuthorizationRequest_def clientIP_def Let_def split: option.splits)

lemma requires_core: "requires s r rt (core d) ar = requires s r rt d ar"
  by (simp add: requires_def)

lemma permitted_core: "http_permitted s r (core d) = http_permitted s r d"
  by (simp add: http_permitted_def split: option.split)

lemma http_serve_guarded:
  assumes alone: "alone env" and run: "http_serve env s r w = (res, w')" and denied: "\<not> http_permitted s r (db w)"
  shows "core (db w') = core (db w)" and "http_guarded r \<Longrightarrow> http_refused res"
proof -
  have "core (db w') = core (db w) \<and> (http_guarded r \<longrightarrow> http_refused res)"
  proof (cases "public_path (rq_Path r)")
    case True
    then have m: "serve_mux env s r w = (res, w')" using run by (simp add: http_serve_def withAuth_def)
    show ?thesis
    proof (cases "route (rq_Method r) (rq_Path r)")
      case None
      then show ?thesis using m by (simp add: serve_mux_def http_guarded_def writeJSON_def okE_def)
    next
      case (Some rt)
      with True have "is_public rt" by (rule public_path_route)
      with Some m show ?thesis
        using logs_run [OF public_logs] by (simp add: serve_mux_def http_guarded_def)
    qed
  next
    case False
    show ?thesis
    proof (cases "authenticate s (rq_Header r (sv_TokenHeader s)) (rq_Header r (sv_IdentityHeader s))")
      case None
      then show ?thesis using run False
        by (simp add: http_serve_def withAuth_def writeError_def writeJSON_def okE_def http_refused_def split: sum.splits)
          (auto)
    next
      case (Some actor)
      then have m: "serve_mux env s (r\<lparr>rq_Actor := actor\<rparr>) w = (res, w')"
        using run False by (simp add: http_serve_def withAuth_def)
      show ?thesis
      proof (cases "route (rq_Method r) (rq_Path r)")
        case None
        then show ?thesis using m by (simp add: serve_mux_def http_guarded_def writeJSON_def okE_def)
      next
        case rt: (Some rt)
        with m have h: "handle env s (r\<lparr>rq_Actor := actor\<rparr>) rt w = (res, w')" by (simp add: serve_mux_def)
        show ?thesis
        proof (cases "is_public rt")
          case True
          then show ?thesis using logs_run [OF public_logs h] rt by (simp add: http_guarded_def)
        next
          case False
          from mediatedD [OF handlers_mediated [OF alone False] h] denied
          show ?thesis using requires_permitted [OF Some rt] by (auto simp: requires_core)
        qed
      qed
    qed
  qed
  then show "core (db w') = core (db w)" and "http_guarded r \<Longrightarrow> http_refused res" by simp_all
qed

interpretation http: guarded_server
  "\<lambda>(env, s). http_serve env s" "\<lambda>(env, s). alone env" "\<lambda>(env, s). http_permitted s" http_guarded http_refused
  by unfold_locales (auto simp: permitted_core dest: http_serve_guarded split: prod.splits)

end
