(* ===== verification/CLI.thy ===== *)
theory CLI
  imports HTTP_Mediation Go_Scan
begin

text \<open>
  The command line client (\<open>cmd/cli/main.go\<close>, \<open>internal/cli/client.go\<close>): the call each
  command makes and the request the client builds from it. Commands are values with their
  arguments and flags; \<open>net/url\<close> is modelled as far as \<open>PathEscape\<close> and the reading of a
  path and a query by the server. What a command prints is in \<open>CLI_Main\<close>.
\<close>

section \<open>URLs\<close>

definition unreserved :: "char \<Rightarrow> bool" where
  "unreserved c = (let n = (of_char c :: nat) in
     48 \<le> n \<and> n \<le> 57 \<or> 65 \<le> n \<and> n \<le> 90 \<or> 97 \<le> n \<and> n \<le> 122 \<or> c \<in> set ''-_.~$&+:=@'')"

definition upper_hex :: "nat \<Rightarrow> char" where
  "upper_hex n = (if n < 10 then char_of (48 + n) else char_of (55 + n))"

definition escape_char :: "char \<Rightarrow> string" where
  "escape_char c = (if unreserved c then [c]
     else let n = (of_char c :: nat) in [CHR ''%'', upper_hex (n div 16), upper_hex (n mod 16)])"

definition Escape :: "string \<Rightarrow> string" where
  "Escape s = concat (map escape_char s)"

fun unescape :: "string \<Rightarrow> string option" where
  "unescape [] = Some []"
| "unescape (c # s) =
     (if c \<noteq> CHR ''%'' then map_option ((#) c) (unescape s)
      else case s of
        a # b # t \<Rightarrow>
          (case (hex_value a, hex_value b) of
             (Some x, Some y) \<Rightarrow> map_option ((#) (char_of (16 * x + y))) (unescape t)
           | _ \<Rightarrow> None)
      | _ \<Rightarrow> None)"

text \<open>The path and the query of the text after the host.\<close>

definition url_path :: "string \<Rightarrow> string" where
  "url_path u = takeWhile (\<lambda>c. c \<noteq> CHR ''?'') u"

definition url_query :: "string \<Rightarrow> string" where
  "url_query u = drop 1 (dropWhile (\<lambda>c. c \<noteq> CHR ''?'') u)"

text \<open>
  The segments a path is matched by: \<open>None\<close> for a path that does not begin with a slash, has an
  empty segment inside or a dot segment, which \<open>ServeMux\<close> redirects, or cannot be unescaped.
\<close>

definition url_segments :: "string \<Rightarrow> string list option" where
  "url_segments p = (case Split p CHR ''/'' of
     [] \<Rightarrow> None
   | first # raw \<Rightarrow>
       if first \<noteq> [] \<or> raw = [] \<or> [] \<in> set (butlast raw) \<or> ''.'' \<in> set raw \<or> ''..'' \<in> set raw then None
       else those (map unescape raw))"

text \<open>\<open>r.URL.Query().Get(key)\<close>; in a query \<open>+\<close> is a space.\<close>

definition query_text :: "string \<Rightarrow> string" where
  "query_text s = (case unescape (map (\<lambda>c. if c = CHR ''+'' then CHR '' '' else c) s) of None \<Rightarrow> [] | Some t \<Rightarrow> t)"

fun query_get :: "string list \<Rightarrow> string \<Rightarrow> string" where
  "query_get [] key = []"
| "query_get (p # ps) key =
     (if query_text (takeWhile (\<lambda>c. c \<noteq> CHR ''='') p) = key
      then query_text (drop 1 (dropWhile (\<lambda>c. c \<noteq> CHR ''='') p)) else query_get ps key)"

section \<open>Paths and versions\<close>

text \<open>The loop of \<open>splitPath\<close>: the segment that has begun, the bytes left.\<close>

fun split_path_loop :: "string \<Rightarrow> string \<Rightarrow> string list" where
  "split_path_loop seg [] = (if seg \<noteq> [] then [seg] else [])"
| "split_path_loop seg (c # s) =
     (if c = CHR ''/'' then (if seg \<noteq> [] then [seg] else []) @ split_path_loop [] s
      else split_path_loop (seg @ [c]) s)"

definition splitPath :: "string \<Rightarrow> string list" where
  "splitPath path =
     (if path = [] then []
      else split_path_loop [] (if hd path = CHR ''/'' then tl path else path))"

definition joinPath :: "string list \<Rightarrow> string" where
  "joinPath segs = (let out = concat (map (\<lambda>s. CHR ''/'' # s) segs) in if out = [] then ''/'' else out)"

definition encodePath :: "string \<Rightarrow> string" where
  "encodePath path = joinPath (map Escape (splitPath path))"

definition secretPathURL :: "string \<Rightarrow> string \<Rightarrow> string" where
  "secretPathURL namespace path = ''/v1/secrets/'' @ Escape namespace @ encodePath path"

definition versionQuery :: "int \<Rightarrow> string" where
  "versionQuery version = (if version \<le> 0 then [] else ''?version='' @ Itoa version)"

definition parseVersion :: "string \<Rightarrow> int" where
  "parseVersion v = (case Sscanf_d v of None \<Rightarrow> 0 | Some n \<Rightarrow> n)"

section \<open>Commands\<close>

text \<open>\<open>client().Do(ctx, method, path, body, &out)\<close>: no body is \<open>None\<close>.\<close>

record CliCall =
  call_Method :: string
  call_Path :: string
  call_Body :: "json option"

definition doE :: "string \<Rightarrow> string \<Rightarrow> json option \<Rightarrow> CliCall" where
  "doE m p b = \<lparr>call_Method = m, call_Path = p, call_Body = b\<rparr>"

datatype Command =
    NamespaceCreate string string | NamespaceList
  | SecretPut string string string string | SecretGet string string | SecretList string | SecretVersions string string
  | SecretDelete string string "string option" | SecretRestore string string string
  | SecretDestroy string string string | SecretRollback string string string
  | LeaseCreate string string string bool | LeaseRenew string string | LeaseRevoke string
  | PolicyCreate string string string string "string list" | PolicyList string | PolicyDelete string
  | AuditList string string | AuditVerify
  | PkiRoot string string string string | PkiIntermediate string string string string string
  | PkiIssue string string string "string list" | PkiRevoke string string string | PkiCrl string | PkiOcsp string string
  | PkiListCAs string | PkiListCerts string
  | CryptoEncrypt string | CryptoDecrypt string string | CryptoSign string | CryptoVerify string string string
  | CryptoDerive string string string | CryptoRandom string

definition namespace_create :: "string \<Rightarrow> string \<Rightarrow> CliCall" where
  "namespace_create name description =
     doE ''POST'' ''/v1/namespaces'' (Some (JObj [(''description'', JStr description), (''name'', JStr name)]))"

definition namespace_list :: CliCall where
  "namespace_list = doE ''GET'' ''/v1/namespaces'' None"

definition secret_put :: "string \<Rightarrow> string \<Rightarrow> string \<Rightarrow> string \<Rightarrow> CliCall" where
  "secret_put ns path v secretType =
     doE ''POST'' (''/v1/namespaces/'' @ Escape ns @ ''/secrets'')
       (Some (JObj [(''path'', JStr path), (''type'', JStr secretType), (''value'', JStr v)]))"

text \<open>The command asks for a flag \<open>version\<close> that is not declared, and so gets 0.\<close>

definition secret_get :: "string \<Rightarrow> string \<Rightarrow> CliCall" where
  "secret_get ns path = doE ''GET'' (secretPathURL ns path @ versionQuery 0) None"

definition secret_list :: "string \<Rightarrow> CliCall" where
  "secret_list ns = doE ''GET'' (''/v1/namespaces/'' @ Escape ns @ ''/secrets'') None"

definition secret_versions :: "string \<Rightarrow> string \<Rightarrow> CliCall" where
  "secret_versions ns path = doE ''GET'' (''/v1/versions/'' @ Escape ns @ encodePath path) None"

definition secret_delete :: "string \<Rightarrow> string \<Rightarrow> string option \<Rightarrow> CliCall" where
  "secret_delete ns path v =
     (let version = (case v of None \<Rightarrow> 0 | Some t \<Rightarrow> parseVersion t) in
      doE ''DELETE'' (''/v1/versions/'' @ Escape ns @ ''/delete'' @ encodePath path @ versionQuery version) None)"

definition secret_restore :: "string \<Rightarrow> string \<Rightarrow> string \<Rightarrow> CliCall" where
  "secret_restore ns path v =
     doE ''POST'' (''/v1/versions/'' @ Escape ns @ ''/restore'' @ encodePath path @ versionQuery (parseVersion v))
       (Some (JObj []))"

definition secret_destroy :: "string \<Rightarrow> string \<Rightarrow> string \<Rightarrow> CliCall" where
  "secret_destroy ns path v =
     doE ''POST'' (''/v1/versions/'' @ Escape ns @ ''/destroy'' @ encodePath path @ versionQuery (parseVersion v))
       (Some (JObj []))"

definition secret_rollback :: "string \<Rightarrow> string \<Rightarrow> string \<Rightarrow> CliCall" where
  "secret_rollback ns path v =
     doE ''POST'' (''/v1/versions/'' @ Escape ns @ ''/rollback'' @ encodePath path @ versionQuery (parseVersion v))
       (Some (JObj []))"

definition lease_create :: "string \<Rightarrow> string \<Rightarrow> string \<Rightarrow> bool \<Rightarrow> CliCall" where
  "lease_create ns path ttl renewable =
     doE ''POST'' ''/v1/leases''
       (Some (JObj [(''namespace'', JStr ns), (''path'', JStr path), (''renewable'', JBool renewable), (''ttl'', JStr ttl)]))"

definition lease_renew :: "string \<Rightarrow> string \<Rightarrow> CliCall" where
  "lease_renew i ttl = doE ''POST'' (''/v1/leases/'' @ Escape i @ ''/renew'') (Some (JObj [(''ttl'', JStr ttl)]))"

definition lease_revoke :: "string \<Rightarrow> CliCall" where
  "lease_revoke i = doE ''POST'' (''/v1/leases/'' @ Escape i @ ''/revoke'') (Some (JObj []))"

definition policy_create :: "string \<Rightarrow> string \<Rightarrow> string \<Rightarrow> string \<Rightarrow> string list \<Rightarrow> CliCall" where
  "policy_create name ns identity pre caps =
     doE ''POST'' ''/v1/policies''
       (Some (JObj [(''capabilities'', JArr (map JStr caps)), (''conditions'', JObj []), (''identity'', JStr identity),
          (''name'', JStr name), (''namespace'', JStr ns), (''path_prefix'', JStr pre)]))"

definition policy_list :: "string \<Rightarrow> CliCall" where
  "policy_list ns = doE ''GET'' (''/v1/policies?namespace='' @ Escape ns) None"

definition policy_delete :: "string \<Rightarrow> CliCall" where
  "policy_delete name = doE ''DELETE'' (''/v1/policies/'' @ Escape name) None"

definition audit_list :: "string \<Rightarrow> string \<Rightarrow> CliCall" where
  "audit_list ns actor = doE ''GET'' (''/v1/audit?namespace='' @ Escape ns @ ''&actor='' @ Escape actor) None"

definition audit_verify :: CliCall where
  "audit_verify = doE ''GET'' ''/v1/audit/verify'' None"

definition pki_root :: "string \<Rightarrow> string \<Rightarrow> string \<Rightarrow> string \<Rightarrow> CliCall" where
  "pki_root name ns cn ttl =
     doE ''POST'' ''/v1/pki/cas/root''
       (Some (JObj [(''common_name'', JStr cn), (''max_path_len'', JNum ''1''), (''name'', JStr name),
          (''namespace'', JStr ns), (''ttl'', JStr ttl)]))"

definition pki_intermediate :: "string \<Rightarrow> string \<Rightarrow> string \<Rightarrow> string \<Rightarrow> string \<Rightarrow> CliCall" where
  "pki_intermediate name ns parent cn ttl =
     doE ''POST'' ''/v1/pki/cas/intermediate''
       (Some (JObj [(''common_name'', JStr cn), (''max_path_len'', JNum ''0''), (''name'', JStr name),
          (''namespace'', JStr ns), (''parent_name'', JStr parent), (''ttl'', JStr ttl)]))"

definition pki_issue :: "string \<Rightarrow> string \<Rightarrow> string \<Rightarrow> string list \<Rightarrow> CliCall" where
  "pki_issue ca cn ttl dns =
     doE ''POST'' ''/v1/pki/issue''
       (Some (JObj [(''ca_name'', JStr ca), (''common_name'', JStr cn), (''dns_names'', JArr (map JStr dns)),
          (''ttl'', JStr ttl)]))"

definition pki_revoke :: "string \<Rightarrow> string \<Rightarrow> string \<Rightarrow> CliCall" where
  "pki_revoke serial reason ns =
     doE ''POST'' (''/v1/pki/revoke?namespace='' @ Escape ns)
       (Some (JObj [(''reason'', JStr reason), (''serial_number'', JStr serial)]))"

definition pki_crl :: "string \<Rightarrow> CliCall" where
  "pki_crl ca = doE ''GET'' (''/v1/pki/cas/'' @ Escape ca @ ''/crl'') None"

definition pki_ocsp :: "string \<Rightarrow> string \<Rightarrow> CliCall" where
  "pki_ocsp ca serial = doE ''GET'' (''/v1/pki/cas/'' @ Escape ca @ ''/ocsp/'' @ Escape serial) None"

definition pki_list_cas :: "string \<Rightarrow> CliCall" where
  "pki_list_cas ns = doE ''GET'' (''/v1/pki/cas?namespace='' @ Escape ns) None"

definition pki_list_certs :: "string \<Rightarrow> CliCall" where
  "pki_list_certs ns = doE ''GET'' (''/v1/pki/certificates?namespace='' @ Escape ns) None"

definition crypto_encrypt :: "string \<Rightarrow> CliCall" where
  "crypto_encrypt plaintext = doE ''POST'' ''/v1/crypto/encrypt'' (Some (JObj [(''plaintext'', JStr plaintext)]))"

definition crypto_decrypt :: "string \<Rightarrow> string \<Rightarrow> CliCall" where
  "crypto_decrypt ciphertext keyVersion =
     doE ''POST'' ''/v1/crypto/decrypt''
       (Some (JObj [(''ciphertext'', JStr ciphertext), (''key_version'', JStr keyVersion)]))"

definition crypto_sign :: "string \<Rightarrow> CliCall" where
  "crypto_sign data = doE ''POST'' ''/v1/crypto/sign'' (Some (JObj [(''data'', JStr data)]))"

definition crypto_verify :: "string \<Rightarrow> string \<Rightarrow> string \<Rightarrow> CliCall" where
  "crypto_verify data sig alg =
     doE ''POST'' ''/v1/crypto/verify''
       (Some (JObj [(''algorithm'', JStr alg), (''data'', JStr data), (''signature'', JStr sig)]))"

definition crypto_derive :: "string \<Rightarrow> string \<Rightarrow> string \<Rightarrow> CliCall" where
  "crypto_derive material salt len =
     doE ''POST'' ''/v1/crypto/derive''
       (Some (JObj [(''length'', JNum (Itoa (parseVersion len))), (''material'', JStr material), (''salt'', JStr salt)]))"

definition crypto_random :: "string \<Rightarrow> CliCall" where
  "crypto_random len = doE ''POST'' ''/v1/crypto/random'' (Some (JObj [(''length'', JNum (Itoa (parseVersion len)))]))"

fun cli_call :: "Command \<Rightarrow> CliCall" where
  "cli_call (NamespaceCreate n d) = namespace_create n d"
| "cli_call NamespaceList = namespace_list"
| "cli_call (SecretPut ns p v t) = secret_put ns p v t"
| "cli_call (SecretGet ns p) = secret_get ns p"
| "cli_call (SecretList ns) = secret_list ns"
| "cli_call (SecretVersions ns p) = secret_versions ns p"
| "cli_call (SecretDelete ns p v) = secret_delete ns p v"
| "cli_call (SecretRestore ns p v) = secret_restore ns p v"
| "cli_call (SecretDestroy ns p v) = secret_destroy ns p v"
| "cli_call (SecretRollback ns p v) = secret_rollback ns p v"
| "cli_call (LeaseCreate ns p t r) = lease_create ns p t r"
| "cli_call (LeaseRenew i t) = lease_renew i t"
| "cli_call (LeaseRevoke i) = lease_revoke i"
| "cli_call (PolicyCreate n ns i p cs) = policy_create n ns i p cs"
| "cli_call (PolicyList ns) = policy_list ns"
| "cli_call (PolicyDelete n) = policy_delete n"
| "cli_call (AuditList ns a) = audit_list ns a"
| "cli_call AuditVerify = audit_verify"
| "cli_call (PkiRoot n ns cn t) = pki_root n ns cn t"
| "cli_call (PkiIntermediate n ns p cn t) = pki_intermediate n ns p cn t"
| "cli_call (PkiIssue ca cn t d) = pki_issue ca cn t d"
| "cli_call (PkiRevoke k r ns) = pki_revoke k r ns"
| "cli_call (PkiCrl ca) = pki_crl ca"
| "cli_call (PkiOcsp ca k) = pki_ocsp ca k"
| "cli_call (PkiListCAs ns) = pki_list_cas ns"
| "cli_call (PkiListCerts ns) = pki_list_certs ns"
| "cli_call (CryptoEncrypt p) = crypto_encrypt p"
| "cli_call (CryptoDecrypt c k) = crypto_decrypt c k"
| "cli_call (CryptoSign d) = crypto_sign d"
| "cli_call (CryptoVerify d s a) = crypto_verify d s a"
| "cli_call (CryptoDerive m s l) = crypto_derive m s l"
| "cli_call (CryptoRandom l) = crypto_random l"

section \<open>The client\<close>

record Client =
  cl_BaseURL :: string
  cl_Token :: string
  cl_Identity :: string

definition Client_url :: "Client \<Rightarrow> string \<Rightarrow> string" where
  "Client_url c path = TrimRight (cl_BaseURL c) ''/'' @ path"

text \<open>
  The request the server reads from a call, for a base URL without a path: the segments of
  the path, the query, the headers, the body made UTF-8 by \<open>json.Marshal\<close>. \<open>remote\<close> is the
  address of the connection.
\<close>

definition client_request :: "Client \<Rightarrow> string \<Rightarrow> CliCall \<Rightarrow> Request option" where
  "client_request c remote call =
     (case url_segments (url_path (call_Path call)) of
        None \<Rightarrow> None
      | Some segs \<Rightarrow> Some
          \<lparr>rq_Method = call_Method call, rq_Path = segs,
           rq_Query = query_get (Split (url_query (call_Path call)) CHR ''&''),
           rq_Header = (\<lambda>h. if h = ''X-Auth-Token'' then cl_Token c else if h = ''X-Auth-Identity'' then cl_Identity c
              else if h = ''Content-Type'' then ''application/json'' else []),
           rq_RemoteAddr = remote, rq_Body = map_option json_utf8 (call_Body call), rq_Actor = []\<rparr>)"

text \<open>\<open>Client.Do\<close>, with the round trip over the network as the argument \<open>send\<close>.\<close>

definition Client_Do :: "(Request \<Rightarrow> Response io) \<Rightarrow> Client \<Rightarrow> string \<Rightarrow> CliCall \<Rightarrow> payload io" where
  "Client_Do send c remote call =
     (case client_request c remote call of
        None \<Rightarrow> failE (Wrapf ''send request: %w'' [] (PrimitiveError ''net/http''))
      | Some r \<Rightarrow>
          bindE (wrapE ''send request: %w'' [] (send r)) (\<lambda>response.
          if rs_Status response < 200 \<or> rs_Status response \<ge> 300
          then failE (Errorf ''server returned %s: %s'' [Itoa (int (rs_Status response))])
          else okE (rs_Body response)))"

section \<open>Escaping is undone by the server\<close>

lemma of_char_less: "(of_char c :: nat) < 256"
  by (metis of_char_mod_256 mod_less_divisor zero_less_numeral)

lemma unhex_upper: "n < 16 \<Longrightarrow> hex_value (upper_hex n) = Some n"
proof -
  assume "n < 16"
  then have "n \<in> {0..<16}" by simp
  also have "{0..<16} = set [0..<16]" by simp
  finally show ?thesis by (auto simp: upt_rec hex_value_def upper_hex_def Let_def)
qed

lemma unreserved_percent: "\<not> unreserved CHR ''%''"
  by (simp add: unreserved_def Let_def)

lemma unescape_char: "unescape (escape_char c @ s) = map_option ((#) c) (unescape s)"
proof (cases "unreserved c")
  case True
  then have "c \<noteq> CHR ''%''" using unreserved_percent by auto
  with True show ?thesis by (simp add: escape_char_def)
next
  case False
  let ?n = "of_char c :: nat"
  have "?n div 16 < 16" "?n mod 16 < 16" using of_char_less [of c] by (simp_all add: div_less_iff_less_mult)
  then show ?thesis using False by (simp add: escape_char_def Let_def unhex_upper)
qed

lemma unescape_Escape [simp]: "unescape (Escape s) = Some s"
proof (induction s)
  case (Cons c s)
  have "Escape (c # s) = escape_char c @ Escape s" by (simp add: Escape_def)
  then show ?case using Cons by (simp add: unescape_char)
qed (simp add: Escape_def)

end
