(* ===== verification/CLI_Routes.thy ===== *)
theory CLI_Routes
  imports CLI
begin

text \<open>
  Client and server agree: the route that each command is meant for, and the proof that the
  text of its URL is read back as the segments of that route.
\<close>

section \<open>Escaped paths\<close>

definition seg_path :: "string list \<Rightarrow> string" where
  "seg_path segs = concat (map (\<lambda>s. CHR ''/'' # Escape s) segs)"

lemma seg_path_simps [simp]:
  "seg_path [] = []" "seg_path (s # ss) = CHR ''/'' # Escape s @ seg_path ss"
  "seg_path (xs @ ys) = seg_path xs @ seg_path ys"
  by (simp_all add: seg_path_def)

lemma escape_char_set: "set (escape_char c) \<subseteq> {x. unreserved x \<or> x = CHR ''%''}"
proof -
  have "unreserved (upper_hex n)" if "n < 16" for n
  proof -
    have "n \<in> set [0..<16]" using that by simp
    then show ?thesis by (auto simp: upt_rec unreserved_def upper_hex_def Let_def)
  qed
  moreover have "(of_char c :: nat) div 16 < 16" "(of_char c :: nat) mod 16 < 16"
    using of_char_less [of c] by (simp_all add: div_less_iff_less_mult)
  ultimately show ?thesis by (auto simp: escape_char_def Let_def)
qed

lemma Escape_set: "x \<in> set (Escape s) \<Longrightarrow> unreserved x \<or> x = CHR ''%''"
  using escape_char_set by (fastforce simp: Escape_def)

lemma Escape_delimiters: "CHR ''/'' \<notin> set (Escape s)" "CHR ''?'' \<notin> set (Escape s)"
  using Escape_set [of "CHR ''/''" s] Escape_set [of "CHR ''?''" s] by (auto simp: unreserved_def Let_def)

lemma Split_none: "c \<notin> set s \<Longrightarrow> Split s c = [s]"
  by (induction s) auto

lemma Split_seg_path: "Split (seg_path segs) CHR ''/'' = [] # map Escape segs"
proof (induction segs rule: rev_induct)
  case (snoc s segs)
  then show ?case
    by (simp add: Split_append [of "seg_path segs"] Split_none Escape_delimiters)
qed simp

lemma Escape_eq: "unescape t = Some t \<Longrightarrow> Escape s = t \<longleftrightarrow> s = t \<and> Escape t = t"
  by (metis unescape_Escape option.inject)

lemma Escape_special [simp]:
  "Escape s = [] \<longleftrightarrow> s = []" "Escape s = ''.'' \<longleftrightarrow> s = ''.''" "Escape s = ''..'' \<longleftrightarrow> s = ''..''"
proof -
  have "Escape [] = []" "Escape ''.'' = ''.''" "Escape ''..'' = ''..''" by code_simp+
  moreover have "unescape [] = Some []" "unescape ''.'' = Some ''.''" "unescape ''..'' = Some ''..''" by simp_all
  ultimately show "Escape s = [] \<longleftrightarrow> s = []" "Escape s = ''.'' \<longleftrightarrow> s = ''.''" "Escape s = ''..'' \<longleftrightarrow> s = ''..''"
    using Escape_eq by metis+
qed

lemma those_Some: "those (map (unescape \<circ> Escape) xs) = Some xs"
  by (induction xs) auto

definition plain_segment :: "string \<Rightarrow> bool" where
  "plain_segment s \<longleftrightarrow> s \<noteq> [] \<and> s \<noteq> ''.'' \<and> s \<noteq> ''..''"

lemma url_segments_seg_path:
  assumes "segs \<noteq> []" and "\<forall>s \<in> set (butlast segs). plain_segment s" and "last segs \<noteq> ''.''" and "last segs \<noteq> ''..''"
  shows "url_segments (seg_path segs) = Some segs"
proof -
  have "set segs = insert (last segs) (set (butlast segs))"
    using assms(1) by (cases segs rule: rev_cases) simp_all
  then have mem: "s = last segs \<or> s \<in> set (butlast segs)" if "s \<in> set segs" for s
    using that by simp
  have dots: "s \<noteq> ''.'' \<and> s \<noteq> ''..''" if "s \<in> set segs" for s
    using mem [OF that]
  proof
    assume "s = last segs"
    then show ?thesis using assms(3,4) by simp
  next
    assume "s \<in> set (butlast segs)"
    with assms(2) have "plain_segment s" by (rule bspec)
    then show ?thesis by (simp add: plain_segment_def)
  qed
  have "''.'' \<notin> Escape ` set segs" "''..'' \<notin> Escape ` set segs"
    using dots Escape_special(2,3) by (metis imageE)+
  moreover have "[] \<notin> Escape ` set (butlast segs)"
    using assms(2) Escape_special(1) unfolding plain_segment_def by (metis imageE)
  then have "[] \<notin> set (butlast (map Escape segs))" by (simp add: map_butlast [symmetric])
  ultimately show ?thesis
    using assms(1) by (simp add: url_segments_def Split_seg_path those_Some)
qed

lemma url_path_seg_path: "url_path (seg_path segs @ q) = seg_path segs @ url_path q"
proof -
  have "c \<noteq> CHR ''?''" if "c \<in> set (seg_path segs)" for c
    using that Escape_delimiters by (auto simp: seg_path_def split: if_splits)
  then show ?thesis by (simp add: url_path_def takeWhile_append2)
qed

lemma url_path_query [simp]: "url_path (versionQuery v) = []" "url_path (CHR ''?'' # q) = []" "url_path [] = []"
  by (simp_all add: url_path_def versionQuery_def)

section \<open>The route a command is meant for\<close>

text \<open>The segments of a secret's path; an empty path is the root, one empty segment.\<close>

definition path_segs :: "string \<Rightarrow> string list" where
  "path_segs p = (if splitPath p = [] then [[]] else splitPath p)"

lemma encodePath_seg_path: "encodePath p = seg_path (path_segs p)"
  by (cases "splitPath p")
    (auto simp: encodePath_def joinPath_def path_segs_def seg_path_def Let_def comp_def Escape_def)

definition path_arg :: "string \<Rightarrow> string" where
  "path_arg p = rest_path (path_segs p)"

fun cli_route :: "Command \<Rightarrow> Route" where
  "cli_route (NamespaceCreate n d) = R_CreateNamespace"
| "cli_route NamespaceList = R_ListNamespaces"
| "cli_route (SecretPut ns p v t) = R_CreateSecret ns"
| "cli_route (SecretGet ns p) = R_GetSecret ns (path_arg p)"
| "cli_route (SecretList ns) = R_ListSecrets ns"
| "cli_route (SecretVersions ns p) = R_ListVersions ns (path_arg p)"
| "cli_route (SecretDelete ns p v) = R_SoftDelete ns (path_arg p)"
| "cli_route (SecretRestore ns p v) = R_Restore ns (path_arg p)"
| "cli_route (SecretDestroy ns p v) = R_Destroy ns (path_arg p)"
| "cli_route (SecretRollback ns p v) = R_Rollback ns (path_arg p)"
| "cli_route (LeaseCreate ns p t r) = R_CreateLease"
| "cli_route (LeaseRenew i t) = R_RenewLease i"
| "cli_route (LeaseRevoke i) = R_RevokeLease i"
| "cli_route (PolicyCreate n ns i p cs) = R_CreatePolicy"
| "cli_route (PolicyList ns) = R_ListPolicies"
| "cli_route (PolicyDelete n) = R_DeletePolicy n"
| "cli_route (AuditList ns a) = R_ListAudit"
| "cli_route AuditVerify = R_VerifyAudit"
| "cli_route (PkiRoot n ns cn t) = R_CreateRootCA"
| "cli_route (PkiIntermediate n ns p cn t) = R_CreateIntermediateCA"
| "cli_route (PkiIssue ca cn t d) = R_Issue"
| "cli_route (PkiRevoke k r ns) = R_Revoke"
| "cli_route (PkiCrl ca) = R_GetCRL ca"
| "cli_route (PkiOcsp ca k) = R_GetOCSP ca k"
| "cli_route (PkiListCAs ns) = R_ListCAs"
| "cli_route (PkiListCerts ns) = R_ListCertificates"
| "cli_route (CryptoEncrypt p) = R_Encrypt"
| "cli_route (CryptoDecrypt c k) = R_Decrypt"
| "cli_route (CryptoSign d) = R_Sign"
| "cli_route (CryptoVerify d s a) = R_Verify"
| "cli_route (CryptoDerive m s l) = R_Derive"
| "cli_route (CryptoRandom l) = R_Random"

text \<open>The arguments that become segments: names that are not empty, no dot segments.\<close>

definition no_dots :: "string \<Rightarrow> bool" where
  "no_dots p \<longleftrightarrow> ''.'' \<notin> set (splitPath p) \<and> ''..'' \<notin> set (splitPath p)"

fun cli_args_ok :: "Command \<Rightarrow> bool" where
  "cli_args_ok (SecretPut ns p v t) = plain_segment ns"
| "cli_args_ok (SecretGet ns p) = (plain_segment ns \<and> no_dots p)"
| "cli_args_ok (SecretList ns) = plain_segment ns"
| "cli_args_ok (SecretVersions ns p) = (plain_segment ns \<and> no_dots p)"
| "cli_args_ok (SecretDelete ns p v) = (plain_segment ns \<and> no_dots p)"
| "cli_args_ok (SecretRestore ns p v) = (plain_segment ns \<and> no_dots p)"
| "cli_args_ok (SecretDestroy ns p v) = (plain_segment ns \<and> no_dots p)"
| "cli_args_ok (SecretRollback ns p v) = (plain_segment ns \<and> no_dots p)"
| "cli_args_ok (LeaseRenew i t) = plain_segment i"
| "cli_args_ok (LeaseRevoke i) = plain_segment i"
| "cli_args_ok (PolicyDelete n) = plain_segment n"
| "cli_args_ok (PkiCrl ca) = plain_segment ca"
| "cli_args_ok (PkiOcsp ca k) = (plain_segment ca \<and> plain_segment k)"
| "cli_args_ok _ = True"

lemma splitPath_nonempty: "[] \<notin> set (splitPath p)"
proof -
  have "[] \<notin> set (split_path_loop seg s)" for seg s
    by (induction seg s rule: split_path_loop.induct) auto
  then show ?thesis by (simp add: splitPath_def)
qed

lemma path_segs_props:
  assumes "no_dots p"
  shows "path_segs p \<noteq> []" and "\<forall>s \<in> set (butlast (path_segs p)). plain_segment s"
    and "last (path_segs p) \<noteq> ''.''" and "last (path_segs p) \<noteq> ''..''"
  using assms splitPath_nonempty [of p]
  by (auto simp: path_segs_def plain_segment_def no_dots_def dest: in_set_butlastD)
    (metis last_in_set)+

lemma Escape_words:
  "Escape ''v1'' = ''v1''" "Escape ''namespaces'' = ''namespaces''" "Escape ''secrets'' = ''secrets''"
  "Escape ''versions'' = ''versions''" "Escape ''delete'' = ''delete''" "Escape ''restore'' = ''restore''"
  "Escape ''destroy'' = ''destroy''" "Escape ''rollback'' = ''rollback''" "Escape ''leases'' = ''leases''"
  "Escape ''renew'' = ''renew''" "Escape ''revoke'' = ''revoke''" "Escape ''policies'' = ''policies''"
  "Escape ''audit'' = ''audit''" "Escape ''verify'' = ''verify''" "Escape ''pki'' = ''pki''" "Escape ''cas'' = ''cas''"
  "Escape ''root'' = ''root''" "Escape ''intermediate'' = ''intermediate''" "Escape ''issue'' = ''issue''"
  "Escape ''crl'' = ''crl''" "Escape ''ocsp'' = ''ocsp''" "Escape ''certificates'' = ''certificates''"
  "Escape ''crypto'' = ''crypto''" "Escape ''encrypt'' = ''encrypt''" "Escape ''decrypt'' = ''decrypt''"
  "Escape ''sign'' = ''sign''" "Escape ''derive'' = ''derive''" "Escape ''random'' = ''random''"
  by code_simp+

lemma call_segments:
  assumes "p = seg_path segs @ q" and "url_path q = []" and "segs \<noteq> []"
    and "\<forall>s \<in> set (butlast segs). plain_segment s" and "last segs \<noteq> ''.''" and "last segs \<noteq> ''..''"
  shows "url_segments (url_path p) = Some segs"
  using assms by (simp add: url_path_seg_path url_segments_seg_path)

text \<open>The path of every command's URL, as segments and a query.\<close>

fun cli_segs :: "Command \<Rightarrow> string list" where
  "cli_segs (NamespaceCreate n d) = [''v1'', ''namespaces'']"
| "cli_segs NamespaceList = [''v1'', ''namespaces'']"
| "cli_segs (SecretPut ns p v t) = [''v1'', ''namespaces'', ns, ''secrets'']"
| "cli_segs (SecretGet ns p) = [''v1'', ''secrets'', ns] @ path_segs p"
| "cli_segs (SecretList ns) = [''v1'', ''namespaces'', ns, ''secrets'']"
| "cli_segs (SecretVersions ns p) = [''v1'', ''versions'', ns] @ path_segs p"
| "cli_segs (SecretDelete ns p v) = [''v1'', ''versions'', ns, ''delete''] @ path_segs p"
| "cli_segs (SecretRestore ns p v) = [''v1'', ''versions'', ns, ''restore''] @ path_segs p"
| "cli_segs (SecretDestroy ns p v) = [''v1'', ''versions'', ns, ''destroy''] @ path_segs p"
| "cli_segs (SecretRollback ns p v) = [''v1'', ''versions'', ns, ''rollback''] @ path_segs p"
| "cli_segs (LeaseCreate ns p t r) = [''v1'', ''leases'']"
| "cli_segs (LeaseRenew i t) = [''v1'', ''leases'', i, ''renew'']"
| "cli_segs (LeaseRevoke i) = [''v1'', ''leases'', i, ''revoke'']"
| "cli_segs (PolicyCreate n ns i p cs) = [''v1'', ''policies'']"
| "cli_segs (PolicyList ns) = [''v1'', ''policies'']"
| "cli_segs (PolicyDelete n) = [''v1'', ''policies'', n]"
| "cli_segs (AuditList ns a) = [''v1'', ''audit'']"
| "cli_segs AuditVerify = [''v1'', ''audit'', ''verify'']"
| "cli_segs (PkiRoot n ns cn t) = [''v1'', ''pki'', ''cas'', ''root'']"
| "cli_segs (PkiIntermediate n ns p cn t) = [''v1'', ''pki'', ''cas'', ''intermediate'']"
| "cli_segs (PkiIssue ca cn t d) = [''v1'', ''pki'', ''issue'']"
| "cli_segs (PkiRevoke k r ns) = [''v1'', ''pki'', ''revoke'']"
| "cli_segs (PkiCrl ca) = [''v1'', ''pki'', ''cas'', ca, ''crl'']"
| "cli_segs (PkiOcsp ca k) = [''v1'', ''pki'', ''cas'', ca, ''ocsp'', k]"
| "cli_segs (PkiListCAs ns) = [''v1'', ''pki'', ''cas'']"
| "cli_segs (PkiListCerts ns) = [''v1'', ''pki'', ''certificates'']"
| "cli_segs (CryptoEncrypt p) = [''v1'', ''crypto'', ''encrypt'']"
| "cli_segs (CryptoDecrypt c k) = [''v1'', ''crypto'', ''decrypt'']"
| "cli_segs (CryptoSign d) = [''v1'', ''crypto'', ''sign'']"
| "cli_segs (CryptoVerify d s a) = [''v1'', ''crypto'', ''verify'']"
| "cli_segs (CryptoDerive m s l) = [''v1'', ''crypto'', ''derive'']"
| "cli_segs (CryptoRandom l) = [''v1'', ''crypto'', ''random'']"

lemmas cli_call_defs =
  namespace_create_def namespace_list_def secret_put_def secret_get_def secret_list_def secret_versions_def
  secret_delete_def secret_restore_def secret_destroy_def secret_rollback_def lease_create_def lease_renew_def
  lease_revoke_def policy_create_def policy_list_def policy_delete_def audit_list_def audit_verify_def pki_root_def
  pki_intermediate_def pki_issue_def pki_revoke_def pki_crl_def pki_ocsp_def pki_list_cas_def pki_list_certs_def
  crypto_encrypt_def crypto_decrypt_def crypto_sign_def crypto_verify_def crypto_derive_def crypto_random_def

lemma cli_call_path: "\<exists>q. call_Path (cli_call cmd) = seg_path (cli_segs cmd) @ q \<and> url_path q = []"
  by (cases cmd; simp only: cli_call.simps cli_segs.simps cli_call_defs doE_def secretPathURL_def Let_def;
      simp add: Escape_words encodePath_seg_path)

lemma plain_words [simp]:
  "plain_segment ''v1''" "plain_segment ''namespaces''" "plain_segment ''secrets''" "plain_segment ''versions''"
  "plain_segment ''delete''" "plain_segment ''restore''" "plain_segment ''destroy''" "plain_segment ''rollback''"
  "plain_segment ''leases''" "plain_segment ''policies''" "plain_segment ''audit''" "plain_segment ''pki''"
  "plain_segment ''cas''" "plain_segment ''ocsp''" "plain_segment ''crypto''"
  by (simp_all add: plain_segment_def)

lemma plain_dots: "plain_segment s \<Longrightarrow> s \<noteq> ''.'' \<and> s \<noteq> ''..''"
  by (simp add: plain_segment_def)

lemma cli_segs_ok:
  assumes "cli_args_ok cmd"
  shows "cli_segs cmd \<noteq> []" and "\<forall>s \<in> set (butlast (cli_segs cmd)). plain_segment s"
    and "last (cli_segs cmd) \<noteq> ''.''" and "last (cli_segs cmd) \<noteq> ''..''"
proof -
  show "cli_segs cmd \<noteq> []" by (cases cmd) simp_all
  show "\<forall>s \<in> set (butlast (cli_segs cmd)). plain_segment s"
    using assms by (cases cmd; simp add: butlast_append path_segs_props(1); use path_segs_props(2) in blast)
  show "last (cli_segs cmd) \<noteq> ''.''" "last (cli_segs cmd) \<noteq> ''..''"
    using assms by (cases cmd; simp add: path_segs_props plain_dots)+
qed

lemma cli_route_segs:
  assumes "cli_args_ok cmd"
  shows "route (call_Method (cli_call cmd)) (cli_segs cmd) = Some (cli_route cmd)"
  using assms path_segs_props(1)
  by (cases cmd; simp only: cli_call.simps cli_segs.simps cli_route.simps cli_call_defs doE_def Let_def;
      auto simp: route_def route_namespaces_def route_secrets_def route_versions_def route_leases_def
        route_policies_def route_audit_def route_pki_def route_cas_def route_crypto_def on_def is_get_def
        path_arg_def plain_segment_def split: list.splits)

end
