(* ===== verification/GRPC_Server.thy ===== *)
theory GRPC_Server
  imports Mediation
begin

text \<open>
  The gRPC server (\<open>api/grpc\<close>): the values of a request, authentication, authorisation and
  the 30 methods of the gateway. Messages are JSON objects (\<open>jsonCodec\<close>) decoded into a map;
  \<open>status.Error(codes.C, err.Error())\<close> is the error wrapped with the name of the code.
\<close>

section \<open>Requests\<close>

record GRequest =
  gq_Method :: string
  gq_Metadata :: "string \<Rightarrow> string list"
  gq_Body :: "json option"
  gq_Actor :: string

type_synonym jmap = "(string \<times> json) list"

text \<open>\<open>m[key]\<close>: the last member of that name, \<open>nil\<close> when there is none.\<close>

definition jget :: "jmap \<Rightarrow> string \<Rightarrow> json" where
  "jget m key = (case map_of (rev m) key of None \<Rightarrow> JNull | Some v \<Rightarrow> v)"

definition strValue :: "jmap \<Rightarrow> string \<Rightarrow> string" where
  "strValue m key = (case jget m key of JStr t \<Rightarrow> t | _ \<Rightarrow> [])"

text \<open>A number is decoded as a \<open>float64\<close>; \<open>sv_float_int\<close> is its conversion to \<open>int\<close>.\<close>

definition intValue :: "Server \<Rightarrow> jmap \<Rightarrow> string \<Rightarrow> int" where
  "intValue s m key = (case jget m key of JNum n \<Rightarrow> (case sv_float_int s n of None \<Rightarrow> 0 | Some i \<Rightarrow> i) | _ \<Rightarrow> 0)"

definition boolValue :: "jmap \<Rightarrow> string \<Rightarrow> bool" where
  "boolValue m key = (case jget m key of JBool b \<Rightarrow> b | _ \<Rightarrow> False)"

definition int64Value :: "Server \<Rightarrow> jmap \<Rightarrow> string \<Rightarrow> int" where
  "int64Value s m key = intValue s m key"

fun texts_loop :: "json list \<Rightarrow> string list" where
  "texts_loop [] = []"
| "texts_loop (item # items) = (case item of JStr t \<Rightarrow> t # texts_loop items | _ \<Rightarrow> texts_loop items)"

definition stringSlice :: "json \<Rightarrow> string list" where
  "stringSlice value = (case value of JArr items \<Rightarrow> texts_loop items | _ \<Rightarrow> [])"

text \<open>\<open>fmt.Sprint\<close> of a decoded value; \<open>sv_Sprint\<close> for numbers and composite values.\<close>

definition sprint :: "Server \<Rightarrow> json \<Rightarrow> string" where
  "sprint s item = (case item of
     JStr t \<Rightarrow> t | JNull \<Rightarrow> ''<nil>'' | JBool b \<Rightarrow> (if b then ''true'' else ''false'') | _ \<Rightarrow> sv_Sprint s item)"

definition stringMap :: "Server \<Rightarrow> json \<Rightarrow> smap option" where
  "stringMap s value = (case value of
     JObj raw \<Rightarrow> Some (foldl (\<lambda>m (key, item). map_put m key (sprint s item)) [] raw) | _ \<Rightarrow> None)"

function trim_slashes :: "string \<Rightarrow> string" where
  "trim_slashes p = (if length p > 1 \<and> last p = CHR ''/'' then trim_slashes (butlast p) else p)"
  by pat_completeness auto
termination
  by (relation "measure length") auto

declare trim_slashes.simps [simp del]

definition normalizePath :: "string \<Rightarrow> string" where
  "normalizePath path =
     (if path = [] then ''/''
      else trim_slashes (if hd path \<noteq> CHR ''/'' then ''/'' @ path else path))"

section \<open>Authorisation and audit\<close>

definition statusE :: "string \<Rightarrow> 'a io \<Rightarrow> 'a io" where
  "statusE st m = wrapE st [] m"

definition rpc_request :: "string \<Rightarrow> string \<Rightarrow> string \<Rightarrow> Capability \<Rightarrow> AuthorizationRequest" where
  "rpc_request actor namespace path capability =
     \<lparr>req_Identity = actor, req_Namespace = namespace, req_Path = path, req_Capability = capability,
      req_Context = [(''grpc'', ''true'')]\<rparr>"

definition rpc_authorize :: "env \<Rightarrow> Server \<Rightarrow> GRequest \<Rightarrow> string \<Rightarrow> string \<Rightarrow> Capability \<Rightarrow> unit io" where
  "rpc_authorize env s q namespace path capability =
     bindE (statusE ''Internal'' (PolicyService_Authorize env (sv_adminIdentity s)
       (rpc_request (actorFromContext (gq_Actor q)) namespace path capability))) (\<lambda>ok.
     guardE (\<not> ok) (Errorf ''PermissionDenied'' [''forbidden'']))"

definition rpc_audit ::
  "env \<Rightarrow> Server \<Rightarrow> GRequest \<Rightarrow> string \<Rightarrow> string \<Rightarrow> string \<Rightarrow> smap option \<Rightarrow> payload \<Rightarrow> payload io" where
  "rpc_audit env s q namespace path action metadata answer =
     bindE (recordAudit env s (actorFromContext (gq_Actor q)) namespace path action ''success'' metadata)
       (\<lambda>_. okE answer)"

definition count_metadata :: "'a list \<Rightarrow> smap option" where
  "count_metadata xs = Some [(''count'', Itoa (int (length xs)))]"

definition rpc_version :: "VersionMetadata \<Rightarrow> smap option" where
  "rpc_version m = Some [(''version'', Itoa (vm_Version m))]"

section \<open>Namespaces and secrets\<close>

definition rpc_createNamespace :: "env \<Rightarrow> Server \<Rightarrow> GRequest \<Rightarrow> jmap \<Rightarrow> payload io" where
  "rpc_createNamespace env s q req =
     (let name = strValue req ''name''; desc = strValue req ''description'' in
      bindE (rpc_authorize env s q name ''/'' CapabilityCreate) (\<lambda>_.
      bindE (statusE ''InvalidArgument'' (SecretService_CreateNamespace env name desc)) (\<lambda>ns.
      rpc_audit env s q (ns_Name ns) ''/'' ''namespace.create'' (Some [(''namespace'', ns_Name ns)]) (PNamespace ns))))"

definition rpc_putSecret :: "env \<Rightarrow> Server \<Rightarrow> GRequest \<Rightarrow> jmap \<Rightarrow> payload io" where
  "rpc_putSecret env s q req =
     (let namespace = strValue req ''namespace''; path = normalizePath (strValue req ''path'') in
      bindE (rpc_authorize env s q namespace path CapabilityCreate) (\<lambda>_.
      bindE (statusE ''InvalidArgument'' (SecretService_PutSecret env (sv_secret s)
        \<lparr>psi_Namespace = namespace, psi_Path = path, psi_Type = strValue req ''type'',
         psi_Value = strValue req ''value''\<rparr>)) (\<lambda>metadata.
      rpc_audit env s q namespace path ''secret.create'' (rpc_version metadata) (PVersion metadata))))"

definition rpc_getSecret :: "env \<Rightarrow> Server \<Rightarrow> GRequest \<Rightarrow> jmap \<Rightarrow> payload io" where
  "rpc_getSecret env s q req =
     (let namespace = strValue req ''namespace''; path = normalizePath (strValue req ''path'') in
      bindE (rpc_authorize env s q namespace path CapabilityRead) (\<lambda>_.
      bindE (statusE ''NotFound'' (SecretService_GetSecret env (sv_secret s) namespace path
        (int64Value s req ''version''))) (\<lambda>(v, metadata).
      rpc_audit env s q namespace path ''secret.read'' (rpc_version metadata)
        (PSecretValue v (vm_Version metadata) (vm_State metadata)))))"

definition rpc_listSecrets :: "env \<Rightarrow> Server \<Rightarrow> GRequest \<Rightarrow> jmap \<Rightarrow> payload io" where
  "rpc_listSecrets env s q req =
     (let namespace = strValue req ''namespace'' in
      bindE (rpc_authorize env s q namespace ''/'' CapabilityList) (\<lambda>_.
      bindE (statusE ''Internal'' (SecretService_ListSecrets env namespace)) (\<lambda>secrets.
      rpc_audit env s q namespace ''/'' ''secret.list'' (count_metadata secrets) (PSecrets secrets))))"

definition rpc_listVersions :: "env \<Rightarrow> Server \<Rightarrow> GRequest \<Rightarrow> jmap \<Rightarrow> payload io" where
  "rpc_listVersions env s q req =
     (let namespace = strValue req ''namespace''; path = normalizePath (strValue req ''path'') in
      bindE (rpc_authorize env s q namespace path CapabilityRead) (\<lambda>_.
      bindE (statusE ''NotFound'' (SecretService_ListVersions env namespace path)) (\<lambda>versions.
      rpc_audit env s q namespace path ''secret.versions.list'' (count_metadata versions) (PVersions versions))))"

definition rpc_softDeleteVersion :: "env \<Rightarrow> Server \<Rightarrow> GRequest \<Rightarrow> jmap \<Rightarrow> payload io" where
  "rpc_softDeleteVersion env s q req =
     (let namespace = strValue req ''namespace''; path = normalizePath (strValue req ''path'') in
      bindE (rpc_authorize env s q namespace path CapabilityDelete) (\<lambda>_.
      bindE (statusE ''InvalidArgument'' (SecretService_SoftDeleteVersion env (sv_secret s) namespace path
        (int64Value s req ''version''))) (\<lambda>metadata.
      rpc_audit env s q namespace path ''secret.version.delete'' (rpc_version metadata) (PVersion metadata))))"

definition rpc_restoreVersion :: "env \<Rightarrow> Server \<Rightarrow> GRequest \<Rightarrow> jmap \<Rightarrow> payload io" where
  "rpc_restoreVersion env s q req =
     (let namespace = strValue req ''namespace''; path = normalizePath (strValue req ''path'') in
      bindE (rpc_authorize env s q namespace path CapabilityUpdate) (\<lambda>_.
      bindE (statusE ''InvalidArgument'' (SecretService_RestoreVersion env namespace path
        (int64Value s req ''version''))) (\<lambda>metadata.
      rpc_audit env s q namespace path ''secret.version.restore'' (rpc_version metadata) (PVersion metadata))))"

definition rpc_destroyVersion :: "env \<Rightarrow> Server \<Rightarrow> GRequest \<Rightarrow> jmap \<Rightarrow> payload io" where
  "rpc_destroyVersion env s q req =
     (let namespace = strValue req ''namespace''; path = normalizePath (strValue req ''path'') in
      bindE (rpc_authorize env s q namespace path CapabilityDelete) (\<lambda>_.
      let version = int64Value s req ''version'' in
      bindE (statusE ''InvalidArgument'' (SecretService_DestroyVersion env namespace path version)) (\<lambda>_.
      rpc_audit env s q namespace path ''secret.version.destroy'' (Some [(''version'', Itoa version)])
        (PFlag ''destroyed'' True))))"

definition rpc_rollbackVersion :: "env \<Rightarrow> Server \<Rightarrow> GRequest \<Rightarrow> jmap \<Rightarrow> payload io" where
  "rpc_rollbackVersion env s q req =
     (let namespace = strValue req ''namespace''; path = normalizePath (strValue req ''path'') in
      bindE (rpc_authorize env s q namespace path CapabilityUpdate) (\<lambda>_.
      bindE (statusE ''InvalidArgument'' (SecretService_Rollback env namespace path
        (int64Value s req ''version''))) (\<lambda>metadata.
      rpc_audit env s q namespace path ''secret.version.rollback'' (rpc_version metadata) (PVersion metadata))))"

section \<open>Leases\<close>

definition rpc_lease :: "Server \<Rightarrow> Lease \<Rightarrow> smap option" where
  "rpc_lease s lease = Some [(''lease_id'', sv_UUIDString s (lease_ID lease))]"

definition rpc_createLease :: "env \<Rightarrow> Server \<Rightarrow> GRequest \<Rightarrow> jmap \<Rightarrow> payload io" where
  "rpc_createLease env s q req =
     (let namespace = strValue req ''namespace''; path = normalizePath (strValue req ''path'') in
      bindE (rpc_authorize env s q namespace path CapabilityCreate) (\<lambda>_.
      let ttl = duration_or_zero (strValue req ''ttl'') in
      bindE (statusE ''InvalidArgument'' (LeaseService_Create env (sv_lease s)
        \<lparr>cli_Namespace = namespace, cli_Path = path, cli_TTL = ttl, cli_Renewable = boolValue req ''renewable'',
         cli_Metadata = stringMap s (jget req ''metadata'')\<rparr>)) (\<lambda>lease.
      rpc_audit env s q namespace path ''lease.create'' (rpc_lease s lease) (PLease lease))))"

definition rpc_renewLease :: "env \<Rightarrow> Server \<Rightarrow> GRequest \<Rightarrow> jmap \<Rightarrow> payload io" where
  "rpc_renewLease env s q req =
     bindE (statusE ''InvalidArgument'' (liftE (sv_ParseUUID s (strValue req ''id'')))) (\<lambda>i.
     bindE (statusE ''NotFound'' (LeaseService_Get env i)) (\<lambda>lease.
     bindE (rpc_authorize env s q (lease_Namespace lease) (lease_Path lease) CapabilityUpdate) (\<lambda>_.
     let ttl = duration_or_zero (strValue req ''ttl'') in
     bindE (statusE ''InvalidArgument'' (LeaseService_Renew env (sv_lease s) i ttl)) (\<lambda>renewed.
     rpc_audit env s q (lease_Namespace renewed) (lease_Path renewed) ''lease.renew'' (rpc_lease s renewed)
       (PLease renewed)))))"

definition rpc_revokeLease :: "env \<Rightarrow> Server \<Rightarrow> GRequest \<Rightarrow> jmap \<Rightarrow> payload io" where
  "rpc_revokeLease env s q req =
     bindE (statusE ''InvalidArgument'' (liftE (sv_ParseUUID s (strValue req ''id'')))) (\<lambda>i.
     bindE (statusE ''NotFound'' (LeaseService_Get env i)) (\<lambda>lease.
     bindE (rpc_authorize env s q (lease_Namespace lease) (lease_Path lease) CapabilityDelete) (\<lambda>_.
     bindE (statusE ''InvalidArgument'' (LeaseService_Revoke env i)) (\<lambda>revoked.
     rpc_audit env s q (lease_Namespace revoked) (lease_Path revoked) ''lease.revoke'' (rpc_lease s revoked)
       (PLease revoked)))))"

section \<open>Policies and the audit log\<close>

text \<open>The loop over the capabilities of the request.\<close>

fun rpc_capabilities :: "string list \<Rightarrow> Capability list io" where
  "rpc_capabilities [] = okE []"
| "rpc_capabilities (v # vs) =
     bindE (statusE ''InvalidArgument'' (liftE (ValidateCapability v))) (\<lambda>c.
     bindE (rpc_capabilities vs) (\<lambda>cs. okE (c # cs)))"

definition rpc_createPolicy :: "env \<Rightarrow> Server \<Rightarrow> GRequest \<Rightarrow> jmap \<Rightarrow> payload io" where
  "rpc_createPolicy env s q req =
     (let namespace = strValue req ''namespace'' in
      bindE (rpc_authorize env s q namespace ''/'' CapabilityCreate) (\<lambda>_.
      bindE (rpc_capabilities (stringSlice (jget req ''capabilities''))) (\<lambda>caps.
      bindE (statusE ''InvalidArgument'' (PolicyService_Create env
        \<lparr>cpi_Name = strValue req ''name'', cpi_Namespace = namespace,
         cpi_PathPrefix = normalizePath (strValue req ''path_prefix''), cpi_Identity = strValue req ''identity'',
         cpi_Capabilities = caps, cpi_Conditions = stringMap s (jget req ''conditions'')\<rparr>)) (\<lambda>policy.
      rpc_audit env s q namespace ''/'' ''policy.create'' (Some [(''policy'', pol_Name policy)]) (PPolicy policy)))))"

definition rpc_listPolicies :: "env \<Rightarrow> Server \<Rightarrow> GRequest \<Rightarrow> jmap \<Rightarrow> payload io" where
  "rpc_listPolicies env s q req =
     (let namespace = strValue req ''namespace'' in
      bindE (rpc_authorize env s q namespace ''/'' CapabilityList) (\<lambda>_.
      bindE (statusE ''Internal'' (PolicyService_List env namespace)) (\<lambda>policies.
      rpc_audit env s q namespace ''/'' ''policy.list'' (count_metadata policies) (PPolicies policies))))"

definition rpc_deletePolicy :: "env \<Rightarrow> Server \<Rightarrow> GRequest \<Rightarrow> jmap \<Rightarrow> payload io" where
  "rpc_deletePolicy env s q req =
     (let name = strValue req ''name'' in
      bindE (statusE ''NotFound'' (PolicyService_Get env name)) (\<lambda>policy.
      bindE (rpc_authorize env s q (pol_Namespace policy) ''/'' CapabilityDelete) (\<lambda>_.
      bindE (statusE ''InvalidArgument'' (PolicyService_Delete env name)) (\<lambda>_.
      rpc_audit env s q (pol_Namespace policy) ''/'' ''policy.delete'' (Some [(''policy'', pol_Name policy)])
        (PFlag ''deleted'' True)))))"

text \<open>Without an audit service the two methods panic, which ends the process; \<open>panicE\<close> stands for it.\<close>

definition panicE :: "'a io" where
  "panicE = failE (PrimitiveError ''panic'')"

definition rpc_listAudit :: "env \<Rightarrow> Server \<Rightarrow> GRequest \<Rightarrow> jmap \<Rightarrow> payload io" where
  "rpc_listAudit env s q req =
     (let namespace = strValue req ''namespace'' in
      bindE (rpc_authorize env s q namespace ''/'' CapabilityList) (\<lambda>_.
      case sv_audit s of
        None \<Rightarrow> panicE
      | Some _ \<Rightarrow>
          bindE (statusE ''Internal'' (AuditService_List env
            \<lparr>lf_Namespace = namespace, lf_Path = strValue req ''path'', lf_Actor = strValue req ''actor'',
             lf_Action = strValue req ''action'', lf_Limit = intValue s req ''limit''\<rparr>)) (\<lambda>events.
          rpc_audit env s q namespace ''/'' ''audit.list'' (count_metadata events) (PEvents events))))"

definition rpc_verifyAudit :: "env \<Rightarrow> Server \<Rightarrow> GRequest \<Rightarrow> jmap \<Rightarrow> payload io" where
  "rpc_verifyAudit env s q req =
     (case sv_audit s of
        None \<Rightarrow> panicE
      | Some cs \<Rightarrow>
          bindE (statusE ''Internal'' (AuditService_Verify env cs)) (\<lambda>(ok, count).
          rpc_audit env s q ''*'' ''/'' ''audit.verify'' (Some [(''events'', Itoa (int count))]) (PVerified ok count)))"

end
