(* ===== verification/GRPC_PKI.thy ===== *)
theory GRPC_PKI
  imports GRPC_Server
begin

text \<open>
  The PKI and crypto methods of the gRPC server, the table of its methods and the call of
  one: decoding, authentication, the method (\<open>api/grpc/methods.go\<close>, \<open>server.go\<close>, \<open>auth.go\<close>).
\<close>

section \<open>Authorities and certificates\<close>

definition rpc_createRootCA :: "env \<Rightarrow> Server \<Rightarrow> GRequest \<Rightarrow> jmap \<Rightarrow> payload io" where
  "rpc_createRootCA env s q req =
     (let namespace = strValue req ''namespace'' in
      bindE (rpc_authorize env s q namespace ''/'' CapabilityCreate) (\<lambda>_.
      let ttl = duration_or_zero (strValue req ''ttl'') in
      bindE (statusE ''InvalidArgument'' (PKIService_CreateRoot env (sv_pki s)
        \<lparr>cci_Name = strValue req ''name'', cci_Namespace = namespace, cci_Type = CATypeOther [], cci_ParentName = [],
         cci_CommonName = strValue req ''common_name'', cci_TTL = ttl, cci_MaxPathLen = intValue s req ''max_path_len'',
         cci_DNSDomains = stringSlice (jget req ''dns_domains'')\<rparr>)) (\<lambda>ca.
      rpc_audit env s q namespace ''/'' ''pki.ca.root.create'' (Some [(''ca'', ca_Name ca)]) (PCA ca))))"

definition rpc_createIntermediateCA :: "env \<Rightarrow> Server \<Rightarrow> GRequest \<Rightarrow> jmap \<Rightarrow> payload io" where
  "rpc_createIntermediateCA env s q req =
     (let namespace = strValue req ''namespace'' in
      bindE (rpc_authorize env s q namespace ''/'' CapabilityCreate) (\<lambda>_.
      let ttl = duration_or_zero (strValue req ''ttl'') in
      bindE (statusE ''InvalidArgument'' (PKIService_CreateIntermediate env (sv_pki s)
        \<lparr>cci_Name = strValue req ''name'', cci_Namespace = namespace, cci_Type = CATypeOther [],
         cci_ParentName = strValue req ''parent_name'', cci_CommonName = strValue req ''common_name'', cci_TTL = ttl,
         cci_MaxPathLen = intValue s req ''max_path_len'',
         cci_DNSDomains = stringSlice (jget req ''dns_domains'')\<rparr>)) (\<lambda>ca.
      rpc_audit env s q namespace ''/'' ''pki.ca.intermediate.create'' (Some [(''ca'', ca_Name ca)]) (PCA ca))))"

definition rpc_issueCertificate :: "env \<Rightarrow> Server \<Rightarrow> GRequest \<Rightarrow> jmap \<Rightarrow> payload io" where
  "rpc_issueCertificate env s q req =
     bindE (statusE ''NotFound'' (PKIService_GetCA env (strValue req ''ca_name''))) (\<lambda>ca.
     bindE (rpc_authorize env s q (ca_Namespace ca) ''/'' CapabilityCreate) (\<lambda>_.
     let ttl = duration_or_zero (strValue req ''ttl'') in
     bindE (statusE ''InvalidArgument'' (PKIService_Issue env (sv_pki s)
       \<lparr>ii_CAName = ca_Name ca, ii_CommonName = strValue req ''common_name'',
        ii_DNSNames = stringSlice (jget req ''dns_names''), ii_TTL = ttl\<rparr>)) (\<lambda>cert.
     rpc_audit env s q (cert_Namespace cert) ''/'' ''pki.certificate.issue''
       (Some [(''serial'', cert_SerialNumber cert)]) (PCertificate cert))))"

definition rpc_renewCertificate :: "env \<Rightarrow> Server \<Rightarrow> GRequest \<Rightarrow> jmap \<Rightarrow> payload io" where
  "rpc_renewCertificate env s q req =
     bindE (statusE ''NotFound'' (PKIService_GetCertificate env (strValue req ''namespace'')
       (strValue req ''serial_number''))) (\<lambda>cert.
     bindE (rpc_authorize env s q (cert_Namespace cert) ''/'' CapabilityUpdate) (\<lambda>_.
     let ttl = duration_or_zero (strValue req ''ttl'') in
     bindE (statusE ''InvalidArgument'' (PKIService_Renew env (sv_pki s)
       \<lparr>rni_SerialNumber = cert_SerialNumber cert, rni_TTL = ttl\<rparr>)) (\<lambda>renewed.
     rpc_audit env s q (cert_Namespace renewed) ''/'' ''pki.certificate.renew''
       (Some [(''serial'', cert_SerialNumber renewed)]) (PCertificate renewed))))"

definition rpc_revokeCertificate :: "env \<Rightarrow> Server \<Rightarrow> GRequest \<Rightarrow> jmap \<Rightarrow> payload io" where
  "rpc_revokeCertificate env s q req =
     bindE (statusE ''NotFound'' (PKIService_GetCertificate env (strValue req ''namespace'')
       (strValue req ''serial_number''))) (\<lambda>cert.
     bindE (rpc_authorize env s q (cert_Namespace cert) ''/'' CapabilityDelete) (\<lambda>_.
     bindE (statusE ''InvalidArgument'' (PKIService_Revoke env
       \<lparr>rvi_SerialNumber = cert_SerialNumber cert, rvi_Reason = strValue req ''reason''\<rparr>)) (\<lambda>revocation.
     rpc_audit env s q (cert_Namespace cert) ''/'' ''pki.certificate.revoke''
       (Some [(''serial'', cert_SerialNumber cert)]) (PRevocation revocation))))"

definition rpc_getCRL :: "env \<Rightarrow> Server \<Rightarrow> GRequest \<Rightarrow> jmap \<Rightarrow> payload io" where
  "rpc_getCRL env s q req =
     (let name = strValue req ''ca_name'' in
      bindE (statusE ''NotFound'' (PKIService_GetCA env name)) (\<lambda>ca.
      bindE (rpc_authorize env s q (ca_Namespace ca) ''/'' CapabilityRead) (\<lambda>_.
      bindE (statusE ''InvalidArgument'' (PKIService_CRL env (sv_pki s) name)) (\<lambda>crl.
      rpc_audit env s q (ca_Namespace ca) ''/'' ''pki.crl.read'' (Some [(''ca'', name)]) (PTexts [(''crl'', crl)])))))"

definition rpc_getOCSP :: "env \<Rightarrow> Server \<Rightarrow> GRequest \<Rightarrow> jmap \<Rightarrow> payload io" where
  "rpc_getOCSP env s q req =
     (let name = strValue req ''ca_name''; serial = strValue req ''serial'' in
      bindE (statusE ''NotFound'' (PKIService_GetCA env name)) (\<lambda>ca.
      bindE (rpc_authorize env s q (ca_Namespace ca) ''/'' CapabilityRead) (\<lambda>_.
      bindE (statusE ''InvalidArgument'' (PKIService_OCSP env (sv_pki s) name serial)) (\<lambda>response.
      rpc_audit env s q (ca_Namespace ca) ''/'' ''pki.ocsp.read'' (Some [(''ca'', name), (''serial'', serial)])
        (PTexts [(''ocsp_response'', response)])))))"

section \<open>The crypto service\<close>

definition rpc_encrypt :: "env \<Rightarrow> Server \<Rightarrow> GRequest \<Rightarrow> jmap \<Rightarrow> payload io" where
  "rpc_encrypt env s q req =
     bindE (statusE ''InvalidArgument'' (CryptoService_Encrypt (sv_crypto s) (strValue req ''plaintext''))) (\<lambda>ciphertext.
     rpc_audit env s q ''*'' ''/crypto'' ''crypto.encrypt'' None
       (PTexts [(''ciphertext'', b64_encode (ct_Data ciphertext)), (''key_version'', ct_KeyVersion ciphertext)]))"

definition rpc_decrypt :: "env \<Rightarrow> Server \<Rightarrow> GRequest \<Rightarrow> jmap \<Rightarrow> payload io" where
  "rpc_decrypt env s q req =
     bindE (statusE ''InvalidArgument'' (liftE (b64_decode (strValue req ''ciphertext'')))) (\<lambda>data.
     bindE (statusE ''InvalidArgument'' (liftE (CryptoService_Decrypt (sv_crypto s)
       \<lparr>ct_Data = data, ct_KeyVersion = strValue req ''key_version''\<rparr>))) (\<lambda>plaintext.
     rpc_audit env s q ''*'' ''/crypto'' ''crypto.decrypt'' None (PTexts [(''plaintext'', plaintext)])))"

definition rpc_sign :: "env \<Rightarrow> Server \<Rightarrow> GRequest \<Rightarrow> jmap \<Rightarrow> payload io" where
  "rpc_sign env s q req =
     bindE (statusE ''InvalidArgument'' (liftE (CryptoService_Sign (sv_crypto s) (strValue req ''data'')))) (\<lambda>sig.
     rpc_audit env s q ''*'' ''/crypto'' ''crypto.sign'' None
       (PTexts [(''signature'', b64_encode (sig_Signature sig)), (''algorithm'', sig_Algorithm sig)]))"

definition rpc_verify :: "env \<Rightarrow> Server \<Rightarrow> GRequest \<Rightarrow> jmap \<Rightarrow> payload io" where
  "rpc_verify env s q req =
     bindE (statusE ''InvalidArgument'' (liftE (b64_decode (strValue req ''signature'')))) (\<lambda>sig.
     bindE (statusE ''InvalidArgument'' (liftE (CryptoService_Verify (sv_crypto s) (strValue req ''data'')
       \<lparr>sig_Signature = sig, sig_Algorithm = strValue req ''algorithm''\<rparr>))) (\<lambda>ok.
     rpc_audit env s q ''*'' ''/crypto'' ''crypto.verify'' None (PFlag ''valid'' ok)))"

definition rpc_deriveKey :: "env \<Rightarrow> Server \<Rightarrow> GRequest \<Rightarrow> jmap \<Rightarrow> payload io" where
  "rpc_deriveKey env s q req =
     bindE (statusE ''InvalidArgument'' (liftE (CryptoService_DeriveKey (sv_crypto s) (strValue req ''material'')
       (strValue req ''salt'') (intValue s req ''length'')))) (\<lambda>derived.
     rpc_audit env s q ''*'' ''/crypto'' ''crypto.derive'' None (PTexts [(''derived'', b64_encode derived)]))"

definition rpc_random :: "env \<Rightarrow> Server \<Rightarrow> GRequest \<Rightarrow> jmap \<Rightarrow> payload io" where
  "rpc_random env s q req =
     bindE (statusE ''InvalidArgument'' (CryptoService_Random (sv_crypto s) (intValue s req ''length''))) (\<lambda>random.
     rpc_audit env s q ''*'' ''/crypto'' ''crypto.random'' None (PTexts [(''random'', b64_encode random)]))"

section \<open>Methods\<close>

datatype Method =
    M_CreateNamespace | M_PutSecret | M_GetSecret | M_ListSecrets | M_ListVersions | M_SoftDeleteVersion
  | M_RestoreVersion | M_DestroyVersion | M_RollbackVersion | M_CreateLease | M_RenewLease | M_RevokeLease
  | M_CreatePolicy | M_ListPolicies | M_DeletePolicy | M_ListAudit | M_VerifyAudit
  | M_CreateRootCA | M_CreateIntermediateCA | M_IssueCertificate | M_RenewCertificate | M_RevokeCertificate
  | M_GetCRL | M_GetOCSP | M_Encrypt | M_Decrypt | M_Sign | M_Verify | M_DeriveKey | M_Random

definition platformServiceDesc :: "(string \<times> Method) list" where
  "platformServiceDesc =
     [(''CreateNamespace'', M_CreateNamespace), (''PutSecret'', M_PutSecret), (''GetSecret'', M_GetSecret),
      (''ListSecrets'', M_ListSecrets), (''ListVersions'', M_ListVersions),
      (''SoftDeleteVersion'', M_SoftDeleteVersion), (''RestoreVersion'', M_RestoreVersion),
      (''DestroyVersion'', M_DestroyVersion), (''RollbackVersion'', M_RollbackVersion),
      (''CreateLease'', M_CreateLease), (''RenewLease'', M_RenewLease), (''RevokeLease'', M_RevokeLease),
      (''CreatePolicy'', M_CreatePolicy), (''ListPolicies'', M_ListPolicies), (''DeletePolicy'', M_DeletePolicy),
      (''ListAudit'', M_ListAudit), (''VerifyAudit'', M_VerifyAudit), (''CreateRootCA'', M_CreateRootCA),
      (''CreateIntermediateCA'', M_CreateIntermediateCA), (''IssueCertificate'', M_IssueCertificate),
      (''RenewCertificate'', M_RenewCertificate), (''RevokeCertificate'', M_RevokeCertificate),
      (''GetCRL'', M_GetCRL), (''GetOCSP'', M_GetOCSP), (''Encrypt'', M_Encrypt), (''Decrypt'', M_Decrypt),
      (''Sign'', M_Sign), (''Verify'', M_Verify), (''DeriveKey'', M_DeriveKey), (''Random'', M_Random)]"

fun rpc_call :: "env \<Rightarrow> Server \<Rightarrow> GRequest \<Rightarrow> jmap \<Rightarrow> Method \<Rightarrow> payload io" where
  "rpc_call env s q req M_CreateNamespace = rpc_createNamespace env s q req"
| "rpc_call env s q req M_PutSecret = rpc_putSecret env s q req"
| "rpc_call env s q req M_GetSecret = rpc_getSecret env s q req"
| "rpc_call env s q req M_ListSecrets = rpc_listSecrets env s q req"
| "rpc_call env s q req M_ListVersions = rpc_listVersions env s q req"
| "rpc_call env s q req M_SoftDeleteVersion = rpc_softDeleteVersion env s q req"
| "rpc_call env s q req M_RestoreVersion = rpc_restoreVersion env s q req"
| "rpc_call env s q req M_DestroyVersion = rpc_destroyVersion env s q req"
| "rpc_call env s q req M_RollbackVersion = rpc_rollbackVersion env s q req"
| "rpc_call env s q req M_CreateLease = rpc_createLease env s q req"
| "rpc_call env s q req M_RenewLease = rpc_renewLease env s q req"
| "rpc_call env s q req M_RevokeLease = rpc_revokeLease env s q req"
| "rpc_call env s q req M_CreatePolicy = rpc_createPolicy env s q req"
| "rpc_call env s q req M_ListPolicies = rpc_listPolicies env s q req"
| "rpc_call env s q req M_DeletePolicy = rpc_deletePolicy env s q req"
| "rpc_call env s q req M_ListAudit = rpc_listAudit env s q req"
| "rpc_call env s q req M_VerifyAudit = rpc_verifyAudit env s q req"
| "rpc_call env s q req M_CreateRootCA = rpc_createRootCA env s q req"
| "rpc_call env s q req M_CreateIntermediateCA = rpc_createIntermediateCA env s q req"
| "rpc_call env s q req M_IssueCertificate = rpc_issueCertificate env s q req"
| "rpc_call env s q req M_RenewCertificate = rpc_renewCertificate env s q req"
| "rpc_call env s q req M_RevokeCertificate = rpc_revokeCertificate env s q req"
| "rpc_call env s q req M_GetCRL = rpc_getCRL env s q req"
| "rpc_call env s q req M_GetOCSP = rpc_getOCSP env s q req"
| "rpc_call env s q req M_Encrypt = rpc_encrypt env s q req"
| "rpc_call env s q req M_Decrypt = rpc_decrypt env s q req"
| "rpc_call env s q req M_Sign = rpc_sign env s q req"
| "rpc_call env s q req M_Verify = rpc_verify env s q req"
| "rpc_call env s q req M_DeriveKey = rpc_deriveKey env s q req"
| "rpc_call env s q req M_Random = rpc_random env s q req"

section \<open>The server\<close>

definition firstMetadata :: "(string \<Rightarrow> string list) \<Rightarrow> string \<Rightarrow> string" where
  "firstMetadata md key = (case md key of [] \<Rightarrow> [] | v # _ \<Rightarrow> v)"

definition authInterceptor :: "Server \<Rightarrow> GRequest \<Rightarrow> (GRequest \<Rightarrow> payload io) \<Rightarrow> payload io" where
  "authInterceptor s q handler =
     (case authenticate s (firstMetadata (gq_Metadata q) (sv_TokenHeader s))
             (firstMetadata (gq_Metadata q) (sv_IdentityHeader s)) of
        None \<Rightarrow> failE (Errorf ''Unauthenticated'' [''missing credentials''])
      | Some actor \<Rightarrow> handler (q\<lparr>gq_Actor := actor\<rparr>))"

text \<open>Decoding into a map: an object, or \<open>null\<close>, whose numbers are in the range of \<open>float64\<close>.\<close>

fun numbers_ok :: "(string \<Rightarrow> int option) \<Rightarrow> json \<Rightarrow> bool" where
  "numbers_ok f (JNum n) = (f n \<noteq> None)"
| "numbers_ok f (JArr xs) = (\<forall>x \<in> set xs. numbers_ok f x)"
| "numbers_ok f (JObj ms) = (\<forall>(k, x) \<in> set ms. numbers_ok f x)"
| "numbers_ok f _ = True"

definition rpc_decode :: "Server \<Rightarrow> json option \<Rightarrow> err + jmap" where
  "rpc_decode s body =
     (case body of
        Some JNull \<Rightarrow> Inr []
      | Some (JObj ms) \<Rightarrow> if numbers_ok (sv_float_int s) (JObj ms) then Inr ms else Inl decode_error
      | _ \<Rightarrow> Inl decode_error)"

definition rpc_serve :: "env \<Rightarrow> Server \<Rightarrow> GRequest \<Rightarrow> payload io" where
  "rpc_serve env s q =
     (case map_of platformServiceDesc (gq_Method q) of
        None \<Rightarrow> failE (Errorf ''Unimplemented'' [gq_Method q])
      | Some m \<Rightarrow>
          bindE (liftE (rpc_decode s (gq_Body q))) (\<lambda>req.
          authInterceptor s q (\<lambda>q'. rpc_call env s q' req m)))"

end
