(* ===== verification/GRPC_Mediation.thy ===== *)
theory GRPC_Mediation
  imports GRPC_PKI
begin

text \<open>
  What each gRPC method demands of the policies, and the proof that the methods ask for it
  before they act. \<open>VerifyAudit\<close> and the crypto methods demand nothing: they are served to
  every caller that sends a token or an identity.
\<close>

section \<open>The access matrix\<close>

definition rpc_path :: "jmap \<Rightarrow> string" where
  "rpc_path req = normalizePath (strValue req ''path'')"

definition rpc_lease_demand :: "Server \<Rightarrow> jmap \<Rightarrow> Capability \<Rightarrow> tables \<Rightarrow> (string \<times> string \<times> Capability) option" where
  "rpc_lease_demand s req c d = (case sv_ParseUUID s (strValue req ''id'') of
     Inl _ \<Rightarrow> None
   | Inr i \<Rightarrow> map_option (\<lambda>l. (lease_Namespace l, lease_Path l, c)) (find (\<lambda>l. lease_ID l = i) (leases d)))"

definition rpc_ca_demand :: "jmap \<Rightarrow> Capability \<Rightarrow> tables \<Rightarrow> (string \<times> string \<times> Capability) option" where
  "rpc_ca_demand req c d =
     map_option (\<lambda>a. (ca_Namespace a, ''/'', c)) (find (\<lambda>a. ca_Name a = strValue req ''ca_name'') (pki_cas d))"

definition rpc_certificate_demand :: "jmap \<Rightarrow> Capability \<Rightarrow> tables \<Rightarrow> (string \<times> string \<times> Capability) option" where
  "rpc_certificate_demand req c d =
     map_option (\<lambda>x. (cert_Namespace x, ''/'', c))
       (find (\<lambda>x. cert_key x = (strValue req ''namespace'', strValue req ''serial_number'')) (certificates d))"

fun rpc_demand :: "Server \<Rightarrow> jmap \<Rightarrow> Method \<Rightarrow> tables \<Rightarrow> (string \<times> string \<times> Capability) option" where
  "rpc_demand s req M_CreateNamespace d = Some (strValue req ''name'', ''/'', CapabilityCreate)"
| "rpc_demand s req M_PutSecret d = Some (strValue req ''namespace'', rpc_path req, CapabilityCreate)"
| "rpc_demand s req M_GetSecret d = Some (strValue req ''namespace'', rpc_path req, CapabilityRead)"
| "rpc_demand s req M_ListSecrets d = Some (strValue req ''namespace'', ''/'', CapabilityList)"
| "rpc_demand s req M_ListVersions d = Some (strValue req ''namespace'', rpc_path req, CapabilityRead)"
| "rpc_demand s req M_SoftDeleteVersion d = Some (strValue req ''namespace'', rpc_path req, CapabilityDelete)"
| "rpc_demand s req M_RestoreVersion d = Some (strValue req ''namespace'', rpc_path req, CapabilityUpdate)"
| "rpc_demand s req M_DestroyVersion d = Some (strValue req ''namespace'', rpc_path req, CapabilityDelete)"
| "rpc_demand s req M_RollbackVersion d = Some (strValue req ''namespace'', rpc_path req, CapabilityUpdate)"
| "rpc_demand s req M_CreateLease d = Some (strValue req ''namespace'', rpc_path req, CapabilityCreate)"
| "rpc_demand s req M_RenewLease d = rpc_lease_demand s req CapabilityUpdate d"
| "rpc_demand s req M_RevokeLease d = rpc_lease_demand s req CapabilityDelete d"
| "rpc_demand s req M_CreatePolicy d = Some (strValue req ''namespace'', ''/'', CapabilityCreate)"
| "rpc_demand s req M_ListPolicies d = Some (strValue req ''namespace'', ''/'', CapabilityList)"
| "rpc_demand s req M_DeletePolicy d =
     map_option (\<lambda>p. (pol_Namespace p, ''/'', CapabilityDelete))
       (find (\<lambda>p. pol_Name p = strValue req ''name'') (policies d))"
| "rpc_demand s req M_ListAudit d = Some (strValue req ''namespace'', ''/'', CapabilityList)"
| "rpc_demand s req M_CreateRootCA d = Some (strValue req ''namespace'', ''/'', CapabilityCreate)"
| "rpc_demand s req M_CreateIntermediateCA d = Some (strValue req ''namespace'', ''/'', CapabilityCreate)"
| "rpc_demand s req M_IssueCertificate d = rpc_ca_demand req CapabilityCreate d"
| "rpc_demand s req M_RenewCertificate d = rpc_certificate_demand req CapabilityUpdate d"
| "rpc_demand s req M_RevokeCertificate d = rpc_certificate_demand req CapabilityDelete d"
| "rpc_demand s req M_GetCRL d = rpc_ca_demand req CapabilityRead d"
| "rpc_demand s req M_GetOCSP d = rpc_ca_demand req CapabilityRead d"
| "rpc_demand s req _ d = None"

definition open_method :: "Method \<Rightarrow> bool" where
  "open_method m \<longleftrightarrow> m \<in> {M_VerifyAudit, M_Encrypt, M_Decrypt, M_Sign, M_Verify, M_DeriveKey, M_Random}"

definition rpc_requires :: "Server \<Rightarrow> GRequest \<Rightarrow> jmap \<Rightarrow> Method \<Rightarrow> tables \<Rightarrow> AuthorizationRequest \<Rightarrow> bool" where
  "rpc_requires s q req m d ar = (case rpc_demand s req m d of
     None \<Rightarrow> False
   | Some (ns, p, c) \<Rightarrow> ar = rpc_request (actorFromContext (gq_Actor q)) ns p c)"

lemma rpc_requiresI:
  "rpc_demand s req m d = Some (ns, p, c) \<Longrightarrow>
     rpc_requires s q req m d (rpc_request (actorFromContext (gq_Actor q)) ns p c)"
  by (simp add: rpc_requires_def)

lemmas rpc_demand_defs = rpc_lease_demand_def rpc_ca_demand_def rpc_certificate_demand_def rpc_path_def

lemma rpc_demand_core [simp]: "rpc_demand s req m (core d) = rpc_demand s req m d"
  by (cases m) (simp_all add: rpc_demand_defs split: sum.split)

section \<open>Rules for mediation\<close>

lemma bindE_wrapE:
  "bindE (wrapE f a m) k = bindE (tryE m) (\<lambda>r. case r of Inl e \<Rightarrow> failE (Wrapf f a e) | Inr x \<Rightarrow> k x)"
  by (auto simp: fun_eq_iff eff_simps split: prod.splits sum.splits)

abbreviation mediatedG :: "Server \<Rightarrow> (tables \<Rightarrow> AuthorizationRequest \<Rightarrow> bool) \<Rightarrow> payload io \<Rightarrow> bool" where
  "mediatedG s A m \<equiv> mediated isl (sv_adminIdentity s) A m"

named_theorems medG \<open>rules of complete mediation for the gRPC methods\<close>

lemma medG_fetch:
  assumes "fetches m P" and "\<And>d x. P d x \<Longrightarrow> P' (core d) x"
    and "\<And>x. mediatedG s (\<lambda>d ar. P' d x \<longrightarrow> A d ar) (k x)"
  shows "mediatedG s A (bindE (statusE c m) k)"
  unfolding statusE_def bindE_wrapE
proof (rule mediated_fetch [OF assms(1)])
  show "\<And>x. mediatedG s (\<lambda>d ar. P' d x \<longrightarrow> A d ar) (k x)" by (rule assms(3))
qed (simp_all add: assms(2) log_rules, simp add: failE_def)

lemma medG_lift [medG]:
  assumes "\<And>x. r = Inr x \<Longrightarrow> mediatedG s A (k x)"
  shows "mediatedG s A (bindE (statusE c (liftE r)) k)"
proof (cases r)
  case (Inl e)
  then show ?thesis by (intro mediatedI) (auto simp: statusE_def eff_simps)
next
  case (Inr x)
  then show ?thesis using assms [OF Inr] by (simp add: statusE_def liftE_def wrapE_def bindE_def mediated_def)
qed

lemma medG_authorize [medG]:
  assumes "alone env" and "\<And>d. A d (rpc_request (actorFromContext (gq_Actor q)) ns p c)"
  shows "mediatedG s A (bindE (rpc_authorize env s q ns p c) k)"
proof -
  have "bindE (rpc_authorize env s q ns p c) k =
      bindE (tryE (PolicyService_Authorize env (sv_adminIdentity s) (rpc_request (actorFromContext (gq_Actor q)) ns p c)))
        (\<lambda>r. case r of Inl e \<Rightarrow> failE (Wrapf ''Internal'' [] e)
          | Inr ok \<Rightarrow> if \<not> ok then failE (Errorf ''PermissionDenied'' [''forbidden'']) else k ())"
    unfolding rpc_authorize_def statusE_def bindE_wrapE bindE_assoc
    by (rule arg_cong [where f = "bindE _"]) (auto simp: fun_eq_iff guardE_def split: sum.splits)
  moreover have "isl (fst (failE e w))" for e :: err and w :: world by (simp add: failE_def)
  ultimately show ?thesis
    by (simp only:) (rule mediated_check [OF assms(1)]; (rule assms(2) | rule log_rules | assumption))
qed

lemma medG_get_lease [medG]:
  assumes "alone env"
    and "\<And>x. mediatedG s (\<lambda>d ar. find (\<lambda>r. lease_ID r = i) (leases d) = Some x \<longrightarrow> A d ar) (k x)"
  shows "mediatedG s A (bindE (statusE c (LeaseService_Get env i)) k)"
  by (rule medG_fetch [OF fetches_Get(1) [OF assms(1)] _ assms(2)]) simp_all

lemma medG_get_policy [medG]:
  assumes "alone env"
    and "\<And>x. mediatedG s (\<lambda>d ar. find (\<lambda>r. pol_Name r = n) (policies d) = Some x \<longrightarrow> A d ar) (k x)"
  shows "mediatedG s A (bindE (statusE c (PolicyService_Get env n)) k)"
  by (rule medG_fetch [OF fetches_Get(2) [OF assms(1)] _ assms(2)]) simp_all

lemma medG_get_ca [medG]:
  assumes "alone env"
    and "\<And>x. mediatedG s (\<lambda>d ar. find (\<lambda>r. ca_Name r = n) (pki_cas d) = Some x \<longrightarrow> A d ar) (k x)"
  shows "mediatedG s A (bindE (statusE c (PKIService_GetCA env n)) k)"
  by (rule medG_fetch [OF fetches_Get(3) [OF assms(1)] _ assms(2)]) simp_all

lemma medG_get_certificate [medG]:
  assumes "alone env"
    and "\<And>x. mediatedG s (\<lambda>d ar. find (\<lambda>r. cert_key r = (ns, sn)) (certificates d) = Some x \<longrightarrow> A d ar) (k x)"
  shows "mediatedG s A (bindE (statusE c (PKIService_GetCertificate env ns sn)) k)"
  by (rule medG_fetch [OF fetches_Get(4) [OF assms(1)] _ assms(2)]) simp_all

section \<open>Every method but the open ones asks first\<close>

lemmas rpc_defs =
  rpc_createNamespace_def rpc_putSecret_def rpc_getSecret_def rpc_listSecrets_def rpc_listVersions_def
  rpc_softDeleteVersion_def rpc_restoreVersion_def rpc_destroyVersion_def rpc_rollbackVersion_def
  rpc_createLease_def rpc_renewLease_def rpc_revokeLease_def rpc_createPolicy_def rpc_listPolicies_def
  rpc_deletePolicy_def rpc_listAudit_def rpc_createRootCA_def rpc_createIntermediateCA_def
  rpc_issueCertificate_def rpc_renewCertificate_def rpc_revokeCertificate_def rpc_getCRL_def rpc_getOCSP_def

lemmas open_rpc_defs =
  rpc_verifyAudit_def rpc_encrypt_def rpc_decrypt_def rpc_sign_def rpc_verify_def rpc_deriveKey_def rpc_random_def

lemma methods_mediated:
  assumes "alone env" and "\<not> open_method m"
  shows "mediatedG s (rpc_requires s q req m) (rpc_call env s q req m)"
  using assms(2) unfolding open_method_def
  by (cases m; simp only: rpc_call.simps rpc_defs Let_def simp_thms Method.simps insert_iff empty_iff;
      (intro medG assms(1))?; (auto intro!: rpc_requiresI simp: rpc_demand_defs)?)

text \<open>The open methods change at most the audit log, on a provider that leaves the tables alone.\<close>

definition quiet_server :: "Server \<Rightarrow> bool" where
  "quiet_server s \<longleftrightarrow>
     (\<forall>pt. logs (pv_Encrypt (cs_provider (sv_crypto s)) pt (cs_aad (sv_crypto s)))) \<and>
     (\<forall>n. logs (pv_Random (cs_provider (sv_crypto s)) n))"

lemma logs_rpc_audit [log_rules]: "alone env \<Longrightarrow> logs (rpc_audit env s q n p a m x)"
  unfolding rpc_audit_def by (intro log_rules)

lemma logs_Verify [log_rules]: "alone env \<Longrightarrow> logs (AuditService_Verify env cs)"
  unfolding AuditService_Verify_def AuditRepo_ListAll_def by (intro log_rules logs_sql) simp_all

lemma open_logs:
  assumes "alone env" and "quiet_server s" and "open_method m"
  shows "logs (rpc_call env s q req m)"
proof -
  have e: "logs (CryptoService_Encrypt (sv_crypto s) pt)" "logs (CryptoService_Random (sv_crypto s) n)" for pt n
    using assms(2) unfolding CryptoService_Encrypt_def CryptoService_Random_def quiet_server_def
    by (auto intro!: log_rules)
  show ?thesis
    using assms(3) unfolding open_method_def
    by (auto simp: open_rpc_defs statusE_def panicE_def split: option.splits prod.splits
        intro!: log_rules e assms(1))
qed

section \<open>The server\<close>

text \<open>
  Whether the policies in the database permit a call: the method is registered, the caller is
  known, the message can be read and the demand of the method is granted.
\<close>

definition rpc_permitted :: "Server \<Rightarrow> GRequest \<Rightarrow> tables \<Rightarrow> bool" where
  "rpc_permitted s q d =
     (case map_of platformServiceDesc (gq_Method q) of
        None \<Rightarrow> False
      | Some m \<Rightarrow>
          (case authenticate s (firstMetadata (gq_Metadata q) (sv_TokenHeader s))
                  (firstMetadata (gq_Metadata q) (sv_IdentityHeader s)) of
             None \<Rightarrow> False
           | Some actor \<Rightarrow>
               (case rpc_decode s (gq_Body q) of
                  Inl _ \<Rightarrow> False
                | Inr req \<Rightarrow>
                    (case rpc_demand s req m d of
                       None \<Rightarrow> False
                     | Some (ns, p, c) \<Rightarrow> allowed (sv_adminIdentity s) (policies d)
                         (rpc_request (actorFromContext actor) ns p c)))))"

definition rpc_guarded :: "GRequest \<Rightarrow> bool" where
  "rpc_guarded q = (case map_of platformServiceDesc (gq_Method q) of None \<Rightarrow> True | Some m \<Rightarrow> \<not> open_method m)"

lemma rpc_permitted_core: "rpc_permitted s q (core d) = rpc_permitted s q d"
  by (simp add: rpc_permitted_def split: option.split sum.split)

lemma rpc_serve_guarded:
  assumes alone: "alone env" and quiet: "quiet_server s"
    and run: "rpc_serve env s q w = (res, w')" and denied: "\<not> rpc_permitted s q (db w)"
  shows "core (db w') = core (db w) \<and> (rpc_guarded q \<longrightarrow> isl res)"
proof (cases "map_of platformServiceDesc (gq_Method q)")
  case None
  then show ?thesis using run by (auto simp: rpc_serve_def failE_def)
next
  case m: (Some m)
  show ?thesis
  proof (cases "rpc_decode s (gq_Body q)")
    case (Inl e)
    then show ?thesis using run m by (auto simp: rpc_serve_def failE_def)
  next
    case req: (Inr req)
    show ?thesis
    proof (cases "authenticate s (firstMetadata (gq_Metadata q) (sv_TokenHeader s))
        (firstMetadata (gq_Metadata q) (sv_IdentityHeader s))")
      case None
      then show ?thesis using run m req by (auto simp: rpc_serve_def authInterceptor_def failE_def)
    next
      case actor: (Some actor)
      then have call: "rpc_call env s (q\<lparr>gq_Actor := actor\<rparr>) req m w = (res, w')"
        using run m req by (simp add: rpc_serve_def authInterceptor_def)
      show ?thesis
      proof (cases "open_method m")
        case True
        then show ?thesis using logs_run [OF open_logs [OF alone quiet True] call] m by (simp add: rpc_guarded_def)
      next
        case False
        from mediatedD [OF methods_mediated [OF alone False] call] denied m req actor
        show ?thesis by (auto simp: rpc_permitted_def rpc_requires_def split: option.splits)
      qed
    qed
  qed
qed

interpretation rpc: guarded_server
  "\<lambda>(env, s). rpc_serve env s" "\<lambda>(env, s). alone env \<and> quiet_server s" "\<lambda>(env, s). rpc_permitted s"
  rpc_guarded isl
  by unfold_locales (auto simp: rpc_permitted_core dest: rpc_serve_guarded split: prod.splits)

text \<open>The providers of the repository are quiet.\<close>

lemma Software_quiet: "sv_crypto s = \<lparr>cs_provider = SoftwareProvider env mk ak, cs_aad = aad\<rparr> \<Longrightarrow> quiet_server s"
proof -
  have "logs (randE env n)" for n by (rule logsI) (rule keeps_randE)
  then show "sv_crypto s = \<lparr>cs_provider = SoftwareProvider env mk ak, cs_aad = aad\<rparr> \<Longrightarrow> quiet_server s"
    unfolding quiet_server_def SoftwareProvider_def
    by (auto simp: Software_Encrypt_def Software_Random_def Let_def split: sum.splits intro!: log_rules)
qed

end
