(* ===== verification/Gateway_Reads.thy ===== *)
theory Gateway_Reads
  imports HTTP_Mediation GRPC_Mediation
begin

text \<open>
  The routes that demand no more than reading or listing change nothing but the audit log.
\<close>

lemma logs_case_option [log_rules]:
  "logs m \<Longrightarrow> (\<And>x. logs (f x)) \<Longrightarrow> logs (case r of None \<Rightarrow> m | Some x \<Rightarrow> f x)"
  by (cases r) simp_all

lemma logs_case_prod [log_rules]: "(\<And>x y. logs (f x y)) \<Longrightarrow> logs (case p of (x, y) \<Rightarrow> f x y)"
  by (cases p) simp_all

lemma logs_drawE [log_rules]: "logs (drawE f)"
  by (rule logsI) (simp add: preserves_def drawE_def split: sum.splits)

lemma logs_answerE [log_rules]: "logs m \<Longrightarrow> (\<And>x. logs (k x)) \<Longrightarrow> logs (answerE n m k)"
  unfolding answerE_def by (intro log_rules)

lemma logs_finish [log_rules]: "alone env \<Longrightarrow> logs (finish env s r n p a m st v)"
  unfolding finish_def recordSuccess_def by (intro log_rules)

lemma logs_decodeBody [log_rules]: "(\<And>ms. logs (k ms)) \<Longrightarrow> logs (decodeBody fs r k)"
  unfolding decodeBody_def by (intro log_rules)

lemma fetches_logs: "fetches m P \<Longrightarrow> logs m"
proof (rule logsI, rule preservesI)
  fix c and w :: world assume f: "fetches m P" and c: "core (db w) = c"
  obtain r w' where "m w = (r, w')" by force
  with fetchesD [OF f this] c show "core (db (snd (m w))) = c" by simp
qed

lemma logs_authorize [log_rules]: "alone env \<Longrightarrow> logs k \<Longrightarrow> logs (authorize env s r n p c k)"
  unfolding authorize_def Let_def
  by (intro log_rules fetches_logs [OF Authorize_fetches])

text \<open>Statements that only select.\<close>

lemma core_selects [simp]:
  "core (snd (select_namespace n d)) = core d" "core (snd (select_secret k d)) = core d"
  "core (snd (select_version v d)) = core d" "core (snd (select_lease i d)) = core d"
  "core (snd (select_policy n d)) = core d" "core (snd (select_ca n d)) = core d"
  "core (snd (select_certificate ck d)) = core d" "core (snd (select_certificate_serial sn d)) = core d"
  by (simp_all add: select_namespace_def select_secret_def select_version_def select_lease_def select_policy_def
      select_ca_def select_certificate_def select_certificate_serial_def)

text \<open>The reading operations of the services.\<close>

lemma logs_services [log_rules]:
  assumes "alone env"
  shows "logs (SecretService_ListNamespaces env)" "logs (SecretService_ListSecrets env ns)"
    "logs (SecretService_GetSecret env ss ns p v)" "logs (SecretService_ListVersions env ns p)"
    "logs (LeaseService_Get env i)" "logs (PolicyService_Get env n)" "logs (PolicyService_List env n)"
    "logs (AuditService_List env lf)"
  unfolding SecretService_ListNamespaces_def SecretRepo_ListNamespaces_def SecretService_ListSecrets_def
    SecretRepo_ListSecrets_def SecretService_GetSecret_def SecretService_ListVersions_def SecretRepo_GetSecret_def
    SecretRepo_GetVersion_def SecretRepo_ListVersions_def LeaseService_Get_def LeaseRepo_Get_def
    PolicyService_Get_def PolicyRepo_Get_def PolicyService_List_def PolicyRepo_List_def
    AuditService_List_def AuditRepo_List_def Let_def
  by ((intro log_rules logs_sql assms; simp)+)

lemma logs_pki [log_rules]:
  assumes "alone env"
  shows "logs (PKIService_GetCA env n)" "logs (PKIService_ListCAs env ns)" "logs (PKIService_CRL env pk n)"
    "logs (PKIService_OCSP env pk n sn)" "logs (PKIService_GetCertificate env ns sn)"
    "logs (PKIService_ListCertificates env ns)"
  unfolding PKIService_GetCA_def PKIRepo_GetCA_def PKIService_ListCAs_def PKIRepo_ListCAs_def PKIService_CRL_def
    PKIRepo_ListRevocations_def PKIService_OCSP_def PKIRepo_GetCertificateBySerial_def
    PKIService_GetCertificate_def PKIRepo_GetCertificate_def PKIService_ListCertificates_def
    PKIRepo_ListCertificates_def Let_def
  by ((intro log_rules logs_sql assms; simp)+)

section \<open>Reading routes\<close>

definition reading :: "Capability \<Rightarrow> bool" where
  "reading c \<longleftrightarrow> c = CapabilityRead \<or> c = CapabilityList"

lemma logs_Random: "quiet_server s \<Longrightarrow> logs (CryptoService_Random (sv_crypto s) n)"
  by (simp add: CryptoService_Random_def quiet_server_def)

lemma reading_routes_log:
  assumes "alone env" and "quiet_server s" and "demand s r rt d = Some (ns, p, c)" and "reading c"
  shows "logs (handle env s r rt)"
  using assms(3,4)
  by (cases rt; simp only: handle.simps http_handler_defs Let_def demand.simps demand_defs reading_def;
      (intro log_rules logs_Random assms(1,2))?;
      (auto split: sum.splits)?)

end
