(* ===== verification/Rate_Limiter.thy ===== *)
theory Rate_Limiter
  imports HTTP_Mediation "HOL-Library.AList"
begin

text \<open>
  The rate limiter of \<open>api/http/middleware.go\<close>: a window of one second per client, which
  starts with the first request after the one before has ended, and a map of the windows.
  The clock is the monotonic one, so times never decrease. The model's map is an association
  list without duplicate keys.
\<close>

section \<open>The limiter\<close>

record windowState =
  ws_windowStart :: time
  ws_count :: int

record slidingWindowLimiter =
  lm_rate :: int
  lm_burst :: int
  lm_windows :: "(string \<times> windowState) list"

definition newSlidingWindowLimiter :: "int \<Rightarrow> int \<Rightarrow> slidingWindowLimiter" where
  "newSlidingWindowLimiter rate0 burst0 =
     (let rate = (if rate0 \<le> 0 then 100 else rate0);
          burst = (if burst0 \<le> 0 then wrap64 (rate * 2) else burst0) in
      \<lparr>lm_rate = rate, lm_burst = burst, lm_windows = []\<rparr>)"

definition time_Minute :: duration where
  "time_Minute = 60 * time_Second"

definition drop_old :: "time \<Rightarrow> (string \<times> windowState) list \<Rightarrow> (string \<times> windowState) list" where
  "drop_old now windows = filter (\<lambda>(k, v). \<not> now - ws_windowStart v > time_Minute) windows"

definition Allow :: "slidingWindowLimiter \<Rightarrow> time \<Rightarrow> string \<Rightarrow> bool \<times> slidingWindowLimiter" where
  "Allow l now key =
     (let fresh = \<lparr>ws_windowStart = now, ws_count = 0\<rparr>;
          renew = (case map_of (lm_windows l) key of
                     None \<Rightarrow> True | Some st \<Rightarrow> now - ws_windowStart st \<ge> time_Second);
          state = (if renew then fresh else the (map_of (lm_windows l) key));
          windows = (if renew then AList.update key fresh (lm_windows l) else lm_windows l) in
      if ws_count state \<ge> lm_burst l then (False, l\<lparr>lm_windows := windows\<rparr>)
      else
        let windows = AList.update key (state\<lparr>ws_count := ws_count state + 1\<rparr>) windows in
        (True, l\<lparr>lm_windows := (if length windows > 10000 then drop_old now windows else windows)\<rparr>))"

text \<open>The handler of the server: the limiter on the client's address, then the rest.\<close>

type_synonym server_state = "slidingWindowLimiter \<times> world"

definition withRateLimit ::
  "env \<Rightarrow> (Request \<Rightarrow> Response io) \<Rightarrow> Request \<Rightarrow> (server_state, Response) eff" where
  "withRateLimit env nxt r = (\<lambda>(l, w).
     case nowE env w of
       (Inl e, w') \<Rightarrow> (Inl e, (l, w'))
     | (Inr now, w') \<Rightarrow>
         (case Allow l now (clientIP r) of (ok, l') \<Rightarrow>
            (case (if \<not> ok then writeError 429 errTooManyRequests else nxt r) w' of (res, w'') \<Rightarrow> (res, (l', w'')))))"

section \<open>The window of one client\<close>

definition view :: "slidingWindowLimiter \<Rightarrow> string \<Rightarrow> windowState option" where
  "view l key = map_of (lm_windows l) key"

text \<open>The windows of a limiter with a positive burst: no client twice, every one with a request.\<close>

definition limiter_inv :: "slidingWindowLimiter \<Rightarrow> bool" where
  "limiter_inv l \<longleftrightarrow> 1 \<le> lm_burst l \<and> distinct (map fst (lm_windows l)) \<and>
     (\<forall>k st. view l k = Some st \<longrightarrow> 1 \<le> ws_count st \<and> ws_count st \<le> lm_burst l)"

definition live_window :: "slidingWindowLimiter \<Rightarrow> time \<Rightarrow> string \<Rightarrow> windowState option" where
  "live_window l now key = (case view l key of
     None \<Rightarrow> None | Some st \<Rightarrow> if now - ws_windowStart st \<ge> time_Second then None else Some st)"

lemma drop_old_view:
  assumes "distinct (map fst ws)"
  shows "map_of (drop_old now ws) k = (case map_of ws k of
     None \<Rightarrow> None | Some st \<Rightarrow> if now - ws_windowStart st > time_Minute then None else Some st)"
  using assms
proof (induction ws)
  case (Cons p ws)
  obtain k' v where p: "p = (k', v)" by force
  have "k' \<notin> fst ` set ws" using Cons.prems p by simp
  then have "map_of ws k' = None" by (simp add: map_of_eq_None_iff)
  then show ?case using Cons p by (auto simp: drop_old_def split: option.splits)
qed (simp add: drop_old_def)

lemma drop_old_distinct: "distinct (map fst ws) \<Longrightarrow> distinct (map fst (drop_old now ws))"
  by (auto simp: drop_old_def distinct_map inj_on_def)

text \<open>What one call does to the window of the caller, and to that of another client.\<close>

lemma Allow_full:
  assumes "live_window l now key = Some st" and "ws_count st \<ge> lm_burst l"
  shows "Allow l now key = (False, l)"
  using assms by (auto simp: Allow_def live_window_def view_def Let_def split: option.splits if_splits)

lemma Allow_other:
  assumes "limiter_inv l" and "Allow l now k = (ok, l')" and "key \<noteq> k"
  shows "view l' key = view l key \<or>
    (\<exists>st. view l key = Some st \<and> now - ws_windowStart st > time_Minute \<and> view l' key = None)"
  using assms
  by (auto simp: Allow_def view_def limiter_inv_def Let_def update_conv' drop_old_view distinct_update
      split: if_splits option.splits)

lemma Allow_more:
  assumes "limiter_inv l" and "live_window l now key = Some st" and "ws_count st < lm_burst l"
    and "Allow l now key = (ok, l')"
  shows "ok \<and> view l' key = Some (st\<lparr>ws_count := ws_count st + 1\<rparr>)"
  using assms
  by (auto simp: Allow_def view_def live_window_def limiter_inv_def Let_def update_conv' drop_old_view distinct_update
      time_Minute_def time_Second_def split: if_splits option.splits)

lemma Allow_fresh:
  assumes "limiter_inv l" and "live_window l now key = None" and "Allow l now key = (ok, l')"
  shows "ok \<and> view l' key = Some \<lparr>ws_windowStart = now, ws_count = 1\<rparr>"
  using assms
  by (auto simp: Allow_def view_def live_window_def limiter_inv_def Let_def update_conv' drop_old_view distinct_update
      time_Minute_def time_Second_def split: if_splits option.splits)

lemma Allow_burst [simp]: "lm_burst (snd (Allow l now k)) = lm_burst l"
  by (simp add: Allow_def Let_def)

lemma Allow_distinct:
  "distinct (map fst (lm_windows l)) \<Longrightarrow> distinct (map fst (lm_windows (snd (Allow l now k))))"
  by (auto simp: Allow_def Let_def distinct_update drop_old_distinct)

lemma Allow_inv:
  assumes "limiter_inv l" and run: "Allow l now k = (ok, l')"
  shows "limiter_inv l'"
proof -
  have l': "l' = snd (Allow l now k)" using run by simp
  have "1 \<le> ws_count st \<and> ws_count st \<le> lm_burst l" if v: "view l' key = Some st" for key st
  proof (cases "key = k")
    case False
    then show ?thesis using Allow_other [OF assms False] v assms(1) by (auto simp: limiter_inv_def)
  next
    case True
    show ?thesis
    proof (cases "live_window l now k")
      case None
      then show ?thesis using Allow_fresh [OF assms(1) None run] v True assms(1) by (auto simp: limiter_inv_def)
    next
      case (Some st0)
      then have "view l k = Some st0" by (auto simp: live_window_def split: option.splits if_splits)
      then have "1 \<le> ws_count st0" using assms(1) by (auto simp: limiter_inv_def)
      then show ?thesis
        using Allow_more [OF assms(1) Some _ run] Allow_full [OF Some] v True assms(1) run
        by (cases "ws_count st0 < lm_burst l") (auto simp: limiter_inv_def)
    qed
  qed
  then show ?thesis using assms(1) Allow_distinct [of l now k] l' by (auto simp: limiter_inv_def)
qed

section \<open>How many requests a second lets through\<close>

text \<open>The calls made of a limiter, with its answers.\<close>

fun limiter_run :: "slidingWindowLimiter \<Rightarrow> (time \<times> string) list \<Rightarrow> (time \<times> string \<times> bool) list" where
  "limiter_run l [] = []"
| "limiter_run l ((now, k) # calls) = (case Allow l now k of (ok, l') \<Rightarrow> (now, k, ok) # limiter_run l' calls)"

definition admitted :: "string \<Rightarrow> time \<Rightarrow> (time \<times> string \<times> bool) list \<Rightarrow> int" where
  "admitted key a answers =
     int (length (filter (\<lambda>(now, k, ok). ok \<and> k = key \<and> a \<le> now \<and> now < a + time_Second) answers))"

lemma admitted_Nil [simp]: "admitted key a [] = 0"
  by (simp add: admitted_def)

lemma admitted_Cons [simp]:
  "admitted key a ((now, k, ok) # as) =
     (if ok \<and> k = key \<and> a \<le> now \<and> now < a + time_Second then 1 else 0) + admitted key a as"
  by (simp add: admitted_def)

lemma admitted_after:
  "\<forall>(now, k) \<in> set calls. a + time_Second \<le> now \<Longrightarrow> admitted key a (limiter_run l calls) = 0"
  by (induction calls arbitrary: l) (auto split: prod.splits)

text \<open>What a client may still get in the second from \<open>a\<close>, when that second has begun.\<close>

definition quota :: "slidingWindowLimiter \<Rightarrow> time \<Rightarrow> string \<Rightarrow> int" where
  "quota l a key = (case view l key of
     None \<Rightarrow> lm_burst l
   | Some st \<Rightarrow> (if a \<le> ws_windowStart st then 0 else lm_burst l) + (lm_burst l - ws_count st))"

lemma quota_nonneg: "limiter_inv l \<Longrightarrow> 0 \<le> quota l a key"
  by (auto simp: quota_def limiter_inv_def split: option.splits)

lemma quota_step:
  assumes inv: "limiter_inv l" and t: "a \<le> now" "now < a + time_Second" and run: "Allow l now k = (ok, l')"
  shows "(if ok \<and> k = key then 1 else 0) + quota l' a key \<le> quota l a key"
proof (cases "k = key")
  case False
  have b: "lm_burst l' = lm_burst l" using Allow_burst [of l now k] run by simp
  from Allow_other [OF inv run, of key] False consider "view l' key = view l key"
    | st where "view l key = Some st" "now - ws_windowStart st > time_Minute" "view l' key = None" by auto
  then show ?thesis
  proof cases
    case 1
    then show ?thesis using False b by (simp add: quota_def split: option.split)
  next
    case 2
    then have "ws_count st \<le> lm_burst l" using inv by (auto simp: limiter_inv_def)
    moreover have "ws_windowStart st < a" using 2 t by (simp add: time_Minute_def time_Second_def)
    ultimately show ?thesis using 2 False b by (simp add: quota_def)
  qed
next
  case True
  have b: "lm_burst l' = lm_burst l" using Allow_burst [of l now k] run by simp
  show ?thesis
  proof (cases "live_window l now key")
    case None
    have new: "ok" "view l' key = Some \<lparr>ws_windowStart = now, ws_count = 1\<rparr>"
      using Allow_fresh [OF inv None] run True by auto
    have "lm_burst l \<le> quota l a key"
    proof (cases "view l key")
      case (Some st)
      then have "ws_count st \<le> lm_burst l" using inv by (auto simp: limiter_inv_def)
      moreover have "ws_windowStart st < a" using None Some t by (auto simp: live_window_def split: if_splits)
      ultimately show ?thesis using Some by (simp add: quota_def)
    qed (simp add: quota_def)
    then show ?thesis using new b True t by (simp add: quota_def)
  next
    case (Some st)
    then have v: "view l key = Some st" by (auto simp: live_window_def split: option.splits if_splits)
    show ?thesis
    proof (cases "ws_count st < lm_burst l")
      case True
      then have "ok \<and> view l' key = Some (st\<lparr>ws_count := ws_count st + 1\<rparr>)"
        using Allow_more [OF inv Some] run \<open>k = key\<close> by simp
      then show ?thesis using v b by (simp add: quota_def)
    next
      case False
      then show ?thesis using Allow_full [OF Some] run \<open>k = key\<close> by simp
    qed
  qed
qed

lemma quota_bound:
  assumes "limiter_inv l" and "sorted (map fst calls)" and "\<forall>(now, k) \<in> set calls. a \<le> now"
  shows "admitted key a (limiter_run l calls) \<le> quota l a key"
  using assms
proof (induction calls arbitrary: l)
  case Nil
  then show ?case by (simp add: quota_nonneg)
next
  case (Cons c calls)
  obtain now k where c: "c = (now, k)" by force
  obtain ok l' where run: "Allow l now k = (ok, l')" by force
  show ?case
  proof (cases "now < a + time_Second")
    case False
    then have "admitted key a (limiter_run l (c # calls)) = 0"
      using Cons.prems(2) c by (intro admitted_after) auto
    then show ?thesis using Cons.prems(1) by (simp add: quota_nonneg)
  next
    case True
    have "admitted key a (limiter_run l' calls) \<le> quota l' a key"
      using Cons.prems by (intro Cons.IH Allow_inv [OF Cons.prems(1) run]) auto
    then show ?thesis
      using quota_step [OF Cons.prems(1) _ True run, of key] Cons.prems(3) c run True quota_nonneg by fastforce
  qed
qed

lemma limiter_bound_inv:
  assumes "limiter_inv l" and "sorted (map fst calls)"
  shows "admitted key a (limiter_run l calls) \<le> 2 * lm_burst l - 1"
  using assms
proof (induction calls arbitrary: l)
  case Nil
  then show ?case by (simp add: limiter_inv_def)
next
  case (Cons c calls)
  obtain now k where c: "c = (now, k)" by force
  show ?case
  proof (cases "a \<le> now")
    case True
    then have "admitted key a (limiter_run l (c # calls)) \<le> quota l a key"
      using Cons.prems c by (intro quota_bound) auto
    also have "quota l a key \<le> 2 * lm_burst l - 1"
    proof (cases "view l key")
      case (Some st)
      then have "1 \<le> ws_count st" "1 \<le> lm_burst l" using Cons.prems(1) by (auto simp: limiter_inv_def)
      then show ?thesis using Some by (simp add: quota_def)
    qed (use Cons.prems(1) in \<open>simp add: quota_def limiter_inv_def\<close>)
    finally show ?thesis .
  next
    case False
    obtain ok l' where run: "Allow l now k = (ok, l')" by force
    then have "lm_burst l' = lm_burst l" using Allow_burst [of l now k] by simp
    moreover have "admitted key a (limiter_run l' calls) \<le> 2 * lm_burst l' - 1"
      using Cons.prems c by (intro Cons.IH Allow_inv [OF Cons.prems(1) run]) auto
    ultimately show ?thesis using False c run by simp
  qed
qed

end
