(* ===== verification/Gateway_Properties.thy ===== *)
theory Gateway_Properties
  imports Gateway_Reads Rate_Limiter Audit_Properties PKI_Samples
begin

text \<open>
  The properties of the two servers: complete mediation, reads that change nothing, the
  rate limiter's bound, the round trip of the crypto interface, and the methods that the
  gRPC server leaves open.
\<close>

section \<open>A server to try them on\<close>

definition sample_server :: Server where
  "sample_server =
     \<lparr>sv_TokenHeader = ''X-Auth-Token'', sv_IdentityHeader = ''X-Auth-Identity'', sv_AdminToken = ''dev-admin-token'',
      sv_adminIdentity = ''admin'', sv_secret = \<lparr>ss_crypto = sample_crypto, ss_deletionTTL = 0\<rparr>,
      sv_lease = \<lparr>ls_defaultTTL = 3600 * time_Second, ls_maxTTL = 7200 * time_Second\<rparr>,
      sv_audit = Some sample_crypto, sv_pki = sample_pki, sv_crypto = sample_crypto,
      sv_ParseUUID = (\<lambda>t. case SetString10 t of None \<Rightarrow> Inl (PrimitiveError ''uuid'') | Some n \<Rightarrow> Inr (nat n)),
      sv_UUIDString = (\<lambda>i. Itoa (int i)), sv_float_int = SetString10, sv_Sprint = (\<lambda>_. ''?''),
      sv_startedAt = 0, sv_unmatched = (\<lambda>_ _. 404)\<rparr>"

definition sample_http :: "string \<Rightarrow> string list \<Rightarrow> string \<Rightarrow> json \<Rightarrow> Request" where
  "sample_http m path identity body =
     \<lparr>rq_Method = m, rq_Path = path, rq_Query = (\<lambda>_. []),
      rq_Header = (\<lambda>h. if h = ''X-Auth-Identity'' then identity else []), rq_RemoteAddr = ''10.0.0.9:4242'',
      rq_Body = Some body, rq_Actor = []\<rparr>"

definition sample_rpc :: "string \<Rightarrow> string \<Rightarrow> json \<Rightarrow> GRequest" where
  "sample_rpc m identity body =
     \<lparr>gq_Method = m, gq_Metadata = (\<lambda>h. if h = ''X-Auth-Identity'' then [identity] else []),
      gq_Body = Some body, gq_Actor = []\<rparr>"

lemma sample_alone [simp]: "alone sample_env"
  by (simp add: alone_def)

lemma sample_server_quiet [simp]: "quiet_server sample_server"
  by (rule Software_quiet) (simp add: sample_server_def sample_crypto_def)

lemma recordAudit_returns: "fst (recordAudit env s a n p c r m w) = Inr ()"
  by (simp add: recordAudit_def eff_simps split: option.splits prod.splits)

lemma audited: "bindE (recordAudit env s a n p c r m) k w = k () (snd (recordAudit env s a n p c r m w))"
  using recordAudit_returns [of env s a n p c r m w] by (auto simp: bindE_def split: prod.splits)

lemma statusE_liftE: "bindE (statusE st (liftE (Inr x))) k = k x"
  by (simp add: fun_eq_iff statusE_def eff_simps)

lemma answerE_liftE: "answerE n (liftE (Inr x)) k = k x"
  by (simp add: fun_eq_iff answerE_def eff_simps)

lemma authorize_allowed:
  "PolicyService_Authorize env (sv_adminIdentity s) (policyAuthorizationRequest (actorFromContext (rq_Actor r)) n p c r) w
     = (Inr True, w') \<Longrightarrow> authorize env s r n p c k w = k w'"
  by (simp add: authorize_def eff_simps Let_def)

text \<open>An answer that is not the error of a step came through that step.\<close>

lemma answerE_other:
  assumes "answerE n m k w = (Inr rs, w')" and "rs_Status rs \<noteq> n"
  obtains x w1 where "m w = (Inr x, w1)" and "k x w1 = (Inr rs, w')"
  using assms by (auto simp: answerE_def writeError_def writeJSON_def eff_simps split: prod.splits sum.splits)

lemma authorize_other:
  assumes "authorize env s r n p c k w = (Inr rs, w')" and "rs_Status rs \<noteq> 500" and "rs_Status rs \<noteq> 403"
  obtains w1 where "k w1 = (Inr rs, w')"
  using assms
  by (auto simp: authorize_def Let_def writeError_def writeJSON_def eff_simps split: prod.splits sum.splits if_splits)

section \<open>Mediation\<close>

text \<open>C3: the HTTP server mediates completely: after any sequence of requests, under any statement failures, either some request was permitted at the start by the policies of the database for what its route demands, or nothing but the audit log has changed and every request on a route that needs permission was refused.\<close>

theorem http_complete_mediation:
  assumes "alone env" and "serve_all (http_serve env s) rs w = (as, w')"
  shows "(\<exists>r \<in> set rs. http_permitted s r (db w)) \<or>
    core (db w') = core (db w) \<and> (\<forall>(r, a) \<in> set (zip rs as). http_guarded r \<longrightarrow> http_refused a)"
  using http.no_bootstrap [of "(env, s)" rs w as w'] assms by auto

theorem http_complete_mediation_witness:
  "core (db (snd (serve_all (http_serve sample_env sample_server)
     [sample_http ''POST'' [''v1'', ''namespaces''] ''eve'' (JObj [(''name'', JStr ''ops'')]),
      sample_http ''DELETE'' [''v1'', ''policies'', ''p''] ''eve'' JNull] init_world))) = core (db init_world)"
proof -
  let ?rs = "[sample_http ''POST'' [''v1'', ''namespaces''] ''eve'' (JObj [(''name'', JStr ''ops'')]),
      sample_http ''DELETE'' [''v1'', ''policies'', ''p''] ''eve'' JNull]"
  let ?x = "serve_all (http_serve sample_env sample_server) ?rs init_world"
  have "\<not> (\<exists>r \<in> set ?rs. http_permitted sample_server r (db init_world))" by code_simp
  then show ?thesis
    using http_complete_mediation [OF sample_alone, of sample_server ?rs init_world "fst ?x" "snd ?x"] by auto
qed

text \<open>C13: the gRPC server mediates the same way, for every registered method but VerifyAudit and the six crypto methods, which answer without asking and change at most the audit log.\<close>

theorem rpc_complete_mediation:
  assumes "alone env" and "quiet_server s" and "serve_all (rpc_serve env s) qs w = (as, w')"
  shows "(\<exists>q \<in> set qs. rpc_permitted s q (db w)) \<or>
    core (db w') = core (db w) \<and> (\<forall>(q, a) \<in> set (zip qs as). rpc_guarded q \<longrightarrow> isl a)"
  using rpc.no_bootstrap [of "(env, s)" qs w as w'] assms by auto

theorem rpc_complete_mediation_witness:
  "core (db (snd (serve_all (rpc_serve sample_env sample_server)
     [sample_rpc ''CreateRootCA'' ''eve'' (JObj [(''namespace'', JStr ''ops'')]),
      sample_rpc ''VerifyAudit'' ''eve'' (JObj [])] init_world))) = core (db init_world)"
proof -
  let ?qs = "[sample_rpc ''CreateRootCA'' ''eve'' (JObj [(''namespace'', JStr ''ops'')]),
      sample_rpc ''VerifyAudit'' ''eve'' (JObj [])]"
  let ?x = "serve_all (rpc_serve sample_env sample_server) ?qs init_world"
  have "\<not> (\<exists>q \<in> set ?qs. rpc_permitted sample_server q (db init_world))" by code_simp
  then show ?thesis
    using rpc_complete_mediation [OF sample_alone sample_server_quiet, of ?qs init_world "fst ?x" "snd ?x"] by auto
qed

text \<open>C36: a route that demands reading or listing, and no more, leaves everything but the audit log as it is, whatever the handler answers and whatever fails.\<close>

theorem http_reads_change_nothing:
  assumes "alone env" and "quiet_server s" and "demand s r rt (db w) = Some (ns, p, c)" and "reading c"
    and "handle env s r rt w = (res, w')"
  shows "core (db w') = core (db w)"
  by (rule logs_run [OF reading_routes_log [OF assms(1-4)] assms(5)])

theorem http_reads_change_nothing_witness:
  "core (db (snd (handle sample_env sample_server (sample_http ''GET'' [] ''admin'' JNull) (R_GetSecret ''ops'' ''db'') init_world)))
     = core (db init_world)"
  by (rule http_reads_change_nothing [where env = sample_env and s = sample_server and rt = "R_GetSecret ''ops'' ''db''"
        and r = "sample_http ''GET'' [] ''admin'' JNull" and ns = "''ops''" and p = "cleanWildcardPath ''db''"
        and c = CapabilityRead, OF sample_alone sample_server_quiet _ _ prod.collapse [symmetric]])
    (simp_all add: reading_def)

text \<open>The gRPC server decrypts for anyone who sends a token or an identity: no policy is consulted, and a ciphertext that the crypto service opens is answered with its plaintext.\<close>

theorem rpc_decrypt_unauthorised:
  assumes "gq_Method q = ''Decrypt''"
    and "gq_Body q = Some (JObj [(''ciphertext'', JStr (b64_encode (ct_Data ct))), (''key_version'', JStr (ct_KeyVersion ct))])"
    and "firstMetadata (gq_Metadata q) (sv_TokenHeader s) \<noteq> [] \<or> firstMetadata (gq_Metadata q) (sv_IdentityHeader s) \<noteq> []"
    and "CryptoService_Decrypt (sv_crypto s) ct = Inr plaintext"
  shows "fst (rpc_serve env s q w) = Inr (PTexts [(''plaintext'', plaintext)])"
proof -
  obtain actor where actor: "authenticate s (firstMetadata (gq_Metadata q) (sv_TokenHeader s))
      (firstMetadata (gq_Metadata q) (sv_IdentityHeader s)) = Some actor"
    using assms(3) by (auto simp: authenticate_def Let_def)
  have dec: "CryptoService_Decrypt (sv_crypto s)
      \<lparr>ct_Data = ct_Data ct, ct_KeyVersion = ct_KeyVersion ct\<rparr> = Inr plaintext"
    using assms(4) by (cases ct) simp
  show ?thesis
    by (simp add: rpc_serve_def assms(1,2) platformServiceDesc_def rpc_decode_def authInterceptor_def actor
        rpc_decrypt_def strValue_def jget_def b64_decode_encode statusE_liftE dec rpc_audit_def audited
        okE_def)
qed

theorem rpc_decrypt_unauthorised_witness:
  "fst (rpc_serve sample_env sample_server (sample_rpc ''Decrypt'' ''eve''
     (JObj [(''ciphertext'', JStr (b64_encode (''rrrrrrrrrrrr'' @ ''secret'' @ ''aad''))), (''key_version'', JStr ''v1'')])) init_world)
   = Inr (PTexts [(''plaintext'', ''secret'')])"
proof -
  let ?ct = "\<lparr>ct_Data = ''rrrrrrrrrrrr'' @ ''secret'' @ ''aad'', ct_KeyVersion = ''v1''\<rparr>"
  have "CryptoService_Decrypt (sv_crypto sample_server) ?ct = Inr ''secret''" by code_simp
  then show ?thesis
    by (intro rpc_decrypt_unauthorised [where ct = ?ct])
      (simp_all add: sample_rpc_def sample_server_def firstMetadata_def)
qed

section \<open>The rate limiter\<close>

text \<open>C35: a new limiter admits at most twice its burst, less one, of a client's requests in any second, however the requests of all clients interleave and whatever windows it forgets; it forgets only windows that have ended.\<close>

theorem limiter_bound:
  assumes "0 < burst" and "sorted (map fst calls)"
  shows "admitted key a (limiter_run (newSlidingWindowLimiter rate burst) calls) \<le> 2 * burst - 1"
  using limiter_bound_inv [of "newSlidingWindowLimiter rate burst" calls key a] assms
  by (simp add: limiter_inv_def newSlidingWindowLimiter_def view_def Let_def)

theorem limiter_bound_witness:
  "admitted ''10.0.0.9'' 900000000 (limiter_run (newSlidingWindowLimiter 100 2)
     [(0, ''10.0.0.9''), (900000000, ''10.0.0.9''), (950000000, ''10.0.0.9''), (1000000000, ''10.0.0.9''),
      (1100000000, ''10.0.0.9'')]) = 3 \<and> (3::int) \<le> 2 * 2 - 1"
  using limiter_bound [of 2 "[(0, ''10.0.0.9''), (900000000, ''10.0.0.9''), (950000000, ''10.0.0.9''),
      (1000000000, ''10.0.0.9''), (1100000000, ''10.0.0.9'')]" "''10.0.0.9''" 900000000 100]
  by code_simp

section \<open>The crypto interface\<close>

text \<open>What the HTTP interface encrypted it decrypts: if the text and the key version of an answer of encrypt are sent to decrypt by a caller who may decrypt, the answer is the plaintext, in any state the server is in by then.\<close>

theorem http_crypto_roundtrip:
  assumes "lawful_crypto env" and "sv_crypto s = \<lparr>cs_provider = SoftwareProvider env mk ak, cs_aad = aad\<rparr>"
    and "rq_Body r = Some (JObj [(''plaintext'', JStr plaintext)])"
    and "cryptoEncrypt env s r w = (Inr \<lparr>rs_Status = 200, rs_Body = PTexts [(''ciphertext'', c), (''key_version'', v)]\<rparr>, w1)"
    and "rq_Body r2 = Some (JObj [(''ciphertext'', JStr c), (''key_version'', JStr v)])"
    and "fst (PolicyService_Authorize env (sv_adminIdentity s)
      (policyAuthorizationRequest (actorFromContext (rq_Actor r2)) ''*'' ''/crypto'' CapabilityRead r2) w2) = Inr True"
  shows "fst (cryptoDecrypt env s r2 w2) = Inr \<lparr>rs_Status = 200, rs_Body = PTexts [(''plaintext'', plaintext)]\<rparr>"
proof -
  have body: "decode [(''plaintext'', KText)] (rq_Body r) = Inr [(''plaintext'', JStr plaintext)]"
    unfolding assms(3) by (simp add: decode_def decodeJSON_def member_ok_def EqualFold_def)
  have plain: "text_of ''plaintext'' [(''plaintext'', JStr plaintext)] = plaintext"
    by (simp add: text_of_def values_of_def EqualFold_def)
  obtain w0 where "answerE 400 (CryptoService_Encrypt (sv_crypto s) plaintext) (\<lambda>ciphertext.
      finish env s r ''*'' ''/crypto'' ''crypto.encrypt'' None 200
        (PTexts [(''ciphertext'', b64_encode (ct_Data ciphertext)), (''key_version'', ct_KeyVersion ciphertext)])) w0
      = (Inr \<lparr>rs_Status = 200, rs_Body = PTexts [(''ciphertext'', c), (''key_version'', v)]\<rparr>, w1)"
    using assms(4) unfolding cryptoEncrypt_def
    by (rule authorize_other) (simp_all add: decodeBody_def body answerE_liftE plain)
  then obtain ct w0' where enc: "CryptoService_Encrypt (sv_crypto s) plaintext w0 = (Inr ct, w0')"
    and "finish env s r ''*'' ''/crypto'' ''crypto.encrypt'' None 200
        (PTexts [(''ciphertext'', b64_encode (ct_Data ct)), (''key_version'', ct_KeyVersion ct)]) w0'
      = (Inr \<lparr>rs_Status = 200, rs_Body = PTexts [(''ciphertext'', c), (''key_version'', v)]\<rparr>, w1)"
    by (rule answerE_other) simp_all
  then have c: "c = b64_encode (ct_Data ct)" and v: "v = ct_KeyVersion ct"
    by (simp_all add: finish_def recordSuccess_def audited writeJSON_def okE_def)
  have dec: "CryptoService_Decrypt (sv_crypto s) ct = Inr plaintext"
    using software.service_decrypt_encrypt [of "(env, mk, ak)" aad plaintext w0 ct w0'] assms(1,2) enc by simp
  obtain w3 where auth: "PolicyService_Authorize env (sv_adminIdentity s)
      (policyAuthorizationRequest (actorFromContext (rq_Actor r2)) ''*'' ''/crypto'' CapabilityRead r2) w2 = (Inr True, w3)"
    using assms(6) by (metis prod.collapse)
  have "decode [(''ciphertext'', KText), (''key_version'', KText)] (rq_Body r2)
      = Inr [(''ciphertext'', JStr c), (''key_version'', JStr v)]"
    unfolding assms(5) by (simp add: decode_def decodeJSON_def member_ok_def EqualFold_def)
  moreover have "text_of ''ciphertext'' [(''ciphertext'', JStr c), (''key_version'', JStr v)] = c"
    "text_of ''key_version'' [(''ciphertext'', JStr c), (''key_version'', JStr v)] = v"
    by (simp_all add: text_of_def values_of_def EqualFold_def)
  moreover have "CryptoService_Decrypt (sv_crypto s) \<lparr>ct_Data = ct_Data ct, ct_KeyVersion = v\<rparr> = Inr plaintext"
    using dec v by (cases ct) simp
  ultimately show ?thesis
    using c
    by (simp add: cryptoDecrypt_def authorize_allowed [OF auth] decodeBody_def answerE_liftE b64_decode_encode
        finish_def recordSuccess_def audited writeJSON_def okE_def)
qed

theorem http_crypto_roundtrip_witness:
  "fst (cryptoDecrypt sample_env (sample_server\<lparr>sv_audit := None\<rparr>)
     (sample_http ''POST'' [] '''' (JObj [(''ciphertext'', JStr (b64_encode ''rrrrrrrrrrrrsecretaad'')),
        (''key_version'', JStr ''v1'')])\<lparr>rq_Actor := ''admin''\<rparr>) init_world)
   = Inr \<lparr>rs_Status = 200, rs_Body = PTexts [(''plaintext'', ''secret'')]\<rparr>"
proof -
  let ?s = "sample_server\<lparr>sv_audit := None\<rparr>"
  let ?r = "sample_http ''POST'' [] '''' (JObj [(''plaintext'', JStr ''secret'')])\<lparr>rq_Actor := ''admin''\<rparr>"
  let ?run = "cryptoEncrypt sample_env ?s ?r init_world"
  have "fst ?run = Inr \<lparr>rs_Status = 200, rs_Body = PTexts [(''ciphertext'', b64_encode ''rrrrrrrrrrrrsecretaad''),
      (''key_version'', ''v1'')]\<rparr>"
    by code_simp
  then have run: "?run = (Inr \<lparr>rs_Status = 200, rs_Body = PTexts [(''ciphertext'', b64_encode ''rrrrrrrrrrrrsecretaad''),
      (''key_version'', ''v1'')]\<rparr>, snd ?run)"
    by (metis prod.collapse)
  have crypto: "sv_crypto ?s = \<lparr>cs_provider = SoftwareProvider sample_env ''master'' ''audit'', cs_aad = ''aad''\<rparr>"
    by (simp add: sample_server_def sample_crypto_def)
  show ?thesis
    by (rule http_crypto_roundtrip [OF sample_lawful crypto _ run])
      (simp_all add: sample_http_def sample_server_def PolicyService_Authorize_def policyAuthorizationRequest_def
        actorFromContext_def okE_def)
qed

end
