(* ===== verification/CLI_Properties.thy ===== *)
theory CLI_Properties
  imports CLI_Routes Gateway_Properties Secret_Properties
begin

text \<open>
  The command line client and the server together: every command reaches the handler it is
  meant for, and a secret put by one command is what the other one gets.
\<close>

section \<open>Paths that name the same secret in a body and in a URL\<close>

definition clean_path :: "string \<Rightarrow> bool" where
  "clean_path p \<longleftrightarrow> no_dots p \<and> p = joinPath (splitPath p) \<and> TrimSpace p = p \<and> TrimSpace (tl p) = tl p"

lemma split_path_loop_slash: "CHR ''/'' \<notin> set seg \<Longrightarrow> x \<in> set (split_path_loop seg s) \<Longrightarrow> CHR ''/'' \<notin> set x"
  by (induction seg s rule: split_path_loop.induct) (auto split: if_splits)

lemma splitPath_slash: "x \<in> set (splitPath p) \<Longrightarrow> CHR ''/'' \<notin> set x"
  using split_path_loop_slash [of "[]"] by (auto simp: splitPath_def split: if_splits)

lemma joinPath_join: "joinPath segs = CHR ''/'' # join CHR ''/'' segs"
proof -
  have "segs \<noteq> [] \<Longrightarrow> concat (map ((#) c) segs) = c # join c segs" for c :: char
    by (induction c segs rule: join.induct) simp_all
  then show ?thesis by (cases "segs = []") (simp_all add: joinPath_def Let_def)
qed

lemma join_ends:
  assumes "\<forall>s \<in> set segs. s \<noteq> [] \<and> c \<notin> set s" and "segs \<noteq> []"
  shows "join c segs \<noteq> [] \<and> hd (join c segs) \<noteq> c \<and> last (join c segs) \<noteq> c"
  using assms
proof (induction c segs rule: join.induct)
  case (2 c x)
  then show ?case by (metis join.simps(2) hd_in_set last_in_set list.set_intros(1))
next
  case (3 c x y ys)
  then show ?case by auto
qed simp

lemma Trim_ends: "s \<noteq> [] \<Longrightarrow> hd s \<noteq> c \<Longrightarrow> last s \<noteq> c \<Longrightarrow> Trim (c # s) [c] = s \<and> Trim s [c] = s"
proof -
  assume s: "s \<noteq> []" "hd s \<noteq> c" "last s \<noteq> c"
  from s(1,2) have "dropWhile (\<lambda>x. x = c) s = s" by (cases s) simp_all
  moreover from s(1,3) have "dropWhile (\<lambda>x. x = c) (rev s) = rev s"
    by (cases s rule: rev_cases) simp_all
  ultimately show ?thesis by (simp add: Trim_def TrimLeft_def TrimRight_def)
qed

lemma clean_path_cleaned:
  assumes "clean_path p"
  shows "cleanWildcardPath p = p" and "cleanWildcardPath (path_arg p) = p"
proof -
  have p: "p = CHR ''/'' # join CHR ''/'' (splitPath p)" and t: "TrimSpace p = p" "TrimSpace (tl p) = tl p"
    using assms by (auto simp: clean_path_def joinPath_join)
  have arg: "path_arg p = tl p"
    using arg_cong [OF p, of tl] by (simp add: path_arg_def path_segs_def rest_path_def)
  show "cleanWildcardPath p = p"
    and "cleanWildcardPath (path_arg p) = p"
  proof -
    have "cleanWildcardPath p = p \<and> cleanWildcardPath (tl p) = p"
    proof (cases "splitPath p = []")
      case True
      then have "p = ''/''" using p by simp
      moreover have "cleanWildcardPath ''/'' = ''/''" "cleanWildcardPath [] = ''/''" by code_simp+
      ultimately show ?thesis by simp
    next
      case False
      have "\<forall>s \<in> set (splitPath p). s \<noteq> [] \<and> CHR ''/'' \<notin> set s"
        using splitPath_nonempty splitPath_slash by metis
      from join_ends [OF this False] have e: "tl p \<noteq> []" "hd (tl p) \<noteq> CHR ''/''" "last (tl p) \<noteq> CHR ''/''"
        using arg_cong [OF p, of tl] by (metis list.sel(3))+
      have c: "p = CHR ''/'' # tl p" using p by (metis list.sel(3))
      have pre: "HasPrefix p ''/''" "\<not> HasPrefix (tl p) ''/''"
        by (subst c, simp) (use e(1,2) in \<open>cases "tl p"; simp\<close>)
      show ?thesis
        using Trim_ends [OF e] t e(1) pre c
        by (simp add: cleanWildcardPath_def Let_def) (metis append_Cons append_Nil list.distinct(1))
    qed
    with arg show "cleanWildcardPath p = p" "cleanWildcardPath (path_arg p) = p" by simp_all
  qed
qed

section \<open>Calls\<close>

lemma client_request_route:
  assumes "cli_args_ok cmd"
  shows "client_request c remote (cli_call cmd) = Some
     \<lparr>rq_Method = call_Method (cli_call cmd), rq_Path = cli_segs cmd,
      rq_Query = query_get (Split (url_query (call_Path (cli_call cmd))) CHR ''&''),
      rq_Header = (\<lambda>h. if h = ''X-Auth-Token'' then cl_Token c else if h = ''X-Auth-Identity'' then cl_Identity c
         else if h = ''Content-Type'' then ''application/json'' else []),
      rq_RemoteAddr = remote, rq_Body = map_option json_utf8 (call_Body (cli_call cmd)), rq_Actor = []\<rparr>"
proof -
  obtain q where "call_Path (cli_call cmd) = seg_path (cli_segs cmd) @ q" "url_path q = []"
    using cli_call_path by blast
  then have "url_segments (url_path (call_Path (cli_call cmd))) = Some (cli_segs cmd)"
    by (rule call_segments) (rule cli_segs_ok [OF assms])+
  then show ?thesis by (simp add: client_request_def)
qed

lemma cli_segs_private: "\<not> public_path (cli_segs cmd)"
  by (cases cmd) (simp_all add: public_path_def)

text \<open>What the server makes of a command.\<close>

lemma http_serve_command:
  assumes "cli_args_ok cmd" and "client_request c remote (cli_call cmd) = Some r"
    and "sv_TokenHeader s = ''X-Auth-Token''" and "sv_IdentityHeader s = ''X-Auth-Identity''"
    and "authenticate s (cl_Token c) (cl_Identity c) = Some actor"
  shows "http_serve env s r = handle env s (r\<lparr>rq_Actor := actor\<rparr>) (cli_route cmd)"
proof -
  note r = client_request_route [OF assms(1), of c remote, unfolded assms(2)]
  show ?thesis
    using assms(3-) r cli_segs_private [of cmd] cli_route_segs [OF assms(1)]
    by (simp add: http_serve_def withAuth_def serve_mux_def)
qed

lemma authenticate_token: "token \<noteq> [] \<or> identity \<noteq> [] \<Longrightarrow> \<exists>actor. authenticate s token identity = Some actor"
  by (auto simp: authenticate_def Let_def)


definition sample_client :: Client where
  "sample_client = \<lparr>cl_BaseURL = ''http://localhost:8080/'', cl_Token = ''dev-admin-token'', cl_Identity = []\<rparr>"


section \<open>A put, then a get\<close>

lemma served_alone: "served env \<Longrightarrow> alone env"
  by (simp add: served_def alone_def)

lemma abs_store_core: "core d = core d' \<Longrightarrow> abs_store d = abs_store d'"
proof -
  have "abs_store (core d) = abs_store d" for d
    by (simp add: fun_eq_iff abs_store_def secret_view_def [abs_def] versions_of_def [abs_def])
  then show "core d = core d' \<Longrightarrow> abs_store d = abs_store d'" by metis
qed

lemma authorize_passed:
  assumes "alone env" and "authorize env s r n p c k w = (Inr rs, w')" and "rs_Status rs \<noteq> 500" and "rs_Status rs \<noteq> 403"
  obtains w1 where "k w1 = (Inr rs, w')" and "db w1 = db w"
  using assms(2-) fetchesD [OF Authorize_fetches [OF assms(1)]]
  by (fastforce simp: authorize_def Let_def writeError_def writeJSON_def eff_simps split: prod.splits sum.splits if_splits)

lemma Client_Do_Inr:
  assumes "Client_Do send c remote call w = (Inr out, w')"
  obtains r rs where "client_request c remote call = Some r" and "send r w = (Inr rs, w')"
    and "200 \<le> rs_Status rs" and "rs_Status rs < 300" and "out = rs_Body rs"
  using assms
  by (auto simp: Client_Do_def eff_simps split: option.splits prod.splits sum.splits if_splits)

lemma put_body:
  "decode [(''path'', KText), (''type'', KText), (''value'', KText)]
     (Some (JObj [(''path'', JStr p), (''type'', JStr t), (''value'', JStr v)]))
   = Inr [(''path'', JStr p), (''type'', JStr t), (''value'', JStr v)]"
  "text_of ''path'' [(''path'', JStr p), (''type'', JStr t), (''value'', JStr v)] = p"
  "text_of ''type'' [(''path'', JStr p), (''type'', JStr t), (''value'', JStr v)] = t"
  "text_of ''value'' [(''path'', JStr p), (''type'', JStr t), (''value'', JStr v)] = v"
  by code_simp+

lemma put_keys [simp]: "to_utf8 ''path'' = ''path''" "to_utf8 ''type'' = ''type''" "to_utf8 ''value'' = ''value''"
  by code_simp+

text \<open>What a put that the client saw succeed did.\<close>

lemma cli_put_stored:
  assumes "served env" and "plain_segment ns" and "clean_path p" and "valid_utf8 p"
    and "sv_TokenHeader s = ''X-Auth-Token''" and "sv_IdentityHeader s = ''X-Auth-Identity''"
    and "Client_Do (http_serve env s) c remote (cli_call (SecretPut ns p v t)) w = (Inr out, w')"
  obtains m w0 w1 where "db w0 = db w" and "core (db w1) = core (db w')"
    and "SecretService_PutSecret env (sv_secret s)
      \<lparr>psi_Namespace = ns, psi_Path = p, psi_Type = to_utf8 t, psi_Value = to_utf8 v\<rparr> w0 = (Inr m, w1)"
proof -
  note alone = served_alone [OF assms(1)]
  let ?req = "[(''path'', JStr p), (''type'', JStr (to_utf8 t)), (''value'', JStr (to_utf8 v))]"
  obtain r rs where r: "client_request c remote (cli_call (SecretPut ns p v t)) = Some r"
    and rs: "http_serve env s r w = (Inr rs, w')" "200 \<le> rs_Status rs" "rs_Status rs < 300"
    using assms(7) by (rule Client_Do_Inr)
  obtain actor where actor: "authenticate s (cl_Token c) (cl_Identity c) = Some actor"
    using rs client_request_route [of "SecretPut ns p v t" c remote] r assms(2,5,6)
      cli_segs_private [of "SecretPut ns p v t"]
    by (auto simp: http_serve_def withAuth_def writeError_def writeJSON_def okE_def split: option.splits)
  let ?r = "r\<lparr>rq_Actor := actor\<rparr>"
  have "createSecret env s ?r ns w = (Inr rs, w')"
    using http_serve_command [OF _ r assms(5,6) actor] assms(2) rs(1) by simp
  moreover have "rq_Body ?r = Some (JObj ?req)"
    using client_request_route [of "SecretPut ns p v t" c remote] r assms(2,4) by (auto simp: secret_put_def doE_def)
  ultimately have "authorize env s ?r ns p CapabilityCreate (
      answerE 400 (SecretService_PutSecret env (sv_secret s)
        \<lparr>psi_Namespace = ns, psi_Path = p, psi_Type = to_utf8 t, psi_Value = to_utf8 v\<rparr>) (\<lambda>metadata.
      finish env s ?r ns p ''secret.create'' (version_metadata metadata) 201 (PVersion metadata))) w = (Inr rs, w')"
    by (simp add: createSecret_def decodeBody_def put_body answerE_liftE clean_path_cleaned [OF assms(3)] Let_def)
  then obtain w0 where w0: "db w0 = db w" and "answerE 400 (SecretService_PutSecret env (sv_secret s)
        \<lparr>psi_Namespace = ns, psi_Path = p, psi_Type = to_utf8 t, psi_Value = to_utf8 v\<rparr>) (\<lambda>metadata.
      finish env s ?r ns p ''secret.create'' (version_metadata metadata) 201 (PVersion metadata)) w0 = (Inr rs, w')"
    by (rule authorize_passed [OF alone]) (use rs in auto)
  from this(2) obtain m w1 where put: "SecretService_PutSecret env (sv_secret s)
        \<lparr>psi_Namespace = ns, psi_Path = p, psi_Type = to_utf8 t, psi_Value = to_utf8 v\<rparr> w0 = (Inr m, w1)"
    and fin: "finish env s ?r ns p ''secret.create'' (version_metadata m) 201 (PVersion m) w1 = (Inr rs, w')"
    by (rule answerE_other) (use rs in auto)
  have "logs (finish env s ?r ns p ''secret.create'' (version_metadata m) 201 (PVersion m))"
    unfolding finish_def recordSuccess_def by (intro log_rules alone)
  from logs_run [OF this fin] have "core (db w1) = core (db w')" by simp
  from w0 this put show ?thesis by (rule that)
qed

lemma no_query: "url_query (seg_path segs) = []"
proof -
  have "\<forall>c \<in> set (seg_path segs). c \<noteq> CHR ''?''" using Escape_delimiters by (auto simp: seg_path_def)
  then have "dropWhile (\<lambda>c. c \<noteq> CHR ''?'') (seg_path segs) = []" by simp
  then show ?thesis by (simp only: url_query_def drop_Nil)
qed

lemma finish_answer: "fst (finish env s r n p a m st v w) = Inr \<lparr>rs_Status = st, rs_Body = v\<rparr>"
  by (simp add: finish_def recordSuccess_def audited writeJSON_def okE_def)

lemma admin_allowed:
  assumes "sv_adminIdentity s = ''admin''" and "rq_Actor r = ''admin''"
  shows "PolicyService_Authorize env (sv_adminIdentity s)
      (policyAuthorizationRequest (actorFromContext (rq_Actor r)) ns p c r) w = (Inr True, w)"
  by (simp add: assms PolicyService_Authorize_def policyAuthorizationRequest_def actorFromContext_def
      EqualFold_def okE_def)

lemma admin_actor:
  assumes "sv_AdminToken s \<noteq> []" and "token = sv_AdminToken s"
  shows "authenticate s token identity = Some ''admin''"
proof -
  have "TrimSpace ''admin'' = ''admin''" by code_simp
  then show ?thesis using assms by (simp add: authenticate_def)
qed

text \<open>What the administrator is answered on a put that the service accepts.\<close>

lemma cli_put_answer:
  assumes "plain_segment ns" and "clean_path p" and "valid_utf8 p"
    and "sv_TokenHeader s = ''X-Auth-Token''" and "sv_IdentityHeader s = ''X-Auth-Identity''"
    and "sv_AdminToken s \<noteq> []" and "sv_adminIdentity s = ''admin''" and "cl_Token c = sv_AdminToken s"
    and "SecretService_PutSecret env (sv_secret s)
      \<lparr>psi_Namespace = ns, psi_Path = p, psi_Type = to_utf8 t, psi_Value = to_utf8 v\<rparr> w = (Inr m, w1)"
  shows "fst (Client_Do (http_serve env s) c remote (cli_call (SecretPut ns p v t)) w) = Inr (PVersion m)"
proof -
  have ok: "cli_args_ok (SecretPut ns p v t)" using assms(1) by simp
  from client_request_route [OF ok, of c remote] obtain r where
    r: "client_request c remote (cli_call (SecretPut ns p v t)) = Some r"
    and body: "rq_Body r = Some (JObj [(''path'', JStr p), (''type'', JStr (to_utf8 t)), (''value'', JStr (to_utf8 v))])"
    using assms(3) by (auto simp: secret_put_def doE_def)
  let ?r = "r\<lparr>rq_Actor := ''admin''\<rparr>"
  have "fst (createSecret env s ?r ns w) = Inr \<lparr>rs_Status = 201, rs_Body = PVersion m\<rparr>"
    using assms(9) body authorize_allowed [OF admin_allowed [OF assms(7), of ?r]]
    by (simp add: createSecret_def decodeBody_def put_body clean_path_cleaned(1) [OF assms(2)] Let_def answerE_def
        eff_simps finish_answer)
  then show ?thesis
    using http_serve_command [OF ok r assms(4,5) admin_actor [OF assms(6,8)]] r
    by (auto simp: Client_Do_def eff_simps split: prod.splits)
qed

text \<open>The administrator may always read, and the answer is what the store holds.\<close>

lemma cli_get_reads:
  assumes "served env" and "plain_segment ns" and "clean_path p"
    and "sv_TokenHeader s = ''X-Auth-Token''" and "sv_IdentityHeader s = ''X-Auth-Identity''"
    and "sv_AdminToken s \<noteq> []" and "sv_adminIdentity s = ''admin''" and "cl_Token c = sv_AdminToken s"
    and "abs_read (sv_secret s) ns p 0 (abs_store (db w)) = Some v"
  shows "\<exists>n st. fst (Client_Do (http_serve env s) c remote (cli_call (SecretGet ns p)) w) = Inr (PSecretValue v n st)"
proof -
  have ok: "cli_args_ok (SecretGet ns p)" using assms(2,3) by (simp add: clean_path_def)
  have "call_Path (cli_call (SecretGet ns p)) = seg_path (cli_segs (SecretGet ns p))"
    by (simp add: secret_get_def secretPathURL_def versionQuery_def doE_def encodePath_seg_path Escape_words)
  then have "url_query (call_Path (cli_call (SecretGet ns p))) = []"
    by (simp only: no_query)
  then obtain r where
    r: "client_request c remote (cli_call (SecretGet ns p)) = Some r" and q: "rq_Query r = query_get [[]]"
    using client_request_route [OF ok, of c remote] by simp
  note actor = admin_actor [OF assms(6,8)]
  let ?r = "r\<lparr>rq_Actor := ''admin''\<rparr>"
  note auth = admin_allowed [OF assms(7), of ?r]
  have "queryVersion ?r = 0"
    using q by (simp add: queryVersion_def query_text_def)
  obtain m w1 where "SecretService_GetSecret env (sv_secret s) ns p 0 w = (Inr (v, m), w1)"
    using GetSecret_reads(1) [OF assms(1), of "sv_secret s" ns p 0 w] assms(9)
    by (cases "SecretService_GetSecret env (sv_secret s) ns p 0 w") (auto split: sum.splits)
  then have "\<exists>n st. fst (getSecret env s ?r ns (path_arg p) w) = Inr \<lparr>rs_Status = 200, rs_Body = PSecretValue v n st\<rparr>"
    using \<open>queryVersion ?r = 0\<close>
    by (simp add: getSecret_def Let_def clean_path_cleaned(2) [OF assms(3)] authorize_allowed [OF auth] answerE_def
        eff_simps finish_answer)
  then show ?thesis
    using http_serve_command [OF ok r assms(4,5) actor] r
    by (auto simp: Client_Do_def eff_simps split: prod.splits)
qed

text \<open>A value that a put wrote is what a get of the administrator is answered, while the tables differ at most in the audit log.\<close>

lemma cli_put_then_get:
  assumes "served env" and "secret_schema (db w)" and "lawful_crypto env"
    and "sv_secret s = \<lparr>ss_crypto = \<lparr>cs_provider = SoftwareProvider env masterKey auditKey, cs_aad = aad\<rparr>, ss_deletionTTL = ttl\<rparr>"
    and "sv_TokenHeader s = ''X-Auth-Token''" and "sv_IdentityHeader s = ''X-Auth-Identity''"
    and "sv_AdminToken s \<noteq> []" and "sv_adminIdentity s = ''admin''" and "cl_Token admin = sv_AdminToken s"
    and "plain_segment ns" and "clean_path p" and "valid_utf8 p"
    and "Client_Do (http_serve env s) c remote (cli_call (SecretPut ns p v t)) w = (Inr out, w')"
    and "core (db w2) = core (db w')"
  shows "\<exists>n st. fst (Client_Do (http_serve env s) admin remote2 (cli_call (SecretGet ns p)) w2) = Inr (PSecretValue (to_utf8 v) n st)"
proof (rule cli_get_reads [OF assms(1,10,11,5-9)])
  obtain m w0 w1 where w0: "db w0 = db w" and w1: "core (db w1) = core (db w')"
    and "SecretService_PutSecret env (sv_secret s)
      \<lparr>psi_Namespace = ns, psi_Path = p, psi_Type = to_utf8 t, psi_Value = to_utf8 v\<rparr> w0 = (Inr m, w1)"
    using assms(1,10,11,12,5,6,13) by (rule cli_put_stored)
  then obtain m' where "fst (SecretService_GetSecret env (sv_secret s) ns p 0 w1) = Inr (to_utf8 v, m')"
    using software.put_get [of env w0 "(env, masterKey, auditKey)" aad ttl
        "\<lparr>psi_Namespace = ns, psi_Path = p, psi_Type = to_utf8 t, psi_Value = to_utf8 v\<rparr>" m w1] assms(1-4) by auto
  then have "abs_read (sv_secret s) ns p 0 (abs_store (db w1)) = Some (to_utf8 v)"
    using GetSecret_reads(1) [OF assms(1) prod.collapse [symmetric], of "sv_secret s" ns p 0 w1] by simp
  then show "abs_read (sv_secret s) ns p 0 (abs_store (db w2)) = Some (to_utf8 v)"
    using abs_store_core [of "db w2" "db w1"] w1 assms(14) by simp
qed

text \<open>The put that the witnesses use, on a server without audit.\<close>

definition sample_put :: "payload io" where
  "sample_put = Client_Do (http_serve sample_env (sample_server\<lparr>sv_audit := None\<rparr>)) sample_client ''10.0.0.7:4711''
     (cli_call (SecretPut ''app'' ''/db'' ''pw'' ''static''))"

lemma sample_put_answered: "\<exists>m w'. sample_put sample_ns_world = (Inr (PVersion m), w')"
proof -
  let ?s = "sample_server\<lparr>sv_audit := None\<rparr>"
  let ?in = "\<lparr>psi_Namespace = ''app'', psi_Path = ''/db'', psi_Type = to_utf8 ''static'', psi_Value = to_utf8 ''pw''\<rparr>"
  have "\<not> isl (fst (SecretService_PutSecret sample_env (sv_secret ?s) ?in sample_ns_world))" by code_simp
  then obtain m where m: "SecretService_PutSecret sample_env (sv_secret ?s) ?in sample_ns_world =
      (Inr m, snd (SecretService_PutSecret sample_env (sv_secret ?s) ?in sample_ns_world))"
    by (metis prod.collapse sum.collapse(2))
  have "plain_segment ''app''" "clean_path ''/db''" "valid_utf8 ''/db''" by code_simp+
  from cli_put_answer [OF this _ _ _ _ _ m, of sample_client "''10.0.0.7:4711''"]
  have "fst (sample_put sample_ns_world) = Inr (PVersion m)"
    by (simp add: sample_put_def sample_server_def sample_client_def)
  then show ?thesis by (metis prod.collapse)
qed

end
