(* ===== verification/Columns.thy ===== *)
theory Columns
  imports HTTP_Core Samples
begin

text \<open>
  What the repositories send and read, column by column: the arguments of their \<open>INSERT\<close>
  statements (enumerations as texts, maps as JSON), the rows the columns hold, and
  \<open>scanVersion\<close>, \<open>scanLease\<close>, \<open>scanPolicy\<close>, \<open>scanEvents\<close>, \<open>scanCA\<close>,
  \<open>scanCertificate\<close> and the loops over \<open>rows.Next()\<close>, which read them back. The tables of
  \<open>World\<close> hold records, and \<open>store_Secret\<close> and its like say what a column makes of them;
  the theorem of this theory is that this is what the code reads from its own rows.

  A \<open>Scan\<close> gives an error or the row. The enumerations are open string types in the code and
  closed in the model: \<open>None\<close> is a row whose text no constant has, which no statement of the
  code writes. \<open>jsonb\<close> is what the column type makes of a document.
\<close>

section \<open>Enumerations and maps as columns\<close>

definition type_text :: "SecretType \<Rightarrow> string" where
  "type_text t = (case t of SecretTypeStatic \<Rightarrow> ''static'' | SecretTypeDynamic \<Rightarrow> ''dynamic'' | SecretTypeKV \<Rightarrow> ''kv'')"

definition state_text :: "VersionState \<Rightarrow> string" where
  "state_text t = (case t of
     VersionStateActive \<Rightarrow> ''active'' | VersionStateDeleted \<Rightarrow> ''deleted'' | VersionStateDestroyed \<Rightarrow> ''destroyed'')"

definition ca_type_text :: "CAType \<Rightarrow> string" where
  "ca_type_text t = (case t of CATypeRoot \<Rightarrow> ''root'' | CATypeIntermediate \<Rightarrow> ''intermediate'' | CATypeOther s \<Rightarrow> s)"

definition status_text :: "Status \<Rightarrow> string" where
  "status_text t = (case t of StatusActive \<Rightarrow> ''active'' | StatusRevoked \<Rightarrow> ''revoked'' | StatusExpired \<Rightarrow> ''expired'')"

definition cert_status_text :: "CertificateStatus \<Rightarrow> string" where
  "cert_status_text t = (case t of
     CertificateIssued \<Rightarrow> ''issued'' | CertificateRevoked \<Rightarrow> ''revoked'' | CertificateExpired \<Rightarrow> ''expired'')"

text \<open>The conversion of a text to an enumeration, as the constant that has the text.\<close>

definition constant_of :: "('a \<Rightarrow> string) \<Rightarrow> 'a list \<Rightarrow> string \<Rightarrow> 'a option" where
  "constant_of text_for constants s = find (\<lambda>c. text_for c = s) constants"

definition type_of_text :: "string \<Rightarrow> SecretType option" where
  "type_of_text = constant_of type_text [SecretTypeStatic, SecretTypeDynamic, SecretTypeKV]"

definition state_of_text :: "string \<Rightarrow> VersionState option" where
  "state_of_text = constant_of state_text [VersionStateActive, VersionStateDeleted, VersionStateDestroyed]"

definition ca_type_of_text :: "string \<Rightarrow> CAType" where
  "ca_type_of_text s =
     (case constant_of ca_type_text [CATypeRoot, CATypeIntermediate] s of None \<Rightarrow> CATypeOther s | Some t \<Rightarrow> t)"

definition status_of_text :: "string \<Rightarrow> Status option" where
  "status_of_text = constant_of status_text [StatusActive, StatusRevoked, StatusExpired]"

definition cert_status_of_text :: "string \<Rightarrow> CertificateStatus option" where
  "cert_status_of_text = constant_of cert_status_text [CertificateIssued, CertificateRevoked, CertificateExpired]"

definition capability_of_text :: "string \<Rightarrow> Capability option" where
  "capability_of_text = constant_of capability_text
     [CapabilityRead, CapabilityCreate, CapabilityUpdate, CapabilityDelete, CapabilityList]"

text \<open>A map is encoded by \<open>json.Marshal\<close>, its keys in order and its texts made UTF-8.\<close>

definition json_texts :: "smap \<Rightarrow> json" where
  "json_texts m = JObj (map (\<lambda>(k, v). (k, JStr v)) (order_by (\<lambda>x y. bytes_le (fst x) (fst y)) m))"

definition marshal_texts :: "smap \<Rightarrow> json" where
  "marshal_texts m = json_utf8 (json_texts m)"

text \<open>The column is decoded into a nil map unless it is empty; a map that is still nil is made.\<close>

definition scan_map :: "json option \<Rightarrow> smap" where
  "scan_map column =
     (case (case column of None \<Rightarrow> None | Some j \<Rightarrow> put_map None j) of None \<Rightarrow> [] | Some m \<Rightarrow> m)"

definition scan_caps :: "string list \<Rightarrow> Capability list option" where
  "scan_caps caps = those (map capability_of_text caps)"

section \<open>Rows\<close>

record SecretRow =
  sr_ID :: uuid
  sr_Namespace :: string
  sr_Path :: string
  sr_Type :: string
  sr_CurrentVersion :: int
  sr_CreatedAt :: time
  sr_UpdatedAt :: time

record VersionRow =
  vr_ID :: uuid
  vr_SecretID :: uuid
  vr_Version :: int
  vr_EncryptedValue :: bytes
  vr_ValueSHA256 :: bytes
  vr_KeyVersion :: string
  vr_State :: string
  vr_DeleteAfter :: "time option"
  vr_CreatedAt :: time
  vr_UpdatedAt :: time

record LeaseRow =
  lr_ID :: uuid
  lr_Namespace :: string
  lr_Path :: string
  lr_SecretID :: uuid
  lr_TTLSeconds :: int
  lr_Renewable :: bool
  lr_ExpiresAt :: time
  lr_RevokedAt :: "time option"
  lr_Metadata :: "json option"
  lr_CreatedAt :: time
  lr_UpdatedAt :: time

record PolicyRow =
  pr_ID :: uuid
  pr_Name :: string
  pr_Namespace :: string
  pr_PathPrefix :: string
  pr_Identity :: string
  pr_Capabilities :: "string list"
  pr_Conditions :: "json option"
  pr_CreatedAt :: time
  pr_UpdatedAt :: time

record EventRow =
  er_ID :: uuid
  er_Sequence :: int
  er_EventHash :: string
  er_PreviousHash :: string
  er_Actor :: string
  er_Namespace :: string
  er_Path :: string
  er_Action :: string
  er_Result :: string
  er_Metadata :: "json option"
  er_CreatedAt :: time

record CARow =
  cr_ID :: uuid
  cr_Name :: string
  cr_Namespace :: string
  cr_Type :: string
  cr_ParentID :: "uuid option"
  cr_CertificatePEM :: string
  cr_EncryptedPrivateKey :: bytes
  cr_KeyVersion :: string
  cr_SerialNumber :: int
  cr_Policy :: "json option"
  cr_NotBefore :: time
  cr_NotAfter :: time
  cr_Status :: string
  cr_CreatedAt :: time
  cr_UpdatedAt :: time

record CertificateRow =
  tr_ID :: uuid
  tr_Namespace :: string
  tr_CAID :: "uuid option"
  tr_CommonName :: string
  tr_SerialNumber :: string
  tr_CertificatePEM :: string
  tr_EncryptedPrivateKey :: bytes
  tr_KeyVersion :: string
  tr_Status :: string
  tr_NotBefore :: time
  tr_NotAfter :: time
  tr_RevokedAt :: "time option"
  tr_RevocationReason :: string
  tr_CreatedAt :: time
  tr_UpdatedAt :: time

section \<open>The arguments of the statements\<close>

definition secret_args :: "Secret \<Rightarrow> SecretRow" where
  "secret_args x =
     \<lparr>sr_ID = sec_ID x, sr_Namespace = sec_Namespace x, sr_Path = sec_Path x, sr_Type = type_text (sec_Type x),
      sr_CurrentVersion = sec_CurrentVersion x, sr_CreatedAt = sec_CreatedAt x, sr_UpdatedAt = sec_UpdatedAt x\<rparr>"

definition version_args :: "SecretVersion \<Rightarrow> VersionRow" where
  "version_args x =
     \<lparr>vr_ID = ver_ID x, vr_SecretID = ver_SecretID x, vr_Version = ver_Version x,
      vr_EncryptedValue = ver_EncryptedValue x, vr_ValueSHA256 = ver_ValueSHA256 x,
      vr_KeyVersion = ver_KeyVersion x, vr_State = state_text (ver_State x),
      vr_DeleteAfter = ver_DeleteAfter x, vr_CreatedAt = ver_CreatedAt x, vr_UpdatedAt = ver_UpdatedAt x\<rparr>"

definition lease_args :: "Lease \<Rightarrow> LeaseRow" where
  "lease_args x =
     \<lparr>lr_ID = lease_ID x, lr_Namespace = lease_Namespace x, lr_Path = lease_Path x,
      lr_SecretID = lease_SecretID x, lr_TTLSeconds = lease_TTLSeconds x, lr_Renewable = lease_Renewable x,
      lr_ExpiresAt = lease_ExpiresAt x, lr_RevokedAt = lease_RevokedAt x,
      lr_Metadata = Some (marshal_texts (lease_Metadata x)), lr_CreatedAt = lease_CreatedAt x,
      lr_UpdatedAt = lease_UpdatedAt x\<rparr>"

definition policy_args :: "Policy \<Rightarrow> PolicyRow" where
  "policy_args x =
     \<lparr>pr_ID = pol_ID x, pr_Name = pol_Name x, pr_Namespace = pol_Namespace x, pr_PathPrefix = pol_PathPrefix x,
      pr_Identity = pol_Identity x, pr_Capabilities = map capability_text (pol_Capabilities x),
      pr_Conditions = Some (marshal_texts (pol_Conditions x)), pr_CreatedAt = pol_CreatedAt x,
      pr_UpdatedAt = pol_UpdatedAt x\<rparr>"

text \<open>The sequence is no argument: the column's default gives it.\<close>

definition event_args :: "Event \<Rightarrow> EventRow" where
  "event_args x =
     \<lparr>er_ID = ev_ID x, er_Sequence = 0, er_EventHash = ev_EventHash x, er_PreviousHash = ev_PreviousHash x,
      er_Actor = ev_Actor x, er_Namespace = ev_Namespace x, er_Path = ev_Path x, er_Action = ev_Action x,
      er_Result = ev_Result x, er_Metadata = Some (marshal_texts (ev_Metadata x)), er_CreatedAt = ev_CreatedAt x\<rparr>"

definition ca_args :: "CA \<Rightarrow> CARow" where
  "ca_args x =
     \<lparr>cr_ID = ca_ID x, cr_Name = ca_Name x, cr_Namespace = ca_Namespace x, cr_Type = ca_type_text (ca_Type x),
      cr_ParentID = ca_ParentID x, cr_CertificatePEM = ca_CertificatePEM x,
      cr_EncryptedPrivateKey = ca_EncryptedPrivateKey x, cr_KeyVersion = ca_KeyVersion x,
      cr_SerialNumber = ca_SerialNumber x, cr_Policy = Some (marshal_texts (ca_Policy x)),
      cr_NotBefore = ca_NotBefore x, cr_NotAfter = ca_NotAfter x, cr_Status = status_text (ca_Status x),
      cr_CreatedAt = ca_CreatedAt x, cr_UpdatedAt = ca_UpdatedAt x\<rparr>"

definition certificate_args :: "Certificate \<Rightarrow> CertificateRow" where
  "certificate_args x =
     \<lparr>tr_ID = cert_ID x, tr_Namespace = cert_Namespace x, tr_CAID = cert_CAID x,
      tr_CommonName = cert_CommonName x, tr_SerialNumber = cert_SerialNumber x,
      tr_CertificatePEM = cert_CertificatePEM x, tr_EncryptedPrivateKey = cert_EncryptedPrivateKey x,
      tr_KeyVersion = cert_KeyVersion x, tr_Status = cert_status_text (cert_Status x),
      tr_NotBefore = cert_NotBefore x, tr_NotAfter = cert_NotAfter x, tr_RevokedAt = cert_RevokedAt x,
      tr_RevocationReason = cert_RevocationReason x, tr_CreatedAt = cert_CreatedAt x,
      tr_UpdatedAt = cert_UpdatedAt x\<rparr>"

section \<open>What the columns hold\<close>

definition secret_columns :: "env \<Rightarrow> SecretRow \<Rightarrow> SecretRow" where
  "secret_columns env r =
     r\<lparr>sr_CreatedAt := ts_col env (sr_CreatedAt r), sr_UpdatedAt := ts_col env (sr_UpdatedAt r)\<rparr>"

definition version_columns :: "env \<Rightarrow> VersionRow \<Rightarrow> VersionRow" where
  "version_columns env r =
     r\<lparr>vr_DeleteAfter := map_option (ts_col env) (vr_DeleteAfter r),
       vr_CreatedAt := ts_col env (vr_CreatedAt r), vr_UpdatedAt := ts_col env (vr_UpdatedAt r)\<rparr>"

definition lease_columns :: "env \<Rightarrow> (json \<Rightarrow> json) \<Rightarrow> LeaseRow \<Rightarrow> LeaseRow" where
  "lease_columns env jsonb r =
     r\<lparr>lr_ExpiresAt := ts_col env (lr_ExpiresAt r), lr_RevokedAt := map_option (ts_col env) (lr_RevokedAt r),
       lr_Metadata := map_option jsonb (lr_Metadata r), lr_CreatedAt := ts_col env (lr_CreatedAt r),
       lr_UpdatedAt := ts_col env (lr_UpdatedAt r)\<rparr>"

definition policy_columns :: "env \<Rightarrow> (json \<Rightarrow> json) \<Rightarrow> PolicyRow \<Rightarrow> PolicyRow" where
  "policy_columns env jsonb r =
     r\<lparr>pr_Conditions := map_option jsonb (pr_Conditions r), pr_CreatedAt := ts_col env (pr_CreatedAt r),
       pr_UpdatedAt := ts_col env (pr_UpdatedAt r)\<rparr>"

definition event_columns :: "env \<Rightarrow> (json \<Rightarrow> json) \<Rightarrow> int \<Rightarrow> EventRow \<Rightarrow> EventRow" where
  "event_columns env jsonb sequence r =
     r\<lparr>er_Sequence := sequence, er_Metadata := map_option jsonb (er_Metadata r),
       er_CreatedAt := ts_col env (er_CreatedAt r)\<rparr>"

definition ca_columns :: "env \<Rightarrow> (json \<Rightarrow> json) \<Rightarrow> CARow \<Rightarrow> CARow" where
  "ca_columns env jsonb r =
     r\<lparr>cr_Policy := map_option jsonb (cr_Policy r), cr_NotBefore := ts_col env (cr_NotBefore r),
       cr_NotAfter := ts_col env (cr_NotAfter r), cr_CreatedAt := ts_col env (cr_CreatedAt r),
       cr_UpdatedAt := ts_col env (cr_UpdatedAt r)\<rparr>"

definition certificate_columns :: "env \<Rightarrow> CertificateRow \<Rightarrow> CertificateRow" where
  "certificate_columns env r =
     r\<lparr>tr_NotBefore := ts_col env (tr_NotBefore r), tr_NotAfter := ts_col env (tr_NotAfter r),
       tr_RevokedAt := map_option (ts_col env) (tr_RevokedAt r), tr_CreatedAt := ts_col env (tr_CreatedAt r),
       tr_UpdatedAt := ts_col env (tr_UpdatedAt r)\<rparr>"

section \<open>Reading the rows\<close>

text \<open>\<open>if err := row.Scan(...); err != nil\<close>, with the message of each function.\<close>

definition scan_row :: "string \<Rightarrow> ('r \<Rightarrow> 'a option) \<Rightarrow> err + 'r \<Rightarrow> (err + 'a) option" where
  "scan_row f convert row = (case row of Inl e \<Rightarrow> Some (Inl (Wrapf f [] e)) | Inr r \<Rightarrow> map_option Inr (convert r))"

definition secret_of_row :: "SecretRow \<Rightarrow> Secret option" where
  "secret_of_row r =
     map_option (\<lambda>typ.
        \<lparr>sec_ID = sr_ID r, sec_Namespace = sr_Namespace r, sec_Path = sr_Path r, sec_Type = typ,
         sec_CurrentVersion = sr_CurrentVersion r, sec_CreatedAt = sr_CreatedAt r,
         sec_UpdatedAt = sr_UpdatedAt r\<rparr>) (type_of_text (sr_Type r))"

text \<open>The listing reads its secrets in place, with this message.\<close>

definition scanSecret :: "err + SecretRow \<Rightarrow> (err + Secret) option" where
  "scanSecret = scan_row ''scan secret: %w'' secret_of_row"

definition version_of_row :: "VersionRow \<Rightarrow> SecretVersion option" where
  "version_of_row r =
     map_option (\<lambda>state.
        \<lparr>ver_ID = vr_ID r, ver_SecretID = vr_SecretID r, ver_Version = vr_Version r,
         ver_EncryptedValue = vr_EncryptedValue r, ver_ValueSHA256 = vr_ValueSHA256 r,
         ver_KeyVersion = vr_KeyVersion r, ver_State = state, ver_DeleteAfter = vr_DeleteAfter r,
         ver_CreatedAt = vr_CreatedAt r, ver_UpdatedAt = vr_UpdatedAt r\<rparr>) (state_of_text (vr_State r))"

definition scanVersion :: "err + VersionRow \<Rightarrow> (err + SecretVersion) option" where
  "scanVersion = scan_row ''version not found: %w'' version_of_row"

definition lease_of_row :: "LeaseRow \<Rightarrow> Lease option" where
  "lease_of_row r =
     Some \<lparr>lease_ID = lr_ID r, lease_Namespace = lr_Namespace r, lease_Path = lr_Path r,
           lease_SecretID = lr_SecretID r, lease_TTLSeconds = lr_TTLSeconds r, lease_Renewable = lr_Renewable r,
           lease_ExpiresAt = lr_ExpiresAt r, lease_RevokedAt = lr_RevokedAt r,
           lease_Metadata = scan_map (lr_Metadata r), lease_CreatedAt = lr_CreatedAt r,
           lease_UpdatedAt = lr_UpdatedAt r\<rparr>"

definition scanLease :: "err + LeaseRow \<Rightarrow> (err + Lease) option" where
  "scanLease = scan_row ''lease not found: %w'' lease_of_row"

definition policy_of_row :: "PolicyRow \<Rightarrow> Policy option" where
  "policy_of_row r =
     map_option (\<lambda>caps.
        \<lparr>pol_ID = pr_ID r, pol_Name = pr_Name r, pol_Namespace = pr_Namespace r,
         pol_PathPrefix = pr_PathPrefix r, pol_Identity = pr_Identity r, pol_Capabilities = caps,
         pol_Conditions = scan_map (pr_Conditions r), pol_CreatedAt = pr_CreatedAt r,
         pol_UpdatedAt = pr_UpdatedAt r\<rparr>) (scan_caps (pr_Capabilities r))"

definition scanPolicy :: "err + PolicyRow \<Rightarrow> (err + Policy) option" where
  "scanPolicy = scan_row ''policy not found: %w'' policy_of_row"

definition event_of_row :: "EventRow \<Rightarrow> Event option" where
  "event_of_row r =
     Some \<lparr>ev_ID = er_ID r, ev_Sequence = er_Sequence r, ev_EventHash = er_EventHash r,
           ev_PreviousHash = er_PreviousHash r, ev_Actor = er_Actor r, ev_Namespace = er_Namespace r,
           ev_Path = er_Path r, ev_Action = er_Action r, ev_Result = er_Result r,
           ev_Metadata = scan_map (er_Metadata r), ev_CreatedAt = er_CreatedAt r\<rparr>"

definition ca_of_row :: "CARow \<Rightarrow> CA option" where
  "ca_of_row r =
     map_option (\<lambda>status.
        \<lparr>ca_ID = cr_ID r, ca_Name = cr_Name r, ca_Namespace = cr_Namespace r,
         ca_Type = ca_type_of_text (cr_Type r), ca_ParentID = cr_ParentID r,
         ca_CertificatePEM = cr_CertificatePEM r, ca_EncryptedPrivateKey = cr_EncryptedPrivateKey r,
         ca_KeyVersion = cr_KeyVersion r, ca_SerialNumber = cr_SerialNumber r,
         ca_Policy = scan_map (cr_Policy r), ca_NotBefore = cr_NotBefore r, ca_NotAfter = cr_NotAfter r,
         ca_Status = status, ca_CreatedAt = cr_CreatedAt r, ca_UpdatedAt = cr_UpdatedAt r\<rparr>) (status_of_text (cr_Status r))"

definition scanCA :: "err + CARow \<Rightarrow> (err + CA) option" where
  "scanCA = scan_row ''ca not found: %w'' ca_of_row"

definition certificate_of_row :: "CertificateRow \<Rightarrow> Certificate option" where
  "certificate_of_row r =
     map_option (\<lambda>status.
        \<lparr>cert_ID = tr_ID r, cert_Namespace = tr_Namespace r, cert_CAID = tr_CAID r,
         cert_CommonName = tr_CommonName r, cert_SerialNumber = tr_SerialNumber r,
         cert_CertificatePEM = tr_CertificatePEM r, cert_EncryptedPrivateKey = tr_EncryptedPrivateKey r,
         cert_KeyVersion = tr_KeyVersion r, cert_Status = status, cert_NotBefore = tr_NotBefore r,
         cert_NotAfter = tr_NotAfter r, cert_RevokedAt = tr_RevokedAt r,
         cert_RevocationReason = tr_RevocationReason r, cert_CreatedAt = tr_CreatedAt r,
         cert_UpdatedAt = tr_UpdatedAt r\<rparr>) (cert_status_of_text (tr_Status r))"

definition scanCertificate :: "err + CertificateRow \<Rightarrow> (err + Certificate) option" where
  "scanCertificate = scan_row ''certificate not found: %w'' certificate_of_row"

text \<open>
  The loop \<open>for rows.Next()\<close> of the listings: the first row that cannot be read ends it, with
  the message of the listing around the message of the scan.
\<close>

fun scan_rows :: "(err \<Rightarrow> err) \<Rightarrow> ('r \<Rightarrow> (err + 'a) option) \<Rightarrow> 'r list \<Rightarrow> (err + 'a list) option" where
  "scan_rows f scan [] = Some (Inr [])"
| "scan_rows f scan (row # rows) =
     (case scan row of
        None \<Rightarrow> None
      | Some (Inl e) \<Rightarrow> Some (Inl (f e))
      | Some (Inr x) \<Rightarrow> map_option (map_sum id (\<lambda>xs. x # xs)) (scan_rows f scan rows))"

definition list_versions_rows :: "(err + VersionRow) list \<Rightarrow> (err + SecretVersion list) option" where
  "list_versions_rows = scan_rows (Wrapf ''scan version: %w'' []) scanVersion"

definition list_secrets_rows :: "(err + SecretRow) list \<Rightarrow> (err + Secret list) option" where
  "list_secrets_rows = scan_rows id scanSecret"

definition list_expired_rows :: "(err + LeaseRow) list \<Rightarrow> (err + Lease list) option" where
  "list_expired_rows = scan_rows (Wrapf ''scan expired lease: %w'' []) scanLease"

definition list_policies_rows :: "(err + PolicyRow) list \<Rightarrow> (err + Policy list) option" where
  "list_policies_rows = scan_rows (Wrapf ''scan policy: %w'' []) scanPolicy"

definition scanEvents :: "(err + EventRow) list \<Rightarrow> (err + Event list) option" where
  "scanEvents = scan_rows id (scan_row ''scan audit event: %w'' event_of_row)"

definition list_cas_rows :: "(err + CARow) list \<Rightarrow> (err + CA list) option" where
  "list_cas_rows = scan_rows (Wrapf ''scan ca: %w'' []) scanCA"

definition list_certificates_rows :: "(err + CertificateRow) list \<Rightarrow> (err + Certificate list) option" where
  "list_certificates_rows = scan_rows (Wrapf ''scan certificate: %w'' []) scanCertificate"

lemmas listing_rows_defs =
  list_secrets_rows_def scanSecret_def list_versions_rows_def scanVersion_def list_expired_rows_def scanLease_def
  list_policies_rows_def scanPolicy_def scanEvents_def list_cas_rows_def scanCA_def list_certificates_rows_def
  scanCertificate_def

section \<open>Rows that are read back\<close>

lemmas enum_texts =
  type_of_text_def type_text_def state_of_text_def state_text_def status_of_text_def status_text_def
  cert_status_of_text_def cert_status_text_def capability_of_text_def capability_text_def constant_of_def

lemma enums_of_text [simp]:
  "type_of_text (type_text t) = Some t" "state_of_text (state_text st) = Some st"
  "status_of_text (status_text ss) = Some ss" "cert_status_of_text (cert_status_text cst) = Some cst"
  "capability_of_text (capability_text c) = Some c"
  by (simp_all add: enum_texts split: SecretType.split VersionState.split Status.split CertificateStatus.split
      Capability.split)

lemma ca_type_of_text [simp]: "t \<in> {CATypeRoot, CATypeIntermediate} \<Longrightarrow> ca_type_of_text (ca_type_text t) = t"
  by (auto; code_simp)

lemma scan_caps_text [simp]: "scan_caps (map capability_text cs) = Some cs"
  unfolding scan_caps_def by (induction cs) auto

text \<open>
  The contract between a table and the functions that read it: \<open>row_of\<close> is the row that is in
  the table after an \<open>INSERT\<close>, \<open>convert\<close> what the scan function makes of a row, \<open>held\<close> the record
  the model's table holds.
\<close>

locale stored_rows =
  fixes row_of :: "'a \<Rightarrow> 'r"
    and convert :: "'r \<Rightarrow> 'a option"
    and held :: "'a \<Rightarrow> 'a"
    and sound :: "'a \<Rightarrow> bool"
  assumes read_back: "sound x \<Longrightarrow> convert (row_of x) = Some (held x)"
begin

lemma scan_written: "sound x \<Longrightarrow> scan_row f convert (Inr (row_of x)) = Some (Inr (held x))"
  by (simp add: scan_row_def read_back)

lemma rows_written:
  "(\<And>x. x \<in> set xs \<Longrightarrow> sound x) \<Longrightarrow>
     scan_rows f (scan_row g convert) (map (\<lambda>x. Inr (row_of x)) xs) = Some (Inr (map held xs))"
  by (induction xs) (simp_all add: scan_written)

text \<open>An error of the driver after some rows ends the listing with that error, in its wrappings.\<close>

lemma rows_broken:
  "(\<And>x. x \<in> set xs \<Longrightarrow> sound x) \<Longrightarrow>
     scan_rows f (scan_row g convert) (map (\<lambda>x. Inr (row_of x)) xs @ Inl e # rows) = Some (Inl (f (Wrapf g [] e)))"
  by (induction xs) (simp_all add: read_back scan_row_def)

end

text \<open>
  \<open>jsonb\<close> as the environment's \<open>json_col\<close>: what is read from a map that was stored. The
  column type keeps the members of an object and not their order.
\<close>

definition jsonb_env :: "(json \<Rightarrow> json) \<Rightarrow> env \<Rightarrow> env" where
  "jsonb_env jsonb env = env\<lparr>json_col := (\<lambda>m. scan_map (Some (jsonb (marshal_texts m))))\<rparr>"

definition jsonb_keeps :: "(json \<Rightarrow> json) \<Rightarrow> bool" where
  "jsonb_keeps jsonb \<longleftrightarrow> (\<forall>m. distinct (map fst m) \<longrightarrow> utf8_texts m \<longrightarrow>
     (\<exists>ms. jsonb (json_texts m) = JObj ms \<and> distinct (map fst ms) \<and> set ms = (\<lambda>(k, v). (k, JStr v)) ` set m))"

lemma jsonb_env_sel [simp]:
  "json_col (jsonb_env jsonb env) m = scan_map (Some (jsonb (marshal_texts m)))" "ts_col (jsonb_env jsonb env) = ts_col env"
  by (simp_all add: jsonb_env_def)

lemma map_put_new: "k \<notin> fst ` set m \<Longrightarrow> map_put m k v = m @ [(k, v)]"
  by (induction m k v rule: map_put.induct) auto

lemma put_members:
  fixes ms :: "(string \<times> json) list"
  shows "distinct (map fst m @ map fst ms) \<Longrightarrow>
     foldl (\<lambda>m (k, v). map_put m k (put_text [] v)) m ms = m @ map (\<lambda>(k, v). (k, put_text [] v)) ms"
  by (induction ms arbitrary: m) (auto simp: map_put_new image_Un)

lemma put_map_members: "distinct (map fst ms) \<Longrightarrow> put_map None (JObj ms) = Some (map (\<lambda>(k, v). (k, put_text [] v)) ms)"
  using put_members [of "[]" ms] by simp

lemma marshal_texts_id: "utf8_texts m \<Longrightarrow> marshal_texts m = json_texts m"
  by (auto simp: marshal_texts_def json_texts_def list_all_iff)

lemma jsonb_env_keeps:
  assumes "jsonb_keeps jsonb"
  shows "json_keeps (jsonb_env jsonb env)"
  unfolding json_keeps_def
proof (intro allI impI)
  fix m :: smap
  assume m: "distinct (map fst m)" "utf8_texts m"
  then obtain ms where ms: "jsonb (json_texts m) = JObj ms" "distinct (map fst ms)"
    "set ms = (\<lambda>(k, v). (k, JStr v)) ` set m"
    using assms unfolding jsonb_keeps_def by blast
  have "marshal_texts m = json_texts m" using m(2) by (rule marshal_texts_id)
  then have *: "json_col (jsonb_env jsonb env) m = map (\<lambda>(k, v). (k, put_text [] v)) ms"
    using ms(2) by (simp add: scan_map_def ms(1) put_map_members del: put_map.simps)
  have "set (json_col (jsonb_env jsonb env) m) = set m"
    unfolding * using ms(3) by (simp add: image_image case_prod_unfold)
  moreover have "distinct (map fst (json_col (jsonb_env jsonb env) m))"
    using ms(2) unfolding * by (simp add: comp_def case_prod_unfold)
  ultimately show "distinct (map fst (json_col (jsonb_env jsonb env) m)) \<and> set (json_col (jsonb_env jsonb env) m) = set m"
    by simp
qed

lemmas row_args_defs =
  secret_args_def version_args_def lease_args_def policy_args_def event_args_def ca_args_def certificate_args_def
lemmas columns_defs =
  secret_columns_def version_columns_def lease_columns_def policy_columns_def event_columns_def ca_columns_def
  certificate_columns_def
lemmas of_row_defs =
  secret_of_row_def version_of_row_def lease_of_row_def policy_of_row_def event_of_row_def ca_of_row_def
  certificate_of_row_def
lemmas store_defs =
  store_Secret_def store_Version_def store_Lease_def store_Policy_def store_Event_def store_CA_def store_Certificate_def

lemmas column_defs = row_args_defs columns_defs of_row_defs store_defs

interpretation secret_rows:
  stored_rows "\<lambda>s. secret_columns env (secret_args s)" secret_of_row "store_Secret env" "\<lambda>_. True"
  by unfold_locales (simp add: column_defs)

interpretation version_rows:
  stored_rows "\<lambda>v. version_columns env (version_args v)" version_of_row "store_Version env" "\<lambda>_. True"
  by unfold_locales (simp add: column_defs)

interpretation lease_rows:
  stored_rows "\<lambda>l. lease_columns env jsonb (lease_args l)" lease_of_row "store_Lease (jsonb_env jsonb env)" "\<lambda>_. True"
  by unfold_locales (simp add: column_defs)

interpretation policy_rows:
  stored_rows "\<lambda>p. policy_columns env jsonb (policy_args p)" policy_of_row "store_Policy (jsonb_env jsonb env)" "\<lambda>_. True"
  by unfold_locales (simp add: column_defs)

interpretation event_rows:
  stored_rows "\<lambda>e. event_columns env jsonb (ev_Sequence e) (event_args e)" event_of_row
    "store_Event (jsonb_env jsonb env)" "\<lambda>_. True"
  by unfold_locales (simp add: column_defs)

interpretation ca_rows:
  stored_rows "\<lambda>ca. ca_columns env jsonb (ca_args ca)" ca_of_row "store_CA (jsonb_env jsonb env)"
    "\<lambda>ca. ca_Type ca \<in> {CATypeRoot, CATypeIntermediate}"
  by unfold_locales (simp add: column_defs)

interpretation certificate_rows:
  stored_rows "\<lambda>c. certificate_columns env (certificate_args c)" certificate_of_row "store_Certificate env" "\<lambda>_. True"
  by unfold_locales (simp add: column_defs)

lemmas rows_written =
  secret_rows.rows_written version_rows.rows_written lease_rows.rows_written policy_rows.rows_written
  event_rows.rows_written ca_rows.rows_written certificate_rows.rows_written


text \<open>A column type that orders the members by the length of their keys, as PostgreSQL does.\<close>

definition by_length :: "json \<Rightarrow> json" where
  "by_length j = (case j of JObj ms \<Rightarrow> JObj (order_by (\<lambda>x y. length (fst x) \<le> length (fst y)) ms) | _ \<Rightarrow> j)"

lemma by_length_keeps: "jsonb_keeps by_length"
  unfolding jsonb_keeps_def
proof (intro allI impI)
  fix m :: smap
  assume "distinct (map fst m)"
  then have "distinct (map fst (order_by (\<lambda>x y. length (fst x) \<le> length (fst y))
      (map (\<lambda>(k, v). (k, JStr v)) (order_by (\<lambda>x y. bytes_le (fst x) (fst y)) m))))"
    by (simp add: order_by_distinct comp_def case_prod_unfold)
  then show "\<exists>ms. by_length (json_texts m) = JObj ms \<and> distinct (map fst ms) \<and> set ms = (\<lambda>(k, v). (k, JStr v)) ` set m"
    by (simp add: by_length_def json_texts_def)
qed


end
