(* ===== verification/Answers.thy ===== *)
theory Answers
  imports CLI_Properties Columns
begin

text \<open>
  The JSON of the answers (the struct tags of \<open>internal/*/domain/models.go\<close>, \<open>writeJSON\<close> of
  \<open>api/http/response.go\<close>) and what the command line client decodes it into (the variable
  \<open>out\<close> of each command, the end of \<open>Client.Do\<close>). The JSON is the tree, its text is left out;
  the texts of identifiers, of times (in the zone of the process), of durations and of
  errors are the record \<open>Texts\<close>.
\<close>

section \<open>What is encoded\<close>

record Texts =
  tx_uuid :: "uuid \<Rightarrow> string"
  tx_time :: "time \<Rightarrow> string"
  tx_duration :: "duration \<Rightarrow> string"
  tx_error :: "err \<Rightarrow> string"

definition json_int :: "int \<Rightarrow> json" where
  "json_int n = JNum (Itoa n)"

text \<open>A slice that was never appended to is nil, and is encoded as \<open>null\<close>.\<close>

definition json_slice :: "('a \<Rightarrow> json) \<Rightarrow> 'a list \<Rightarrow> json" where
  "json_slice f xs = (if xs = [] then JNull else JArr (map f xs))"

text \<open>The tag \<open>omitempty\<close>.\<close>

definition omit_nil :: "string \<Rightarrow> ('a \<Rightarrow> json) \<Rightarrow> 'a option \<Rightarrow> (string \<times> json) list" where
  "omit_nil k f v = (case v of None \<Rightarrow> [] | Some x \<Rightarrow> [(k, f x)])"

definition omit_empty :: "string \<Rightarrow> string \<Rightarrow> (string \<times> json) list" where
  "omit_empty k v = (if v = [] then [] else [(k, JStr v)])"

definition json_uuid :: "Texts \<Rightarrow> uuid \<Rightarrow> json" where
  "json_uuid tx u = JStr (tx_uuid tx u)"

definition json_time :: "Texts \<Rightarrow> time \<Rightarrow> json" where
  "json_time tx t = JStr (tx_time tx t)"

section \<open>The structs\<close>

definition json_Namespace :: "Texts \<Rightarrow> Namespace \<Rightarrow> json" where
  "json_Namespace tx n = JObj
     [(''id'', json_uuid tx (ns_ID n)), (''name'', JStr (ns_Name n)), (''description'', JStr (ns_Description n)),
      (''created_at'', json_time tx (ns_CreatedAt n)), (''updated_at'', json_time tx (ns_UpdatedAt n))]"

definition json_Secret :: "Texts \<Rightarrow> Secret \<Rightarrow> json" where
  "json_Secret tx x = JObj
     [(''id'', json_uuid tx (sec_ID x)), (''namespace'', JStr (sec_Namespace x)), (''path'', JStr (sec_Path x)),
      (''type'', JStr (type_text (sec_Type x))), (''current_version'', json_int (sec_CurrentVersion x)),
      (''created_at'', json_time tx (sec_CreatedAt x)), (''updated_at'', json_time tx (sec_UpdatedAt x))]"

definition json_VersionMetadata :: "Texts \<Rightarrow> VersionMetadata \<Rightarrow> json" where
  "json_VersionMetadata tx m = JObj
     ([(''id'', json_uuid tx (vm_ID m)), (''version'', json_int (vm_Version m)), (''state'', JStr (state_text (vm_State m))),
       (''key_version'', JStr (vm_KeyVersion m)), (''created_at'', json_time tx (vm_CreatedAt m))] @
      omit_nil ''delete_after'' (json_time tx) (vm_DeleteAfter m))"

definition json_Lease :: "Texts \<Rightarrow> Lease \<Rightarrow> json" where
  "json_Lease tx l = JObj
     ([(''id'', json_uuid tx (lease_ID l)), (''namespace'', JStr (lease_Namespace l)), (''path'', JStr (lease_Path l)),
       (''secret_id'', json_uuid tx (lease_SecretID l)), (''ttl_seconds'', json_int (lease_TTLSeconds l)),
       (''renewable'', JBool (lease_Renewable l)), (''expires_at'', json_time tx (lease_ExpiresAt l))] @
      omit_nil ''revoked_at'' (json_time tx) (lease_RevokedAt l) @
      [(''metadata'', json_texts (lease_Metadata l)),
       (''created_at'', json_time tx (lease_CreatedAt l)), (''updated_at'', json_time tx (lease_UpdatedAt l))])"

definition json_Policy :: "Texts \<Rightarrow> Policy \<Rightarrow> json" where
  "json_Policy tx p = JObj
     [(''id'', json_uuid tx (pol_ID p)), (''name'', JStr (pol_Name p)), (''namespace'', JStr (pol_Namespace p)),
      (''path_prefix'', JStr (pol_PathPrefix p)), (''identity'', JStr (pol_Identity p)),
      (''capabilities'', json_slice (\<lambda>c. JStr (capability_text c)) (pol_Capabilities p)),
      (''conditions'', json_texts (pol_Conditions p)),
      (''created_at'', json_time tx (pol_CreatedAt p)), (''updated_at'', json_time tx (pol_UpdatedAt p))]"

definition json_Event :: "Texts \<Rightarrow> Event \<Rightarrow> json" where
  "json_Event tx e = JObj
     [(''id'', json_uuid tx (ev_ID e)), (''sequence'', json_int (ev_Sequence e)), (''event_hash'', JStr (ev_EventHash e)),
      (''previous_hash'', JStr (ev_PreviousHash e)), (''actor'', JStr (ev_Actor e)), (''namespace'', JStr (ev_Namespace e)),
      (''path'', JStr (ev_Path e)), (''action'', JStr (ev_Action e)), (''result'', JStr (ev_Result e)),
      (''metadata'', json_texts (ev_Metadata e)), (''created_at'', json_time tx (ev_CreatedAt e))]"

text \<open>The encrypted private keys carry the tag \<open>-\<close>: they are not encoded.\<close>

definition json_CA :: "Texts \<Rightarrow> CA \<Rightarrow> json" where
  "json_CA tx ca = JObj
     ([(''id'', json_uuid tx (ca_ID ca)), (''name'', JStr (ca_Name ca)), (''namespace'', JStr (ca_Namespace ca)),
       (''type'', JStr (ca_type_text (ca_Type ca)))] @
      omit_nil ''parent_id'' (json_uuid tx) (ca_ParentID ca) @
      [(''certificate_pem'', JStr (ca_CertificatePEM ca)), (''key_version'', JStr (ca_KeyVersion ca)),
       (''serial_number'', json_int (ca_SerialNumber ca)), (''policy'', json_texts (ca_Policy ca)),
       (''not_before'', json_time tx (ca_NotBefore ca)), (''not_after'', json_time tx (ca_NotAfter ca)),
       (''status'', JStr (status_text (ca_Status ca))),
       (''created_at'', json_time tx (ca_CreatedAt ca)), (''updated_at'', json_time tx (ca_UpdatedAt ca))])"

definition json_Certificate :: "Texts \<Rightarrow> Certificate \<Rightarrow> json" where
  "json_Certificate tx c = JObj
     ([(''id'', json_uuid tx (cert_ID c)), (''namespace'', JStr (cert_Namespace c))] @
      omit_nil ''ca_id'' (json_uuid tx) (cert_CAID c) @
      [(''common_name'', JStr (cert_CommonName c)), (''serial_number'', JStr (cert_SerialNumber c)),
       (''certificate_pem'', JStr (cert_CertificatePEM c)), (''key_version'', JStr (cert_KeyVersion c)),
       (''status'', JStr (cert_status_text (cert_Status c))),
       (''not_before'', json_time tx (cert_NotBefore c)), (''not_after'', json_time tx (cert_NotAfter c))] @
      omit_nil ''revoked_at'' (json_time tx) (cert_RevokedAt c) @
      omit_empty ''revocation_reason'' (cert_RevocationReason c) @
      [(''created_at'', json_time tx (cert_CreatedAt c)), (''updated_at'', json_time tx (cert_UpdatedAt c))])"

definition json_Revocation :: "Texts \<Rightarrow> Revocation \<Rightarrow> json" where
  "json_Revocation tx r = JObj
     [(''id'', json_uuid tx (rev_ID r)), (''certificate_id'', json_uuid tx (rev_CertificateID r)),
      (''serial_number'', JStr (rev_SerialNumber r)), (''reason'', JStr (rev_Reason r)),
      (''revoked_at'', json_time tx (rev_RevokedAt r)), (''created_at'', json_time tx (rev_CreatedAt r))]"

text \<open>The answer as JSON; the metrics and what \<open>net/http\<close> answers itself are plain text.\<close>

fun answer_json :: "Texts \<Rightarrow> payload \<Rightarrow> json option" where
  "answer_json tx (PError e) = Some (JObj [(''error'', JStr (tx_error tx e))])"
| "answer_json tx (PReady d) = Some (json_texts [(''status'', ''ready''), (''uptime_seconds'', tx_duration tx d)])"
| "answer_json tx PMetrics = None"
| "answer_json tx PNetHttp = None"
| "answer_json tx (PTexts m) = Some (json_texts m)"
| "answer_json tx (PFlag k b) = Some (JObj [(k, JBool b)])"
| "answer_json tx (PNamespace n) = Some (json_Namespace tx n)"
| "answer_json tx (PNamespaces ns) = Some (json_slice (json_Namespace tx) ns)"
| "answer_json tx (PVersion m) = Some (json_VersionMetadata tx m)"
| "answer_json tx (PVersions ms) = Some (JArr (map (json_VersionMetadata tx) ms))"
| "answer_json tx (PSecrets xs) = Some (json_slice (json_Secret tx) xs)"
| "answer_json tx (PSecretValue v n st) =
     Some (JObj [(''state'', JStr (state_text st)), (''value'', JStr v), (''version'', json_int n)])"
| "answer_json tx (PLease l) = Some (json_Lease tx l)"
| "answer_json tx (PPolicy p) = Some (json_Policy tx p)"
| "answer_json tx (PPolicies ps) = Some (json_slice (json_Policy tx) ps)"
| "answer_json tx (PEvents es) = Some (json_slice (json_Event tx) es)"
| "answer_json tx (PVerified ok n) = Some (JObj [(''events'', json_int (int n)), (''valid'', JBool ok)])"
| "answer_json tx (PCA ca) = Some (json_CA tx ca)"
| "answer_json tx (PCAs cas) = Some (json_slice (json_CA tx) cas)"
| "answer_json tx (PCertificate c) = Some (json_Certificate tx c)"
| "answer_json tx (PCertificates cs) = Some (json_slice (json_Certificate tx) cs)"
| "answer_json tx (PRevocation r) = Some (json_Revocation tx r)"

section \<open>What the client decodes\<close>

text \<open>
  The type of \<open>out\<close>: \<open>map[string]interface{}\<close>, a slice of these, or \<open>map[string]string\<close>. \<open>null\<close>
  leaves a variable or an element nil.
\<close>

datatype OutType = OutMap | OutMaps | OutTexts

fun decodes :: "OutType \<Rightarrow> json \<Rightarrow> bool" where
  "decodes OutMap (JObj _) = True"
| "decodes OutTexts (JObj ms) = list_all (\<lambda>(k, v). case v of JStr _ \<Rightarrow> True | JNull \<Rightarrow> True | _ \<Rightarrow> False) ms"
| "decodes OutMaps (JArr xs) = list_all (\<lambda>x. case x of JObj _ \<Rightarrow> True | JNull \<Rightarrow> True | _ \<Rightarrow> False) xs"
| "decodes _ JNull = True"
| "decodes _ _ = False"

fun out_type :: "Command \<Rightarrow> OutType" where
  "out_type NamespaceList = OutMaps"
| "out_type (SecretList _) = OutMaps"
| "out_type (SecretVersions _ _) = OutMaps"
| "out_type (PolicyList _) = OutMaps"
| "out_type (AuditList _ _) = OutMaps"
| "out_type (PkiListCAs _) = OutMaps"
| "out_type (PkiListCerts _) = OutMaps"
| "out_type (PkiCrl _) = OutTexts"
| "out_type (PkiOcsp _ _) = OutTexts"
| "out_type (CryptoEncrypt _) = OutTexts"
| "out_type (CryptoDecrypt _ _) = OutTexts"
| "out_type (CryptoSign _) = OutTexts"
| "out_type (CryptoDerive _ _ _) = OutTexts"
| "out_type (CryptoRandom _) = OutTexts"
| "out_type _ = OutMap"

text \<open>A command: the call, and the end of \<open>Client.Do\<close>, which decodes the body of the answer.\<close>

definition cli_run :: "Texts \<Rightarrow> (Request \<Rightarrow> Response io) \<Rightarrow> Client \<Rightarrow> string \<Rightarrow> Command \<Rightarrow> json io" where
  "cli_run tx send c remote cmd =
     bindE (Client_Do send c remote (cli_call cmd)) (\<lambda>body.
     case answer_json tx body of
       None \<Rightarrow> failE (Wrapf ''decode response: %w'' [] (PrimitiveError ''encoding/json''))
     | Some j \<Rightarrow>
         let k = json_utf8 j in
         if decodes (out_type cmd) k then okE k
         else failE (Wrapf ''decode response: %w'' [] (PrimitiveError ''encoding/json'')))"

lemma shape_utf8:
  "(case json_utf8 x of JObj _ \<Rightarrow> True | JNull \<Rightarrow> True | _ \<Rightarrow> False) = (case x of JObj _ \<Rightarrow> True | JNull \<Rightarrow> True | _ \<Rightarrow> False)"
  "(case json_utf8 x of JStr _ \<Rightarrow> True | JNull \<Rightarrow> True | _ \<Rightarrow> False) = (case x of JStr _ \<Rightarrow> True | JNull \<Rightarrow> True | _ \<Rightarrow> False)"
  by (cases x; simp)+

lemma decodes_utf8 [simp]: "decodes t (json_utf8 j) = decodes t j"
  by (cases t; cases j) (simp_all add: list.pred_map comp_def case_prod_unfold shape_utf8)

section \<open>Every handler answers what the client decodes\<close>

definition understood :: "Texts \<Rightarrow> OutType \<Rightarrow> payload \<Rightarrow> bool" where
  "understood tx out p \<longleftrightarrow> (case answer_json tx p of None \<Rightarrow> False | Some j \<Rightarrow> decodes out j)"

definition answers_as :: "(payload \<Rightarrow> bool) \<Rightarrow> Response io \<Rightarrow> bool" where
  "answers_as K m \<longleftrightarrow> (\<forall>w rs w'. m w = (Inr rs, w') \<longrightarrow> rs_Status rs < 300 \<longrightarrow> K (rs_Body rs))"

named_theorems ans \<open>rules about the body of a successful answer\<close>

lemma answers_writeJSON [ans]: "K v \<Longrightarrow> answers_as K (writeJSON st v)"
  by (simp add: answers_as_def writeJSON_def okE_def)

lemma answers_writeError [ans]: "300 \<le> st \<Longrightarrow> answers_as K (writeError st e)"
  by (simp add: answers_as_def writeError_def writeJSON_def okE_def)

lemma answers_bindE: "(\<And>x. answers_as K (f x)) \<Longrightarrow> answers_as K (bindE m f)"
  by (auto simp: answers_as_def bindE_def split: prod.splits sum.splits)

lemma answers_gaugeE [ans]: "answers_as K m \<Longrightarrow> answers_as K (bindE (gaugeE k) (\<lambda>_. m))"
  by (rule answers_bindE)

lemma answers_answerE [ans]: "300 \<le> st \<Longrightarrow> (\<And>x. answers_as K (k x)) \<Longrightarrow> answers_as K (answerE st m k)"
  unfolding answerE_def by (rule answers_bindE) (auto split: sum.split intro: ans)

lemma answers_decodeBody [ans]: "(\<And>x. answers_as K (k x)) \<Longrightarrow> answers_as K (decodeBody fs r k)"
  unfolding decodeBody_def by (rule answers_answerE) simp_all

lemma answers_authorize [ans]: "answers_as K k \<Longrightarrow> answers_as K (authorize env s r n p c k)"
  unfolding authorize_def Let_def
  by (rule answers_bindE) (auto split: sum.split intro!: ans answers_bindE)

lemma answers_finish [ans]: "K v \<Longrightarrow> answers_as K (finish env s r n p a m st v)"
  unfolding finish_def by (intro answers_bindE ans)

lemma answers_case_option [ans]:
  "answers_as K m \<Longrightarrow> (\<And>x. answers_as K (f x)) \<Longrightarrow> answers_as K (case v of None \<Rightarrow> m | Some x \<Rightarrow> f x)"
  by (cases v) simp_all

lemma answers_case_prod [ans]: "(\<And>x y. answers_as K (f x y)) \<Longrightarrow> answers_as K (case p of (x, y) \<Rightarrow> f x y)"
  by (cases p) simp

lemmas json_structs =
  json_Namespace_def json_Secret_def json_VersionMetadata_def json_Lease_def json_Policy_def json_Event_def
  json_CA_def json_Certificate_def json_Revocation_def

lemma understood_payloads [simp]:
  "understood tx OutMap (PFlag k b)" "understood tx OutMap (PNamespace n)" "understood tx OutMap (PVersion m)"
  "understood tx OutMap (PSecretValue v i st)" "understood tx OutMap (PLease l)" "understood tx OutMap (PPolicy p)"
  "understood tx OutMap (PVerified b n2)" "understood tx OutMap (PCA ca)" "understood tx OutMap (PCertificate ce)"
  "understood tx OutMap (PRevocation rv)" "understood tx OutTexts (PTexts ts)"
  by (auto simp: understood_def json_structs json_texts_def list_all_iff)

lemma understood_lists [simp]:
  "understood tx OutMaps (PNamespaces ns)" "understood tx OutMaps (PVersions vs)" "understood tx OutMaps (PSecrets xs)"
  "understood tx OutMaps (PPolicies ps)" "understood tx OutMaps (PEvents es)" "understood tx OutMaps (PCAs cas)"
  "understood tx OutMaps (PCertificates cs)"
  by (auto simp: understood_def json_structs json_slice_def list_all_iff)

lemma handlers_understood: "answers_as (understood tx (out_type cmd)) (handle env s r (cli_route cmd))"
  by (cases cmd; simp only: cli_route.simps handle.simps http_handler_defs Let_def out_type.simps; intro ans; simp)

text \<open>What a client is answered on a command was answered by the handler, or by the authentication.\<close>

lemma command_understood:
  assumes "cli_args_ok cmd" and "sv_TokenHeader s = ''X-Auth-Token''" and "sv_IdentityHeader s = ''X-Auth-Identity''"
    and "Client_Do (http_serve env s) c remote (cli_call cmd) w = (Inr out, w')"
  shows "understood tx (out_type cmd) out"
proof -
  obtain r rs where r: "client_request c remote (cli_call cmd) = Some r" and rs: "http_serve env s r w = (Inr rs, w')"
    "200 \<le> rs_Status rs" "rs_Status rs < 300" "out = rs_Body rs"
    using assms(4) by (rule Client_Do_Inr)
  obtain actor where actor: "authenticate s (cl_Token c) (cl_Identity c) = Some actor"
    using rs client_request_route [OF assms(1), of c remote] r assms(2,3) cli_segs_private [of cmd]
    by (auto simp: http_serve_def withAuth_def writeError_def writeJSON_def okE_def split: option.splits)
  from http_serve_command [OF assms(1) r assms(2,3) actor] rs(1)
  have "handle env s (r\<lparr>rq_Actor := actor\<rparr>) (cli_route cmd) w = (Inr rs, w')" by simp
  with handlers_understood [of tx cmd env s "r\<lparr>rq_Actor := actor\<rparr>"] rs(3,4) show ?thesis
    by (auto simp: answers_as_def)
qed

text \<open>The client understands every answer of the server: a command ends with exactly the error of its call, or with the JSON of the value the handler answered; no success of the server is lost because the client cannot decode it.\<close>

lemma cli_understands_answers:
  assumes "cli_args_ok cmd" and "sv_TokenHeader s = ''X-Auth-Token''" and "sv_IdentityHeader s = ''X-Auth-Identity''"
  shows "(cli_run tx (http_serve env s) c remote cmd w = (Inl e, w') \<longleftrightarrow>
      Client_Do (http_serve env s) c remote (cli_call cmd) w = (Inl e, w')) \<and>
    (cli_run tx (http_serve env s) c remote cmd w = (Inr j, w') \<longleftrightarrow>
      (\<exists>body k. Client_Do (http_serve env s) c remote (cli_call cmd) w = (Inr body, w') \<and> answer_json tx body = Some k \<and> j = json_utf8 k))"
proof -
  obtain res w1 where run: "Client_Do (http_serve env s) c remote (cli_call cmd) w = (res, w1)" by force
  show ?thesis
  proof (cases res)
    case (Inl e')
    then show ?thesis using run by (simp add: cli_run_def bindE_def)
  next
    case (Inr body)
    with command_understood [OF assms(1-3)] run have "understood tx (out_type cmd) body" by blast
    then obtain k where "answer_json tx body = Some k" "decodes (out_type cmd) k"
      by (auto simp: understood_def split: option.splits)
    then show ?thesis using run Inr by (auto simp: cli_run_def bindE_def okE_def)
  qed
qed

definition sample_texts :: Texts where
  "sample_texts = \<lparr>tx_uuid = Itoa \<circ> int, tx_time = RFC3339Nano, tx_duration = Itoa, tx_error = (\<lambda>_. ''error'')\<rparr>"

section \<open>Key material is not answered\<close>

text \<open>An answer without what must not leave the server.\<close>

fun without_keys :: "payload \<Rightarrow> payload" where
  "without_keys (PCA ca) = PCA (ca\<lparr>ca_EncryptedPrivateKey := []\<rparr>)"
| "without_keys (PCAs cas) = PCAs (map (\<lambda>ca. ca\<lparr>ca_EncryptedPrivateKey := []\<rparr>) cas)"
| "without_keys (PCertificate c) = PCertificate (c\<lparr>cert_EncryptedPrivateKey := []\<rparr>)"
| "without_keys (PCertificates cs) = PCertificates (map (\<lambda>c. c\<lparr>cert_EncryptedPrivateKey := []\<rparr>) cs)"
| "without_keys p = p"

lemma keys_not_answered: "answer_json tx (without_keys p) = answer_json tx p"
  by (cases p) (simp_all add: json_CA_def json_Certificate_def json_slice_def)

end
