(* ===== verification/CLI_Args.thy ===== *)
theory CLI_Args
  imports CLI
begin

text \<open>
  The commands as \<open>newRootCommand\<close> and the functions below it declare them: the words that
  select a command, how many arguments it takes, its flags and their defaults. What cobra
  does with the declarations is its documented behaviour: a command that declares
  \<open>ExactArgs\<close> or \<open>RangeArgs\<close> is refused with any other number of arguments, one that declares
  nothing takes any, and a flag that is not given has its default.
\<close>

section \<open>Flags\<close>

record Flags =
  fl_text :: "string \<Rightarrow> string option"
  fl_bool :: "string \<Rightarrow> bool option"
  fl_slice :: "string \<Rightarrow> string list option"

definition no_flags :: Flags where
  "no_flags = \<lparr>fl_text = (\<lambda>_. None), fl_bool = (\<lambda>_. None), fl_slice = (\<lambda>_. None)\<rparr>"

definition or_default :: "'a option \<Rightarrow> 'a \<Rightarrow> 'a" where
  "or_default v d = (case v of None \<Rightarrow> d | Some x \<Rightarrow> x)"

definition NewClient :: "string \<Rightarrow> string \<Rightarrow> string \<Rightarrow> Client" where
  "NewClient baseURL token identity = \<lparr>cl_BaseURL = baseURL, cl_Token = token, cl_Identity = identity\<rparr>"

definition root_client :: "Flags \<Rightarrow> Client" where
  "root_client fl =
     NewClient (or_default (fl_text fl ''server'') ''http://localhost:8080'')
       (or_default (fl_text fl ''token'') ''dev-admin-token'') (or_default (fl_text fl ''identity'') [])"

section \<open>The groups of commands\<close>

definition namespace_command :: "Flags \<Rightarrow> string \<Rightarrow> string list \<Rightarrow> Command option" where
  "namespace_command fl sub args =
     (if sub = ''create'' then
        (case args of [name] \<Rightarrow> Some (NamespaceCreate name (or_default (fl_text fl ''description'') [])) | _ \<Rightarrow> None)
      else if sub = ''list'' then Some NamespaceList
      else None)"

definition secret_command :: "Flags \<Rightarrow> string \<Rightarrow> string list \<Rightarrow> Command option" where
  "secret_command fl sub args =
     (if sub = ''put'' then
        (case args of [ns, path, v] \<Rightarrow> Some (SecretPut ns path v (or_default (fl_text fl ''type'') ''kv'')) | _ \<Rightarrow> None)
      else if sub = ''get'' then (case args of [ns, path] \<Rightarrow> Some (SecretGet ns path) | _ \<Rightarrow> None)
      else if sub = ''list'' then (case args of [ns] \<Rightarrow> Some (SecretList ns) | _ \<Rightarrow> None)
      else if sub = ''versions'' then (case args of [ns, path] \<Rightarrow> Some (SecretVersions ns path) | _ \<Rightarrow> None)
      else if sub = ''delete'' then
        (case args of [ns, path] \<Rightarrow> Some (SecretDelete ns path None)
         | [ns, path, v] \<Rightarrow> Some (SecretDelete ns path (Some v)) | _ \<Rightarrow> None)
      else if sub = ''restore'' then (case args of [ns, path, v] \<Rightarrow> Some (SecretRestore ns path v) | _ \<Rightarrow> None)
      else if sub = ''destroy'' then (case args of [ns, path, v] \<Rightarrow> Some (SecretDestroy ns path v) | _ \<Rightarrow> None)
      else if sub = ''rollback'' then (case args of [ns, path, v] \<Rightarrow> Some (SecretRollback ns path v) | _ \<Rightarrow> None)
      else None)"

definition lease_command :: "Flags \<Rightarrow> string \<Rightarrow> string list \<Rightarrow> Command option" where
  "lease_command fl sub args =
     (let ttl = or_default (fl_text fl ''ttl'') ''1h'' in
      if sub = ''create'' then
        (case args of [ns, path] \<Rightarrow> Some (LeaseCreate ns path ttl (or_default (fl_bool fl ''renewable'') True)) | _ \<Rightarrow> None)
      else if sub = ''renew'' then (case args of [i] \<Rightarrow> Some (LeaseRenew i ttl) | _ \<Rightarrow> None)
      else if sub = ''revoke'' then (case args of [i] \<Rightarrow> Some (LeaseRevoke i) | _ \<Rightarrow> None)
      else None)"

definition policy_command :: "Flags \<Rightarrow> string \<Rightarrow> string list \<Rightarrow> Command option" where
  "policy_command fl sub args =
     (if sub = ''create'' then
        (case args of [name, ns, identity, pre] \<Rightarrow>
           Some (PolicyCreate name ns identity pre (or_default (fl_slice fl ''capability'') [''read''])) | _ \<Rightarrow> None)
      else if sub = ''list'' then (case args of [ns] \<Rightarrow> Some (PolicyList ns) | _ \<Rightarrow> None)
      else if sub = ''delete'' then (case args of [name] \<Rightarrow> Some (PolicyDelete name) | _ \<Rightarrow> None)
      else None)"

definition audit_command :: "Flags \<Rightarrow> string \<Rightarrow> string list \<Rightarrow> Command option" where
  "audit_command fl sub args =
     (if sub = ''list'' then
        Some (AuditList (or_default (fl_text fl ''namespace'') []) (or_default (fl_text fl ''actor'') []))
      else if sub = ''verify'' then Some AuditVerify
      else None)"

definition pki_command :: "Flags \<Rightarrow> string \<Rightarrow> string list \<Rightarrow> Command option" where
  "pki_command fl sub args =
     (let ttl = or_default (fl_text fl ''ttl'') ''8760h'' in
      if sub = ''root'' then (case args of [name, ns, cn] \<Rightarrow> Some (PkiRoot name ns cn ttl) | _ \<Rightarrow> None)
      else if sub = ''intermediate'' then
        (case args of [name, ns, parent, cn] \<Rightarrow> Some (PkiIntermediate name ns parent cn ttl) | _ \<Rightarrow> None)
      else if sub = ''issue'' then
        (case args of [ca, cn] \<Rightarrow> Some (PkiIssue ca cn ttl (or_default (fl_slice fl ''dns'') [])) | _ \<Rightarrow> None)
      else if sub = ''revoke'' then
        (case args of [serial, reason] \<Rightarrow> Some (PkiRevoke serial reason (or_default (fl_text fl ''namespace'') [])) | _ \<Rightarrow> None)
      else if sub = ''crl'' then (case args of [ca] \<Rightarrow> Some (PkiCrl ca) | _ \<Rightarrow> None)
      else if sub = ''ocsp'' then (case args of [ca, serial] \<Rightarrow> Some (PkiOcsp ca serial) | _ \<Rightarrow> None)
      else if sub = ''list-cas'' then (case args of [ns] \<Rightarrow> Some (PkiListCAs ns) | _ \<Rightarrow> None)
      else if sub = ''list-certs'' then (case args of [ns] \<Rightarrow> Some (PkiListCerts ns) | _ \<Rightarrow> None)
      else None)"

definition crypto_command :: "Flags \<Rightarrow> string \<Rightarrow> string list \<Rightarrow> Command option" where
  "crypto_command fl sub args =
     (if sub = ''encrypt'' then (case args of [t] \<Rightarrow> Some (CryptoEncrypt t) | _ \<Rightarrow> None)
      else if sub = ''decrypt'' then (case args of [c, k] \<Rightarrow> Some (CryptoDecrypt c k) | _ \<Rightarrow> None)
      else if sub = ''sign'' then (case args of [d] \<Rightarrow> Some (CryptoSign d) | _ \<Rightarrow> None)
      else if sub = ''verify'' then (case args of [d, s, a] \<Rightarrow> Some (CryptoVerify d s a) | _ \<Rightarrow> None)
      else if sub = ''derive'' then (case args of [m, s, l] \<Rightarrow> Some (CryptoDerive m s l) | _ \<Rightarrow> None)
      else if sub = ''random'' then (case args of [l] \<Rightarrow> Some (CryptoRandom l) | _ \<Rightarrow> None)
      else None)"

definition root_command :: "Flags \<Rightarrow> string list \<Rightarrow> Command option" where
  "root_command fl words = (case words of
     grp # sub # args \<Rightarrow>
       if grp = ''namespace'' then namespace_command fl sub args
       else if grp = ''secret'' then secret_command fl sub args
       else if grp = ''lease'' then lease_command fl sub args
       else if grp = ''policy'' then policy_command fl sub args
       else if grp = ''audit'' then audit_command fl sub args
       else if grp = ''pki'' then pki_command fl sub args
       else if grp = ''crypto'' then crypto_command fl sub args
       else None
   | _ \<Rightarrow> None)"

lemmas command_defs =
  root_command_def namespace_command_def secret_command_def lease_command_def policy_command_def
  audit_command_def pki_command_def crypto_command_def

section \<open>Every command can be given\<close>

text \<open>The words that give a command, and the flags.\<close>

fun words_of :: "Command \<Rightarrow> string list" where
  "words_of (NamespaceCreate n d) = [''namespace'', ''create'', n]"
| "words_of NamespaceList = [''namespace'', ''list'']"
| "words_of (SecretPut ns p v t) = [''secret'', ''put'', ns, p, v]"
| "words_of (SecretGet ns p) = [''secret'', ''get'', ns, p]"
| "words_of (SecretList ns) = [''secret'', ''list'', ns]"
| "words_of (SecretVersions ns p) = [''secret'', ''versions'', ns, p]"
| "words_of (SecretDelete ns p v) = [''secret'', ''delete'', ns, p] @ (case v of None \<Rightarrow> [] | Some t \<Rightarrow> [t])"
| "words_of (SecretRestore ns p v) = [''secret'', ''restore'', ns, p, v]"
| "words_of (SecretDestroy ns p v) = [''secret'', ''destroy'', ns, p, v]"
| "words_of (SecretRollback ns p v) = [''secret'', ''rollback'', ns, p, v]"
| "words_of (LeaseCreate ns p t r) = [''lease'', ''create'', ns, p]"
| "words_of (LeaseRenew i t) = [''lease'', ''renew'', i]"
| "words_of (LeaseRevoke i) = [''lease'', ''revoke'', i]"
| "words_of (PolicyCreate n ns i p cs) = [''policy'', ''create'', n, ns, i, p]"
| "words_of (PolicyList ns) = [''policy'', ''list'', ns]"
| "words_of (PolicyDelete n) = [''policy'', ''delete'', n]"
| "words_of (AuditList ns a) = [''audit'', ''list'']"
| "words_of AuditVerify = [''audit'', ''verify'']"
| "words_of (PkiRoot n ns cn t) = [''pki'', ''root'', n, ns, cn]"
| "words_of (PkiIntermediate n ns p cn t) = [''pki'', ''intermediate'', n, ns, p, cn]"
| "words_of (PkiIssue ca cn t d) = [''pki'', ''issue'', ca, cn]"
| "words_of (PkiRevoke k r ns) = [''pki'', ''revoke'', k, r]"
| "words_of (PkiCrl ca) = [''pki'', ''crl'', ca]"
| "words_of (PkiOcsp ca k) = [''pki'', ''ocsp'', ca, k]"
| "words_of (PkiListCAs ns) = [''pki'', ''list-cas'', ns]"
| "words_of (PkiListCerts ns) = [''pki'', ''list-certs'', ns]"
| "words_of (CryptoEncrypt p) = [''crypto'', ''encrypt'', p]"
| "words_of (CryptoDecrypt c k) = [''crypto'', ''decrypt'', c, k]"
| "words_of (CryptoSign d) = [''crypto'', ''sign'', d]"
| "words_of (CryptoVerify d s a) = [''crypto'', ''verify'', d, s, a]"
| "words_of (CryptoDerive m s l) = [''crypto'', ''derive'', m, s, l]"
| "words_of (CryptoRandom l) = [''crypto'', ''random'', l]"

fun flags_of :: "Command \<Rightarrow> Flags" where
  "flags_of (NamespaceCreate n d) = no_flags\<lparr>fl_text := [''description'' \<mapsto> d]\<rparr>"
| "flags_of (SecretPut ns p v t) = no_flags\<lparr>fl_text := [''type'' \<mapsto> t]\<rparr>"
| "flags_of (LeaseCreate ns p t r) = no_flags\<lparr>fl_text := [''ttl'' \<mapsto> t], fl_bool := [''renewable'' \<mapsto> r]\<rparr>"
| "flags_of (LeaseRenew i t) = no_flags\<lparr>fl_text := [''ttl'' \<mapsto> t]\<rparr>"
| "flags_of (PolicyCreate n ns i p cs) = no_flags\<lparr>fl_slice := [''capability'' \<mapsto> cs]\<rparr>"
| "flags_of (AuditList ns a) = no_flags\<lparr>fl_text := [''namespace'' \<mapsto> ns, ''actor'' \<mapsto> a]\<rparr>"
| "flags_of (PkiRoot n ns cn t) = no_flags\<lparr>fl_text := [''ttl'' \<mapsto> t]\<rparr>"
| "flags_of (PkiIntermediate n ns p cn t) = no_flags\<lparr>fl_text := [''ttl'' \<mapsto> t]\<rparr>"
| "flags_of (PkiIssue ca cn t d) = no_flags\<lparr>fl_text := [''ttl'' \<mapsto> t], fl_slice := [''dns'' \<mapsto> d]\<rparr>"
| "flags_of (PkiRevoke k r ns) = no_flags\<lparr>fl_text := [''namespace'' \<mapsto> ns]\<rparr>"
| "flags_of _ = no_flags"

lemma root_command_words: "root_command (flags_of cmd) (words_of cmd) = Some cmd"
  by (cases cmd; simp only: words_of.simps flags_of.simps command_defs Let_def list.case;
      simp add: or_default_def split: option.splits)

end
