(* ===== verification/CLI_Main.thy ===== *)
theory CLI_Main
  imports Answers CLI_Args
begin

text \<open>
  What a command leaves on the terminal (\<open>main\<close> and \<open>printJSON\<close> of \<open>cmd/cli/main.go\<close>, the
  ends of the commands): the decoded answer as JSON, a line of text for the revocation list
  and the OCSP answer, or the error and the exit status 1. The encoder's indentation is
  left out, and \<open>number\<close> stands for the text of a number that went through \<open>float64\<close>, which
  is what \<open>map[string]interface{}\<close> decodes numbers into.
\<close>

section \<open>The value a command prints\<close>

text \<open>Decoded into \<open>interface{}\<close> and encoded again: the keys of every object in order.\<close>

fun reencoded :: "(string \<Rightarrow> string) \<Rightarrow> json \<Rightarrow> json" where
  "reencoded number (JNum n) = JNum (number n)"
| "reencoded number (JArr xs) = JArr (map (reencoded number) xs)"
| "reencoded number (JObj ms) =
     JObj (order_by (\<lambda>x y. bytes_le (fst x) (fst y)) (map (\<lambda>(k, x). (k, reencoded number x)) ms))"
| "reencoded number j = j"

text \<open>Decoded into \<open>map[string]string\<close>.\<close>

definition texts_out :: "json \<Rightarrow> smap option" where
  "texts_out j = put_map None j"

definition out_json :: "(string \<Rightarrow> string) \<Rightarrow> OutType \<Rightarrow> json \<Rightarrow> json" where
  "out_json number t j =
     (case t of
        OutTexts \<Rightarrow> (case texts_out j of None \<Rightarrow> JNull | Some m \<Rightarrow> json_texts m)
      | _ \<Rightarrow> reencoded number j)"

text \<open>\<open>out["crl"]\<close>\<close>

definition out_text :: "json \<Rightarrow> string \<Rightarrow> string" where
  "out_text j key = (case texts_out j of None \<Rightarrow> [] | Some m \<Rightarrow> (case map_of m key of None \<Rightarrow> [] | Some v \<Rightarrow> v))"

datatype Ending = Printed json | PrintedLine string | Failed err

definition cli_output :: "(string \<Rightarrow> string) \<Rightarrow> Command \<Rightarrow> json \<Rightarrow> Ending" where
  "cli_output number cmd j =
     (case cmd of
        PkiCrl _ \<Rightarrow> PrintedLine (out_text j ''crl'')
      | PkiOcsp _ _ \<Rightarrow> PrintedLine (out_text j ''ocsp_response'')
      | _ \<Rightarrow> Printed (out_json number (out_type cmd) j))"

text \<open>\<open>if err := root.Execute(); err != nil\<close>: the error goes to the standard error.\<close>

definition cli_main ::
  "Texts \<Rightarrow> (string \<Rightarrow> string) \<Rightarrow> (Request \<Rightarrow> Response io) \<Rightarrow> Client \<Rightarrow> string \<Rightarrow> Command \<Rightarrow> Ending io" where
  "cli_main tx number send c remote cmd =
     bindE (tryE (cli_run tx send c remote cmd)) (\<lambda>res.
     okE (case res of Inl e \<Rightarrow> Failed e | Inr j \<Rightarrow> cli_output number cmd j))"

fun exit_status :: "Ending \<Rightarrow> int" where
  "exit_status (Failed _) = 1"
| "exit_status _ = 0"

section \<open>What is printed is what was answered\<close>

lemma exit_cli_output [simp]: "exit_status (cli_output number cmd j) = 0"
  by (cases cmd) (simp_all add: cli_output_def)

lemma texts_out_json_texts:
  assumes "distinct (map fst m)"
  obtains m' where "texts_out (json_texts m) = Some m'" and "map_of m' = map_of m"
proof -
  let ?s = "order_by (\<lambda>x y. bytes_le (fst x) (fst y)) m"
  have d: "distinct (map fst ?s)" using assms by (simp add: order_by_distinct)
  have "put_map None (json_texts m) = Some (map (\<lambda>(k, v). (k, put_text [] v)) (map (\<lambda>(k, v). (k, JStr v)) ?s))"
    unfolding json_texts_def by (rule put_map_members) (use d in \<open>simp add: comp_def case_prod_unfold\<close>)
  then have "texts_out (json_texts m) = Some ?s" by (simp add: texts_out_def comp_def case_prod_unfold)
  moreover have "map_of ?s = map_of m" using d assms by (simp add: map_of_inject_set)
  ultimately show thesis by (rule that)
qed

text \<open>A text that was answered is the line that is printed.\<close>

lemma out_text_json_texts: "distinct (map fst m) \<Longrightarrow> map_of m key = Some v \<Longrightarrow> out_text (json_texts m) key = v"
  by (erule texts_out_json_texts) (simp add: out_text_def)

lemma cli_main_ends:
  assumes "cli_args_ok cmd" and "sv_TokenHeader s = ''X-Auth-Token''" and "sv_IdentityHeader s = ''X-Auth-Identity''"
    and "Client_Do (http_serve env s) c remote (cli_call cmd) w = (res, w')"
  shows "\<exists>ending. cli_main tx number (http_serve env s) c remote cmd w = (Inr ending, w') \<and>
    (exit_status ending = 0 \<longleftrightarrow> \<not> isl res) \<and>
    (case res of
       Inl e \<Rightarrow> ending = Failed e
     | Inr body \<Rightarrow> \<exists>j. answer_json tx body = Some j \<and> ending = cli_output number cmd (json_utf8 j))"
proof (cases res)
  case (Inl e)
  then have "cli_run tx (http_serve env s) c remote cmd w = (Inl e, w')"
    using cli_understands_answers [OF assms(1-3)] assms(4) by blast
  then show ?thesis using Inl by (simp add: cli_main_def bindE_def tryE_def okE_def)
next
  case (Inr body)
  with command_understood [OF assms(1-3)] assms(4) obtain j where j: "answer_json tx body = Some j"
    unfolding understood_def by (metis option.exhaust option.simps(4))
  then have "cli_run tx (http_serve env s) c remote cmd w = (Inr (json_utf8 j), w')"
    using cli_understands_answers [OF assms(1-3)] assms(4) Inr by blast
  then show ?thesis using Inr j by (simp add: cli_main_def bindE_def tryE_def okE_def)
qed

lemma state_text_utf8 [simp]: "to_utf8 (state_text st) = state_text st"
proof -
  have "to_utf8 ''active'' = ''active''" "to_utf8 ''deleted'' = ''deleted''" "to_utf8 ''destroyed'' = ''destroyed''"
    by code_simp+
  then show ?thesis by (cases st) (simp_all add: state_text_def)
qed

lemma value_keys [simp]: "to_utf8 ''state'' = ''state''" "to_utf8 ''version'' = ''version''"
  by code_simp+

text \<open>What is printed for a value: the three members in the order of their keys.\<close>

lemma printed_value:
  assumes "answer_json tx (PSecretValue v n st) = Some j"
  shows "cli_output number (SecretGet ns p) (json_utf8 j) =
    Printed (JObj [(''state'', JStr (state_text st)), (''value'', JStr (to_utf8 v)), (''version'', JNum (number (Itoa n)))])"
proof -
  have "j = JObj [(''state'', JStr (state_text st)), (''value'', JStr v), (''version'', json_int n)]"
    using assms by simp
  then show ?thesis by (simp add: cli_output_def out_json_def json_int_def order_by_def)
qed

text \<open>C6: end to end: a value that the command secret put was given, and wrote through client, escaped URL, authentication, handler, service, encryption and tables, is what the administrator's secret get prints, in every later state whose tables differ at most in the audit log, for every namespace name and every canonical path in UTF-8; bytes of the value that are not UTF-8 have been replaced by U+FFFD, and a value in UTF-8 is printed unchanged.\<close>

theorem cli_put_then_shown:
  assumes "served env" and "secret_schema (db w)" and "lawful_crypto env"
    and "sv_secret s = \<lparr>ss_crypto = \<lparr>cs_provider = SoftwareProvider env masterKey auditKey, cs_aad = aad\<rparr>, ss_deletionTTL = ttl\<rparr>"
    and "sv_TokenHeader s = ''X-Auth-Token''" and "sv_IdentityHeader s = ''X-Auth-Identity''"
    and "sv_AdminToken s \<noteq> []" and "sv_adminIdentity s = ''admin''" and "cl_Token admin = sv_AdminToken s"
    and "plain_segment ns" and "clean_path p" and "valid_utf8 p"
    and "cli_main tx number (http_serve env s) c remote (SecretPut ns p v t) w = (Inr (Printed out), w')"
    and "core (db w2) = core (db w')"
  shows "\<exists>n st. fst (cli_main tx number (http_serve env s) admin remote2 (SecretGet ns p) w2) =
      Inr (Printed (JObj [(''state'', JStr (state_text st)), (''value'', JStr (to_utf8 v)), (''version'', JNum (number (Itoa n)))])) \<and>
    (valid_utf8 v \<longrightarrow> to_utf8 v = v)"
proof -
  have put: "cli_args_ok (SecretPut ns p v t)" and get: "cli_args_ok (SecretGet ns p)"
    using assms(10,11) by (simp_all add: clean_path_def)
  obtain res w1 where do_put: "Client_Do (http_serve env s) c remote (cli_call (SecretPut ns p v t)) w = (res, w1)" by force
  with cli_main_ends [OF put assms(5,6) do_put, of tx number] assms(13) obtain body
    where "res = Inr body" and "w1 = w'" by (auto split: sum.splits)
  with do_put have "Client_Do (http_serve env s) c remote (cli_call (SecretPut ns p v t)) w = (Inr body, w')" by simp
  from cli_put_then_get [OF assms(1-12) this assms(14)] obtain n st w3
    where "Client_Do (http_serve env s) admin remote2 (cli_call (SecretGet ns p)) w2 = (Inr (PSecretValue (to_utf8 v) n st), w3)"
    by (metis prod.collapse)
  from cli_main_ends [OF get assms(5,6) this, of tx number] obtain j
    where j: "answer_json tx (PSecretValue (to_utf8 v) n st) = Some j"
      and "cli_main tx number (http_serve env s) admin remote2 (SecretGet ns p) w2 =
        (Inr (cli_output number (SecretGet ns p) (json_utf8 j)), w3)"
    by (auto simp del: answer_json.simps)
  then show ?thesis by (auto simp: printed_value [OF j])
qed

theorem cli_put_then_shown_witness:
  "\<exists>n st. fst (cli_main sample_texts id (http_serve sample_env (sample_server\<lparr>sv_audit := None\<rparr>)) sample_client ''10.0.0.9:4242''
       (SecretGet ''app'' ''/db'') (snd (sample_put sample_ns_world))) =
     Inr (Printed (JObj [(''state'', JStr (state_text st)), (''value'', JStr ''pw''), (''version'', JNum (Itoa n))]))"
proof -
  let ?s = "sample_server\<lparr>sv_audit := None\<rparr>"
  let ?put = "SecretPut ''app'' ''/db'' ''pw'' ''static''"
  obtain m w' where put: "sample_put sample_ns_world = (Inr (PVersion m), w')" using sample_put_answered by blast
  have ok: "cli_args_ok ?put" "plain_segment ''app''" "clean_path ''/db''" "valid_utf8 ''/db''" "to_utf8 ''pw'' = ''pw''" by code_simp+
  have s: "sv_TokenHeader ?s = ''X-Auth-Token''" "sv_IdentityHeader ?s = ''X-Auth-Identity''" "sv_AdminToken ?s \<noteq> []"
    "sv_adminIdentity ?s = ''admin''" "cl_Token sample_client = sv_AdminToken ?s"
    by (simp_all add: sample_server_def sample_client_def)
  obtain j where "cli_main sample_texts id (http_serve sample_env ?s) sample_client ''10.0.0.7:4711'' ?put sample_ns_world =
      (Inr (cli_output id ?put j), w')"
    using cli_main_ends [OF ok(1) s(1,2) put [unfolded sample_put_def], of sample_texts id]
    by (auto simp del: answer_json.simps)
  then have p: "cli_main sample_texts id (http_serve sample_env ?s) sample_client ''10.0.0.7:4711'' ?put sample_ns_world =
      (Inr (Printed (out_json id (out_type ?put) j)), w')"
    by (simp only: cli_output_def Command.case)
  have c: "sv_secret ?s = \<lparr>ss_crypto = \<lparr>cs_provider = SoftwareProvider sample_env ''master'' ''audit'', cs_aad = ''aad''\<rparr>,
      ss_deletionTTL = 0\<rparr>"
    by (simp add: sample_server_def sample_crypto_def)
  have w: "snd (sample_put sample_ns_world) = w'" using put by simp
  from cli_put_then_shown [OF sample_served sample_ns_schema sample_lawful c s ok(2-4) p refl, of "''10.0.0.9:4242''"]
  show ?thesis unfolding w ok(5) id_apply by blast
qed



end
