(* ===== verification/Server_Main.thy ===== *)
theory Server_Main
  imports Config Rate_Limiter GRPC_Mediation
begin

text \<open>
  The server process (\<open>cmd/server/main.go\<close>): how the services are wired from the
  configuration, the TLS configuration, the loop that expires leases. Reading a key pair or
  a file and adding certificates to a pool are arguments.
\<close>

definition envOr :: "(string \<Rightarrow> string) \<Rightarrow> string \<Rightarrow> string \<Rightarrow> string" where
  "envOr getenv key fallback = (let v = getenv key in if v \<noteq> [] then v else fallback)"

section \<open>Wiring\<close>

text \<open>The constructors. A repository is the tables of the world, so it is no argument.\<close>

definition crypto_NewService :: "Provider \<Rightarrow> string \<Rightarrow> CryptoService" where
  "crypto_NewService provider aad = \<lparr>cs_provider = provider, cs_aad = aad\<rparr>"

definition secret_NewService :: "CryptoService \<Rightarrow> duration \<Rightarrow> SecretService" where
  "secret_NewService cryptoService deletionTTL = \<lparr>ss_crypto = cryptoService, ss_deletionTTL = deletionTTL\<rparr>"

definition lease_NewService :: "duration \<Rightarrow> duration \<Rightarrow> LeaseService" where
  "lease_NewService defaultTTL maxTTL = \<lparr>ls_defaultTTL = defaultTTL, ls_maxTTL = maxTTL\<rparr>"

definition pki_NewService :: "x509_lib \<Rightarrow> CryptoService \<Rightarrow> duration \<Rightarrow> PKIService" where
  "pki_NewService x cryptoService defaultTTL = \<lparr>pk_x509 = x, pk_crypto = cryptoService, pk_defaultTTL = defaultTTL\<rparr>"

text \<open>
  The record \<open>Server\<close> stands for the structs of both servers: the service of policies is its
  administrator, the one of the audit log its crypto service. \<open>lib\<close> has the library parameters,
  and the HTTP server notes when it was made.
\<close>

definition grpc_NewServer ::
  "Server \<Rightarrow> Config \<Rightarrow> SecretService \<Rightarrow> LeaseService \<Rightarrow> string \<Rightarrow> CryptoService \<Rightarrow> PKIService \<Rightarrow> CryptoService \<Rightarrow> Server"
where
  "grpc_NewServer lib cfg secret lease policy audit pki crypto =
     lib\<lparr>sv_TokenHeader := TokenHeader (c_Auth cfg), sv_IdentityHeader := IdentityHeader (c_Auth cfg),
         sv_AdminToken := AdminToken (c_Auth cfg), sv_adminIdentity := policy, sv_secret := secret,
         sv_lease := lease, sv_audit := Some audit, sv_pki := pki, sv_crypto := crypto\<rparr>"

definition http_NewServer ::
  "Server \<Rightarrow> Config \<Rightarrow> SecretService \<Rightarrow> LeaseService \<Rightarrow> string \<Rightarrow> CryptoService \<Rightarrow> PKIService \<Rightarrow> CryptoService \<Rightarrow>
   time \<Rightarrow> Server"
where
  "http_NewServer lib cfg secret lease policy audit pki crypto now =
     (grpc_NewServer lib cfg secret lease policy audit pki crypto)\<lparr>sv_startedAt := now\<rparr>"

text \<open>One crypto service on the software provider is shared by secrets, audit and PKI.\<close>

definition wire :: "env \<Rightarrow> x509_lib \<Rightarrow> Server \<Rightarrow> Config \<Rightarrow> time \<Rightarrow> Server" where
  "wire env x lib cfg now =
     (let provider = SoftwareProvider env (MasterKey (c_Crypto cfg)) (AuditKey (c_Crypto cfg));
          cryptoService = crypto_NewService provider (EncryptionAAD (c_Crypto cfg));
          secretService = secret_NewService cryptoService (VersionDeletionTTL (c_Defaults cfg));
          leaseService = lease_NewService (LeaseDefaultTTL (c_Defaults cfg)) (LeaseMaxTTL (c_Defaults cfg));
          pkiService = pki_NewService x cryptoService (24 * 3600 * time_Second) in
      http_NewServer lib cfg secretService leaseService ''admin'' cryptoService pkiService cryptoService now)"

lemmas wire_defs =
  wire_def http_NewServer_def grpc_NewServer_def crypto_NewService_def secret_NewService_def lease_NewService_def
  pki_NewService_def Let_def

definition limiter_of :: "Config \<Rightarrow> slidingWindowLimiter" where
  "limiter_of cfg = newSlidingWindowLimiter (RatePerSecond (c_Limits cfg)) (RateBurst (c_Limits cfg))"

lemma wire_quiet: "quiet_server (wire env x lib cfg now)"
  by (rule Software_quiet) (simp add: wire_defs)

section \<open>TLS\<close>

record TLSSettings =
  tls_Certificate :: string
  tls_MinVersion :: int
  tls_ClientCAs :: "string option"
  tls_RequireAndVerifyClientCert :: bool

definition parseTLSVersion :: "string \<Rightarrow> err + int" where
  "parseTLSVersion v =
     (if v = ''1.0'' then Inr 769
      else if v = ''1.1'' then Inr 770
      else if v = ''1.2'' then Inr 771
      else if v = ''1.3'' then Inr 772
      else Inl (Errorf ''unsupported tls min_version %q'' [v]))"

definition buildTLSConfig ::
  "(string \<Rightarrow> string \<Rightarrow> err + string) \<Rightarrow> (string \<Rightarrow> err + string) \<Rightarrow> (string \<Rightarrow> bool) \<Rightarrow> TLSConfig \<Rightarrow>
   err + TLSSettings option" where
  "buildTLSConfig load_pair read_file append_certs cfg =
     (if \<not> Enabled cfg then Inr None
      else if CertFile cfg = [] \<or> KeyFile cfg = [] then Inl (Errorf ''tls cert_file and key_file are required'' [])
      else case load_pair (CertFile cfg) (KeyFile cfg) of
        Inl e \<Rightarrow> Inl (Wrapf ''load tls keypair: %w'' [] e)
      | Inr cert \<Rightarrow>
          (case parseTLSVersion (MinVersion cfg) of
             Inl e \<Rightarrow> Inl e
           | Inr minVersion \<Rightarrow>
               let t = \<lparr>tls_Certificate = cert, tls_MinVersion = minVersion, tls_ClientCAs = None,
                        tls_RequireAndVerifyClientCert = False\<rparr> in
               if RequireClientCert cfg then
                 (case read_file (ClientCAFile cfg) of
                    Inl e \<Rightarrow> Inl (Wrapf ''read client ca: %w'' [] e)
                  | Inr data \<Rightarrow>
                      if \<not> append_certs data then Inl (Errorf ''failed to append client ca'' [])
                      else Inr (Some (t\<lparr>tls_ClientCAs := Some data, tls_RequireAndVerifyClientCert := True\<rparr>)))
               else Inr (Some t)))"

section \<open>The loop that expires leases\<close>

text \<open>The times the ticker delivers before the process stops; an error is logged and the loop goes on.\<close>

fun leaseExpiryLoop :: "env \<Rightarrow> time list \<Rightarrow> unit io" where
  "leaseExpiryLoop env [] = okE ()"
| "leaseExpiryLoop env (now # ticks) =
     bindE (tryE (LeaseService_ExpireDue env now)) (\<lambda>_. leaseExpiryLoop env ticks)"

end
