(* ===== verification/Statement_Bounds.thy ===== *)
theory Statement_Bounds
  imports Server_Main
begin

text \<open>
  How many statements a call sends. \<open>costs n m\<close>: \<open>m\<close> ends after at most \<open>n\<close> statements,
  from every state and whatever becomes of each of them. The rules follow the combinators,
  and the bounds of the operations add up to one for a whole request, which the retries
  of the audit log dominate.
\<close>

definition costs :: "nat \<Rightarrow> 'a io \<Rightarrow> bool" where
  "costs n m \<longleftrightarrow> (\<forall>w. stmts (snd (m w)) \<le> stmts w + n)"

lemma costsI: "(\<And>w. stmts (snd (m w)) \<le> stmts w + n) \<Longrightarrow> costs n m"
  by (simp add: costs_def)

lemma costsD: "costs n m \<Longrightarrow> stmts (snd (m w)) \<le> stmts w + n"
  by (simp add: costs_def)

lemma costs_weaken: "costs n m \<Longrightarrow> n \<le> k \<Longrightarrow> costs k m"
  unfolding costs_def by (meson add_left_mono le_trans)

named_theorems cost \<open>rules that add up the statements of a call\<close>

section \<open>Combinators\<close>

lemma costs_free [cost]:
  "costs 0 (okE x)" "costs 0 (failE e)" "costs 0 (liftE r)" "costs 0 (guardE c e)" "costs 0 (nowE env)"
  "costs 0 (uuidE env)" "costs 0 (randE env k)" "costs 0 (drawE f)" "costs 0 (gaugeE d)"
  by (simp_all add: costs_def okE_def failE_def liftE_def guardE_def nowE_def uuidE_def randE_def drawE_def gaugeE_def
      split: option.split)

lemma costs_bindE [cost]:
  assumes "costs a m" and "\<And>x. costs b (f x)"
  shows "costs (a + b) (bindE m f)"
proof (rule costsI)
  fix w
  obtain r w1 where m: "m w = (r, w1)" by force
  show "stmts (snd (bindE m f w)) \<le> stmts w + (a + b)"
    using costsD [OF assms(1), of w] costsD [OF assms(2), of _ w1] m
    by (cases r) (auto simp: bindE_def add.assoc [symmetric] intro: le_trans add_right_mono)
qed

lemma costs_queryE [cost]: "costs n m \<Longrightarrow> costs n (queryE env f m)"
  by (simp add: costs_def snd_queryE)

lemma costs_wrapE [cost]: "costs n m \<Longrightarrow> costs n (wrapE f a m)"
  unfolding costs_def wrapE_def by (auto split: prod.splits sum.splits) (metis snd_conv)+

lemma costs_tryE [cost]: "costs n m \<Longrightarrow> costs n (tryE m)"
  unfolding costs_def tryE_def by (auto split: prod.splits) (metis snd_conv)

lemma costs_if [cost]: "costs a m \<Longrightarrow> costs b n \<Longrightarrow> costs (max a b) (if c then m else n)"
  by (auto intro: costs_weaken [OF _ max.cobounded1] costs_weaken [OF _ max.cobounded2])

lemma costs_case_sum [cost]:
  "(\<And>e. costs a (f e)) \<Longrightarrow> (\<And>x. costs b (g x)) \<Longrightarrow> costs (max a b) (case r of Inl e \<Rightarrow> f e | Inr x \<Rightarrow> g x)"
  by (cases r) (auto intro: costs_weaken [OF _ max.cobounded1] costs_weaken [OF _ max.cobounded2])

lemma costs_case_option [cost]:
  "costs a m \<Longrightarrow> (\<And>x. costs b (f x)) \<Longrightarrow> costs (max a b) (case r of None \<Rightarrow> m | Some x \<Rightarrow> f x)"
  by (cases r) (auto intro: costs_weaken [OF _ max.cobounded1] costs_weaken [OF _ max.cobounded2])

lemma costs_case_prod [cost]: "(\<And>x y. costs n (f x y)) \<Longrightarrow> costs n (case p of (x, y) \<Rightarrow> f x y)"
  by (cases p) simp

lemma costs_sql [cost]: "costs 1 (sql env f)" "costs 1 (sql_tx env f)"
  by (simp_all add: costs_def sql_def sql_tx_def Let_def split: outcome.split)

text \<open>A transaction: the begin, the body and the commit.\<close>

lemma costs_transaction [cost]:
  assumes "costs n m"
  shows "costs (n + 2) (transaction env b c m)"
proof (rule costsI)
  fix w
  obtain r w1 where first: "wrapE b [] (sql env noop) w = (r, w1)" by force
  have "stmts w1 \<le> stmts w + 1"
    using costsD [OF costs_wrapE [OF costs_sql(1)], of b "[]" env noop w] first by simp
  moreover obtain r2 w2 where "m w1 = (r2, w2)" by force
  ultimately show "stmts (snd (transaction env b c m w)) \<le> stmts w + (n + 2)"
    using costsD [OF assms, of w1] first
    by (auto simp: transaction_def split: sum.split outcome.split)
qed

section \<open>Operations\<close>

lemma costs_repositories [cost]:
  "costs 1 (SecretRepo_CreateNamespace env ns)" "costs 1 (SecretRepo_GetNamespace env n)"
  "costs 1 (SecretRepo_ListNamespaces env)" "costs 4 (SecretRepo_CreateSecretWithVersion env sec ver)"
  "costs 1 (SecretRepo_GetSecret env n p)" "costs 1 (SecretRepo_ListSecrets env n)"
  "costs 1 (SecretRepo_CreateVersion env ver)" "costs 1 (SecretRepo_GetVersion env i v)"
  "costs 1 (SecretRepo_ListVersions env i)" "costs 1 (SecretRepo_SetVersionState env i st da)"
  "costs 1 (SecretRepo_SetCurrentVersion env i v)"
  "costs 1 (LeaseRepo_Create env l)" "costs 1 (LeaseRepo_Get env i)" "costs 1 (LeaseRepo_UpdateExpiry env i t)"
  "costs 1 (LeaseRepo_Revoke env i t)"
  "costs 1 (PolicyRepo_Create env po)" "costs 1 (PolicyRepo_Get env n)" "costs 1 (PolicyRepo_List env n)"
  "costs 1 (PolicyRepo_Delete env i)"
  "costs 1 (AuditRepo_LastHash env)" "costs 1 (AuditRepo_List env lf)" "costs 1 (AuditRepo_ListAll env)"
  "costs 5 (AuditRepo_Append env e)"
  unfolding SecretRepo_defs LeaseRepo_defs PolicyRepo_Create_def PolicyRepo_Get_def PolicyRepo_List_def
    PolicyRepo_Delete_def AuditRepo_LastHash_def AuditRepo_List_def AuditRepo_ListAll_def AuditRepo_Append_def Let_def
  by goal_cases (rule costs_weaken, (rule cost)+, simp)+

lemma costs_pki_repository [cost]:
  "costs 1 (PKIRepo_CreateCA env ca)" "costs 1 (PKIRepo_GetCA env n)" "costs 1 (PKIRepo_GetCAByID env i)"
  "costs 1 (PKIRepo_ListCAs env n)" "costs 1 (PKIRepo_CreateCertificate env ce)"
  "costs 1 (PKIRepo_GetCertificate env n sn)" "costs 1 (PKIRepo_GetCertificateBySerial env sn)"
  "costs 1 (PKIRepo_ListCertificates env n)" "costs 1 (PKIRepo_RevokeCertificate env i t re)"
  "costs 1 (PKIRepo_CreateRevocation env rv)" "costs 1 (PKIRepo_ListRevocations env i)"
  unfolding PKIRepo_defs Let_def
  by goal_cases (rule costs_weaken, (rule cost)+, simp)+


lemma costs_Software [cost]: "costs 0 (Software_Encrypt env mk pt aad)" "costs 0 (Software_Random env n)"
  unfolding Software_Encrypt_def Software_Random_def Let_def
  by goal_cases (rule costs_weaken, (rule cost)+, simp)+

text \<open>A crypto service whose provider talks to no database.\<close>

definition offline :: "CryptoService \<Rightarrow> bool" where
  "offline cs \<longleftrightarrow> (\<forall>pt aad. costs 0 (pv_Encrypt (cs_provider cs) pt aad)) \<and> (\<forall>n. costs 0 (pv_Random (cs_provider cs) n))"

lemma offline_Software: "offline \<lparr>cs_provider = SoftwareProvider env mk ak, cs_aad = aad\<rparr>"
  by (simp add: offline_def SoftwareProvider_def cost)

lemma costs_crypto [cost]:
  assumes "offline cs"
  shows "costs 0 (CryptoService_Encrypt cs pt)" "costs 0 (CryptoService_Random cs n)"
  unfolding CryptoService_Encrypt_def CryptoService_Random_def
  using assms by (auto simp: offline_def intro!: costs_weaken [OF costs_bindE] cost)

text \<open>Each attempt to append an audit event sends at most six statements; there are at most three.\<close>

lemma costs_record_attempts: "costs (6 * n) (record_attempts n env cs input)"
proof (induction n)
  case 0
  then show ?case by (simp add: cost)
next
  case (Suc n)
  show ?case unfolding record_attempts.simps append_attempt_tryE
    by (rule costs_weaken, (rule cost Suc)+, simp)
qed

lemma costs_recordAudit [cost]: "costs 18 (recordAudit env s a n p c r m)"
  unfolding recordAudit_def AuditService_Record_def
  by (rule costs_weaken, (rule cost costs_record_attempts)+, simp)

lemma costs_services [cost]:
  "costs 2 (SecretService_CreateNamespace env n de)" "costs 1 (SecretService_ListNamespaces env)"
  "costs 1 (SecretService_ListSecrets env n)" "costs 2 (SecretService_GetSecret env ss n p v)"
  "costs 2 (SecretService_ListVersions env n p)" "costs 3 (SecretService_SoftDeleteVersion env ss n p v)"
  "costs 3 (SecretService_RestoreVersion env n p v)" "costs 3 (SecretService_DestroyVersion env n p v)"
  "costs 4 (SecretService_Rollback env n p v)"
  "costs 2 (LeaseService_Create env ls ci)" "costs 1 (LeaseService_Get env i)" "costs 2 (LeaseService_Renew env ls i t)"
  "costs 2 (LeaseService_Revoke env i)"
  "costs 2 (PolicyService_Create env pc)" "costs 1 (PolicyService_Get env n)" "costs 1 (PolicyService_List env n)"
  "costs 2 (PolicyService_Delete env n)" "costs 1 (PolicyService_Authorize env ad ar)"
  "costs 1 (AuditService_List env lf)" "costs 1 (AuditService_Verify env cs)"
  unfolding SecretService_defs LeaseService_defs PolicyService_Create_def PolicyService_Get_def PolicyService_List_def
    PolicyService_Delete_def PolicyService_Authorize_def AuditService_List_def AuditService_Verify_def Let_def
  by goal_cases (rule costs_weaken, (rule cost)+, simp)+

lemma costs_PutSecret [cost]: "offline (ss_crypto s) \<Longrightarrow> costs 6 (SecretService_PutSecret env s input)"
  unfolding SecretService_PutSecret_def Let_def
  by (rule costs_weaken, (rule cost | assumption)+, simp)


lemma costs_issueWithKey [cost]:
  assumes "offline (pk_crypto pk)"
  shows "costs 0 (encryptPrivateKey pk k)" "costs 1 (issueWithKey env pk ca cc ck lk cn dn t)"
  unfolding issueWithKey_def encryptPrivateKey_def randomSerial_def Let_def
  by goal_cases (rule costs_weaken, (rule cost assms)+, simp)+

lemma costs_pki_services [cost]:
  assumes "offline (pk_crypto pk)"
  shows "costs 1 (PKIService_CreateRoot env pk ci)" "costs 2 (PKIService_CreateIntermediate env pk ci)"
    "costs 2 (PKIService_Issue env pk ii)" "costs 3 (PKIService_Renew env pk ri)" "costs 3 (PKIService_Revoke env rv)"
    "costs 2 (PKIService_CRL env pk n)" "costs 2 (PKIService_OCSP env pk n sn)" "costs 1 (PKIService_GetCA env n)"
    "costs 1 (PKIService_ListCAs env n)" "costs 1 (PKIService_GetCertificate env n sn)"
    "costs 1 (PKIService_ListCertificates env n)"
  unfolding PKIService_CreateRoot_def PKIService_CreateIntermediate_def PKIService_Issue_def PKIService_Renew_def
    PKIService_Revoke_def PKIService_CRL_def PKIService_OCSP_def PKIService_GetCA_def PKIService_ListCAs_def
    PKIService_GetCertificate_def PKIService_ListCertificates_def generateECKey_def randomSerial_def Let_def
  by goal_cases (rule costs_weaken, (rule cost assms)+, simp)+

section \<open>Requests\<close>

lemma costs_http [cost]:
  "costs 0 (writeJSON st v)" "costs 0 (writeError st e)"
  "costs a m \<Longrightarrow> (\<And>x. costs b (k x)) \<Longrightarrow> costs (a + b) (answerE st m k)"
  "(\<And>x. costs b (k' x)) \<Longrightarrow> costs b (decodeBody fs r k')"
  "costs 18 (finish env s r n p ac md st v)"
  "costs a m' \<Longrightarrow> costs (1 + max 18 a) (authorize env s r n p c m')"
  unfolding writeJSON_def writeError_def answerE_def decodeBody_def finish_def recordSuccess_def authorize_def Let_def
  by goal_cases (rule costs_weaken, (rule cost | assumption)+, simp)+

definition offline_server :: "Server \<Rightarrow> bool" where
  "offline_server s \<longleftrightarrow> offline (ss_crypto (sv_secret s)) \<and> offline (pk_crypto (sv_pki s)) \<and> offline (sv_crypto s)"

lemma offline_serverD:
  assumes "offline_server s"
  shows "offline (ss_crypto (sv_secret s))" "offline (pk_crypto (sv_pki s))" "offline (sv_crypto s)"
  using assms by (simp_all add: offline_server_def)

lemma costs_handle:
  assumes "offline_server s"
  shows "costs 25 (handle env s r rt)"
  by (cases rt; simp only: handle.simps http_handler_defs handleHealth_def handleReady_def Let_def;
      rule costs_weaken, (rule cost | rule offline_serverD [OF assms])+, simp)


lemma costs_rpc [cost]:
  "costs a m \<Longrightarrow> costs a (statusE st m)" "costs 1 (rpc_authorize env s q n p c)" "costs 18 (rpc_audit env s q n p ac md v)"
  "costs 0 panicE"
  unfolding statusE_def rpc_authorize_def rpc_audit_def panicE_def
  by goal_cases (rule costs_weaken, (rule cost | assumption)+, simp)+

lemma costs_rpc_capabilities [cost]: "costs 0 (rpc_capabilities xs)"
  by (induction xs) (auto intro!: cost costs_weaken [OF costs_bindE] split: option.split)

lemma costs_rpc_call:
  assumes "offline_server s"
  shows "costs 25 (rpc_call env s q req m)"
  by (cases m; simp only: rpc_call.simps rpc_defs open_rpc_defs Let_def;
      rule costs_weaken, (rule cost | rule offline_serverD [OF assms])+, simp)

lemma costs_http_serve: "offline_server s \<Longrightarrow> costs 25 (http_serve env s r)"
  unfolding http_serve_def withAuth_def serve_mux_def
  by (rule costs_weaken, (rule cost | rule costs_handle | assumption)+, simp)

lemma costs_rpc_serve: "offline_server s \<Longrightarrow> costs 25 (rpc_serve env s q)"
  unfolding rpc_serve_def authInterceptor_def
  by (rule costs_weaken, (rule cost | rule costs_rpc_call | assumption)+, simp)

lemma offline_wire: "offline_server (wire env x lib cfg now)"
  by (simp add: offline_server_def wire_defs offline_Software)

text \<open>C14: every request ends: whatever the database refuses, loses or lets others do between two statements, and however often the audit chain conflicts, a call of either server of the configured process returns an answer after at most 25 statements, of which at most 18 are attempts to append to the audit log.\<close>

theorem requests_end:
  "stmts (snd (http_serve env (wire env x lib cfg now) r w)) \<le> stmts w + 25 \<and>
   stmts (snd (rpc_serve env (wire env x lib cfg now) q w)) \<le> stmts w + 25 \<and>
   stmts (snd (AuditService_Record env cs input w)) \<le> stmts w + 18"
  using costsD [OF costs_http_serve [OF offline_wire]] costsD [OF costs_rpc_serve [OF offline_wire]]
    costsD [OF costs_record_attempts [of 3]] by (simp add: AuditService_Record_def)

end
