(* ===== verification/Migrate.thy ===== *)
theory Migrate
  imports Tables Go_Strings Go_Format
begin

text \<open>
  Migrations (\<open>internal/platform/migrate\<close>): the files of a directory in the order of their
  names, each split into statements that end with a line ending in a semicolon, each
  statement executed. The directory, its files and the execution of a statement, which is
  PostgreSQL's, are arguments.
\<close>

section \<open>Statements\<close>

text \<open>\<open>strings.ReplaceAll(raw, "\r\n", "\n")\<close>\<close>

fun replace_crlf :: "string \<Rightarrow> string" where
  "replace_crlf [] = []"
| "replace_crlf [c] = [c]"
| "replace_crlf (c # d # s) =
     (if c = CHR 0x0D \<and> d = CHR 0x0A then CHR 0x0A # replace_crlf s else c # replace_crlf (d # s))"

text \<open>The loop over the lines: the statement that is being collected, then the statements.\<close>

fun split_loop :: "string list \<Rightarrow> string \<Rightarrow> string list" where
  "split_loop [] current = (if length current > 0 then [current] else [])"
| "split_loop (line # lines) current =
     (let trimmed = TrimSpace line in
      if trimmed = [] then split_loop lines current
      else
        let current = current @ line @ [CHR 0x0A] in
        if HasSuffix trimmed '';'' then current # split_loop lines []
        else split_loop lines current)"

definition splitStatements :: "string \<Rightarrow> string list" where
  "splitStatements raw = split_loop (Split (replace_crlf raw) (CHR 0x0A)) []"

section \<open>Running the migrations\<close>

record DirEntry =
  de_Name :: string
  de_IsDir :: bool

definition migration_files :: "DirEntry list \<Rightarrow> string list" where
  "migration_files entries =
     order_by bytes_le (map de_Name (filter (\<lambda>e. \<not> (de_IsDir e \<or> \<not> HasSuffix (de_Name e) ''.sql'')) entries))"

definition run_file :: "(string \<Rightarrow> err + string) \<Rightarrow> (string \<Rightarrow> unit io) \<Rightarrow> string \<Rightarrow> unit io" where
  "run_file read exec name =
     bindE (wrapE ''read migration %s: %w'' [name] (liftE (read name))) (\<lambda>raw.
     forE (splitStatements raw) (\<lambda>s.
       if TrimSpace s = [] then okE ()
       else wrapE ''execute migration %s: %w'' [name] (exec s)))"

definition Run ::
  "err + unit \<Rightarrow> err + DirEntry list \<Rightarrow> (string \<Rightarrow> err + string) \<Rightarrow> (string \<Rightarrow> unit io) \<Rightarrow> unit io" where
  "Run stat entries read exec =
     bindE (wrapE ''stat migrations dir: %w'' [] (liftE stat)) (\<lambda>_.
     bindE (wrapE ''read migrations dir: %w'' [] (liftE entries)) (\<lambda>es.
     forE (migration_files es) (run_file read exec)))"

section \<open>Nothing is lost\<close>

definition non_blank :: "string \<Rightarrow> string list" where
  "non_blank raw = filter (\<lambda>line. TrimSpace line \<noteq> []) (Split (replace_crlf raw) (CHR 0x0A))"

definition ends_statement :: "string \<Rightarrow> bool" where
  "ends_statement line \<longleftrightarrow> HasSuffix (TrimSpace line) '';''"

text \<open>A statement is a run of lines of which exactly the last one ends with a semicolon.\<close>

definition is_statement :: "string list \<Rightarrow> bool" where
  "is_statement lines \<longleftrightarrow> lines \<noteq> [] \<and> ends_statement (last lines) \<and> (\<forall>l \<in> set (butlast lines). \<not> ends_statement l)"

definition unlines :: "string list \<Rightarrow> string" where
  "unlines lines = concat (map (\<lambda>l. l @ [CHR 0x0A]) lines)"

lemma unlines_append [simp]: "unlines (xs @ ys) = unlines xs @ unlines ys"
  by (simp add: unlines_def)

lemma unlines_Nil_iff [simp]: "unlines xs = [] \<longleftrightarrow> xs = []"
  by (auto simp: unlines_def)

lemma split_loop_groups:
  assumes "\<forall>l \<in> set pre. \<not> ends_statement l"
  shows "\<exists>gs rest. split_loop lines (unlines pre) = map unlines gs @ (if rest = [] then [] else [unlines rest]) \<and>
     pre @ filter (\<lambda>line. TrimSpace line \<noteq> []) lines = concat gs @ rest \<and>
     list_all is_statement gs \<and> (\<forall>l \<in> set rest. \<not> ends_statement l)"
  using assms
proof (induction lines arbitrary: pre)
  case Nil
  then show ?case by (intro exI [of _ "[]"] exI [of _ pre]) auto
next
  case (Cons line lines)
  show ?case
  proof (cases "TrimSpace line = []")
    case True
    then show ?thesis using Cons.IH [OF Cons.prems] by simp
  next
    case False
    have cur: "unlines pre @ line @ [CHR 0x0A] = unlines (pre @ [line])" by (simp add: unlines_def)
    show ?thesis
    proof (cases "ends_statement line")
      case True
      obtain gs rest where IH: "split_loop lines (unlines []) = map unlines gs @ (if rest = [] then [] else [unlines rest])"
        "[] @ filter (\<lambda>line. TrimSpace line \<noteq> []) lines = concat gs @ rest"
        "list_all is_statement gs" "\<forall>l \<in> set rest. \<not> ends_statement l"
        using Cons.IH [of "[]"] by auto
      have "is_statement (pre @ [line])" using Cons.prems True by (simp add: is_statement_def)
      then show ?thesis using IH True False cur
        by (intro exI [of _ "(pre @ [line]) # gs"] exI [of _ rest]) (simp add: Let_def ends_statement_def unlines_def)
    next
      case no: False
      then have "\<forall>l \<in> set (pre @ [line]). \<not> ends_statement l" using Cons.prems by auto
      from Cons.IH [OF this] show ?thesis using False no cur by (simp add: Let_def ends_statement_def)
    qed
  qed
qed

text \<open>Splitting a migration into statements loses and reorders nothing: for every text the statements, in order, are exactly its lines that are not blank, each statement ends at the first of its lines that ends in a semicolon, and what follows the last semicolon is kept as one more statement.\<close>

theorem statements_lossless:
  "\<exists>gs rest. splitStatements raw = map unlines gs @ (if rest = [] then [] else [unlines rest]) \<and>
     non_blank raw = concat gs @ rest \<and> list_all is_statement gs \<and> list_all (\<lambda>l. \<not> ends_statement l) rest"
proof -
  obtain gs rest where "split_loop (Split (replace_crlf raw) (CHR 0x0A)) (unlines []) =
      map unlines gs @ (if rest = [] then [] else [unlines rest])"
    and "[] @ filter (\<lambda>line. TrimSpace line \<noteq> []) (Split (replace_crlf raw) (CHR 0x0A)) = concat gs @ rest"
    and "list_all is_statement gs" and "\<forall>l \<in> set rest. \<not> ends_statement l"
    using split_loop_groups [of "[]" "Split (replace_crlf raw) (CHR 0x0A)"] by auto
  then show ?thesis
    by (intro exI [of _ gs] exI [of _ rest])
      (simp add: splitStatements_def non_blank_def list_all_iff unlines_def cong: if_cong)
qed

end
