(* ===== verification/Startup.thy ===== *)
theory Startup
  imports Statement_Bounds Migrate Gateway_Properties
begin

text \<open>
  The start of the server process (\<open>main\<close> of \<open>cmd/server/main.go\<close>, \<open>database.Open\<close>): what is
  done, in which order, before the first request is served. The operating system, the YAML
  and PostgreSQL libraries are the record \<open>OS\<close>. Every early exit is an error.
\<close>

section \<open>The connection pool\<close>

record PoolConfig =
  MaxConns :: int
  MaxConnLifetime :: duration
  MaxConnIdleTime :: duration

record OS =
  os_Getenv :: "string \<Rightarrow> string"
  os_ReadFile :: "string \<Rightarrow> err + string"
  os_Unmarshal :: "string \<Rightarrow> Config \<Rightarrow> err + Config"
  os_ParseConfig :: "string \<Rightarrow> err + PoolConfig"
  os_NewPool :: "PoolConfig \<Rightarrow> err + unit"
  os_Ping :: "PoolConfig \<Rightarrow> err + unit"
  os_Stat :: "string \<Rightarrow> err + unit"
  os_ReadDir :: "string \<Rightarrow> err + DirEntry list"
  os_ReadIn :: "string \<Rightarrow> string \<Rightarrow> err + string"
  os_Exec :: "string \<Rightarrow> unit io"
  os_Listen :: "string \<Rightarrow> err + unit"
  os_LoadX509KeyPair :: "string \<Rightarrow> string \<Rightarrow> err + string"
  os_AppendCerts :: "string \<Rightarrow> bool"

definition Open :: "OS \<Rightarrow> string \<Rightarrow> int \<Rightarrow> PoolConfig io" where
  "Open os dsn maxConnections =
     bindE (wrapE ''parse database dsn: %w'' [] (liftE (os_ParseConfig os dsn))) (\<lambda>cfg0.
     let cfg = cfg0\<lparr>MaxConns := (if maxConnections > 0 then maxConnections else MaxConns cfg0),
                    MaxConnLifetime := 1800 * time_Second, MaxConnIdleTime := 300 * time_Second\<rparr> in
     bindE (wrapE ''create database pool: %w'' [] (liftE (os_NewPool os cfg))) (\<lambda>_.
     bindE (wrapE ''ping database: %w'' [] (liftE (os_Ping os cfg))) (\<lambda>_.
     okE cfg)))"

section \<open>The start\<close>

record Process =
  pr_Config :: Config
  pr_Pool :: PoolConfig
  pr_Server :: Server
  pr_Limiter :: slidingWindowLimiter
  pr_TLS :: "TLSSettings option"

text \<open>
  The flag \<open>-config\<close>, when it is given, replaces the path of the environment. The HTTP server
  is served with \<open>pr_TLS\<close>; the gRPC server is served on its listener as it is.
\<close>

definition startup :: "OS \<Rightarrow> env \<Rightarrow> x509_lib \<Rightarrow> Server \<Rightarrow> string option \<Rightarrow> Process io" where
  "startup os env x lib config_flag =
     (let configPath = (case config_flag of
            None \<Rightarrow> envOr (os_Getenv os) ''SCP_CONFIG'' ''configs/config.yaml'' | Some p \<Rightarrow> p) in
      bindE (liftE (Load (os_ReadFile os) (os_Unmarshal os) (os_Getenv os) configPath)) (\<lambda>cfg.
      bindE (Open os (DSN (c_Database cfg)) (MaxConnections (c_Database cfg))) (\<lambda>pool.
      let dir = MigrationsDir (c_Database cfg) in
      bindE (Run (os_Stat os dir) (os_ReadDir os dir) (os_ReadIn os dir) (os_Exec os)) (\<lambda>_.
      bindE (nowE env) (\<lambda>now.
      let server = wire env x lib cfg now in
      bindE (liftE (os_Listen os (HTTPAddr (c_Server cfg)))) (\<lambda>_.
      bindE (liftE (os_Listen os (GRPCAddr (c_Server cfg)))) (\<lambda>_.
      bindE (liftE (buildTLSConfig (os_LoadX509KeyPair os) (os_ReadFile os) (os_AppendCerts os) (c_TLS cfg))) (\<lambda>tls.
      okE \<lparr>pr_Config = cfg, pr_Pool = pool, pr_Server = server, pr_Limiter = limiter_of cfg, pr_TLS = tls\<rparr>))))))))"

section \<open>What a started process satisfies\<close>

definition config_ok :: "Config \<Rightarrow> bool" where
  "config_ok cfg \<longleftrightarrow>
     HTTPAddr (c_Server cfg) \<noteq> [] \<and> GRPCAddr (c_Server cfg) \<noteq> [] \<and> DSN (c_Database cfg) \<noteq> [] \<and>
     16 \<le> length (MasterKey (c_Crypto cfg)) \<and> 16 \<le> length (AuditKey (c_Crypto cfg))"

lemma validate_iff: "validate cfg = Inr () \<longleftrightarrow> config_ok cfg"
  by (auto simp: validate_def config_ok_def not_less)

lemma Load_ok:
  assumes "Load rf yaml getenv path = Inr cfg"
  shows "config_ok cfg" and "\<exists>c0. cfg = applyEnv getenv c0"
  using assms by (auto simp: Load_def Let_def validate_iff [symmetric] split: if_splits sum.splits)

definition tls_ok :: "TLSConfig \<Rightarrow> TLSSettings option \<Rightarrow> bool" where
  "tls_ok cfg tls \<longleftrightarrow> (case tls of
     None \<Rightarrow> \<not> Enabled cfg
   | Some t \<Rightarrow> Enabled cfg \<and> CertFile cfg \<noteq> [] \<and> KeyFile cfg \<noteq> [] \<and> parseTLSVersion (MinVersion cfg) = Inr (tls_MinVersion t) \<and>
       tls_RequireAndVerifyClientCert t = RequireClientCert cfg \<and> (tls_ClientCAs t \<noteq> None) = RequireClientCert cfg)"

lemma buildTLSConfig_ok: "buildTLSConfig lp rf ac cfg = Inr tls \<Longrightarrow> tls_ok cfg tls"
  by (auto simp: buildTLSConfig_def tls_ok_def Let_def split: if_splits sum.splits)

lemma startup_steps:
  assumes "startup os env x lib config_flag w = (Inr p, w')"
  obtains cfg w1 w2 tls now pool and wa wb wc wd :: world and u where
    "liftE (Load (os_ReadFile os) (os_Unmarshal os) (os_Getenv os)
          (case config_flag of None \<Rightarrow> envOr (os_Getenv os) ''SCP_CONFIG'' ''configs/config.yaml'' | Some p \<Rightarrow> p)) w
        = (Inr cfg, wa)"
    and "Run (os_Stat os (MigrationsDir (c_Database cfg))) (os_ReadDir os (MigrationsDir (c_Database cfg)))
          (os_ReadIn os (MigrationsDir (c_Database cfg))) (os_Exec os) w1 = (Inr u, w2)"
    and "liftE (buildTLSConfig (os_LoadX509KeyPair os) (os_ReadFile os) (os_AppendCerts os) (c_TLS cfg)) wb
        = (Inr tls, wc)"
    and "okE \<lparr>pr_Config = cfg, pr_Pool = pool, pr_Server = wire env x lib cfg now,
        pr_Limiter = limiter_of cfg, pr_TLS = tls\<rparr> wd = (Inr p, w')"
  using assms unfolding startup_def Let_def
  by (elim bindE_InrE) (rule that, assumption+)

text \<open>C37: a process that has started serves only under a configuration that passed validation and with the environment applied last, after every migration succeeded, with TLS on HTTP exactly when it is enabled and client certificates verified exactly when they are required; its server is the one wired from that configuration.\<close>

theorem startup_sound:
  assumes "startup os env x lib config_flag w = (Inr p, w')"
  shows "config_ok (pr_Config p) \<and> (\<exists>c0. pr_Config p = applyEnv (os_Getenv os) c0) \<and>
    tls_ok (c_TLS (pr_Config p)) (pr_TLS p) \<and>
    (\<exists>t. pr_Server p = wire env x lib (pr_Config p) t) \<and> pr_Limiter p = limiter_of (pr_Config p) \<and>
    (let dir = MigrationsDir (c_Database (pr_Config p)) in
       \<exists>w1 w2. Run (os_Stat os dir) (os_ReadDir os dir) (os_ReadIn os dir) (os_Exec os) w1 = (Inr (), w2))"
proof -
  obtain cfg w1 w2 tls now pool and wa wb wc wd :: world and u where
    c: "liftE (Load (os_ReadFile os) (os_Unmarshal os) (os_Getenv os)
          (case config_flag of None \<Rightarrow> envOr (os_Getenv os) ''SCP_CONFIG'' ''configs/config.yaml'' | Some p \<Rightarrow> p)) w
        = (Inr cfg, wa)"
    and r: "Run (os_Stat os (MigrationsDir (c_Database cfg))) (os_ReadDir os (MigrationsDir (c_Database cfg)))
          (os_ReadIn os (MigrationsDir (c_Database cfg))) (os_Exec os) w1 = (Inr u, w2)"
    and t: "liftE (buildTLSConfig (os_LoadX509KeyPair os) (os_ReadFile os) (os_AppendCerts os) (c_TLS cfg)) wb
        = (Inr tls, wc)"
    and p: "okE \<lparr>pr_Config = cfg, pr_Pool = pool, pr_Server = wire env x lib cfg now,
        pr_Limiter = limiter_of cfg, pr_TLS = tls\<rparr> wd = (Inr p, w')"
    using assms by (rule startup_steps)
  have p': "pr_Config p = cfg" "pr_TLS p = tls" "pr_Limiter p = limiter_of cfg"
      "\<exists>n. pr_Server p = wire env x lib cfg n"
    using p by (auto simp: okE_def)
  have "Load (os_ReadFile os) (os_Unmarshal os) (os_Getenv os)
          (case config_flag of None \<Rightarrow> envOr (os_Getenv os) ''SCP_CONFIG'' ''configs/config.yaml'' | Some p \<Rightarrow> p) = Inr cfg"
    "buildTLSConfig (os_LoadX509KeyPair os) (os_ReadFile os) (os_AppendCerts os) (c_TLS cfg) = Inr tls"
    using c t by (simp_all add: liftE_def)
  from Load_ok [OF this(1)] buildTLSConfig_ok [OF this(2)] show ?thesis
    unfolding p' Let_def using r p'(4) by (cases u) blast
qed

text \<open>A machine with one migration, no configuration file and nothing in the environment.\<close>

definition sample_os :: OS where
  "sample_os =
     \<lparr>os_Getenv = (\<lambda>_. []), os_ReadFile = (\<lambda>_. Inl (PrimitiveError ''os'')), os_Unmarshal = (\<lambda>_ c. Inr c),
      os_ParseConfig = (\<lambda>_. Inr \<lparr>MaxConns = 4, MaxConnLifetime = 0, MaxConnIdleTime = 0\<rparr>),
      os_NewPool = (\<lambda>_. Inr ()), os_Ping = (\<lambda>_. Inr ()), os_Stat = (\<lambda>_. Inr ()),
      os_ReadDir = (\<lambda>_. Inr [\<lparr>de_Name = ''1.sql'', de_IsDir = False\<rparr>]),
      os_ReadIn = (\<lambda>_ _. Inr ''a;''), os_Exec = (\<lambda>_. okE ()), os_Listen = (\<lambda>_. Inr ()),
      os_LoadX509KeyPair = (\<lambda>_ _. Inl (PrimitiveError ''tls'')), os_AppendCerts = (\<lambda>_. False)\<rparr>"

lemma sample_config: "Load rf yaml (\<lambda>_. []) [] = Inr default_config"
  by (simp add: Load_def validate_def applyEnv_def setString_def setBool_def setInt_def setInt32_def setInt64_def
      setDuration_def default_config_def Let_def)

lemma default_fields:
  "MaxConnections (c_Database default_config) = 20" "\<not> Enabled (c_TLS default_config)"
  by (simp_all add: default_config_def)

lemma sample_run: "fst (Run (Inr ()) (Inr [\<lparr>de_Name = ''1.sql'', de_IsDir = False\<rparr>]) (\<lambda>_. Inr ''a;'') (\<lambda>_. okE ()) w) = Inr ()"
proof -
  have "splitStatements ''a;'' = [''a;\<newline>'']" "migration_files [\<lparr>de_Name = ''1.sql'', de_IsDir = False\<rparr>] = [''1.sql'']"
    by code_simp+
  then show ?thesis by (simp add: Run_def run_file_def eff_simps)
qed

theorem startup_sound_witness:
  "\<exists>p. fst (startup sample_os sample_env sample_x509 sample_server (Some []) init_world) = Inr p \<and>
     config_ok (pr_Config p) \<and> pr_TLS p = None"
proof -
  obtain w1 where run: "Run (Inr ()) (Inr [\<lparr>de_Name = ''1.sql'', de_IsDir = False\<rparr>]) (\<lambda>_. Inr ''a;'') (\<lambda>_. okE ()) init_world
      = (Inr (), w1)"
    using sample_run [of init_world] by (metis prod.collapse)
  let ?run = "startup sample_os sample_env sample_x509 sample_server (Some []) init_world"
  have "fst ?run = Inr \<lparr>pr_Config = default_config,
      pr_Pool = \<lparr>MaxConns = 20, MaxConnLifetime = 1800 * time_Second, MaxConnIdleTime = 300 * time_Second\<rparr>,
      pr_Server = wire sample_env sample_x509 sample_server default_config (now_at sample_env (tick w1)),
      pr_Limiter = limiter_of default_config, pr_TLS = None\<rparr>"
    by (simp add: startup_def sample_os_def sample_config Open_def bindE_def okE_def wrapE_def liftE_def run nowE_def Let_def
        default_fields buildTLSConfig_def)
  then obtain p where p: "?run = (Inr p, snd ?run)" "pr_TLS p = None" by (metis prod.collapse Process.select_convs(5))
  moreover from p(1) have "fst ?run = Inr p" by (metis fst_conv)
  ultimately show ?thesis using startup_sound [OF p(1)] by blast
qed

end
