(* ===== verification/HTTP_Middleware.thy ===== *)
theory HTTP_Middleware
  imports Rate_Limiter "HOL-Library.Multiset"
begin

text \<open>
  The middleware around the mux (\<open>api/http/middleware.go\<close>) with the metrics and the log it
  writes (\<open>internal/platform/metrics\<close>, \<open>internal/platform/logging\<close>). A counter vector is the
  multiset of the label values it was incremented with. A panic is an effect that ends with
  \<open>Inl\<close>: it passes through every layer up to \<open>withRecovery\<close>. Of the header of an
  answer the model keeps \<open>X-Request-ID\<close>.
\<close>

section \<open>Metrics and log\<close>

record Metrics =
  m_Requests :: "(string \<times> string \<times> string) multiset"
  m_Errors :: "string multiset"
  m_Duration :: "((string \<times> string) \<times> duration) multiset"

definition metrics_New :: Metrics where
  "metrics_New = \<lparr>m_Requests = {#}, m_Errors = {#}, m_Duration = {#}\<rparr>"

datatype Level = LevelDebug | LevelInfo | LevelWarn | LevelError

definition logging_level :: "string \<Rightarrow> Level" where
  "logging_level level =
     (if level = ''debug'' then LevelDebug else if level = ''warn'' then LevelWarn
      else if level = ''error'' then LevelError else LevelInfo)"

text \<open>The levels are ordered by the numbers \<open>slog\<close> gives them.\<close>

fun level_value :: "Level \<Rightarrow> int" where
  "level_value LevelDebug = -4"
| "level_value LevelInfo = 0"
| "level_value LevelWarn = 4"
| "level_value LevelError = 8"

lemma level_value_eq: "level_value a = level_value b \<longleftrightarrow> a = b"
  by (cases a; cases b) simp_all

instantiation Level :: linorder
begin

definition less_eq_Level :: "Level \<Rightarrow> Level \<Rightarrow> bool" where
  "less_eq_Level a b \<longleftrightarrow> level_value a \<le> level_value b"

definition less_Level :: "Level \<Rightarrow> Level \<Rightarrow> bool" where
  "less_Level a b \<longleftrightarrow> level_value a < level_value b"

instance
  by standard (auto simp: less_eq_Level_def less_Level_def level_value_eq)

end

datatype LogLine =
    HttpRequest (log_id: string) (log_method: string) (log_path: "string list") (log_status: nat) (log_duration: duration)
  | HandlerPanic err "string list"

fun line_level :: "LogLine \<Rightarrow> Level" where
  "line_level (HttpRequest _ _ _ _ _) = LevelInfo"
| "line_level (HandlerPanic _ _) = LevelError"

text \<open>What the handler of a logger at level \<open>lvl\<close> writes of the lines it is given.\<close>

definition written :: "Level \<Rightarrow> LogLine list \<Rightarrow> LogLine list" where
  "written lvl ls = filter (\<lambda>l. lvl \<le> line_level l) ls"

record Frontend =
  fe_inner :: server_state
  fe_metrics :: Metrics
  fe_log :: "LogLine list"
  fe_headers :: "string list"

type_synonym 'a fe = "(Frontend, 'a) eff"

definition innerF :: "(server_state, 'a) eff \<Rightarrow> 'a fe" where
  "innerF m st = (case m (fe_inner st) of (r, i) \<Rightarrow> (r, st\<lparr>fe_inner := i\<rparr>))"

definition worldF :: "'a io \<Rightarrow> 'a fe" where
  "worldF m = innerF (\<lambda>(l, w). case m w of (r, w') \<Rightarrow> (r, (l, w')))"

definition logF :: "LogLine \<Rightarrow> unit fe" where
  "logF line st = (Inr (), st\<lparr>fe_log := fe_log st @ [line]\<rparr>)"

text \<open>\<open>w.Header().Set("X-Request-ID", id)\<close>: the header of each answer, in their order.\<close>

definition headerF :: "string \<Rightarrow> unit fe" where
  "headerF i st = (Inr (), st\<lparr>fe_headers := fe_headers st @ [i]\<rparr>)"

text \<open>\<open>http.StatusText\<close> for the status codes of the handlers and of the mux.\<close>

definition StatusText :: "nat \<Rightarrow> string" where
  "StatusText status = (case map_of
     [(200, ''OK''), (201, ''Created''), (204, ''No Content''), (301, ''Moved Permanently''), (307, ''Temporary Redirect''),
      (400, ''Bad Request''), (401, ''Unauthorized''), (403, ''Forbidden''), (404, ''Not Found''), (405, ''Method Not Allowed''),
      (429, ''Too Many Requests''), (500, ''Internal Server Error'')] status of None \<Rightarrow> [] | Some t \<Rightarrow> t)"

definition routeLabel :: "string list \<Rightarrow> string" where
  "routeLabel path =
     (if path = [''healthz''] then ''healthz'' else if path = [''readyz''] then ''readyz''
      else if path = [''metrics''] then ''metrics'' else ''api'')"

definition observe :: "string \<Rightarrow> string list \<Rightarrow> nat \<Rightarrow> duration \<Rightarrow> Metrics \<Rightarrow> Metrics" where
  "observe method path status d m =
     (let route = routeLabel path in
      m\<lparr>m_Requests := add_mset (method, route, StatusText status) (m_Requests m),
        m_Errors := (if status \<ge> 400 then add_mset route (m_Errors m) else m_Errors m),
        m_Duration := add_mset ((method, route), d) (m_Duration m)\<rparr>)"

section \<open>The layers\<close>

definition withMetrics :: "env \<Rightarrow> (Request \<Rightarrow> Response fe) \<Rightarrow> Request \<Rightarrow> Response fe" where
  "withMetrics env nxt r =
     bindE (worldF (nowE env)) (\<lambda>start.
     bindE (nxt r) (\<lambda>rs.
     bindE (worldF (nowE env)) (\<lambda>now st.
       (Inr rs, st\<lparr>fe_metrics := observe (rq_Method r) (rq_Path r) (rs_Status rs) (now - start) (fe_metrics st)\<rparr>))))"

definition withLogging :: "env \<Rightarrow> string \<Rightarrow> (Request \<Rightarrow> Response fe) \<Rightarrow> Request \<Rightarrow> Response fe" where
  "withLogging env requestID nxt r =
     bindE (worldF (nowE env)) (\<lambda>start.
     bindE (nxt r) (\<lambda>rs.
     bindE (worldF (nowE env)) (\<lambda>now.
     bindE (logF (HttpRequest requestID (rq_Method r) (rq_Path r) (rs_Status rs) (now - start))) (\<lambda>_.
     okE rs))))"

definition withRequestID :: "env \<Rightarrow> Server \<Rightarrow> (string \<Rightarrow> Request \<Rightarrow> Response fe) \<Rightarrow> Request \<Rightarrow> Response fe" where
  "withRequestID env s nxt r =
     (let i = rq_Header r ''X-Request-ID'' in
      bindE (if i = [] then bindE (worldF (uuidE env)) (\<lambda>u. okE (sv_UUIDString s u)) else okE i) (\<lambda>i.
      bindE (headerF i) (\<lambda>_.
      nxt i r)))"

definition withRecovery :: "(Request \<Rightarrow> Response fe) \<Rightarrow> Request \<Rightarrow> Response fe" where
  "withRecovery nxt r =
     bindE (tryE (nxt r)) (\<lambda>res. case res of
       Inl recovered \<Rightarrow>
         bindE (logF (HandlerPanic recovered (rq_Path r))) (\<lambda>_. okE \<lparr>rs_Status = 500, rs_Body = PError errInternal\<rparr>)
     | Inr rs \<Rightarrow> okE rs)"

definition withMiddleware :: "env \<Rightarrow> Server \<Rightarrow> (Request \<Rightarrow> Response io) \<Rightarrow> Request \<Rightarrow> Response fe" where
  "withMiddleware env s nxt =
     withRecovery (withRequestID env s (\<lambda>i. withLogging env i (withMetrics env (\<lambda>r.
       innerF (withRateLimit env (withAuth s nxt) r)))))"

definition Handler :: "env \<Rightarrow> Server \<Rightarrow> Request \<Rightarrow> Response fe" where
  "Handler env s = withMiddleware env s (serve_mux env s)"

section \<open>The metrics are the log\<close>

definition is_request :: "LogLine \<Rightarrow> bool" where
  "is_request l = (case l of HttpRequest _ _ _ _ _ \<Rightarrow> True | HandlerPanic _ _ \<Rightarrow> False)"

definition line_label :: "LogLine \<Rightarrow> string \<times> string \<times> string" where
  "line_label l = (log_method l, routeLabel (log_path l), StatusText (log_status l))"

text \<open>Every line of a request is counted once, under its method, route and status.\<close>

definition in_step :: "Metrics \<Rightarrow> LogLine list \<Rightarrow> bool" where
  "in_step m log \<longleftrightarrow>
     (let reqs = filter is_request log in
      m_Requests m = mset (map line_label reqs) \<and>
      m_Errors m = mset (map (\<lambda>l. routeLabel (log_path l)) (filter (\<lambda>l. log_status l \<ge> 400) reqs)) \<and>
      size (m_Duration m) = length reqs)"

lemma in_step_request:
  "in_step m log \<Longrightarrow> in_step (observe mt p st d m) (log @ [HttpRequest i mt p st d'])"
  by (simp add: in_step_def observe_def Let_def is_request_def line_label_def)

lemma written_all: "lvl \<le> LevelInfo \<Longrightarrow> written lvl ls = ls"
  unfolding written_def
proof (rule filter_True, rule ballI)
  fix l assume "lvl \<le> LevelInfo"
  then show "lvl \<le> line_level l" by (cases l; cases lvl) (simp_all add: less_eq_Level_def)
qed

lemma written_panics: "LevelInfo < lvl \<Longrightarrow> written lvl ls = filter (\<lambda>l. \<not> is_request l) ls"
  unfolding written_def
proof (rule filter_cong, rule refl)
  fix l assume "LevelInfo < lvl"
  then show "lvl \<le> line_level l \<longleftrightarrow> \<not> is_request l"
    by (cases l; cases lvl) (simp_all add: less_eq_Level_def less_Level_def is_request_def)
qed

lemma written_level:
  "written (logging_level level) ls =
     (if level = ''warn'' \<or> level = ''error'' then filter (\<lambda>l. \<not> is_request l) ls else ls)"
  by (auto simp: logging_level_def less_eq_Level_def less_Level_def intro!: written_all written_panics)

lemma in_step_panic: "in_step m log \<Longrightarrow> in_step m (log @ [HandlerPanic e p])"
  by (simp add: in_step_def is_request_def)

lemma fe_inner_only:
  "innerF m st = (r, st') \<Longrightarrow> fe_metrics st' = fe_metrics st \<and> fe_log st' = fe_log st \<and> fe_headers st' = fe_headers st"
  by (auto simp: innerF_def split: prod.splits)

text \<open>
  One request: it is answered, and what it adds to the log and to the metrics is one line of
  a request with its status and the identifier of its answer, or one line of a panic and
  nothing to the metrics.
\<close>

lemma worldF_clock:
  "worldF (nowE env) st = (Inr (now_at env (tick (snd (fe_inner st)))),
     st\<lparr>fe_inner := (fst (fe_inner st), (snd (fe_inner st))\<lparr>tick := Suc (tick (snd (fe_inner st)))\<rparr>)\<rparr>)"
  by (simp add: worldF_def innerF_def nowE_def split: prod.split)

lemma request_identified:
  "\<exists>i st0. withRequestID env s k r st = k i r st0 \<and> fe_metrics st0 = fe_metrics st \<and> fe_log st0 = fe_log st \<and>
     fe_headers st0 = fe_headers st @ [i] \<and> (rq_Header r ''X-Request-ID'' \<noteq> [] \<longrightarrow> i = rq_Header r ''X-Request-ID'')"
proof (cases "rq_Header r ''X-Request-ID'' = []")
  case True
  let ?i = "sv_UUIDString s (uuid_at env (uuids (snd (fe_inner st))))"
  let ?st = "st\<lparr>fe_inner := (fst (fe_inner st), (snd (fe_inner st))\<lparr>uuids := Suc (uuids (snd (fe_inner st)))\<rparr>)\<rparr>"
  have "worldF (uuidE env) st = (Inr (uuid_at env (uuids (snd (fe_inner st)))), ?st)"
    by (simp add: worldF_def innerF_def uuidE_def split: prod.split)
  then have "withRequestID env s k r st = k ?i r (?st\<lparr>fe_headers := fe_headers st @ [?i]\<rparr>)"
    using True by (simp add: withRequestID_def Let_def bindE_def okE_def headerF_def)
  then show ?thesis using True by (intro exI [of _ ?i] exI [of _ "?st\<lparr>fe_headers := fe_headers st @ [?i]\<rparr>"]) simp
qed (auto simp: withRequestID_def Let_def bindE_def okE_def headerF_def)

definition answers :: "Request \<Rightarrow> Response fe \<Rightarrow> bool" where
  "answers r m \<longleftrightarrow> (\<forall>st. \<exists>rs st' line i. m st = (Inr rs, st') \<and> fe_log st' = fe_log st @ [line] \<and>
     fe_headers st' = fe_headers st @ [i] \<and> (is_request line \<longrightarrow> log_id line = i) \<and>
     (rq_Header r ''X-Request-ID'' \<noteq> [] \<longrightarrow> i = rq_Header r ''X-Request-ID'') \<and>
     (is_request line \<and> log_status line = rs_Status rs \<or> \<not> is_request line \<and> rs_Status rs = 500) \<and>
     (in_step (fe_metrics st) (fe_log st) \<longrightarrow> in_step (fe_metrics st') (fe_log st')))"

lemma logged_request:
  assumes "\<And>st r st'. nxt rq st = (r, st') \<Longrightarrow>
      fe_metrics st' = fe_metrics st \<and> fe_log st' = fe_log st \<and> fe_headers st' = fe_headers st"
    and "withLogging env i (withMetrics env nxt) rq st = (res, st')"
  shows "fe_headers st' = fe_headers st \<and> ((\<exists>e. res = Inl e \<and> fe_log st' = fe_log st \<and> fe_metrics st' = fe_metrics st) \<or>
     (\<exists>rs d d'. res = Inr rs \<and> fe_log st' = fe_log st @ [HttpRequest i (rq_Method rq) (rq_Path rq) (rs_Status rs) d'] \<and>
        fe_metrics st' = observe (rq_Method rq) (rq_Path rq) (rs_Status rs) d (fe_metrics st)))"
proof -
  let ?tick = "\<lambda>st. st\<lparr>fe_inner := (fst (fe_inner st), (snd (fe_inner st))\<lparr>tick := Suc (tick (snd (fe_inner st)))\<rparr>)\<rparr>"
  obtain r1 st1 where run: "nxt rq (?tick (?tick st)) = (r1, st1)" by force
  from assms(1) [OF run] have same: "fe_metrics st1 = fe_metrics st \<and> fe_log st1 = fe_log st \<and> fe_headers st1 = fe_headers st" by simp
  show ?thesis
    using assms(2) run same
    by (cases r1) (auto simp: withLogging_def withMetrics_def bindE_def worldF_clock logF_def okE_def)
qed

lemma Handler_answers: "answers r (Handler env s r)"
  unfolding answers_def
proof
  fix st
  let ?nxt = "\<lambda>r. innerF (withRateLimit env (withAuth s (serve_mux env s)) r)"
  obtain i st0 where id: "withRequestID env s (\<lambda>i. withLogging env i (withMetrics env ?nxt)) r st =
      withLogging env i (withMetrics env ?nxt) r st0"
    and st0: "fe_metrics st0 = fe_metrics st" "fe_log st0 = fe_log st" "fe_headers st0 = fe_headers st @ [i]"
    and given: "rq_Header r ''X-Request-ID'' \<noteq> [] \<longrightarrow> i = rq_Header r ''X-Request-ID''"
    using request_identified by blast
  obtain res st1 where run: "withLogging env i (withMetrics env ?nxt) r st0 = (res, st1)" by force
  from logged_request [OF _ run] fe_inner_only have "fe_headers st1 = fe_headers st @ [i]"
    and "(\<exists>e. res = Inl e \<and> fe_log st1 = fe_log st \<and> fe_metrics st1 = fe_metrics st) \<or>
     (\<exists>rs d d'. res = Inr rs \<and> fe_log st1 = fe_log st @ [HttpRequest i (rq_Method r) (rq_Path r) (rs_Status rs) d'] \<and>
        fe_metrics st1 = observe (rq_Method r) (rq_Path r) (rs_Status rs) d (fe_metrics st))"
    unfolding st0 by blast+
  with given show "\<exists>rs st' line i. Handler env s r st = (Inr rs, st') \<and> fe_log st' = fe_log st @ [line] \<and>
     fe_headers st' = fe_headers st @ [i] \<and> (is_request line \<longrightarrow> log_id line = i) \<and>
     (rq_Header r ''X-Request-ID'' \<noteq> [] \<longrightarrow> i = rq_Header r ''X-Request-ID'') \<and>
     (is_request line \<and> log_status line = rs_Status rs \<or> \<not> is_request line \<and> rs_Status rs = 500) \<and>
     (in_step (fe_metrics st) (fe_log st) \<longrightarrow> in_step (fe_metrics st') (fe_log st'))"
    by (auto simp: Handler_def withMiddleware_def withRecovery_def bindE_def tryE_def id run logF_def okE_def
        in_step_request in_step_panic is_request_def)
qed

section \<open>A run of the server\<close>

fun serve_front :: "env \<Rightarrow> Server \<Rightarrow> Request list \<Rightarrow> Frontend \<Rightarrow> (err + Response) list \<times> Frontend" where
  "serve_front env s [] st = ([], st)"
| "serve_front env s (r # rs) st =
     (case Handler env s r st of (a, st1) \<Rightarrow> case serve_front env s rs st1 of (as, st2) \<Rightarrow> (a # as, st2))"

text \<open>An answer and the line that was logged for it.\<close>

definition reported :: "err + Response \<Rightarrow> LogLine \<Rightarrow> bool" where
  "reported a line = (case a of Inl _ \<Rightarrow> False
     | Inr rs \<Rightarrow> if is_request line then log_status line = rs_Status rs else rs_Status rs = 500)"

text \<open>The identifier of an answer is the one the client sent, if it sent one, and the one in the log.\<close>

definition identified :: "Request \<Rightarrow> string \<Rightarrow> LogLine \<Rightarrow> bool" where
  "identified r i line \<longleftrightarrow>
     (rq_Header r ''X-Request-ID'' \<noteq> [] \<longrightarrow> i = rq_Header r ''X-Request-ID'') \<and> (is_request line \<longrightarrow> log_id line = i)"

lemma serve_front_reports:
  "\<exists>lines ids. fe_log (snd (serve_front env s rs st)) = fe_log st @ lines \<and>
     fe_headers (snd (serve_front env s rs st)) = fe_headers st @ ids \<and> length ids = length rs \<and>
     list_all (\<lambda>(r, i, line). identified r i line) (zip rs (zip ids lines)) \<and>
     list_all2 reported (fst (serve_front env s rs st)) lines \<and> length lines = length rs \<and>
     (in_step (fe_metrics st) (fe_log st) \<longrightarrow>
       in_step (fe_metrics (snd (serve_front env s rs st))) (fe_log (snd (serve_front env s rs st))))"
proof (induction rs arbitrary: st)
  case (Cons r rs)
  obtain a st1 line i where one: "Handler env s r st = (Inr a, st1)" "fe_log st1 = fe_log st @ [line]"
    "fe_headers st1 = fe_headers st @ [i]" "identified r i line"
    "reported (Inr a) line" "in_step (fe_metrics st) (fe_log st) \<longrightarrow> in_step (fe_metrics st1) (fe_log st1)"
    using Handler_answers [of r env s, unfolded answers_def] by (fastforce simp: reported_def identified_def)
  from Cons.IH [of st1] obtain lines ids where "fe_headers (snd (serve_front env s rs st1)) = fe_headers st1 @ ids"
    "length ids = length rs" "list_all (\<lambda>(r, i, line). identified r i line) (zip rs (zip ids lines))" "fe_log (snd (serve_front env s rs st1)) = fe_log st1 @ lines"
    "list_all2 reported (fst (serve_front env s rs st1)) lines" "length lines = length rs"
    "in_step (fe_metrics st1) (fe_log st1) \<longrightarrow>
       in_step (fe_metrics (snd (serve_front env s rs st1))) (fe_log (snd (serve_front env s rs st1)))"
    by blast
  with one show ?case by (intro exI [of _ "line # lines"] exI [of _ "i # ids"]) (auto split: prod.splits)
qed simp


end
