(* ===== verification/Shutdown.thy ===== *)
theory Shutdown
  imports Startup HTTP_Middleware
begin

text \<open>
  The process from the moment it serves to the moment \<open>main\<close> returns (\<open>cmd/server/main.go\<close>,
  from the two serving goroutines to the last line). Three goroutines matter: \<open>main\<close> with its
  \<open>select\<close>, and the two that serve HTTP and gRPC; they meet in two channels of capacity one.
  The steps of \<open>net/http\<close> and of the gRPC library are the documented ones: \<open>Serve\<close> returns
  once its listener is closed, \<open>Shutdown\<close> closes the listener and waits for the requests in
  flight up to the deadline of its context, \<open>GracefulStop\<close> closes the listener and waits for
  the calls in flight without a deadline.
\<close>

section \<open>The state\<close>

datatype Phase = Selecting | ShuttingHTTP | StoppingRPC | Returned

record Life =
  lf_phase :: Phase
  lf_signal :: bool
  lf_expiry :: bool
  lf_clock :: time
  lf_deadline :: time
  lf_httpListening :: bool
  lf_httpServing :: bool
  lf_httpOpen :: nat
  lf_httpErr :: "err list"
  lf_rpcListening :: bool
  lf_rpcServing :: bool
  lf_rpcOpen :: nat
  lf_grpcErr :: "err list"
  lf_log :: "(Level \<times> string) list"

definition serving_process :: "time \<Rightarrow> Life" where
  "serving_process now =
     \<lparr>lf_phase = Selecting, lf_signal = False, lf_expiry = True, lf_clock = now, lf_deadline = now,
      lf_httpListening = True, lf_httpServing = True, lf_httpOpen = 0, lf_httpErr = [],
      lf_rpcListening = True, lf_rpcServing = True, lf_rpcOpen = 0, lf_grpcErr = [],
      lf_log = [(LevelInfo, ''http server listening''), (LevelInfo, ''grpc server listening'')]\<rparr>"

definition say :: "Level \<Rightarrow> string \<Rightarrow> Life \<Rightarrow> Life" where
  "say level msg s = s\<lparr>lf_log := lf_log s @ [(level, msg)]\<rparr>"

text \<open>A send on a channel of capacity one: it blocks while the channel is full.\<close>

definition chan_send :: "err list \<Rightarrow> err \<Rightarrow> err list option" where
  "chan_send ch e = (if length ch < 1 then Some (ch @ [e]) else None)"

section \<open>What main does after the select\<close>

text \<open>The branch that was taken is logged, the expiry job is cancelled and \<open>Shutdown\<close> is called.\<close>

definition leave_select :: "duration \<Rightarrow> Level \<Rightarrow> string \<Rightarrow> Life \<Rightarrow> Life" where
  "leave_select timeout level msg s =
     (let s1 = say level msg s in
      s1\<lparr>lf_phase := ShuttingHTTP, lf_expiry := False, lf_deadline := lf_clock s1 + timeout, lf_httpListening := False\<rparr>)"

definition http_shut :: "Life \<Rightarrow> Life" where
  "http_shut s = s\<lparr>lf_phase := StoppingRPC, lf_rpcListening := False\<rparr>"

definition http_cut :: "Life \<Rightarrow> Life" where
  "http_cut s = http_shut (say LevelError ''http shutdown failed'' s)"

definition rpc_stopped :: "Life \<Rightarrow> Life" where
  "rpc_stopped s = (say LevelInfo ''servers stopped'' s)\<lparr>lf_phase := Returned\<rparr>"

section \<open>The steps\<close>

text \<open>
  \<open>Serve\<close> of the gRPC server ends with an error that is sent, or with none
  (\<open>net.ErrClosed\<close> included), and then nothing is sent.
\<close>

inductive life_step :: "duration \<Rightarrow> Life \<Rightarrow> Life \<Rightarrow> bool" for timeout where
  pass: "lf_phase s \<noteq> Returned \<Longrightarrow> 0 \<le> d \<Longrightarrow> life_step timeout s (s\<lparr>lf_clock := lf_clock s + d\<rparr>)"
| signal: "lf_phase s \<noteq> Returned \<Longrightarrow> life_step timeout s (s\<lparr>lf_signal := True\<rparr>)"
| http_accept: "lf_phase s \<noteq> Returned \<Longrightarrow> lf_httpListening s \<Longrightarrow> lf_httpServing s \<Longrightarrow>
    life_step timeout s (s\<lparr>lf_httpOpen := Suc (lf_httpOpen s)\<rparr>)"
| http_answer: "lf_phase s \<noteq> Returned \<Longrightarrow> lf_httpOpen s = Suc n \<Longrightarrow> life_step timeout s (s\<lparr>lf_httpOpen := n\<rparr>)"
| http_ends: "lf_phase s \<noteq> Returned \<Longrightarrow> lf_httpServing s \<Longrightarrow> chan_send (lf_httpErr s) e = Some ch \<Longrightarrow>
    life_step timeout s (s\<lparr>lf_httpServing := False, lf_httpErr := ch\<rparr>)"
| rpc_accept: "lf_phase s \<noteq> Returned \<Longrightarrow> lf_rpcListening s \<Longrightarrow> lf_rpcServing s \<Longrightarrow>
    life_step timeout s (s\<lparr>lf_rpcOpen := Suc (lf_rpcOpen s)\<rparr>)"
| rpc_answer: "lf_phase s \<noteq> Returned \<Longrightarrow> lf_rpcOpen s = Suc n \<Longrightarrow> life_step timeout s (s\<lparr>lf_rpcOpen := n\<rparr>)"
| rpc_fails: "lf_phase s \<noteq> Returned \<Longrightarrow> lf_rpcServing s \<Longrightarrow> chan_send (lf_grpcErr s) e = Some ch \<Longrightarrow>
    life_step timeout s (s\<lparr>lf_rpcServing := False, lf_grpcErr := ch\<rparr>)"
| rpc_ends: "lf_phase s \<noteq> Returned \<Longrightarrow> lf_rpcServing s \<Longrightarrow> life_step timeout s (s\<lparr>lf_rpcServing := False\<rparr>)"
| on_signal: "lf_phase s = Selecting \<Longrightarrow> lf_signal s \<Longrightarrow>
    life_step timeout s (leave_select timeout LevelInfo ''shutdown signal received'' s)"
| on_http: "lf_phase s = Selecting \<Longrightarrow> lf_httpErr s = e # ch \<Longrightarrow>
    life_step timeout s (leave_select timeout LevelError ''http server stopped'' (s\<lparr>lf_httpErr := ch\<rparr>))"
| on_grpc: "lf_phase s = Selecting \<Longrightarrow> lf_grpcErr s = e # ch \<Longrightarrow>
    life_step timeout s (leave_select timeout LevelError ''grpc server stopped'' (s\<lparr>lf_grpcErr := ch\<rparr>))"
| shut: "lf_phase s = ShuttingHTTP \<Longrightarrow> lf_httpOpen s = 0 \<Longrightarrow> life_step timeout s (http_shut s)"
| cut: "lf_phase s = ShuttingHTTP \<Longrightarrow> lf_deadline s \<le> lf_clock s \<Longrightarrow> life_step timeout s (http_cut s)"
| stopped: "lf_phase s = StoppingRPC \<Longrightarrow> lf_rpcOpen s = 0 \<Longrightarrow> life_step timeout s (rpc_stopped s)"

inductive_cases life_stepE: "life_step timeout s s'"

inductive lives :: "duration \<Rightarrow> Life \<Rightarrow> Life \<Rightarrow> bool" for timeout where
  here: "lives timeout s s"
| further: "lives timeout s s' \<Longrightarrow> life_step timeout s' s'' \<Longrightarrow> lives timeout s s''"

lemmas life_defs = leave_select_def http_shut_def http_cut_def rpc_stopped_def say_def chan_send_def Let_def

section \<open>The invariant\<close>

text \<open>
  A goroutine that serves has sent nothing, so its one send finds room. What is closed stays
  closed; the process only leaves the select for a reason; what is still in flight at the end
  was reported.
\<close>

definition life_inv :: "Life \<Rightarrow> bool" where
  "life_inv s \<longleftrightarrow>
     (lf_httpServing s \<longrightarrow> lf_httpErr s = []) \<and> (lf_rpcServing s \<longrightarrow> lf_grpcErr s = []) \<and>
     (lf_phase s \<noteq> Selecting \<longrightarrow> \<not> lf_expiry s \<and> \<not> lf_httpListening s) \<and>
     (lf_phase s \<in> {StoppingRPC, Returned} \<longrightarrow> \<not> lf_rpcListening s) \<and>
     (lf_phase s \<noteq> Selecting \<longrightarrow> lf_signal s \<or> \<not> lf_httpServing s \<or> \<not> lf_rpcServing s) \<and>
     (lf_phase s \<in> {StoppingRPC, Returned} \<longrightarrow>
        lf_httpOpen s = 0 \<or> (LevelError, ''http shutdown failed'') \<in> set (lf_log s) \<and> lf_deadline s \<le> lf_clock s) \<and>
     (lf_phase s = Returned \<longrightarrow> lf_rpcOpen s = 0)"

lemma life_inv_serving: "life_inv (serving_process now)"
  by (simp add: life_inv_def serving_process_def)

lemma life_inv_step: "life_step timeout s s' \<Longrightarrow> life_inv s \<Longrightarrow> life_inv s'"
  by (induction rule: life_step.induct) (auto simp: life_inv_def life_defs split: if_splits)

lemma life_inv_returned:
  "life_inv s \<Longrightarrow> lf_phase s = Returned \<longrightarrow> \<not> lf_expiry s \<and> \<not> lf_httpListening s \<and> \<not> lf_rpcListening s"
  by (auto simp: life_inv_def)

lemma life_inv_lives: "lives timeout s s' \<Longrightarrow> life_inv s \<Longrightarrow> life_inv s'"
  by (induction rule: lives.induct) (auto intro: life_inv_step)

section \<open>The process stops\<close>

lemma further2: "life_step timeout s s' \<Longrightarrow> lives timeout s' s'' \<Longrightarrow> lives timeout s s''"
  by (rotate_tac, induction rule: lives.induct) (auto intro: lives.intros)

lemma drain_rpc: "lf_phase s \<noteq> Returned \<Longrightarrow> lives timeout s (s\<lparr>lf_rpcOpen := 0\<rparr>)"
proof (induction "lf_rpcOpen s" arbitrary: s)
  case 0
  then have "s\<lparr>lf_rpcOpen := 0\<rparr> = s" by simp
  then show ?case by (simp add: lives.here)
next
  case (Suc n)
  from rpc_answer [OF Suc.prems Suc.hyps(2) [symmetric], of timeout] Suc.hyps(1) [of "s\<lparr>lf_rpcOpen := n\<rparr>"] Suc.prems
  show ?case by (auto intro: further2)
qed

lemma stops_from_rpc: "lf_phase s = StoppingRPC \<Longrightarrow> \<exists>s'. lives timeout s s' \<and> lf_phase s' = Returned"
  using lives.further [OF drain_rpc, of s timeout "rpc_stopped (s\<lparr>lf_rpcOpen := 0\<rparr>)"]
  by (fastforce simp: rpc_stopped_def intro: stopped)

lemma stops_from_http:
  assumes "lf_phase s = ShuttingHTTP"
  shows "\<exists>s'. lives timeout s s' \<and> lf_phase s' = Returned"
proof -
  let ?late = "s\<lparr>lf_clock := lf_clock s + max 0 (lf_deadline s - lf_clock s)\<rparr>"
  have "life_step timeout s ?late" using assms by (intro pass) simp_all
  moreover have "life_step timeout ?late (http_cut ?late)" using assms by (intro cut) simp_all
  moreover obtain s' where "lives timeout (http_cut ?late) s'" "lf_phase s' = Returned"
    using stops_from_rpc [of "http_cut ?late"] by (auto simp: http_cut_def http_shut_def)
  ultimately show ?thesis by (blast intro: further2)
qed

lemma stops:
  assumes "lf_signal s \<or> lf_phase s \<noteq> Selecting"
  shows "\<exists>s'. lives timeout s s' \<and> lf_phase s' = Returned"
proof (cases "lf_phase s")
  case Selecting
  let ?left = "leave_select timeout LevelInfo ''shutdown signal received'' s"
  have "life_step timeout s ?left" using assms Selecting by (intro on_signal) simp_all
  then show ?thesis
    using stops_from_http [of ?left timeout] by (auto simp: leave_select_def Let_def intro: further2)
qed (auto intro: stops_from_http stops_from_rpc here)

text \<open>\<open>GracefulStop\<close> has no deadline: \<open>main\<close> returns in the next step exactly when no call is in flight.\<close>

lemma waits_for_calls:
  assumes "lf_phase s = StoppingRPC"
  shows "(\<exists>s'. life_step timeout s s' \<and> lf_phase s' = Returned) \<longleftrightarrow> lf_rpcOpen s = 0"
proof
  assume "\<exists>s'. life_step timeout s s' \<and> lf_phase s' = Returned"
  then show "lf_rpcOpen s = 0" using assms by (auto elim!: life_stepE simp: life_defs)
next
  assume "lf_rpcOpen s = 0"
  with assms stopped [of s timeout] show "\<exists>s'. life_step timeout s s' \<and> lf_phase s' = Returned"
    by (auto simp: rpc_stopped_def)
qed

lemma waits_for_requests:
  assumes "lf_phase s = ShuttingHTTP"
  shows "(\<exists>s'. life_step timeout s s' \<and> lf_phase s' = StoppingRPC) \<longleftrightarrow> lf_httpOpen s = 0 \<or> lf_deadline s \<le> lf_clock s"
proof
  assume "\<exists>s'. life_step timeout s s' \<and> lf_phase s' = StoppingRPC"
  then show "lf_httpOpen s = 0 \<or> lf_deadline s \<le> lf_clock s" using assms by (auto elim!: life_stepE simp: life_defs)
next
  assume "lf_httpOpen s = 0 \<or> lf_deadline s \<le> lf_clock s"
  with assms shut [of s timeout] cut [of s timeout] show "\<exists>s'. life_step timeout s s' \<and> lf_phase s' = StoppingRPC"
    by (auto simp: http_cut_def http_shut_def)
qed

text \<open>C38: from start to end the process is orderly: it leaves the select only after a signal or the end of a server; a goroutine that still serves can always send its error; a process that has been told to stop can always come to its end; the HTTP drain ends when no request is in flight or the deadline has passed, the gRPC drain only when no call is in flight, whatever the time; and when main returns no call is in flight, a request only if the deadline passed and this was logged, the expiry job is cancelled and both listeners are closed.\<close>

theorem shutdown_orderly:
  assumes "lives timeout (serving_process now) s"
  shows "(lf_phase s \<noteq> Selecting \<longrightarrow> lf_signal s \<or> \<not> lf_httpServing s \<or> \<not> lf_rpcServing s) \<and>
    (lf_httpServing s \<longrightarrow> chan_send (lf_httpErr s) e \<noteq> None) \<and> (lf_rpcServing s \<longrightarrow> chan_send (lf_grpcErr s) e \<noteq> None) \<and>
    (lf_signal s \<or> lf_phase s \<noteq> Selecting \<longrightarrow> (\<exists>s'. lives timeout s s' \<and> lf_phase s' = Returned)) \<and>
    (lf_phase s = ShuttingHTTP \<longrightarrow>
      ((\<exists>s'. life_step timeout s s' \<and> lf_phase s' = StoppingRPC) \<longleftrightarrow> lf_httpOpen s = 0 \<or> lf_deadline s \<le> lf_clock s)) \<and>
    (lf_phase s = StoppingRPC \<longrightarrow> ((\<exists>s'. life_step timeout s s' \<and> lf_phase s' = Returned) \<longleftrightarrow> lf_rpcOpen s = 0)) \<and>
    (lf_phase s = Returned \<longrightarrow> lf_rpcOpen s = 0 \<and> \<not> lf_expiry s \<and> \<not> lf_httpListening s \<and> \<not> lf_rpcListening s \<and>
      (lf_httpOpen s = 0 \<or> (LevelError, ''http shutdown failed'') \<in> set (lf_log s) \<and> lf_deadline s \<le> lf_clock s))"
proof -
  have inv: "life_inv s" using assms life_inv_serving by (rule life_inv_lives)
  show ?thesis
    by (intro conjI impI stops waits_for_requests waits_for_calls; (assumption | (use inv in \<open>auto simp: life_inv_def chan_send_def\<close>)))
qed

text \<open>A process that is asked to stop while nothing is in flight.\<close>

definition stopped_process :: Life where
  "stopped_process =
     rpc_stopped (http_shut (leave_select 15 LevelInfo ''shutdown signal received'' ((serving_process 0)\<lparr>lf_signal := True\<rparr>)))"

lemma stopped_process_lives: "lives 15 (serving_process 0) stopped_process"
proof -
  let ?asked = "(serving_process 0)\<lparr>lf_signal := True\<rparr>"
  let ?left = "leave_select 15 LevelInfo ''shutdown signal received'' ?asked"
  have "life_step 15 (serving_process 0) ?asked" by (rule signal) (simp add: serving_process_def)
  moreover have "life_step 15 ?asked ?left" by (rule on_signal) (simp_all add: serving_process_def)
  moreover have "life_step 15 ?left (http_shut ?left)"
    by (rule shut) (simp_all add: leave_select_def say_def Let_def serving_process_def)
  moreover have "life_step 15 (http_shut ?left) stopped_process"
    unfolding stopped_process_def
    by (rule stopped [where s = "http_shut ?left"]) (simp_all add: http_shut_def leave_select_def say_def Let_def serving_process_def)
  ultimately show ?thesis using further2 here by meson
qed

theorem shutdown_orderly_witness:
  "lives 15 (serving_process 0) stopped_process \<and> lf_phase stopped_process = Returned \<and> lf_rpcOpen stopped_process = 0 \<and>
   \<not> lf_expiry stopped_process"
proof -
  have "lf_phase stopped_process = Returned" by (simp add: stopped_process_def rpc_stopped_def)
  with shutdown_orderly [OF stopped_process_lives] stopped_process_lives show ?thesis by simp
qed

end
