(* ===== verification/Spec2Isabelle.thy ===== *)
theory Spec2Isabelle
  imports Secret_Properties Policy_Properties Audit_Properties Lease_Properties PKI_Properties
    CLI_Properties CLI_Main Answers Startup HTTP_Middleware Shutdown
begin

text \<open>
  A verification library for the secrets and certificate lifecycle platform, a Go server with
  an HTTP and a gRPC interface over PostgreSQL and a command line client.

  \<^bold>\<open>The program and its parts.\<close> The code is layered. \<open>internal/<part>/domain\<close> holds data and
  validation, \<open>internal/<part>/infrastructure/postgres\<close> the SQL statements,
  \<open>internal/<part>/application\<close> the services, for the parts secret, lease, policy, audit and
  pki; \<open>internal/crypto\<close> and \<open>internal/backend\<close> are the crypto service and its providers.
  \<open>api/http\<close> and \<open>api/grpc\<close> decode a request, authenticate the caller, ask the policy
  service, call a service and record the outcome with the audit service. \<open>cmd/server\<close> loads
  the configuration, runs the migrations and wires the services; \<open>cmd/cli\<close> turns commands
  into HTTP requests. The services share one database and nothing else, so every interaction
  is a function call or goes through the tables.

  \<^bold>\<open>State and effects.\<close> \<open>Prelude\<close> has the type of effects: a call maps the state to a sum, an
  error or a value, and the new state, and \<open>bindE\<close>, \<open>wrapE\<close>, \<open>tryE\<close>, \<open>guardE\<close> are the ways
  Go code goes on after a call. \<open>World\<close> has the state: \<open>tables\<close>, one list of rows per table of
  \<open>migrations/000001_init.sql\<close>, inside \<open>world\<close>, which also counts clock readings, identifiers,
  random reads and statements and holds the gauge of active leases. The rows are records;
  \<open>Columns\<close> has what the repositories send and scan, column by column, and shows that a record
  is read back from its row. \<open>env\<close> is everything outside the code, indexed by these counters:
  the clock, \<open>uuid.New\<close>, \<open>crypto/rand\<close>, what becomes of each statement (served, refused, or done
  with the acknowledgement lost), what other processes do to the tables between statements, what
  time stamp and JSON columns give back, the collation, and the primitives SHA-256, HMAC, HKDF
  and AES-GCM. \<open>sql\<close> is one statement, \<open>transaction\<close> a transaction. Effects are total functions:
  a theorem about a result is a theorem of total correctness, and \<open>Statement_Bounds\<close> bounds the
  number of statements of every request. \<open>Result_Logic\<close> carries facts about results, \<open>Mediation\<close>
  the contract of a guarded server, through the combinators.

  \<^bold>\<open>Go's library.\<close> \<open>Go_Strings\<close>, \<open>Go_Format\<close>, \<open>Go_Parse\<close>, \<open>Go_Scan\<close>, \<open>Go_Duration\<close>, \<open>Go_Net\<close>,
  \<open>Go_UTF8\<close>, \<open>Go_Base64\<close> and \<open>Go_JSON\<close> model what the source uses of \<open>strings\<close>, \<open>fmt\<close>, \<open>strconv\<close>,
  \<open>math/big\<close>, \<open>time\<close>, \<open>net\<close>, \<open>encoding\<close> and \<open>encoding/json\<close>. Integers that can overflow are
  ints with the wrap-around written out (\<open>wrap64\<close>, \<open>wrap32\<close>).

  \<^bold>\<open>Theories and code.\<close>
  Secrets: \<open>Secret_Domain\<close> (models.go), \<open>Secret_Repository\<close> (repository.go), \<open>Secret_Service\<close>
  (service.go). \<open>Secret_Safety\<close> keeps the invariant that keys are unique and the current version
  exists; \<open>Secret_Store\<close> is the abstract store, a map from namespace and path to versions, and
  \<open>Secret_Refinement\<close> shows that each operation implements the store's or is refused;
  \<open>Secret_Liveness\<close> shows that a valid put succeeds and that no operation changes what is stored.
  Crypto: \<open>Backend_Provider\<close>, with the locale \<open>crypto_provider\<close> (decrypting inverts encrypting,
  own signatures verify) interpreted for the software provider and the stub.
  Policies: \<open>Policy_Domain\<close>, \<open>Policy_Service\<close>; the decision is compared with \<open>grants\<close>, which
  works on path segments.
  Audit: \<open>Audit_Domain\<close>, \<open>Audit_Service\<close>, \<open>Audit_Properties\<close>; \<open>audit_chain\<close> is the invariant
  of the hash chain.
  Leases: \<open>Lease_Domain\<close>, \<open>Lease_Service\<close>, \<open>Lease_Safety\<close>, \<open>Lease_Properties\<close>.
  PKI: \<open>PKI_Domain\<close>, \<open>PKI_Repository\<close>, \<open>PKI_Service\<close>; \<open>PKI_Safety\<close> and \<open>PKI_Trust\<close> keep the chain
  of trust, \<open>PKI_Revocation\<close> what is revoked, \<open>PKI_Steps\<close> runs of any operations.
  Servers: \<open>Gateway\<close> (what both share), \<open>HTTP_Core\<close>, \<open>HTTP_Handlers\<close>, \<open>HTTP_PKI\<close>, \<open>HTTP_Server\<close>
  (routes and authentication), \<open>Rate_Limiter\<close> and \<open>HTTP_Middleware\<close> (middleware.go, metrics,
  logging); \<open>GRPC_Server\<close>, \<open>GRPC_PKI\<close> (methods.go, interceptor, method table). The locale
  \<open>guarded_server\<close> of \<open>Mediation\<close> is the contract of complete mediation;
  \<open>HTTP_Mediation\<close> and \<open>GRPC_Mediation\<close> state what each route and method demands and interpret
  the locale; \<open>Gateway_Reads\<close> treats the routes that only read.
  Process: \<open>Config\<close> (config.go), \<open>Migrate\<close> (migrate.go), \<open>Server_Main\<close> and \<open>Startup\<close>
  (cmd/server/main.go, database.Open) up to the first request, \<open>Shutdown\<close> (the same file, from the
  serving goroutines on) a step relation of the process until \<open>main\<close> returns.
  Client: \<open>CLI\<close> (cmd/cli/main.go, client.go) what a command sends, \<open>CLI_Args\<close> the words and flags
  that select it, \<open>CLI_Routes\<close> (the URL of a command read back by the
  server), \<open>CLI_Properties\<close> (end to end), \<open>Answers\<close> (the JSON of the answers, from the struct
  tags, and what the client decodes it into), \<open>CLI_Main\<close> (what it prints and its exit status).
  The tables' contract, what a lookup finds after an insert, is the locale \<open>keyed_table\<close> of
  \<open>Tables\<close>, interpreted for every table the services look up by key; the contract of the log that the
  audit events form is the locale \<open>chain_log\<close> of \<open>Audit_Service\<close>.
  \<open>Samples\<close> and \<open>PKI_Samples\<close> hold the concrete environments on which the properties are tried.

  \<^bold>\<open>What the properties show.\<close> Invariants of each table group under any faults and interference;
  refinement of the secret store; that a decision is exactly what the policies grant and that
  no request changes or reads protected state without one (except the gRPC methods that
  ask nobody, which are named); that the audit log stays a chain and is tamper evident up to
  collisions of the MAC; that keys, certificates and authorities fit together and revocations are
  published; that revoked leases stay revoked; that what the client writes it reads back
  through all layers, from one command's argument to what another prints; that a record is read
  back from the columns of its row; that a started process runs on a valid configuration and comes to an
  orderly end; that each request ends, is answered, logged and counted. Several properties state faults of the code.

  \<^bold>\<open>Parameters and hypotheses.\<close> \<open>crypto/x509\<close>, \<open>encoding/pem\<close>, \<open>crypto/ecdsa\<close> and \<open>ocsp\<close> are the record
  \<open>x509_lib\<close>, with \<open>lawful_x509\<close> (parsing gives back what was created, signatures check under the
  signer's key); \<open>lawful_crypto\<close> is the documented behaviour of AES-GCM, the random reader and HKDF.
  \<open>served\<close>, \<open>alone\<close> and the rely conditions say when statements succeed and what others may do.
  \<open>OS\<close> in \<open>Startup\<close> has the file system, the YAML library, the sockets and pgx. Each hypothesis
  holds for a concrete instance in a witness. No fuel is used: the audit service's own retry
  count, three, is the only bound on a loop.

  \<^bold>\<open>Not modelled.\<close> The text of JSON (an answer, a column and what the client prints are trees, whose
  texts are made UTF-8 as the encoder does);
  headers of an answer other than X-Request-ID; the Prometheus exposition; contexts and their
  deadlines apart from that of the shutdown; the deferred closing of the pool; pgx, cobra,
  gRPC and net/http themselves (their documented behaviour is what \<open>Shutdown\<close> and \<open>CLI_Args\<close> use);
  indexes, unused defaults and ON DELETE clauses of the schema; the repository interfaces and request structs, which are declarations. The mux is modelled by the routes its patterns
  select; a request that no pattern matches gets a status that is a parameter. A panic inside a
  service is an error of the call.
\<close>

end
